(* ===== verification/Prelude.thy ===== *)
theory Prelude
  imports Complex_Main "HOL-Library.State_Monad" "HOL-Library.AList"
begin

text \<open>
  Shared vocabulary of the development: the lemma collections, Go's error values and
  multi-value returns, Go maps as association lists, sequential loops in the state monad,
  and a program logic by which invariants and guarantees of whole call trees are established
  compositionally.
\<close>

named_theorems op_intros \<open>what each operation guarantees, as introduction rules\<close>
named_theorems run_simps \<open>evaluation rules for \<^const>\<open>run_state\<close>\<close>
named_theorems str_simps \<open>rewriting of the modelled string functions\<close>
named_theorems map_simps \<open>rewriting of Go map operations\<close>

section \<open>Errors and results\<close>

text \<open>
  A Go \<open>error\<close> carries the text that \<open>err.Error()\<close> returns and, when it is a gRPC status
  error, the name of its status code as \<open>codes.Code.String()\<close> renders it. Wrapping with
  \<open>%w\<close> keeps the code, wrapping with \<open>%v\<close> loses it.
\<close>

datatype goerr = GoErr (err_msg: string) (err_code: "string option")

type_synonym 'a result = "goerr + 'a"

definition errorf :: "string \<Rightarrow> goerr" where
  "errorf m = GoErr m None"

definition wrapv :: "string \<Rightarrow> goerr \<Rightarrow> goerr" where
  "wrapv pre e = GoErr (pre @ err_msg e) None"

definition wrapw :: "string \<Rightarrow> goerr \<Rightarrow> goerr" where
  "wrapw pre e = GoErr (pre @ err_msg e) (err_code e)"

lemma errorf_sel [simp]: "err_msg (errorf m) = m" "err_code (errorf m) = None"
  by (simp_all add: errorf_def)

lemma wrapv_sel [simp]: "err_msg (wrapv p e) = p @ err_msg e" "err_code (wrapv p e) = None"
  by (simp_all add: wrapv_def)

lemma wrapw_sel [simp]: "err_msg (wrapw p e) = p @ err_msg e" "err_code (wrapw p e) = err_code e"
  by (simp_all add: wrapw_def)

section \<open>Go maps\<close>

text \<open>
  A Go map is an association list with distinct keys; the order of the list stands for
  the (unspecified) order in which a \<open>range\<close> loop visits the map, so a theorem about
  every list is a theorem about every order. The nil map is the empty list.
\<close>

type_synonym 'v gomap = "(string \<times> 'v) list"

definition mget :: "'v gomap \<Rightarrow> string \<Rightarrow> 'v option" where
  "mget m k = map_of m k"

definition mput :: "string \<Rightarrow> 'v \<Rightarrow> 'v gomap \<Rightarrow> 'v gomap" where
  "mput k v m = AList.update k v m"

definition mdel :: "string \<Rightarrow> 'v gomap \<Rightarrow> 'v gomap" where
  "mdel k m = AList.delete k m"

definition mdels :: "string list \<Rightarrow> 'v gomap \<Rightarrow> 'v gomap" where
  "mdels ks m = fold mdel ks m"

definition wf_map :: "'v gomap \<Rightarrow> bool" where
  "wf_map m = distinct (map fst m)"

lemma mget_Nil [simp]: "mget [] k = None"
  by (simp add: mget_def)

lemma mget_mput [map_simps]: "mget (mput k v m) k' = (if k' = k then Some v else mget m k')"
  by (simp add: mget_def mput_def update_conv')

lemma mget_mput_same [simp]: "mget (mput k v m) k = Some v"
  by (simp add: mget_mput)

lemma mget_mput_other [simp]: "k' \<noteq> k \<Longrightarrow> mget (mput k v m) k' = mget m k'"
  by (simp add: mget_mput)

lemma mget_mdel [map_simps]: "mget (mdel k m) k' = (if k' = k then None else mget m k')"
  by (simp add: mget_def mdel_def delete_conv')

lemma mget_mdels [map_simps]: "mget (mdels ks m) k = (if k \<in> set ks then None else mget m k)"
  unfolding mdels_def by (induction ks arbitrary: m) (auto simp: mget_mdel)

lemma wf_map_Nil [simp]: "wf_map []"
  by (simp add: wf_map_def)

lemma wf_map_mput [simp]: "wf_map m \<Longrightarrow> wf_map (mput k v m)"
  by (simp add: wf_map_def mput_def distinct_update)

lemma wf_map_mdel [simp]: "wf_map m \<Longrightarrow> wf_map (mdel k m)"
  by (simp add: wf_map_def mdel_def distinct_delete)

lemma wf_map_mdels [simp]: "wf_map m \<Longrightarrow> wf_map (mdels ks m)"
  unfolding mdels_def by (induction ks arbitrary: m) auto

lemma mget_Some_in: "wf_map m \<Longrightarrow> mget m k = Some v \<longleftrightarrow> (k, v) \<in> set m"
  by (auto simp: wf_map_def mget_def dest: map_of_SomeD)

lemma mget_map_values: "mget (map (\<lambda>(k, v). (k, f v)) m) k = map_option f (mget m k)"
  by (induction m) (auto simp: mget_def)

section \<open>Sequential programs\<close>

text \<open>
  An operation of the scheduler is a program of the state monad. \<open>for_each\<close> is a loop
  whose body cannot leave it; \<open>for_err\<close> is a loop whose body returns an error that leaves
  the enclosing function.
\<close>

abbreviation ret :: "'a \<Rightarrow> ('s, 'a) state" where
  "ret \<equiv> State_Monad.return"

fun for_each :: "'a list \<Rightarrow> ('a \<Rightarrow> ('s, 'b) state) \<Rightarrow> ('s, unit) state" where
  "for_each [] f = ret ()"
| "for_each (x # xs) f = do { _ \<leftarrow> f x; for_each xs f }"

fun for_err :: "'a list \<Rightarrow> ('a \<Rightarrow> ('s, goerr option) state) \<Rightarrow> ('s, goerr option) state" where
  "for_err [] f = ret None"
| "for_err (x # xs) f = do {
     r \<leftarrow> f x;
     (case r of Some e \<Rightarrow> ret (Some e) | None \<Rightarrow> for_err xs f) }"

fun fold_st :: "('a \<Rightarrow> 'b \<Rightarrow> ('s, 'b) state) \<Rightarrow> 'a list \<Rightarrow> 'b \<Rightarrow> ('s, 'b) state" where
  "fold_st f [] acc = ret acc"
| "fold_st f (x # xs) acc = do { acc' \<leftarrow> f x acc; fold_st f xs acc' }"

definition gets :: "('s \<Rightarrow> 'a) \<Rightarrow> ('s, 'a) state" where
  "gets f = State (\<lambda>s. (f s, s))"

definition modify :: "('s \<Rightarrow> 's) \<Rightarrow> ('s, unit) state" where
  "modify f = State (\<lambda>s. ((), f s))"

definition doif :: "bool \<Rightarrow> ('s, 'a) state \<Rightarrow> ('s, unit) state" where
  "doif b m = (if b then do { _ \<leftarrow> m; ret () } else ret ())"

lemma run_bind_proj:
  "run_state (State_Monad.bind m f) s = run_state (f (fst (run_state m s))) (snd (run_state m s))"
  by (simp add: case_prod_beta)

lemma run_gets [simp, run_simps]: "run_state (gets f) s = (f s, s)"
  by (simp add: gets_def)

lemma run_modify [simp, run_simps]: "run_state (modify f) s = ((), f s)"
  by (simp add: modify_def)

lemma run_doif [simp, run_simps]:
  "run_state (doif b m) s = ((), if b then snd (run_state m s) else s)"
  by (simp add: doif_def split: prod.splits)

section \<open>A program logic for guarantees\<close>

text \<open>
  \<open>ensures I R m Q\<close>: from every state in the invariant \<open>I\<close>, the program \<open>m\<close> ends in the
  invariant, its start and end states are related by the guarantee \<open>R\<close>, and its result
  satisfies \<open>Q\<close>. For a reflexive and transitive guarantee the judgement is closed under
  all the ways in which the scheduler's programs are put together.
\<close>

definition ensures :: "('s \<Rightarrow> bool) \<Rightarrow> ('s \<Rightarrow> 's \<Rightarrow> bool) \<Rightarrow> ('s, 'a) state \<Rightarrow> ('a \<Rightarrow> bool) \<Rightarrow> bool" where
  "ensures I R m Q = (\<forall>s. I s \<longrightarrow>
     I (snd (run_state m s)) \<and> R s (snd (run_state m s)) \<and> Q (fst (run_state m s)))"

lemma ensuresD:
  assumes "ensures I R m Q" "I s"
  shows "I (snd (run_state m s))" "R s (snd (run_state m s))" "Q (fst (run_state m s))"
  using assms by (auto simp: ensures_def)

lemma ensures_weaken: "ensures I R m Q \<Longrightarrow> (\<And>x. Q x \<Longrightarrow> P x) \<Longrightarrow> ensures I R m P"
  by (auto simp: ensures_def)

lemma ensures_any: "ensures I R m Q \<Longrightarrow> ensures I R m (\<lambda>_. True)"
  by (auto simp: ensures_def)

text \<open>What a guarantee must satisfy for the rules of the logic to hold.\<close>

locale guarantee =
  fixes I :: "'s \<Rightarrow> bool"
    and R :: "'s \<Rightarrow> 's \<Rightarrow> bool"
  assumes R_refl: "R s s"
    and R_trans: "R s t \<Longrightarrow> R t u \<Longrightarrow> R s u"
begin

lemma g_return: "Q x \<Longrightarrow> ensures I R (ret x) Q"
  by (simp add: ensures_def R_refl)

lemma g_bind:
  assumes m: "ensures I R m Q" and f: "\<And>x. Q x \<Longrightarrow> ensures I R (f x) P"
  shows "ensures I R (State_Monad.bind m f) P"
  unfolding ensures_def
proof (intro allI impI)
  fix s assume s: "I s"
  let ?x = "fst (run_state m s)" and ?t = "snd (run_state m s)"
  from ensuresD [OF m s] have t: "I ?t" "R s ?t" "Q ?x" .
  from ensuresD [OF f [OF t(3)] t(1)] t(2)
  show "I (snd (run_state (State_Monad.bind m f) s)) \<and> R s (snd (run_state (State_Monad.bind m f) s)) \<and>
      P (fst (run_state (State_Monad.bind m f) s))"
    by (auto simp: run_bind_proj simp del: run_state_bind intro: R_trans)
qed

lemma g_seq:
  "ensures I R m (\<lambda>_. True) \<Longrightarrow> (\<And>x. ensures I R (f x) P) \<Longrightarrow> ensures I R (State_Monad.bind m f) P"
  by (rule g_bind)

lemma g_gets: "(\<And>s. I s \<Longrightarrow> Q (f s)) \<Longrightarrow> ensures I R (gets f) Q"
  by (simp add: ensures_def R_refl)

lemma g_doif: "(b \<Longrightarrow> ensures I R m (\<lambda>_. True)) \<Longrightarrow> Q () \<Longrightarrow> ensures I R (doif b m) Q"
  by (cases b) (auto simp: ensures_def R_refl doif_def run_bind_proj simp del: run_state_bind)

lemma g_if:
  "(c \<Longrightarrow> ensures I R a Q) \<Longrightarrow> (\<not> c \<Longrightarrow> ensures I R b Q) \<Longrightarrow> ensures I R (if c then a else b) Q"
  by simp

lemma g_option:
  "(v = None \<Longrightarrow> ensures I R a Q) \<Longrightarrow> (\<And>x. v = Some x \<Longrightarrow> ensures I R (b x) Q) \<Longrightarrow>
   ensures I R (case v of None \<Rightarrow> a | Some x \<Rightarrow> b x) Q"
  by (cases v) simp_all

lemma g_sum:
  "(\<And>e. v = Inl e \<Longrightarrow> ensures I R (a e) Q) \<Longrightarrow> (\<And>x. v = Inr x \<Longrightarrow> ensures I R (b x) Q) \<Longrightarrow>
   ensures I R (case v of Inl e \<Rightarrow> a e | Inr x \<Rightarrow> b x) Q"
  by (cases v) simp_all

lemma g_prod:
  "(\<And>x y. p = (x, y) \<Longrightarrow> ensures I R (f x y) Q) \<Longrightarrow> ensures I R (case p of (x, y) \<Rightarrow> f x y) Q"
  by (cases p) simp

lemma g_let: "(\<And>x. x = v \<Longrightarrow> ensures I R (f x) Q) \<Longrightarrow> ensures I R (let x = v in f x) Q"
  by (simp add: Let_def)

lemma g_for_each:
  "(\<And>x. x \<in> set xs \<Longrightarrow> ensures I R (f x) (\<lambda>_. True)) \<Longrightarrow> Q () \<Longrightarrow> ensures I R (for_each xs f) Q"
  by (induction xs) (auto intro: g_return g_seq)

lemma g_for_err:
  "(\<And>x. x \<in> set xs \<Longrightarrow> ensures I R (f x) (\<lambda>_. True)) \<Longrightarrow> ensures I R (for_err xs f) (\<lambda>_. True)"
  by (induction xs) (auto intro!: g_return g_seq g_option)

lemma g_fold_st:
  "Q acc \<Longrightarrow> (\<And>x a. x \<in> set xs \<Longrightarrow> Q a \<Longrightarrow> ensures I R (f x a) Q) \<Longrightarrow> ensures I R (fold_st f xs acc) Q"
  by (induction xs arbitrary: acc) (auto intro: g_return g_bind)

lemmas g_rules = g_return g_gets g_doif g_if g_option g_sum g_prod g_let g_for_each g_for_err g_seq

end

lemma ensures_modify: "(\<And>s. I s \<Longrightarrow> I (f s) \<and> R s (f s)) \<Longrightarrow> Q () \<Longrightarrow> ensures I R (modify f) Q"
  by (simp add: ensures_def)

end
