(* ===== verification/GoStrings.thy ===== *)
theory GoStrings
  imports Prelude
begin

text \<open>
  The parts of Go's \<open>strings\<close>, \<open>strconv\<close> and \<open>fmt\<close> packages that the scheduler uses,
  on byte strings. Case mapping and white space follow the ASCII range: the scheduler's
  states, drivers, types and keys are ASCII words, and a byte outside that range is left
  unchanged, so non-ASCII letters are compared exactly.
\<close>

section \<open>Case and white space\<close>

definition isUpper :: "char \<Rightarrow> bool" where
  "isUpper c = (65 \<le> (of_char c :: nat) \<and> (of_char c :: nat) \<le> 90)"

definition chLower :: "char \<Rightarrow> char" where
  "chLower c = (case c of Char b0 b1 b2 b3 b4 b5 b6 b7 \<Rightarrow>
     if isUpper c then Char b0 b1 b2 b3 b4 True b6 b7 else c)"

definition isLower :: "char \<Rightarrow> bool" where
  "isLower c = (97 \<le> (of_char c :: nat) \<and> (of_char c :: nat) \<le> 122)"

definition chUpper :: "char \<Rightarrow> char" where
  "chUpper c = (case c of Char b0 b1 b2 b3 b4 b5 b6 b7 \<Rightarrow>
     if isLower c then Char b0 b1 b2 b3 b4 False b6 b7 else c)"

definition ToLower :: "string \<Rightarrow> string" where
  "ToLower s = map chLower s"

definition ToUpper :: "string \<Rightarrow> string" where
  "ToUpper s = map chUpper s"

definition isSpace :: "char \<Rightarrow> bool" where
  "isSpace c = ((of_char c :: nat) = 32 \<or> (9 \<le> (of_char c :: nat) \<and> (of_char c :: nat) \<le> 13))"

definition TrimSpace :: "string \<Rightarrow> string" where
  "TrimSpace s = rev (dropWhile isSpace (rev (dropWhile isSpace s)))"

definition EqualFold :: "string \<Rightarrow> string \<Rightarrow> bool" where
  "EqualFold s t = (ToLower s = ToLower t)"

lemma of_char_bits:
  "(of_char (Char b0 b1 b2 b3 b4 b5 b6 b7) :: nat) =
     of_bool b0 + 2 * of_bool b1 + 4 * of_bool b2 + 8 * of_bool b3 + 16 * of_bool b4 +
     32 * of_bool b5 + 64 * of_bool b6 + 128 * of_bool b7"
  by (simp add: of_char_def)

lemma isUpper_bits: "isUpper (Char b0 b1 b2 b3 b4 b5 b6 b7) \<Longrightarrow> b6 \<and> \<not> b7 \<and> \<not> b5"
  by (cases b5; cases b6; cases b7) (auto simp: isUpper_def of_char_bits of_bool_def split: if_splits)

lemma isUpper_lower: "isUpper (Char b0 b1 b2 b3 b4 True b6 b7) = False"
  using isUpper_bits by blast

lemma chLower_idem [simp]: "chLower (chLower c) = chLower c"
  by (cases c) (simp add: chLower_def isUpper_lower)

lemma isSpace_bits: "b6 \<Longrightarrow> isSpace (Char b0 b1 b2 b3 b4 b5 b6 b7) = False"
  by (simp add: isSpace_def of_char_bits)

lemma isSpace_chLower [simp]: "isSpace (chLower c) = isSpace c"
proof (cases c)
  case (Char b0 b1 b2 b3 b4 b5 b6 b7)
  then show ?thesis
    using isUpper_bits [of b0 b1 b2 b3 b4 b5 b6 b7] by (auto simp: chLower_def isSpace_bits)
qed

lemma ToLower_Nil [simp]: "ToLower [] = []"
  by (simp add: ToLower_def)

lemma ToLower_eq_Nil [simp]: "ToLower s = [] \<longleftrightarrow> s = []"
  by (simp add: ToLower_def)

lemma ToLower_idem [simp]: "ToLower (ToLower s) = ToLower s"
  by (simp add: ToLower_def)

lemma ToLower_append: "ToLower (s @ t) = ToLower s @ ToLower t"
  by (simp add: ToLower_def)

lemma TrimSpace_Nil [simp]: "TrimSpace [] = []"
  by (simp add: TrimSpace_def)

lemma dropWhile_map_pred:
  "(\<And>x. P (f x) = P x) \<Longrightarrow> dropWhile P (map f xs) = map f (dropWhile P xs)"
  by (induction xs) simp_all

lemma TrimSpace_ToLower: "TrimSpace (ToLower s) = ToLower (TrimSpace s)"
  by (simp add: TrimSpace_def ToLower_def dropWhile_map_pred rev_map)

lemma hd_TrimSpace: "TrimSpace s \<noteq> [] \<Longrightarrow> \<not> isSpace (hd (TrimSpace s))"
proof -
  assume ne: "TrimSpace s \<noteq> []"
  define t where "t = dropWhile isSpace s"
  obtain d where "rev t = d @ dropWhile isSpace (rev t)"
    by (metis takeWhile_dropWhile_id)
  then have "t = rev (dropWhile isSpace (rev t)) @ rev d"
    by (metis rev_append rev_rev_ident)
  then have split: "t = TrimSpace s @ rev d" by (simp add: TrimSpace_def t_def)
  with ne have "hd t = hd (TrimSpace s)" and "t \<noteq> []" by auto
  then show ?thesis using hd_dropWhile [of isSpace s] by (simp add: t_def)
qed

lemma last_TrimSpace: "TrimSpace s \<noteq> [] \<Longrightarrow> \<not> isSpace (last (TrimSpace s))"
  by (simp add: TrimSpace_def last_rev hd_dropWhile)

lemma TrimSpace_fixed:
  assumes "s = [] \<or> (\<not> isSpace (hd s) \<and> \<not> isSpace (last s))"
  shows "TrimSpace s = s"
proof (cases "s = []")
  case False
  with assms have "dropWhile isSpace s = s" by (cases s) auto
  moreover from False assms have "dropWhile isSpace (rev s) = rev s"
    by (cases "rev s") (auto simp: last_rev [symmetric] hd_rev)
  ultimately show ?thesis by (simp add: TrimSpace_def)
qed simp

lemma TrimSpace_idem [simp]: "TrimSpace (TrimSpace s) = TrimSpace s"
  using hd_TrimSpace last_TrimSpace by (intro TrimSpace_fixed) auto

lemma TrimSpace_eq_Nil: "TrimSpace s = [] \<longleftrightarrow> (\<forall>c \<in> set s. isSpace c)"
proof
  assume "TrimSpace s = []"
  then have "dropWhile isSpace s = [] \<or> (\<forall>c \<in> set (dropWhile isSpace s). isSpace c)"
    by (auto simp: TrimSpace_def dropWhile_eq_Nil_conv)
  then show "\<forall>c \<in> set s. isSpace c"
    by (metis (no_types, lifting) dropWhile_eq_Nil_conv hd_dropWhile list.set_sel(1))
qed (auto simp: TrimSpace_def dropWhile_eq_Nil_conv dest: set_dropWhileD)

lemma EqualFold_refl [simp]: "EqualFold s s"
  by (simp add: EqualFold_def)

lemma EqualFold_sym: "EqualFold s t \<Longrightarrow> EqualFold t s"
  by (simp add: EqualFold_def)

lemma EqualFold_trans: "EqualFold s t \<Longrightarrow> EqualFold t u \<Longrightarrow> EqualFold s u"
  by (simp add: EqualFold_def)

section \<open>Searching, replacing, splitting\<close>

fun HasPrefix :: "string \<Rightarrow> string \<Rightarrow> bool" where
  "HasPrefix s [] = True"
| "HasPrefix [] (p # ps) = False"
| "HasPrefix (c # cs) (p # ps) = (c = p \<and> HasPrefix cs ps)"

definition HasSuffix :: "string \<Rightarrow> string \<Rightarrow> bool" where
  "HasSuffix s suf = HasPrefix (rev s) (rev suf)"

definition TrimPrefix :: "string \<Rightarrow> string \<Rightarrow> string" where
  "TrimPrefix s p = (if HasPrefix s p then drop (length p) s else s)"

fun Contains :: "string \<Rightarrow> string \<Rightarrow> bool" where
  "Contains [] sub = (sub = [])"
| "Contains (c # cs) sub = (HasPrefix (c # cs) sub \<or> Contains cs sub)"

definition ReplaceChar :: "char \<Rightarrow> char \<Rightarrow> string \<Rightarrow> string" where
  "ReplaceChar old new s = map (\<lambda>c. if c = old then new else c) s"

fun Split :: "char \<Rightarrow> string \<Rightarrow> string list" where
  "Split d [] = [[]]"
| "Split d (c # cs) =
     (if c = d then [] # Split d cs
      else (case Split d cs of [] \<Rightarrow> [[c]] | w # ws \<Rightarrow> (c # w) # ws))"

fun Join :: "string \<Rightarrow> string list \<Rightarrow> string" where
  "Join sep [] = []"
| "Join sep [w] = w"
| "Join sep (w # v # ws) = w @ sep @ Join sep (v # ws)"

fun Fields_aux :: "string \<Rightarrow> string \<Rightarrow> string list" where
  "Fields_aux acc [] = (if acc = [] then [] else [rev acc])"
| "Fields_aux acc (c # cs) =
     (if isSpace c then (if acc = [] then Fields_aux [] cs else rev acc # Fields_aux [] cs)
      else Fields_aux (c # acc) cs)"

definition Fields :: "string \<Rightarrow> string list" where
  "Fields s = Fields_aux [] s"

definition TrimChar :: "char \<Rightarrow> string \<Rightarrow> string" where
  "TrimChar d s = rev (dropWhile (\<lambda>c. c = d) (rev (dropWhile (\<lambda>c. c = d) s)))"

lemma HasPrefix_iff: "HasPrefix s p \<longleftrightarrow> (\<exists>t. s = p @ t)"
  by (induction s p rule: HasPrefix.induct) auto

lemma HasPrefix_append [simp]: "HasPrefix (p @ t) p"
  by (auto simp: HasPrefix_iff)

lemma HasSuffix_iff: "HasSuffix s p \<longleftrightarrow> (\<exists>t. s = t @ p)"
proof -
  have "HasSuffix s p \<longleftrightarrow> (\<exists>t. rev s = rev p @ t)" by (simp add: HasSuffix_def HasPrefix_iff)
  also have "\<dots> \<longleftrightarrow> (\<exists>t. s = rev t @ p)" by (metis rev_append rev_rev_ident)
  also have "\<dots> \<longleftrightarrow> (\<exists>t. s = t @ p)" by (metis rev_rev_ident)
  finally show ?thesis .
qed

lemma Contains_iff: "Contains s sub \<longleftrightarrow> (\<exists>u v. s = u @ sub @ v)"
proof (induction s)
  case (Cons c cs)
  show ?case
  proof
    assume "Contains (c # cs) sub"
    then consider "HasPrefix (c # cs) sub" | "Contains cs sub" by auto
    then show "\<exists>u v. c # cs = u @ sub @ v"
    proof cases
      case 1
      then show ?thesis by (metis HasPrefix_iff append_Nil)
    next
      case 2
      with Cons.IH show ?thesis by (metis append_Cons)
    qed
  next
    assume "\<exists>u v. c # cs = u @ sub @ v"
    then obtain u v where uv: "c # cs = u @ sub @ v" by blast
    show "Contains (c # cs) sub"
    proof (cases u)
      case Nil
      with uv show ?thesis by (metis Contains.simps(2) HasPrefix_append append_Nil)
    next
      case (Cons a u')
      with uv have "cs = u' @ sub @ v" by simp
      with Cons.IH show ?thesis by auto
    qed
  qed
qed auto

lemma Contains_append1: "Contains s sub \<Longrightarrow> Contains (s @ t) sub"
  by (metis Contains_iff append.assoc)

lemma Contains_append2: "Contains t sub \<Longrightarrow> Contains (s @ t) sub"
  by (metis Contains_iff append.assoc)

lemma Contains_mid: "Contains (u @ sub @ v) sub"
  by (auto simp: Contains_iff)

lemma Split_nonempty [simp]: "Split d s \<noteq> []"
  by (induction s) (auto split: list.splits)

lemma Join_Split: "Join [d] (Split d s) = s"
proof (induction s)
  case (Cons c cs)
  obtain w ws where s: "Split d cs = w # ws" by (cases "Split d cs") auto
  with Cons show ?case by (cases ws) auto
qed simp

lemma Join_Cons: "ws \<noteq> [] \<Longrightarrow> Join sep (w # ws) = w @ sep @ Join sep ws"
  by (cases ws) auto

lemma Split_no_sep: "\<forall>w \<in> set (Split d s). d \<notin> set w"
  by (induction s) (auto split: list.splits)

lemma Split_word: "d \<notin> set w \<Longrightarrow> Split d w = [w]"
  by (induction w) auto

lemma Split_append: "d \<notin> set w \<Longrightarrow> Split d (w @ d # s) = w # Split d s"
  by (induction w) (auto split: list.splits)

lemma Split_Join:
  "ws \<noteq> [] \<Longrightarrow> \<forall>w \<in> set ws. d \<notin> set w \<Longrightarrow> Split d (Join [d] ws) = ws"
proof (induction ws)
  case (Cons w ws)
  show ?case
  proof (cases "ws = []")
    case True
    with Cons.prems show ?thesis by (simp add: Split_word)
  next
    case False
    with Cons show ?thesis by (simp add: Join_Cons Split_append)
  qed
qed simp

lemma ReplaceChar_absent: "old \<noteq> new \<Longrightarrow> old \<notin> set (ReplaceChar old new s)"
  by (auto simp: ReplaceChar_def split: if_splits)

lemma ReplaceChar_id: "old \<notin> set s \<Longrightarrow> ReplaceChar old new s = s"
  by (induction s) (auto simp: ReplaceChar_def)

lemma ReplaceChar_idem [simp]:
  "old \<noteq> new \<Longrightarrow> ReplaceChar old new (ReplaceChar old new s) = ReplaceChar old new s"
  by (simp add: ReplaceChar_id ReplaceChar_absent)

lemma ReplaceChar_Nil [simp]: "ReplaceChar old new s = [] \<longleftrightarrow> s = []"
  by (simp add: ReplaceChar_def)

section \<open>Numbers as text\<close>

definition digit :: "nat \<Rightarrow> char" where
  "digit n = ''0123456789'' ! (n mod 10)"

definition digit_val :: "char \<Rightarrow> nat option" where
  "digit_val c = (if 48 \<le> (of_char c :: nat) \<and> (of_char c :: nat) \<le> 57
     then Some (of_char c - 48) else None)"

fun nat_text :: "nat \<Rightarrow> string" where
  "nat_text n = (if n < 10 then [digit n] else nat_text (n div 10) @ [digit n])"

declare nat_text.simps [simp del]

definition itoa :: "int \<Rightarrow> string" where
  "itoa i = (if i < 0 then CHR ''-'' # nat_text (nat (- i)) else nat_text (nat i))"

fun digits_val :: "nat \<Rightarrow> string \<Rightarrow> nat option" where
  "digits_val acc [] = Some acc"
| "digits_val acc (c # cs) =
     (case digit_val c of None \<Rightarrow> None | Some d \<Rightarrow> digits_val (acc * 10 + d) cs)"

text \<open>\<open>strconv.Atoi\<close>: an optional sign and at least one digit, within the range of a 64-bit int.\<close>

definition Atoi :: "string \<Rightarrow> int option" where
  "Atoi s =
     (let neg = (case s of c # _ \<Rightarrow> c = CHR ''-'' | [] \<Rightarrow> False);
          ds = (case s of c # cs \<Rightarrow> if c = CHR ''-'' \<or> c = CHR ''+'' then cs else s | [] \<Rightarrow> [])
      in if ds = [] then None
         else (case digits_val 0 ds of None \<Rightarrow> None
               | Some n \<Rightarrow>
                   (let v = (if neg then - int n else int n)
                    in if - (2 ^ 63) \<le> v \<and> v < 2 ^ 63 then Some v else None)))"

lemma digit_val_digit [simp]: "digit_val (digit n) = Some (n mod 10)"
proof -
  have "list_all (\<lambda>k. digit_val (''0123456789'' ! k) = Some k) [0..<10]" by code_simp
  then have "digit_val (''0123456789'' ! k) = Some k" if "k < 10" for k
    using that by (simp add: list_all_iff)
  then show ?thesis by (simp add: digit_def)
qed

lemma digits_val_append:
  "digits_val acc (xs @ ys) = (case digits_val acc xs of None \<Rightarrow> None | Some a \<Rightarrow> digits_val a ys)"
  by (induction xs arbitrary: acc) (auto split: option.splits)

lemma digits_val_nat_text: "digits_val 0 (nat_text n) = Some n"
proof (induction n rule: nat_text.induct)
  case (1 n)
  then show ?case
    by (cases "n < 10") (simp_all add: nat_text.simps [of n] digits_val_append)
qed

lemma nat_text_nonempty [simp]: "nat_text n \<noteq> []"
  by (subst nat_text.simps) simp

lemma digit_range: "48 \<le> (of_char (digit n) :: nat) \<and> (of_char (digit n) :: nat) \<le> 57"
  using digit_val_digit [of n] by (auto simp: digit_val_def split: if_splits)

lemma nat_text_digits: "c \<in> set (nat_text n) \<Longrightarrow> \<exists>k. c = digit k"
proof (induction n rule: nat_text.induct)
  case (1 n)
  then show ?case by (cases "n < 10") (auto simp: nat_text.simps [of n])
qed

lemma hd_nat_text: "hd (nat_text n) \<noteq> CHR ''-'' \<and> hd (nat_text n) \<noteq> CHR ''+''"
proof -
  have "hd (nat_text n) \<in> set (nat_text n)" by simp
  then obtain k where k: "hd (nat_text n) = digit k" using nat_text_digits by blast
  have "(of_char (CHR ''-'') :: nat) = 45" "(of_char (CHR ''+'') :: nat) = 43" by simp_all
  with digit_range [of k] have "digit k \<noteq> CHR ''-''" "digit k \<noteq> CHR ''+''" by fastforce+
  with k show ?thesis by simp
qed

text \<open>\<open>Atoi\<close> reads back what \<open>%d\<close> prints, for every 64-bit value.\<close>

lemma Atoi_itoa:
  assumes "- (2 ^ 63) \<le> i" and "i < 2 ^ 63"
  shows "Atoi (itoa i) = Some i"
proof (cases "i < 0")
  case True
  with assms show ?thesis by (simp add: Atoi_def itoa_def digits_val_nat_text)
next
  case False
  obtain c cs where t: "nat_text (nat i) = c # cs" by (cases "nat_text (nat i)") auto
  with hd_nat_text [of "nat i"] have "c \<noteq> CHR ''-''" "c \<noteq> CHR ''+''" by auto
  with False assms t digits_val_nat_text [of "nat i"] show ?thesis
    by (simp add: Atoi_def itoa_def)
qed

text \<open>\<open>%.nf\<close> of a number, \<open>%t\<close>, \<open>%q\<close> and \<open>%v\<close> of a string slice.\<close>

definition pad_left :: "nat \<Rightarrow> string \<Rightarrow> string" where
  "pad_left n s = replicate (n - length s) CHR ''0'' @ s"

definition fmt_fixed :: "nat \<Rightarrow> rat \<Rightarrow> string" where
  "fmt_fixed n r =
     (let k = nat \<lfloor>\<bar>r\<bar> * 10 ^ n + 1 / 2\<rfloor>; t = pad_left (Suc n) (nat_text k);
          w = take (length t - n) t; f = drop (length t - n) t
      in (if r < 0 then ''-'' else []) @ w @ (if n = 0 then [] else CHR ''.'' # f))"

definition fmt_bool :: "bool \<Rightarrow> string" where
  "fmt_bool b = (if b then ''true'' else ''false'')"

fun quote_char :: "char \<Rightarrow> string" where
  "quote_char c =
     (if (of_char c :: nat) = 34 then [CHR 0x5C, c]
      else if (of_char c :: nat) = 92 then [CHR 0x5C, c]
      else if (of_char c :: nat) = 10 then [CHR 0x5C, CHR ''n'']
      else if (of_char c :: nat) = 13 then [CHR 0x5C, CHR ''r'']
      else if (of_char c :: nat) = 9 then [CHR 0x5C, CHR ''t'']
      else [c])"

definition fmt_q :: "string \<Rightarrow> string" where
  "fmt_q s = CHR 0x22 # concat (map quote_char s) @ [CHR 0x22]"

definition fmt_strs :: "string list \<Rightarrow> string" where
  "fmt_strs xs = ''['' @ Join '' '' xs @ '']''"

section \<open>Normal forms\<close>

text \<open>
  Several functions of the scheduler bring a user's spelling into a normal form. What
  their callers rely on: surrounding blanks do not matter and normal forms are stable.
\<close>

locale normal_form =
  fixes nf :: "string \<Rightarrow> string"
  assumes nf_idem: "nf (nf s) = nf s"
    and nf_blank: "nf (TrimSpace s) = nf s"
begin

lemma nf_fixed: "(\<exists>s. u = nf s) \<longleftrightarrow> nf u = u"
  using nf_idem by metis

text \<open>Normalising the members of a list does not change which normal forms it contains.\<close>

lemma nf_image: "nf ` set (map nf us) = nf ` set us"
  by (simp add: nf_idem image_image)

end

end
