(* ===== verification/GoTime.thy ===== *)
theory GoTime
  imports GoStrings
begin

text \<open>
  Go's \<open>time\<close> package as the scheduler uses it. A \<open>time.Time\<close> is the number of
  nanoseconds since the zero time, 1 January of year 1, 00:00:00 UTC, so \<open>IsZero\<close> is
  equality with 0; a \<open>time.Duration\<close> is a number of nanoseconds. The calendar
  conversion, \<open>Format\<close> and \<open>Parse\<close> with the layout RFC3339 are spelled out because the
  reconciler keeps its retry windows as formatted text in the workload metadata: the
  round trip through text drops the fraction of a second and nothing else.
\<close>

type_synonym time = int
type_synonym duration = int

definition nsec :: int where "nsec = 1000000000"

definition Second :: duration where "Second = nsec"
definition Minute :: duration where "Minute = 60 * nsec"
definition Hour :: duration where "Hour = 3600 * nsec"

lemmas duration_defs = nsec_def Second_def Minute_def Hour_def

definition IsZero :: "time \<Rightarrow> bool" where
  "IsZero t = (t = 0)"

section \<open>The calendar\<close>

definition is_leap :: "int \<Rightarrow> bool" where
  "is_leap y = (y mod 4 = 0 \<and> (y mod 100 \<noteq> 0 \<or> y mod 400 = 0))"

definition month_lengths :: "int \<Rightarrow> int list" where
  "month_lengths y = [31, if is_leap y then 29 else 28, 31, 30, 31, 30, 31, 31, 30, 31, 30, 31]"

text \<open>Days from the zero time to 1 January of year \<open>y\<close>.\<close>

definition days_before_year :: "int \<Rightarrow> int" where
  "days_before_year y = 365 * (y - 1) + (y - 1) div 4 - (y - 1) div 100 + (y - 1) div 400"

text \<open>
  Year and day of the year of a day number, by cutting off cycles of 400, 100, 4 and 1
  years; the last 100-year and 1-year cycle of each group is one day longer.
\<close>

definition year_yday :: "int \<Rightarrow> int \<times> int" where
  "year_yday d =
     (let n400 = d div 146097; d1 = d mod 146097;
          n100 = min 3 (d1 div 36524); d2 = d1 - 36524 * n100;
          n4 = d2 div 1461; d3 = d2 mod 1461;
          n1 = min 3 (d3 div 365); d4 = d3 - 365 * n1
      in (400 * n400 + 100 * n100 + 4 * n4 + n1 + 1, d4))"

fun month_day :: "int list \<Rightarrow> int \<Rightarrow> int \<Rightarrow> int \<times> int" where
  "month_day [] m d = (m, d + 1)"
| "month_day (l # ls) m d = (if d < l then (m, d + 1) else month_day ls (m + 1) (d - l))"

fun month_offset :: "int list \<Rightarrow> nat \<Rightarrow> int" where
  "month_offset [] n = 0"
| "month_offset (l # ls) 0 = 0"
| "month_offset (l # ls) (Suc n) = l + month_offset ls n"

text \<open>A group of four cycles of length \<open>n\<close>, the last of which is one day longer.\<close>

lemma four_cycles:
  fixes d n :: int
  assumes "0 \<le> d" and "d \<le> 4 * n" and "0 < n" and q: "q = min 3 (d div n)"
  shows "0 \<le> q" and "q \<le> 3" and "0 \<le> d - n * q" and "d - n * q < n + (if q = 3 then 1 else 0)"
proof -
  show "0 \<le> q" "q \<le> 3" using assms by (simp_all add: pos_imp_zdiv_nonneg_iff)
  have "0 \<le> d - n * q \<and> d - n * q < n + (if q = 3 then 1 else 0)"
  proof (cases "d div n \<le> 2")
    case True
    then have "q = d div n" using q by simp
    then have "d - n * q = d mod n" by (simp add: minus_mult_div_eq_mod)
    moreover have "0 \<le> d mod n" "d mod n < n" using \<open>0 < n\<close> by simp_all
    ultimately show ?thesis using True \<open>q = d div n\<close> by simp
  next
    case False
    then have q3: "q = 3" using q by simp
    have "n * 3 \<le> n * (d div n)" using False \<open>0 < n\<close> by simp
    also have "\<dots> \<le> d" using \<open>0 < n\<close> by (metis add.commute le_add_same_cancel1 mod_mult_div_eq pos_mod_sign)
    finally show ?thesis using q3 assms(2) by simp
  qed
  then show "0 \<le> d - n * q" "d - n * q < n + (if q = 3 then 1 else 0)" by blast+
qed

lemma year_yday_inverse:
  assumes "year_yday d = (y, yd)"
  shows "days_before_year y + yd = d" and "0 \<le> yd" and "yd < 365 + (if is_leap y then 1 else 0)"
    and "0 \<le> d \<Longrightarrow> 1 \<le> y" and "d < 3652059 \<Longrightarrow> y \<le> 9999"
proof -
  define a where "a = d div 146097"
  define d1 where "d1 = d mod 146097"
  define b where "b = min 3 (d1 div 36524)"
  define d2 where "d2 = d1 - 36524 * b"
  define c where "c = d2 div 1461"
  define d3 where "d3 = d2 mod 1461"
  define e where "e = min 3 (d3 div 365)"
  have y: "y = 400 * a + 100 * b + 4 * c + e + 1" and yd: "yd = d3 - 365 * e"
    using assms
    unfolding year_yday_def Let_def a_def [symmetric] d1_def [symmetric] b_def [symmetric]
      d2_def [symmetric] c_def [symmetric] d3_def [symmetric] e_def [symmetric] by simp_all
  have d: "d = 146097 * a + d1" by (simp add: a_def d1_def)
  have d1: "0 \<le> d1" "d1 < 146097" by (simp_all add: d1_def)
  have b: "0 \<le> b" "b \<le> 3" and d2: "0 \<le> d2" "d2 < 36524 + (if b = 3 then 1 else 0)"
    using four_cycles [OF _ _ _ b_def] d1 by (simp_all add: d2_def)
  have c: "0 \<le> c" "c \<le> 24" using d2 unfolding c_def by (auto split: if_splits)
  have d23: "d2 = 1461 * c + d3" by (simp add: c_def d3_def)
  have d3: "0 \<le> d3" "d3 < 1461" by (simp_all add: d3_def)
  have e: "0 \<le> e" "e \<le> 3" and yd0: "0 \<le> yd" and yd1: "yd < 365 + (if e = 3 then 1 else 0)"
    using four_cycles [OF _ _ _ e_def] d3 by (simp_all add: yd)
  have last: "c = 24 \<Longrightarrow> b \<noteq> 3 \<Longrightarrow> d3 < 1460" using d2 d23 by (simp split: if_splits)
  have yd2: "e = 3 \<Longrightarrow> c = 24 \<Longrightarrow> b \<noteq> 3 \<Longrightarrow> yd < 365" using last by (simp add: yd)
  have m4: "(y - 1) div 4 = 100 * a + 25 * b + c"
    by (rule int_div_pos_eq [where r = e]) (use e y in \<open>simp_all\<close>)
  have m100: "(y - 1) div 100 = 4 * a + b"
    by (rule int_div_pos_eq [where r = "4 * c + e"]) (use e c y in \<open>simp_all\<close>)
  have m400: "(y - 1) div 400 = a"
    by (rule int_div_pos_eq [where r = "100 * b + 4 * c + e"]) (use e c b y in \<open>simp_all\<close>)
  show "days_before_year y + yd = d"
    unfolding days_before_year_def m4 m100 m400 using y yd d d2_def d23 by simp
  show "1 \<le> y" if "0 \<le> d"
  proof -
    have "0 \<le> a" using that by (simp add: a_def pos_imp_zdiv_nonneg_iff)
    with y b c e show ?thesis by simp
  qed
  show "y \<le> 9999" if "d < 3652059"
  proof (rule ccontr)
    assume "\<not> y \<le> 9999"
    with y b c e have "24 \<le> a" by simp
    have sum: "d = 146097 * a + 36524 * b + 1461 * c + 365 * e + yd"
      using d d2_def d23 yd by simp
    show False
    proof (cases "a = 24")
      case True
      then have k: "399 \<le> 100 * b + 4 * c + e" using \<open>\<not> y \<le> 9999\<close> y by simp
      have "3 \<le> b" using k c(2) e(2) by simp
      moreover have "24 \<le> c" using k b(2) e(2) by simp
      moreover have "3 \<le> e" using k b(2) c(2) by simp
      ultimately show False using True sum that yd0 by simp
    next
      case False
      with \<open>24 \<le> a\<close> sum that b c e yd0 show False by simp
    qed
  qed
  show "0 \<le> yd" by (rule yd0)
  show "yd < 365 + (if is_leap y then 1 else 0)"
  proof (cases "e = 3 \<and> (c \<noteq> 24 \<or> b = 3)")
    case True
    have "y mod 4 = 0"
      by (rule int_mod_pos_eq [where q = "100 * a + 25 * b + c + 1"]) (use True y in \<open>simp_all\<close>)
    moreover have "y mod 100 \<noteq> 0" if "c \<noteq> 24"
    proof -
      have "y mod 100 = 4 * c + 4"
        by (rule int_mod_pos_eq [where q = "4 * a + b"]) (use True y c that in \<open>simp_all\<close>)
      with c show ?thesis by simp
    qed
    moreover have "y mod 400 = 0" if "c = 24"
      by (rule int_mod_pos_eq [where q = "a + 1"]) (use True y that in \<open>simp_all\<close>)
    ultimately have "is_leap y" unfolding is_leap_def by (cases "c = 24") simp_all
    with yd1 show ?thesis by (simp split: if_splits)
  next
    case False
    with yd1 yd2 have "yd < 365" by (auto split: if_splits)
    then show ?thesis by simp
  qed
qed

lemma month_day_inverse:
  assumes "month_day ls m d = (m', dd)" and "0 \<le> d" and "d < sum_list ls"
  shows "\<exists>k < length ls. m' = m + int k \<and> 1 \<le> dd \<and> dd \<le> ls ! k \<and> month_offset ls k + (dd - 1) = d"
  using assms
proof (induction ls m d rule: month_day.induct)
  case (2 l ls m d)
  show ?case
  proof (cases "d < l")
    case True
    with "2.prems" show ?thesis by (intro exI [of _ 0]) auto
  next
    case False
    with 2 obtain k where "k < length ls" "m' = m + 1 + int k" "1 \<le> dd" "dd \<le> ls ! k"
      "month_offset ls k + (dd - 1) = d - l" by auto
    then show ?thesis by (intro exI [of _ "Suc k"]) auto
  qed
qed simp

lemma month_lengths_sum: "sum_list (month_lengths y) = 365 + (if is_leap y then 1 else 0)"
  by (simp add: month_lengths_def)

lemma month_lengths_length [simp]: "length (month_lengths y) = 12"
  by (simp add: month_lengths_def)

lemma month_lengths_le: "k < 12 \<Longrightarrow> month_lengths y ! k \<le> 31"
proof -
  assume "k < 12"
  moreover have "\<forall>l \<in> set (month_lengths y). l \<le> 31" by (simp add: month_lengths_def)
  ultimately show ?thesis by simp
qed

section \<open>RFC3339 text\<close>

definition pad2 :: "int \<Rightarrow> string" where
  "pad2 n = [digit (nat n div 10), digit (nat n)]"

definition pad4 :: "int \<Rightarrow> string" where
  "pad4 n = [digit (nat n div 1000), digit (nat n div 100), digit (nat n div 10), digit (nat n)]"

definition clock_text :: "int \<Rightarrow> string" where
  "clock_text sod = pad2 (sod div 3600) @ '':'' @ pad2 (sod div 60 mod 60) @ '':'' @ pad2 (sod mod 60)"

definition date_text :: "int \<Rightarrow> string" where
  "date_text d = (case year_yday d of (y, yd) \<Rightarrow>
     case month_day (month_lengths y) 1 yd of (m, dd) \<Rightarrow>
       pad4 y @ ''-'' @ pad2 m @ ''-'' @ pad2 dd)"

definition zone_text :: "int \<Rightarrow> string" where
  "zone_text off = (if off = 0 then ''Z''
     else (if off < 0 then ''-'' else ''+'') @ pad2 (\<bar>off\<bar> div 3600) @ '':'' @ pad2 (\<bar>off\<bar> div 60 mod 60))"

text \<open>\<open>t.Format(time.RFC3339)\<close> in a zone \<open>off\<close> seconds east of UTC; years up to 9999.\<close>

definition formatRFC3339_in :: "int \<Rightarrow> time \<Rightarrow> string" where
  "formatRFC3339_in off t =
     (let secs = t div nsec + off
      in date_text (secs div 86400) @ ''T'' @ clock_text (secs mod 86400) @ zone_text off)"

abbreviation formatRFC3339 :: "time \<Rightarrow> string" where
  "formatRFC3339 \<equiv> formatRFC3339_in 0"

text \<open>\<open>t.Format("2006-01-02 15:04:05")\<close>, the time stamp of a log line.\<close>

definition formatLogTime :: "int \<Rightarrow> time \<Rightarrow> string" where
  "formatLogTime off t =
     (let secs = t div nsec + off
      in date_text (secs div 86400) @ '' '' @ clock_text (secs mod 86400))"

text \<open>\<open>t.Format(time.RFC3339Nano)\<close> in UTC: the fraction without trailing zeros.\<close>

definition formatRFC3339Nano :: "time \<Rightarrow> string" where
  "formatRFC3339Nano t =
     (let secs = t div nsec; ns = t mod nsec;
          frac = rev (dropWhile (\<lambda>c. c = CHR ''0'') (rev (pad_left 9 (nat_text (nat ns)))))
      in date_text (secs div 86400) @ ''T'' @ clock_text (secs mod 86400)
         @ (if ns = 0 then [] else CHR ''.'' # frac) @ ''Z'')"

definition num_at :: "string \<Rightarrow> nat \<Rightarrow> nat \<Rightarrow> int option" where
  "num_at s i n = map_option int (digits_val 0 (take n (drop i s)))"

definition scale_frac :: "string \<Rightarrow> int" where
  "scale_frac ds = (case digits_val 0 (take 9 (ds @ replicate 9 CHR ''0'')) of
     Some n \<Rightarrow> int n | None \<Rightarrow> 0)"

definition parse_frac :: "string \<Rightarrow> int \<times> string" where
  "parse_frac s = (case s of
     p # r \<Rightarrow> (let ds = takeWhile (\<lambda>c. digit_val c \<noteq> None) r in
        if (p = CHR ''.'' \<or> p = CHR '','') \<and> ds \<noteq> [] then (scale_frac ds, drop (length ds) r) else (0, s))
   | [] \<Rightarrow> (0, s))"

definition parse_zone :: "string \<Rightarrow> int option" where
  "parse_zone z =
     (if z = ''Z'' then Some 0
      else if length z = 6 \<and> (z ! 0 = CHR ''+'' \<or> z ! 0 = CHR ''-'') \<and> z ! 3 = CHR '':'' then
        (case (num_at z 1 2, num_at z 4 2) of
           (Some h, Some m) \<Rightarrow>
             if h \<le> 24 \<and> m \<le> 60
             then Some ((if z ! 0 = CHR ''-'' then -1 else 1) * (h * 3600 + m * 60)) else None
         | _ \<Rightarrow> None)
      else None)"

text \<open>\<open>time.Parse(time.RFC3339, s)\<close>; the result is the instant, independent of the zone.\<close>

definition parseRFC3339 :: "string \<Rightarrow> time option" where
  "parseRFC3339 s =
     (if length s < 20 \<or> s ! 4 \<noteq> CHR ''-'' \<or> s ! 7 \<noteq> CHR ''-'' \<or> s ! 10 \<noteq> CHR ''T''
         \<or> s ! 13 \<noteq> CHR '':'' \<or> s ! 16 \<noteq> CHR '':'' then None
      else case (num_at s 0 4, num_at s 5 2, num_at s 8 2) of
        (Some y, Some m, Some d) \<Rightarrow>
          (case (num_at s 11 2, num_at s 14 2, num_at s 17 2) of
             (Some hh, Some mm, Some ss) \<Rightarrow>
               if 1 \<le> m \<and> m \<le> 12 \<and> 1 \<le> d \<and> d \<le> month_lengths y ! nat (m - 1)
                  \<and> hh < 24 \<and> mm < 60 \<and> ss < 60
               then (case parse_frac (drop 19 s) of (ns, rest) \<Rightarrow>
                 (case parse_zone rest of
                    None \<Rightarrow> None
                  | Some off \<Rightarrow>
                      Some (((days_before_year y + month_offset (month_lengths y) (nat (m - 1)) + (d - 1)) * 86400
                             + hh * 3600 + mm * 60 + ss - off) * nsec + ns)))
               else None
           | _ \<Rightarrow> None)
      | _ \<Rightarrow> None)"

lemma pad_length [simp]: "length (pad2 n) = 2" "length (pad4 n) = 4"
  by (simp_all add: pad2_def pad4_def)

lemma digits_val_pad2: "0 \<le> n \<Longrightarrow> n < 100 \<Longrightarrow> digits_val 0 (pad2 n) = Some (nat n)"
  by (simp add: pad2_def)

lemma digits_val_pad4:
  assumes "0 \<le> n" and "n < 10000"
  shows "digits_val 0 (pad4 n) = Some (nat n)"
proof -
  define k where "k = nat n"
  have "k < 10000" using assms by (simp add: k_def)
  then have "k div 1000 mod 10 = k div 100 div 10" by (simp flip: div_mult2_eq)
  moreover have "k div 100 = k div 10 div 10" by (simp flip: div_mult2_eq)
  ultimately have "((k div 1000 mod 10 * 10 + k div 100 mod 10) * 10 + k div 10 mod 10) * 10 + k mod 10 = k"
    by (metis div_mult_mod_eq)
  then show ?thesis by (simp add: pad4_def k_def)
qed

lemma day_number_text:
  assumes "0 \<le> d" and "d < 3652059"
  obtains y m dd where "date_text d = pad4 y @ ''-'' @ pad2 m @ ''-'' @ pad2 dd"
    and "0 \<le> y" "y < 10000" "1 \<le> m" "m \<le> 12" "1 \<le> dd" "dd \<le> month_lengths y ! nat (m - 1)" "dd \<le> 31"
    and "days_before_year y + month_offset (month_lengths y) (nat (m - 1)) + (dd - 1) = d"
proof -
  obtain y yd where y: "year_yday d = (y, yd)" by (cases "year_yday d")
  obtain m dd where m: "month_day (month_lengths y) 1 yd = (m, dd)"
    by (cases "month_day (month_lengths y) 1 yd")
  note yy = year_yday_inverse [OF y]
  from month_day_inverse [OF m yy(2)] yy(3) obtain k where
    k: "k < 12" "m = 1 + int k" "1 \<le> dd" "dd \<le> month_lengths y ! k"
    "month_offset (month_lengths y) k + (dd - 1) = yd"
    by (auto simp: month_lengths_sum)
  show thesis
  proof (rule that [of y m dd])
    show "date_text d = pad4 y @ ''-'' @ pad2 m @ ''-'' @ pad2 dd"
      by (simp add: date_text_def y m)
    show "0 \<le> y" "y < 10000" using yy(4,5) assms by simp_all
    show "1 \<le> m" "m \<le> 12" "1 \<le> dd" "dd \<le> month_lengths y ! nat (m - 1)" using k by simp_all
    show "dd \<le> 31" using k month_lengths_le [of k y] by simp
    show "days_before_year y + month_offset (month_lengths y) (nat (m - 1)) + (dd - 1) = d"
      using k yy(1) by simp
  qed
qed

text \<open>
  Parsing a formatted UTC time gives the time back, cut to whole seconds. The bound is the
  end of the year 9999.
\<close>

lemma parse_formatRFC3339:
  assumes "0 \<le> t" and "t < 3652059 * 86400 * nsec"
  shows "parseRFC3339 (formatRFC3339 t) = Some (t div nsec * nsec)"
proof -
  define secs where "secs = t div nsec"
  have secs: "0 \<le> secs" "secs < 3652059 * 86400"
    using assms by (simp_all add: secs_def nsec_def)
  define sod where "sod = secs mod 86400"
  have d: "0 \<le> secs div 86400" "secs div 86400 < 3652059" using secs by simp_all
  obtain y m dd where date: "date_text (secs div 86400) = pad4 y @ ''-'' @ pad2 m @ ''-'' @ pad2 dd"
    and ymd: "0 \<le> y" "y < 10000" "1 \<le> m" "m \<le> 12" "1 \<le> dd"
      "dd \<le> month_lengths y ! nat (m - 1)" "dd \<le> 31"
    and days: "days_before_year y + month_offset (month_lengths y) (nat (m - 1)) + (dd - 1) = secs div 86400"
    by (rule day_number_text [OF d])
  define hh mm ss where "hh = sod div 3600" and "mm = sod div 60 mod 60" and "ss = sod mod 60"
  have sod: "0 \<le> sod" "sod < 86400" by (simp_all add: sod_def)
  have hms: "0 \<le> hh" "hh < 24" "0 \<le> mm" "mm < 60" "0 \<le> ss" "ss < 60"
    using sod by (simp_all add: hh_def mm_def ss_def pos_imp_zdiv_nonneg_iff)
  have sum: "hh * 3600 + mm * 60 + ss = sod"
  proof -
    have "sod div 3600 = sod div 60 div 60" by (simp flip: zdiv_zmult2_eq)
    then have "sod div 60 = hh * 60 + mm" unfolding hh_def mm_def by simp
    then have "(hh * 60 + mm) * 60 + ss = sod" unfolding ss_def by (metis div_mult_mod_eq)
    then show ?thesis by simp
  qed
  define s where "s = formatRFC3339 t"
  have s: "s = pad4 y @ ''-'' @ pad2 m @ ''-'' @ pad2 dd @ ''T'' @ pad2 hh @ '':'' @ pad2 mm @ '':'' @ pad2 ss @ ''Z''"
    unfolding s_def
    by (simp add: formatRFC3339_in_def Let_def secs_def [symmetric] sod_def [symmetric] date clock_text_def
        zone_text_def hh_def mm_def ss_def)
  have seps: "length s = 20" "s ! 4 = CHR ''-''" "s ! 7 = CHR ''-''" "s ! 10 = CHR ''T''"
    "s ! 13 = CHR '':''" "s ! 16 = CHR '':''" "drop 19 s = ''Z''"
    by (simp_all add: s nth_append)
  have nums: "num_at s 0 4 = Some y" "num_at s 5 2 = Some m" "num_at s 8 2 = Some dd"
    "num_at s 11 2 = Some hh" "num_at s 14 2 = Some mm" "num_at s 17 2 = Some ss"
    using ymd hms by (simp_all add: s num_at_def digits_val_pad2 digits_val_pad4)
  have "parseRFC3339 s = Some ((secs div 86400 * 86400 + sod) * nsec)"
    using ymd hms seps nums days sum
    by (simp add: parseRFC3339_def parse_frac_def parse_zone_def add.assoc)
  also have "secs div 86400 * 86400 + sod = secs" by (simp add: sod_def)
  finally show ?thesis by (simp add: s_def secs_def)
qed

end
