(* ===== verification/Models.thy ===== *)
theory Models
  imports GoTime
begin

text \<open>
  The scheduler's data model, \<open>internal/models/models.go\<close>: one record per struct, with the
  struct's fields in order and a prefix that tells the structs apart. Pointers are
  options, slices are lists, maps are Go maps of the prelude. A \<open>float64\<close> is a rational:
  the values are read from JSON, which has no NaN or infinity, and rounding is not
  modelled. Integers that only travel through the scheduler are unbounded; the places
  where a width matters use words (see the theories on retries and on the agent).
\<close>

section \<open>Nodes\<close>

record hypervisor =
  hv_Type :: string
  hv_Status :: string
  hv_Version :: string

record container_engine =
  ce_Type :: string
  ce_Status :: string
  ce_Version :: string

record resources =
  r_CPUUsage :: rat
  r_MemoryUsage :: rat
  r_DiskUsage :: int

record docker_swarm =
  ds_Active :: bool
  ds_NodeID :: string
  ds_Role :: string
  ds_Status :: string
  ds_ManagerAddress :: string

record node =
  n_NodeID :: string
  n_IPAddress :: string
  n_Username :: string
  n_Hostname :: string
  n_OSName :: string
  n_KernelVersion :: string
  n_Status :: string
  n_Timestamp :: string
  n_Resources :: resources
  n_TotalCPU :: rat
  n_TotalMemory :: int
  n_AvailableCPU :: rat
  n_AvailableMemory :: int
  n_Hypervisor :: hypervisor
  n_ContainerEngine :: container_engine
  n_DockerSwarm :: docker_swarm
  n_LastHeartbeat :: time
  n_StatusReason :: string
  n_StatusUpdatedBy :: string
  n_StatusUpdatedAt :: time
  n_Labels :: "string gomap"
  n_AgentPort :: int
  n_AgentGRPCPort :: int
  n_AgentEndpoint :: string
  n_SupportedWorkloadTypes :: "string list"
  n_SupportedStorageDrivers :: "string list"
  n_DomainName :: string

section \<open>Workloads\<close>

text \<open>
  A value of \<open>map[string]interface{}\<close>, as far as the type switches of the code tell values
  apart; \<open>MOther\<close> is any other value with its \<open>%v\<close> text.
\<close>

datatype mval = MStr string | MInt int | MFloat rat | MBool bool | MTime time | MOther string

type_synonym metadata = "mval gomap"

record managed_volume_spec =
  mv_Name :: string
  mv_Driver :: string
  mv_SizeGB :: int
  mv_AccessMode :: string
  mv_FSType :: string
  mv_MountPath :: string
  mv_ReadOnly :: bool
  mv_RetainPolicy :: string

record vm_disk_config =
  vd_Path :: string
  vd_Device :: string
  vd_Format :: string
  vd_SizeGB :: int
  vd_Type :: string
  vd_Boot :: bool

record vm_network_config =
  vn_Network :: string
  vn_MAC :: string
  vn_IPAddress :: string

record cloud_init_config =
  ci_UserData :: string
  ci_MetaData :: string
  ci_NetworkConfig :: string
  ci_VendorData :: string

record vm_spec =
  vm_Name :: string
  vm_VCPUs :: int
  vm_MemoryMB :: int
  vm_Disks :: "vm_disk_config list"
  vm_Networks :: "vm_network_config list"
  vm_CloudInit :: string
  vm_Metadata :: "string gomap"
  vm_CloudInitConfig :: "cloud_init_config option"
  vm_ManagedVolumes :: "managed_volume_spec list"

record retry_state =
  rt_Attempts :: int
  rt_MaxAttempts :: int
  rt_NextRetryAt :: time

record workload_reason =
  wr_Code :: string
  wr_Message :: string
  wr_LastTransition :: time
  wr_NextRetryAt :: time
  wr_Retryable :: bool

record workload_usage =
  wu_WorkloadID :: string
  wu_Type :: string
  wu_CPUPercent :: rat
  wu_MemoryBytes :: int
  wu_DiskReadBytes :: int
  wu_DiskWriteBytes :: int
  wu_NetRXBytes :: int
  wu_NetTXBytes :: int
  wu_CollectedAt :: time
  wu_Source :: string

record workload_status_info =
  si_ActualState :: string
  si_LastUpdated :: time
  si_FailureReason :: string
  si_Reason :: "workload_reason option"

record workload =
  w_ID :: string
  w_Name :: string
  w_Type :: string
  w_RevisionID :: string
  w_AssignedNode :: string
  w_Image :: string
  w_Command :: string
  w_CommandList :: "string list"
  w_Compose :: string
  w_ComposeYAML :: string
  w_ProjectName :: string
  w_GitRepo :: string
  w_GitBranch :: string
  w_GitToken :: string
  w_EnvVars :: "string gomap"
  w_Resources :: resources
  w_NodeID :: string
  w_Status :: string
  w_DesiredState :: string
  w_Labels :: "string gomap"
  w_CreatedAt :: time
  w_LocalPath :: string
  w_Ports :: "string list"
  w_Volumes :: "string list"
  w_ManagedVolumes :: "managed_volume_spec list"
  w_Network :: string
  w_RestartPolicy :: string
  w_Logs :: string
  w_Metadata :: metadata
  w_Retry :: retry_state
  w_StatusInfo :: workload_status_info
  w_Usage :: "workload_usage option"
  w_VM :: "vm_spec option"

section \<open>Records kept by the control plane\<close>

record assignment_record =
  ar_WorkloadID :: string
  ar_NodeID :: string
  ar_Reason :: string
  ar_CreatedAt :: time

record reconciliation_record =
  rr_WorkloadID :: string
  rr_Action :: string
  rr_Success :: bool
  rr_Reason :: string
  rr_AttemptedAt :: time

record scheduler_event =
  ev_ID :: string
  ev_Type :: string
  ev_WorkloadID :: string
  ev_NodeID :: string
  ev_Reason :: string
  ev_Timestamp :: time
  ev_Details :: metadata

record drift_record =
  dr_NodeID :: string
  dr_WorkloadID :: string
  dr_DriftType :: string
  dr_DetectedAt :: time
  dr_SchedulerStatus :: string
  dr_AgentStatus :: string
  dr_Action :: string
  dr_Resolved :: bool
  dr_LastError :: string

record managed_volume_record =
  vr_ID :: string
  vr_Name :: string
  vr_Driver :: string
  vr_SizeGB :: int
  vr_AccessMode :: string
  vr_FSType :: string
  vr_RetainPolicy :: string
  vr_Phase :: string
  vr_LastError :: string
  vr_WorkloadRefs :: "string list"
  vr_AttachedNodes :: "string list"
  vr_CreatedAt :: time
  vr_UpdatedAt :: time

record volume_attachment_record =
  va_ID :: string
  va_VolumeID :: string
  va_WorkloadID :: string
  va_NodeID :: string
  va_Driver :: string
  va_MountPath :: string
  va_ReadOnly :: bool
  va_Phase :: string
  va_LastError :: string
  va_LastTransition :: time
  va_CreatedAt :: time
  va_UpdatedAt :: time

section \<open>Zero values\<close>

definition zero_resources :: resources where
  "zero_resources = \<lparr>r_CPUUsage = 0, r_MemoryUsage = 0, r_DiskUsage = 0\<rparr>"

definition zero_retry :: retry_state where
  "zero_retry = \<lparr>rt_Attempts = 0, rt_MaxAttempts = 0, rt_NextRetryAt = 0\<rparr>"

definition zero_status_info :: workload_status_info where
  "zero_status_info = \<lparr>si_ActualState = [], si_LastUpdated = 0, si_FailureReason = [], si_Reason = None\<rparr>"

definition zero_workload :: workload where
  "zero_workload = \<lparr>w_ID = [], w_Name = [], w_Type = [], w_RevisionID = [], w_AssignedNode = [],
     w_Image = [], w_Command = [], w_CommandList = [], w_Compose = [], w_ComposeYAML = [],
     w_ProjectName = [], w_GitRepo = [], w_GitBranch = [], w_GitToken = [], w_EnvVars = [],
     w_Resources = zero_resources, w_NodeID = [], w_Status = [], w_DesiredState = [],
     w_Labels = [], w_CreatedAt = 0, w_LocalPath = [], w_Ports = [], w_Volumes = [],
     w_ManagedVolumes = [], w_Network = [], w_RestartPolicy = [], w_Logs = [], w_Metadata = [],
     w_Retry = zero_retry, w_StatusInfo = zero_status_info, w_Usage = None, w_VM = None\<rparr>"

definition zero_node :: node where
  "zero_node = \<lparr>n_NodeID = [], n_IPAddress = [], n_Username = [], n_Hostname = [], n_OSName = [],
     n_KernelVersion = [], n_Status = [], n_Timestamp = [], n_Resources = zero_resources,
     n_TotalCPU = 0, n_TotalMemory = 0, n_AvailableCPU = 0, n_AvailableMemory = 0,
     n_Hypervisor = \<lparr>hv_Type = [], hv_Status = [], hv_Version = []\<rparr>,
     n_ContainerEngine = \<lparr>ce_Type = [], ce_Status = [], ce_Version = []\<rparr>,
     n_DockerSwarm = \<lparr>ds_Active = False, ds_NodeID = [], ds_Role = [], ds_Status = [], ds_ManagerAddress = []\<rparr>,
     n_LastHeartbeat = 0, n_StatusReason = [], n_StatusUpdatedBy = [], n_StatusUpdatedAt = 0,
     n_Labels = [], n_AgentPort = 0, n_AgentGRPCPort = 0, n_AgentEndpoint = [],
     n_SupportedWorkloadTypes = [], n_SupportedStorageDrivers = [], n_DomainName = []\<rparr>"

text \<open>\<open>fmt.Sprintf("%v", raw)\<close> of a metadata value.\<close>

definition fmt_float :: "rat \<Rightarrow> string" where
  "fmt_float r = (if of_int \<lfloor>r\<rfloor> = r then itoa \<lfloor>r\<rfloor>
     else rev (dropWhile (\<lambda>c. c = CHR ''0'') (rev (fmt_fixed 9 r))))"

fun fmt_v :: "mval \<Rightarrow> string" where
  "fmt_v (MStr s) = s"
| "fmt_v (MInt i) = itoa i"
| "fmt_v (MFloat r) = fmt_float r"
| "fmt_v (MBool b) = fmt_bool b"
| "fmt_v (MTime t) = formatLogTime 0 t @ '' +0000 UTC''"
| "fmt_v (MOther s) = s"

end
