(* ===== verification/Wire.thy ===== *)
theory Wire
  imports Models
begin

text \<open>
  What the scheduler sends and stores: the projections of a workload into a spec and a
  status document (\<open>workload_projection.go\<close>), the JSON documents kept in etcd and Redis,
  and the messages of the agent protocol (\<open>internal/agentpb\<close>, generated from
  \<open>api/proto/agent.proto\<close>).

  A stored value is the JSON text of one of the structs, so the model keeps the struct
  itself under a constructor per struct; \<open>PText\<close> is any text that is not such a document.
  Encoding and decoding the same struct type is the identity except for
  \<open>map[string]interface{}\<close> values, whose integers come back as \<open>float64\<close> and whose times
  come back as text; decoding text that is not a document of the expected struct fails.
\<close>

section \<open>Workload projections\<close>

record workload_spec =
  ws_ID :: string
  ws_Name :: string
  ws_Type :: string
  ws_RevisionID :: string
  ws_Image :: string
  ws_Command :: string
  ws_CommandList :: "string list"
  ws_Compose :: string
  ws_ComposeYAML :: string
  ws_ProjectName :: string
  ws_GitRepo :: string
  ws_GitBranch :: string
  ws_GitToken :: string
  ws_EnvVars :: "string gomap"
  ws_Resources :: resources
  ws_DesiredState :: string
  ws_Labels :: "string gomap"
  ws_CreatedAt :: time
  ws_LocalPath :: string
  ws_Ports :: "string list"
  ws_Volumes :: "string list"
  ws_Network :: string
  ws_RestartPolicy :: string
  ws_VM :: "vm_spec option"

record workload_status =
  wt_ID :: string
  wt_AssignedNode :: string
  wt_NodeID :: string
  wt_Status :: string
  wt_Logs :: string
  wt_Metadata :: metadata
  wt_Retry :: retry_state
  wt_StatusInfo :: workload_status_info

definition workloadSpecFromWorkload :: "workload \<Rightarrow> workload_spec" where
  "workloadSpecFromWorkload w = \<lparr>
     ws_ID = w_ID w, ws_Name = w_Name w, ws_Type = w_Type w, ws_RevisionID = w_RevisionID w,
     ws_Image = w_Image w, ws_Command = w_Command w, ws_CommandList = w_CommandList w,
     ws_Compose = w_Compose w, ws_ComposeYAML = w_ComposeYAML w, ws_ProjectName = w_ProjectName w,
     ws_GitRepo = w_GitRepo w, ws_GitBranch = w_GitBranch w, ws_GitToken = w_GitToken w,
     ws_EnvVars = w_EnvVars w, ws_Resources = w_Resources w, ws_DesiredState = w_DesiredState w,
     ws_Labels = w_Labels w, ws_CreatedAt = w_CreatedAt w, ws_LocalPath = w_LocalPath w,
     ws_Ports = w_Ports w, ws_Volumes = w_Volumes w, ws_Network = w_Network w,
     ws_RestartPolicy = w_RestartPolicy w, ws_VM = w_VM w\<rparr>"

definition workloadStatusFromWorkload :: "workload \<Rightarrow> workload_status" where
  "workloadStatusFromWorkload w = \<lparr>
     wt_ID = w_ID w, wt_AssignedNode = w_AssignedNode w, wt_NodeID = w_NodeID w,
     wt_Status = w_Status w, wt_Logs = w_Logs w, wt_Metadata = w_Metadata w,
     wt_Retry = w_Retry w, wt_StatusInfo = w_StatusInfo w\<rparr>"

text \<open>The workload that \<open>GetWorkloads\<close> and \<open>GetWorkloadByID\<close> rebuild from a spec document.\<close>

definition workloadFromSpec :: "workload_spec \<Rightarrow> workload" where
  "workloadFromSpec p = zero_workload\<lparr>
     w_ID := ws_ID p, w_Name := ws_Name p, w_Type := ws_Type p, w_RevisionID := ws_RevisionID p,
     w_Image := ws_Image p, w_Command := ws_Command p, w_CommandList := ws_CommandList p,
     w_Compose := ws_Compose p, w_ComposeYAML := ws_ComposeYAML p, w_ProjectName := ws_ProjectName p,
     w_GitRepo := ws_GitRepo p, w_GitBranch := ws_GitBranch p, w_GitToken := ws_GitToken p,
     w_EnvVars := ws_EnvVars p, w_Resources := ws_Resources p, w_DesiredState := ws_DesiredState p,
     w_Labels := ws_Labels p, w_LocalPath := ws_LocalPath p, w_Ports := ws_Ports p,
     w_Volumes := ws_Volumes p, w_Network := ws_Network p, w_RestartPolicy := ws_RestartPolicy p,
     w_VM := ws_VM p\<rparr>"

text \<open>The status fields that both readers copy over it.\<close>

definition withStatus :: "workload_status \<Rightarrow> workload \<Rightarrow> workload" where
  "withStatus st w = w\<lparr>
     w_AssignedNode := wt_AssignedNode st, w_NodeID := wt_NodeID st, w_Status := wt_Status st,
     w_Logs := wt_Logs st, w_Metadata := wt_Metadata st, w_Retry := wt_Retry st,
     w_StatusInfo := wt_StatusInfo st\<rparr>"

section \<open>JSON documents\<close>

fun json_mval :: "mval \<Rightarrow> mval" where
  "json_mval (MInt i) = MFloat (of_int i)"
| "json_mval (MTime t) = MStr (formatRFC3339Nano t)"
| "json_mval v = v"

definition json_meta :: "metadata \<Rightarrow> metadata" where
  "json_meta m = map (\<lambda>(k, v). (k, json_mval v)) m"

datatype payload =
    PNode node
  | PSpec workload_spec
  | PStatus workload_status
  | PWorkload workload
  | PRetry retry_state
  | PAssignment assignment_record
  | PReconciliation reconciliation_record
  | PEvent scheduler_event
  | PDrift drift_record
  | PVolume managed_volume_record
  | PAttachment volume_attachment_record
  | PMeta metadata
  | PDnsA string int
  | PDnsSrv string int int
  | PText string

definition marshalStatus :: "workload_status \<Rightarrow> payload" where
  "marshalStatus st = PStatus (st\<lparr>wt_Metadata := json_meta (wt_Metadata st)\<rparr>)"

definition marshalEvent :: "scheduler_event \<Rightarrow> payload" where
  "marshalEvent e = PEvent (e\<lparr>ev_Details := json_meta (ev_Details e)\<rparr>)"

definition unmarshal_error :: goerr where
  "unmarshal_error = errorf ''invalid character looking for beginning of value''"

fun unmarshalNode :: "payload \<Rightarrow> node result" where
  "unmarshalNode (PNode n) = Inr n"
| "unmarshalNode _ = Inl unmarshal_error"

fun unmarshalSpec :: "payload \<Rightarrow> workload_spec result" where
  "unmarshalSpec (PSpec p) = Inr p"
| "unmarshalSpec _ = Inl unmarshal_error"

fun unmarshalStatus :: "payload \<Rightarrow> workload_status result" where
  "unmarshalStatus (PStatus p) = Inr p"
| "unmarshalStatus _ = Inl unmarshal_error"

fun unmarshalWorkload :: "payload \<Rightarrow> workload result" where
  "unmarshalWorkload (PWorkload w) = Inr w"
| "unmarshalWorkload _ = Inl unmarshal_error"

fun unmarshalVolume :: "payload \<Rightarrow> managed_volume_record result" where
  "unmarshalVolume (PVolume v) = Inr v"
| "unmarshalVolume _ = Inl unmarshal_error"

fun unmarshalAttachment :: "payload \<Rightarrow> volume_attachment_record result" where
  "unmarshalAttachment (PAttachment a) = Inr a"
| "unmarshalAttachment _ = Inl unmarshal_error"

fun unmarshalEvent :: "payload \<Rightarrow> scheduler_event result" where
  "unmarshalEvent (PEvent e) = Inr e"
| "unmarshalEvent _ = Inl unmarshal_error"

lemma json_mval_idem [simp]: "json_mval (json_mval v) = json_mval v"
  by (cases v) simp_all

lemma json_meta_idem [simp]: "json_meta (json_meta m) = json_meta m"
  by (auto simp: json_meta_def)

lemma json_meta_Nil [simp]: "json_meta [] = []"
  by (simp add: json_meta_def)

lemma mget_json_meta [map_simps]: "mget (json_meta m) k = map_option json_mval (mget m k)"
  unfolding json_meta_def by (rule mget_map_values)

text \<open>
  What a save and a load keep of a workload: everything but the creation time, the
  managed volumes of the workload itself and the usage snapshot, with the metadata as
  JSON returns it.
\<close>

definition stored_view :: "workload \<Rightarrow> workload" where
  "stored_view w = w\<lparr>w_CreatedAt := 0, w_ManagedVolumes := [], w_Usage := None,
     w_Metadata := json_meta (w_Metadata w)\<rparr>"

lemma load_of_projections:
  "withStatus ((workloadStatusFromWorkload w)\<lparr>wt_Metadata := json_meta (w_Metadata w)\<rparr>)
     (workloadFromSpec (workloadSpecFromWorkload w)) = stored_view w"
  by (simp add: withStatus_def workloadStatusFromWorkload_def workloadFromSpec_def
      workloadSpecFromWorkload_def stored_view_def zero_workload_def)

section \<open>Agent protocol\<close>

datatype WorkloadType = WT_UNSPECIFIED | WT_CONTAINER | WT_COMPOSE | WT_VM

datatype DesiredState = DS_UNSPECIFIED | DS_RUNNING | DS_STOPPED

datatype ActualState = AS_UNSPECIFIED | AS_PENDING | AS_RUNNING | AS_STOPPED | AS_FAILED | AS_UNKNOWN

record volume_mount =
  vmt_HostPath :: string
  vmt_ContainerPath :: string
  vmt_ReadOnly :: bool

text \<open>Ports are \<open>int32\<close> on the wire; they are kept as the signed value of 32 bits.\<close>

record port_mapping =
  pm_HostPort :: int
  pm_ContainerPort :: int
  pm_Protocol :: string

record resource_limits =
  rl_CpuShares :: int
  rl_MemoryBytes :: int

record container_spec =
  cs_Image :: string
  cs_Command :: "string list"
  cs_Env :: "string gomap"
  cs_Volumes :: "volume_mount list"
  cs_Ports :: "port_mapping list"
  cs_Resources :: "resource_limits option"
  cs_RestartPolicy :: string
  cs_Labels :: "string gomap"
  cs_ManagedVolumes :: "managed_volume_spec list"

record compose_spec =
  cp_ProjectName :: string
  cp_ComposeYaml :: string
  cp_Env :: "string gomap"

record agent_vm_spec =
  av_Name :: string
  av_Vcpus :: int
  av_MemoryMb :: int
  av_Disks :: "vm_disk_config list"
  av_Networks :: "vm_network_config list"
  av_CloudInit :: string
  av_Metadata :: "string gomap"
  av_CloudInitConfig :: "cloud_init_config option"
  av_ManagedVolumes :: "managed_volume_spec list"

datatype agent_spec = ContainerSpec container_spec | ComposeSpec compose_spec | VMSpec agent_vm_spec

record apply_request =
  aq_Id :: string
  aq_Type :: WorkloadType
  aq_RevisionId :: string
  aq_DesiredState :: DesiredState
  aq_Spec :: agent_spec

record agent_status =
  as_Id :: string
  as_RevisionId :: string
  as_ActualState :: ActualState
  as_Message :: string
  as_Metadata :: "string gomap"

record apply_response =
  ap_Applied :: bool
  ap_Skipped :: bool
  ap_Message :: string
  ap_Status :: "agent_status option"

record agent_action =
  aa_TaskId :: string
  aa_WorkloadId :: string
  aa_ActionType :: string
  aa_Status :: string
  aa_Error :: string

end
