(* ===== verification/Env.thy ===== *)
theory Env
  imports Wire
begin

text \<open>
  Everything outside the scheduler process: the etcd cluster, the Redis server, the node
  agents behind gRPC, the clock, the random identifiers, the certificate files, the network
  interfaces and the digest of a revision.
  None of it is code of this repository, so it is a parameter: a record of the calls the
  scheduler makes, over an arbitrary type \<open>'w\<close> of worlds. Each call takes the world to a
  result and a new world, so a call may fail, time out after taking effect, or answer
  differently the next time.

  The locale \<open>etcd_client\<close> states what etcd documents: linearizable reads and writes of
  single keys and ranges. A failed write may or may not have taken effect. The last
  section is a small in-memory world that satisfies the laws; the witnesses run on it.
\<close>

section \<open>The calls\<close>

record 'w env =
  etcdPut :: "string \<Rightarrow> payload \<Rightarrow> 'w \<Rightarrow> goerr option \<times> 'w"
  etcdGet :: "string \<Rightarrow> 'w \<Rightarrow> payload option result \<times> 'w"
  etcdGetPrefix :: "string \<Rightarrow> 'w \<Rightarrow> (string \<times> payload) list result \<times> 'w"
  etcdDelete :: "string \<Rightarrow> 'w \<Rightarrow> goerr option \<times> 'w"
  agentDial :: "string \<Rightarrow> 'w \<Rightarrow> goerr option \<times> 'w"
  agentApply :: "string \<Rightarrow> apply_request \<Rightarrow> 'w \<Rightarrow> apply_response result \<times> 'w"
  agentStatus :: "string \<Rightarrow> string \<Rightarrow> 'w \<Rightarrow> agent_status option result \<times> 'w"
  agentList :: "string \<Rightarrow> 'w \<Rightarrow> agent_status list result \<times> 'w"
  agentActions :: "string \<Rightarrow> string \<Rightarrow> int \<Rightarrow> 'w \<Rightarrow> agent_action list result \<times> 'w"
  agentDelete :: "string \<Rightarrow> string \<Rightarrow> 'w \<Rightarrow> goerr option \<times> 'w"
  redisSet :: "string \<Rightarrow> payload \<Rightarrow> duration \<Rightarrow> 'w \<Rightarrow> goerr option \<times> 'w"
  redisPushTrim :: "string \<Rightarrow> payload \<Rightarrow> int \<Rightarrow> duration \<Rightarrow> 'w \<Rightarrow> goerr option \<times> 'w"
  timeNow :: "'w \<Rightarrow> time \<times> 'w"
  sleepFor :: "duration \<Rightarrow> 'w \<Rightarrow> 'w"
  newUUID :: "'w \<Rightarrow> string \<times> 'w"
  loadTLSFiles :: "string \<Rightarrow> string \<Rightarrow> string \<Rightarrow> 'w \<Rightarrow> goerr option \<times> 'w"
  hostIPv4 :: "'w \<Rightarrow> string result \<times> 'w"
  revHash :: "workload \<Rightarrow> string"
  localOffset :: int

section \<open>What etcd promises\<close>

text \<open>
  \<open>view w\<close> is the content of the store. Calls to the agents, to Redis and to the clock do
  not touch it.
\<close>

locale etcd_client =
  fixes E :: "'w env"
    and view :: "'w \<Rightarrow> string \<Rightarrow> payload option"
  assumes put_ok: "etcdPut E k v w = (None, w') \<Longrightarrow> view w' = (view w)(k \<mapsto> v)"
    and put_err: "etcdPut E k v w = (Some e, w') \<Longrightarrow> view w' = view w \<or> view w' = (view w)(k \<mapsto> v)"
    and del_ok: "etcdDelete E k w = (None, w') \<Longrightarrow> view w' = (view w)(k := None)"
    and del_err: "etcdDelete E k w = (Some e, w') \<Longrightarrow> view w' = view w \<or> view w' = (view w)(k := None)"
    and get_ok: "etcdGet E k w = (Inr x, w') \<Longrightarrow> x = view w k"
    and prefix_ok: "etcdGetPrefix E p w = (Inr kvs, w') \<Longrightarrow>
      distinct (map fst kvs) \<and> (\<forall>k v. (k, v) \<in> set kvs \<longleftrightarrow> HasPrefix k p \<and> view w k = Some v)"
    and view_get [simp]: "view (snd (etcdGet E k w)) = view w"
    and view_prefix [simp]: "view (snd (etcdGetPrefix E p w)) = view w"
    and view_dial [simp]: "view (snd (agentDial E a w)) = view w"
    and view_apply [simp]: "view (snd (agentApply E a q w)) = view w"
    and view_status [simp]: "view (snd (agentStatus E a i w)) = view w"
    and view_list [simp]: "view (snd (agentList E a w)) = view w"
    and view_actions [simp]: "view (snd (agentActions E a i n w)) = view w"
    and view_delete [simp]: "view (snd (agentDelete E a i w)) = view w"
    and view_redis_set [simp]: "view (snd (redisSet E k v d w)) = view w"
    and view_redis_push [simp]: "view (snd (redisPushTrim E k v n d w)) = view w"
    and view_now [simp]: "view (snd (timeNow E w)) = view w"
    and view_sleep [simp]: "view (sleepFor E d w) = view w"
    and view_uuid [simp]: "view (snd (newUUID E w)) = view w"
    and view_tls [simp]: "view (snd (loadTLSFiles E ca cert key w)) = view w"
    and view_host [simp]: "view (snd (hostIPv4 E w)) = view w"
begin

text \<open>A write touches its own key only, whether it succeeds or not.\<close>

lemma put_other: "k' \<noteq> k \<Longrightarrow> view (snd (etcdPut E k v w)) k' = view w k'"
proof -
  assume ne: "k' \<noteq> k"
  obtain r w' where rw: "etcdPut E k v w = (r, w')" by (cases "etcdPut E k v w")
  show ?thesis
  proof (cases r)
    case None
    with put_ok rw ne show ?thesis by fastforce
  next
    case (Some e)
    with put_err [of k v w e w'] rw ne show ?thesis by auto
  qed
qed

lemma del_other: "k' \<noteq> k \<Longrightarrow> view (snd (etcdDelete E k w)) k' = view w k'"
proof -
  assume ne: "k' \<noteq> k"
  obtain r w' where rw: "etcdDelete E k w = (r, w')" by (cases "etcdDelete E k w")
  show ?thesis
  proof (cases r)
    case None
    with del_ok rw ne show ?thesis by fastforce
  next
    case (Some e)
    with del_err [of k w e w'] rw ne show ?thesis by auto
  qed
qed

end

text \<open>
  The clock: \<open>timeNow\<close> reads it, it never goes back, a sleep advances it by at least its
  argument.
\<close>

locale wall_clock =
  fixes E :: "'w env"
    and clk :: "'w \<Rightarrow> time"
  assumes now_reads: "timeNow E w = (t, w') \<Longrightarrow> t = clk w' \<and> clk w \<le> clk w'"
    and sleep_advances: "0 \<le> d \<Longrightarrow> clk w + d \<le> clk (sleepFor E d w)"
    and clk_dial: "clk w \<le> clk (snd (agentDial E a w))"
    and clk_status: "clk w \<le> clk (snd (agentStatus E a i w))"
    and clk_tls: "clk w \<le> clk (snd (loadTLSFiles E ca cert key w))"
    and clk_put: "clk w \<le> clk (snd (etcdPut E k v w))"
    and clk_get: "clk w \<le> clk (snd (etcdGet E k w))"
    and clk_prefix: "clk w \<le> clk (snd (etcdGetPrefix E p w))"

section \<open>An in-memory world\<close>

text \<open>
  A store, a clock, a number of etcd calls that are still going to fail, and for every
  agent address the workloads it runs; an address that is not listed refuses connections.
\<close>

record mem =
  m_store :: "payload gomap"
  m_clock :: time
  m_etcd_down :: nat
  m_agents :: "agent_status gomap gomap"
  m_uuid :: nat
  m_redis :: "payload gomap"

definition mem_init :: mem where
  "mem_init = \<lparr>m_store = [], m_clock = 63000000000 * nsec, m_etcd_down = 0, m_agents = [],
     m_uuid = 0, m_redis = []\<rparr>"

definition down_err :: goerr where
  "down_err = errorf ''etcdserver: request timed out''"

definition refused :: goerr where
  "refused = GoErr ''connection error: desc = connection refused'' (Some ''Unavailable'')"

definition not_found :: goerr where
  "not_found = GoErr ''rpc error: code = NotFound desc = workload not found'' (Some ''NotFound'')"

definition mem_fail :: "mem \<Rightarrow> mem" where
  "mem_fail w = w\<lparr>m_etcd_down := m_etcd_down w - 1\<rparr>"

definition mem_put :: "string \<Rightarrow> payload \<Rightarrow> mem \<Rightarrow> goerr option \<times> mem" where
  "mem_put k v w = (if m_etcd_down w > 0 then (Some down_err, mem_fail w)
     else (None, w\<lparr>m_store := mput k v (m_store w)\<rparr>))"

definition mem_get :: "string \<Rightarrow> mem \<Rightarrow> payload option result \<times> mem" where
  "mem_get k w = (if m_etcd_down w > 0 then (Inl down_err, mem_fail w)
     else (Inr (mget (m_store w) k), w))"

definition mem_get_prefix :: "string \<Rightarrow> mem \<Rightarrow> (string \<times> payload) list result \<times> mem" where
  "mem_get_prefix p w = (if m_etcd_down w > 0 then (Inl down_err, mem_fail w)
     else (Inr (filter (\<lambda>(k, v). HasPrefix k p) (AList.clearjunk (m_store w))), w))"

definition mem_delete :: "string \<Rightarrow> mem \<Rightarrow> goerr option \<times> mem" where
  "mem_delete k w = (if m_etcd_down w > 0 then (Some down_err, mem_fail w)
     else (None, w\<lparr>m_store := mdel k (m_store w)\<rparr>))"

definition mem_dial :: "string \<Rightarrow> mem \<Rightarrow> goerr option \<times> mem" where
  "mem_dial a w = (case mget (m_agents w) a of None \<Rightarrow> (Some refused, w) | Some _ \<Rightarrow> (None, w))"

definition mem_apply :: "string \<Rightarrow> apply_request \<Rightarrow> mem \<Rightarrow> apply_response result \<times> mem" where
  "mem_apply a q w = (case mget (m_agents w) a of
     None \<Rightarrow> (Inl refused, w)
   | Some ws \<Rightarrow>
       (let st = \<lparr>as_Id = aq_Id q, as_RevisionId = aq_RevisionId q,
                  as_ActualState = (if aq_DesiredState q = DS_STOPPED then AS_STOPPED else AS_RUNNING),
                  as_Message = [], as_Metadata = []\<rparr>
        in (Inr \<lparr>ap_Applied = True, ap_Skipped = False, ap_Message = [], ap_Status = Some st\<rparr>,
            w\<lparr>m_agents := mput a (mput (aq_Id q) st ws) (m_agents w)\<rparr>)))"

definition mem_status :: "string \<Rightarrow> string \<Rightarrow> mem \<Rightarrow> agent_status option result \<times> mem" where
  "mem_status a i w = (case mget (m_agents w) a of
     None \<Rightarrow> (Inl refused, w)
   | Some ws \<Rightarrow> (case mget ws i of None \<Rightarrow> (Inl not_found, w) | Some st \<Rightarrow> (Inr (Some st), w)))"

definition mem_list :: "string \<Rightarrow> mem \<Rightarrow> agent_status list result \<times> mem" where
  "mem_list a w = (case mget (m_agents w) a of
     None \<Rightarrow> (Inl refused, w) | Some ws \<Rightarrow> (Inr (map snd ws), w))"

definition mem_actions :: "string \<Rightarrow> string \<Rightarrow> int \<Rightarrow> mem \<Rightarrow> agent_action list result \<times> mem" where
  "mem_actions a i n w = (Inr [], w)"

definition mem_agent_delete :: "string \<Rightarrow> string \<Rightarrow> mem \<Rightarrow> goerr option \<times> mem" where
  "mem_agent_delete a i w = (case mget (m_agents w) a of
     None \<Rightarrow> (Some refused, w)
   | Some ws \<Rightarrow> (None, w\<lparr>m_agents := mput a (mdel i ws) (m_agents w)\<rparr>))"

definition mem_redis_set :: "string \<Rightarrow> payload \<Rightarrow> duration \<Rightarrow> mem \<Rightarrow> goerr option \<times> mem" where
  "mem_redis_set k v d w = (None, w\<lparr>m_redis := mput k v (m_redis w)\<rparr>)"

definition mem_redis_push :: "string \<Rightarrow> payload \<Rightarrow> int \<Rightarrow> duration \<Rightarrow> mem \<Rightarrow> goerr option \<times> mem" where
  "mem_redis_push k v n d w = (None, w\<lparr>m_redis := mput k v (m_redis w)\<rparr>)"

definition mem_sleep :: "duration \<Rightarrow> mem \<Rightarrow> mem" where
  "mem_sleep d w = w\<lparr>m_clock := m_clock w + max 0 d\<rparr>"

definition mem_uuid :: "mem \<Rightarrow> string \<times> mem" where
  "mem_uuid w = (''uuid-'' @ nat_text (m_uuid w), w\<lparr>m_uuid := Suc (m_uuid w)\<rparr>)"

definition memEnv :: "mem env" where
  "memEnv = \<lparr>etcdPut = mem_put, etcdGet = mem_get, etcdGetPrefix = mem_get_prefix,
     etcdDelete = mem_delete, agentDial = mem_dial, agentApply = mem_apply,
     agentStatus = mem_status, agentList = mem_list, agentActions = mem_actions,
     agentDelete = mem_agent_delete, redisSet = mem_redis_set, redisPushTrim = mem_redis_push,
     timeNow = (\<lambda>w. (m_clock w, w)), sleepFor = mem_sleep, newUUID = mem_uuid,
     loadTLSFiles = (\<lambda>_ _ _ w. (None, w)), hostIPv4 = (\<lambda>w. (Inr ''10.0.0.1'', w)),
     revHash = (\<lambda>w. ''rev-'' @ w_Name w), localOffset = 0\<rparr>"

definition mem_view :: "mem \<Rightarrow> string \<Rightarrow> payload option" where
  "mem_view w = mget (m_store w)"

lemmas mem_defs = memEnv_def mem_put_def mem_get_def mem_get_prefix_def mem_delete_def mem_dial_def
  mem_apply_def mem_status_def mem_list_def mem_actions_def mem_agent_delete_def
  mem_redis_set_def mem_redis_push_def mem_sleep_def mem_uuid_def mem_fail_def

lemma mget_filter_prefix:
  "(k, v) \<in> set (filter (\<lambda>(k, v). HasPrefix k p) (AList.clearjunk m)) \<longleftrightarrow>
   HasPrefix k p \<and> mget m k = Some v"
proof -
  have "(k, v) \<in> set (AList.clearjunk m) \<longleftrightarrow> map_of (AList.clearjunk m) k = Some v"
    using distinct_clearjunk [of m] by (simp add: map_of_eq_Some_iff)
  then show ?thesis by (auto simp: mget_def map_of_clearjunk)
qed

interpretation memetcd: etcd_client memEnv mem_view
proof unfold_locales
  show "etcdGetPrefix memEnv p w = (Inr kvs, w') \<Longrightarrow>
    distinct (map fst kvs) \<and> (\<forall>k v. (k, v) \<in> set kvs \<longleftrightarrow> HasPrefix k p \<and> mem_view w k = Some v)"
    for p w kvs w'
    using mget_filter_prefix [of _ _ p "m_store w"]
    by (auto simp: mem_defs mem_view_def distinct_map_filter distinct_clearjunk simp del: set_filter
        split: if_splits)
qed (auto simp: mem_defs mem_view_def fun_eq_iff map_simps Let_def split: if_splits option.splits)

interpretation memclock: wall_clock memEnv m_clock
  by unfold_locales (auto simp: mem_defs split: option.splits)

end
