(* ===== verification/Config.thy ===== *)
theory Config
  imports Models
begin

text \<open>
  The scheduler's configuration, \<open>persys-scheduler/internal/config/config.go\<close>: the struct,
  the readers of environment variables, \<open>Load\<close> and \<open>Validate\<close>. The process environment
  is a function from variable names to values, the empty string when unset.
\<close>

record config =
  c_Insecure :: bool
  c_GRPCAddr :: string
  c_GRPCPort :: int
  c_MetricsPort :: int
  c_ExternalIP :: string
  c_EtcdEndpoints :: "string list"
  c_Domain :: string
  c_AgentsDiscoveryDomain :: string
  c_SchedulerShardKey :: string
  c_SchedulerAdvertiseIP :: string
  c_SchedulerAdvertisePort :: int
  c_RedisAddr :: string
  c_RedisPassword :: string
  c_RedisDB :: int
  c_RedisReconcileTTL :: duration
  c_RedisEventTTL :: duration
  c_RedisEventMaxEntries :: int
  c_TLSEnabled :: bool
  c_TLSCAPath :: string
  c_TLSCertPath :: string
  c_TLSKeyPath :: string
  c_VaultEnabled :: bool
  c_VaultAddr :: string
  c_VaultAuthMethod :: string
  c_VaultToken :: string
  c_VaultAppRoleID :: string
  c_VaultAppSecretID :: string
  c_VaultPKIMount :: string
  c_VaultPKIRole :: string
  c_VaultCertTTL :: duration
  c_VaultServiceName :: string
  c_VaultServiceDomain :: string
  c_VaultRetryInterval :: duration
  c_SchedulerAgentTLSEnabled :: bool
  c_SchedulerAgentStatusPollInterval :: duration
  c_SchedulerAgentApplyTimeout :: duration
  c_SchedulerAgentVMApplyTimeout :: duration
  c_SchedulerAgentDeleteTimeout :: duration
  c_SchedulerAgentRPCTimeout :: duration
  c_SchedulerReconcileInterval :: duration
  c_SchedulerDriftDetectInterval :: duration
  c_SchedulerNodeUnavailableGrace :: duration
  c_SchedulerReapplyGuard :: duration
  c_SchedulerMissingGracePeriod :: duration
  c_LogLevel :: string
  c_LogFormat :: string
  c_OTLPEndpoint :: string
  c_JaegerEndpoint :: string
  c_OTLPInsecure :: bool

section \<open>Reading the environment\<close>

type_synonym environ = "string \<Rightarrow> string"

definition envOr :: "environ \<Rightarrow> string \<Rightarrow> string \<Rightarrow> string" where
  "envOr env key fallback = (let v = TrimSpace (env key) in if v \<noteq> [] then v else fallback)"

definition envBoolOr :: "environ \<Rightarrow> string \<Rightarrow> bool \<Rightarrow> bool" where
  "envBoolOr env key fallback =
     (let v = TrimSpace (env key) in if v = [] then fallback else EqualFold v ''true'')"

definition envIntOr :: "environ \<Rightarrow> string \<Rightarrow> int \<Rightarrow> int" where
  "envIntOr env key fallback =
     (let v = TrimSpace (env key)
      in if v = [] then fallback
         else case Atoi v of None \<Rightarrow> fallback | Some n \<Rightarrow> n)"

text \<open>
  \<open>time.ParseDuration\<close>: a sign, then numbers with an optional fraction and a unit, at
  least one; the lone text \<open>0\<close> is the only number without a unit. Overflow of the 64-bit
  result is an error. Fractions are exact here, truncated to whole nanoseconds per item.
\<close>

definition duration_unit :: "string \<Rightarrow> int option" where
  "duration_unit u = map_of [(''ns'', 1), (''us'', 1000), (''ms'', 1000000), (''s'', nsec),
     (''m'', 60 * nsec), (''h'', 3600 * nsec)] u"

definition is_digit :: "char \<Rightarrow> bool" where
  "is_digit c = (digit_val c \<noteq> None)"

definition num_of :: "string \<Rightarrow> nat" where
  "num_of ds = (case digits_val 0 ds of Some n \<Rightarrow> n | None \<Rightarrow> 0)"

fun duration_items :: "nat \<Rightarrow> string \<Rightarrow> int \<Rightarrow> int option" where
  "duration_items 0 s acc = None"
| "duration_items (Suc fuel) s acc =
     (if s = [] then Some acc
      else
        let whole = takeWhile is_digit s; r1 = dropWhile is_digit s;
            dot = (r1 \<noteq> [] \<and> hd r1 = CHR ''.'');
            frac = (if dot then takeWhile is_digit (tl r1) else []);
            r2 = (if dot then dropWhile is_digit (tl r1) else r1);
            u = takeWhile (\<lambda>c. c \<noteq> CHR ''.'' \<and> \<not> is_digit c) r2;
            r3 = dropWhile (\<lambda>c. c \<noteq> CHR ''.'' \<and> \<not> is_digit c) r2
        in if whole = [] \<and> frac = [] then None
           else case duration_unit u of
             None \<Rightarrow> None
           | Some k \<Rightarrow>
               (let v = int (num_of whole) * k + (int (num_of frac) * k) div 10 ^ length frac;
                    acc' = acc + v
                in if acc' \<le> 2 ^ 63 then duration_items fuel r3 acc' else None))"

definition ParseDuration :: "string \<Rightarrow> duration option" where
  "ParseDuration s =
     (let neg = (s \<noteq> [] \<and> hd s = CHR ''-'');
          body = (if s \<noteq> [] \<and> (hd s = CHR ''-'' \<or> hd s = CHR ''+'') then tl s else s)
      in if body = ''0'' then Some 0
         else if body = [] then None
         else case duration_items (Suc (length body)) body 0 of
           None \<Rightarrow> None
         | Some d \<Rightarrow> if neg then Some (- d) else if d < 2 ^ 63 then Some d else None)"

definition envDurationOr :: "environ \<Rightarrow> string \<Rightarrow> duration \<Rightarrow> duration" where
  "envDurationOr env key fallback =
     (let v = TrimSpace (env key)
      in if v = [] then fallback
         else case ParseDuration v of None \<Rightarrow> fallback | Some d \<Rightarrow> d)"

text \<open>A bare number is a number of seconds; the product is a 64-bit \<open>Duration\<close>.\<close>

definition wrap64 :: "int \<Rightarrow> int" where
  "wrap64 i = (i + 2 ^ 63) mod 2 ^ 64 - 2 ^ 63"

definition envDurationOrFlexibleSeconds :: "environ \<Rightarrow> string \<Rightarrow> duration \<Rightarrow> duration" where
  "envDurationOrFlexibleSeconds env key fallback =
     (let v = TrimSpace (env key)
      in if v = [] then fallback
         else case ParseDuration v of
           Some d \<Rightarrow> d
         | None \<Rightarrow> (case Atoi v of Some n \<Rightarrow> wrap64 (n * Second) | None \<Rightarrow> fallback))"

definition splitCSV :: "string \<Rightarrow> string list" where
  "splitCSV v = filter (\<lambda>p. p \<noteq> []) (map TrimSpace (Split CHR '','' v))"

section \<open>Validation and loading\<close>

definition Validate :: "config \<Rightarrow> goerr option" where
  "Validate c =
     (if c_GRPCPort c < 1 \<or> c_GRPCPort c > 65535
      then Some (errorf (''invalid GRPC_PORT: '' @ itoa (c_GRPCPort c)))
      else if c_MetricsPort c < 1 \<or> c_MetricsPort c > 65535
      then Some (errorf (''invalid METRICS_PORT: '' @ itoa (c_MetricsPort c)))
      else if c_SchedulerAdvertisePort c < 1 \<or> c_SchedulerAdvertisePort c > 65535
      then Some (errorf (''invalid SCHEDULER_ADVERTISE_PORT: '' @ itoa (c_SchedulerAdvertisePort c)))
      else if c_EtcdEndpoints c = []
      then Some (errorf ''at least one ETCD endpoint is required'')
      else if list_ex (\<lambda>ep. TrimSpace ep = []) (c_EtcdEndpoints c)
      then Some (errorf ''ETCD endpoints contain empty value'')
      else if c_TLSEnabled c \<and> (c_TLSCertPath c = [] \<or> c_TLSKeyPath c = [] \<or> c_TLSCAPath c = [])
      then Some (errorf ''TLS enabled but cert/key/ca paths are missing'')
      else if c_VaultEnabled c \<and> c_TLSEnabled c then
        (if c_VaultAuthMethod c = ''token'' then
           (if TrimSpace (c_VaultToken c) = []
            then Some (errorf ''vault token auth selected but PERSYS_VAULT_TOKEN is empty'') else None)
         else if c_VaultAuthMethod c = ''approle'' then
           (if TrimSpace (c_VaultAppRoleID c) = [] \<or> TrimSpace (c_VaultAppSecretID c) = []
            then Some (errorf ''vault approle auth selected but role_id/secret_id is missing'') else None)
         else Some (errorf (''unsupported PERSYS_VAULT_AUTH_METHOD='' @ fmt_q (c_VaultAuthMethod c))))
      else None)"

definition load_config :: "environ \<Rightarrow> bool \<Rightarrow> config" where
  "load_config env insecureFlag =
     (let grpcPort = envIntOr env ''GRPC_PORT'' 8085;
          metricsPort = envIntOr env ''METRICS_PORT'' 8084;
          advertisePort = envIntOr env ''SCHEDULER_ADVERTISE_PORT'' grpcPort
      in \<lparr>c_Insecure = insecureFlag,
          c_GRPCAddr = envOr env ''PERSYS_GRPC_ADDR'' ''0.0.0.0'',
          c_GRPCPort = grpcPort,
          c_MetricsPort = metricsPort,
          c_ExternalIP = envOr env ''PERSYS_EXTERNAL_IP'' [],
          c_EtcdEndpoints = splitCSV (envOr env ''ETCD_ENDPOINTS'' ''localhost:2379''),
          c_Domain = envOr env ''DOMAIN'' ''persys.local'',
          c_AgentsDiscoveryDomain = envOr env ''AGENTS_DISCOVERY_DOMAIN'' ''agents.persys.cloud'',
          c_SchedulerShardKey = envOr env ''SCHEDULER_SHARD_KEY'' ''genesis'',
          c_SchedulerAdvertiseIP = TrimSpace (env ''SCHEDULER_ADVERTISE_IP''),
          c_SchedulerAdvertisePort = advertisePort,
          c_RedisAddr = TrimSpace (env ''REDIS_ADDR''),
          c_RedisPassword = TrimSpace (env ''REDIS_PASSWORD''),
          c_RedisDB = envIntOr env ''REDIS_DB'' 0,
          c_RedisReconcileTTL = envDurationOrFlexibleSeconds env ''REDIS_RECONCILE_TTL'' (24 * Hour),
          c_RedisEventTTL = envDurationOrFlexibleSeconds env ''REDIS_EVENT_TTL'' (24 * Hour),
          c_RedisEventMaxEntries = envIntOr env ''REDIS_EVENT_MAX_ENTRIES'' 1000,
          c_TLSEnabled = (\<not> insecureFlag),
          c_TLSCAPath = envOr env ''PERSYS_TLS_CA'' ''/etc/persys/certs/persys_scheduler/ca.pem'',
          c_TLSCertPath = envOr env ''PERSYS_TLS_CERT'' ''/etc/persys/certs/persys_scheduler/persys_scheduler.crt'',
          c_TLSKeyPath = envOr env ''PERSYS_TLS_KEY'' ''/etc/persys/certs/persys_scheduler/persys_scheduler-key.key'',
          c_VaultEnabled = envBoolOr env ''PERSYS_VAULT_ENABLED'' True,
          c_VaultAddr = envOr env ''PERSYS_VAULT_ADDR'' ''http://localhost:8200'',
          c_VaultAuthMethod = ToLower (envOr env ''PERSYS_VAULT_AUTH_METHOD'' ''token''),
          c_VaultToken = TrimSpace (env ''PERSYS_VAULT_TOKEN''),
          c_VaultAppRoleID = TrimSpace (env ''PERSYS_VAULT_APPROLE_ROLE_ID''),
          c_VaultAppSecretID = TrimSpace (env ''PERSYS_VAULT_APPROLE_SECRET_ID''),
          c_VaultPKIMount = envOr env ''PERSYS_VAULT_PKI_MOUNT'' ''pki'',
          c_VaultPKIRole = envOr env ''PERSYS_VAULT_PKI_ROLE'' ''persys-scheduler'',
          c_VaultCertTTL = envDurationOr env ''PERSYS_VAULT_CERT_TTL'' (24 * Hour),
          c_VaultServiceName = envOr env ''PERSYS_VAULT_SERVICE_NAME'' ''persys-scheduler'',
          c_VaultServiceDomain = TrimSpace (env ''PERSYS_VAULT_SERVICE_DOMAIN''),
          c_VaultRetryInterval = envDurationOr env ''PERSYS_VAULT_RETRY_INTERVAL'' Minute,
          c_SchedulerAgentTLSEnabled = envBoolOr env ''SCHEDULER_AGENT_TLS_ENABLED'' (\<not> insecureFlag),
          c_SchedulerAgentStatusPollInterval =
            envDurationOrFlexibleSeconds env ''SCHEDULER_AGENT_STATUS_POLL_INTERVAL'' Second,
          c_SchedulerAgentApplyTimeout =
            envDurationOrFlexibleSeconds env ''SCHEDULER_AGENT_APPLY_TIMEOUT'' (45 * Second),
          c_SchedulerAgentVMApplyTimeout =
            envDurationOrFlexibleSeconds env ''SCHEDULER_AGENT_VM_APPLY_TIMEOUT'' (240 * Second),
          c_SchedulerAgentDeleteTimeout =
            envDurationOrFlexibleSeconds env ''SCHEDULER_AGENT_DELETE_TIMEOUT'' (60 * Second),
          c_SchedulerAgentRPCTimeout =
            envDurationOrFlexibleSeconds env ''SCHEDULER_AGENT_RPC_TIMEOUT'' (10 * Second),
          c_SchedulerReconcileInterval =
            envDurationOrFlexibleSeconds env ''SCHEDULER_RECONCILE_INTERVAL'' (5 * Second),
          c_SchedulerDriftDetectInterval =
            envDurationOrFlexibleSeconds env ''SCHEDULER_DRIFT_DETECT_INTERVAL'' (300 * Second),
          c_SchedulerNodeUnavailableGrace =
            envDurationOrFlexibleSeconds env ''SCHEDULER_NODE_UNAVAILABLE_GRACE'' (3 * Minute),
          c_SchedulerReapplyGuard =
            envDurationOrFlexibleSeconds env ''SCHEDULER_REAPPLY_GUARD'' (45 * Second),
          c_SchedulerMissingGracePeriod =
            envDurationOrFlexibleSeconds env ''SCHEDULER_MISSING_GRACE_PERIOD'' (10 * Second),
          c_LogLevel = envOr env ''LOG_LEVEL'' ''info'',
          c_LogFormat = envOr env ''LOG_FORMAT'' ''json'',
          c_OTLPEndpoint = TrimSpace (env ''OTEL_EXPORTER_OTLP_ENDPOINT''),
          c_JaegerEndpoint = TrimSpace (env ''JAEGER_ENDPOINT''),
          c_OTLPInsecure = envBoolOr env ''OTEL_EXPORTER_OTLP_INSECURE'' True\<rparr>)"

definition Load :: "environ \<Rightarrow> bool \<Rightarrow> config result" where
  "Load env insecureFlag =
     (let cfg = load_config env insecureFlag
      in case Validate cfg of Some e \<Rightarrow> Inl e | None \<Rightarrow> Inr cfg)"

lemma envOr_nonempty: "fallback \<noteq> [] \<Longrightarrow> envOr env key fallback \<noteq> []"
  by (simp add: envOr_def Let_def)

lemma envOr_trimmed: "TrimSpace fallback = fallback \<Longrightarrow> TrimSpace (envOr env key fallback) = envOr env key fallback"
  by (simp add: envOr_def Let_def)

lemma splitCSV_clean: "p \<in> set (splitCSV v) \<Longrightarrow> p \<noteq> [] \<and> TrimSpace p = p \<and> CHR '','' \<notin> set p"
proof -
  assume "p \<in> set (splitCSV v)"
  then obtain q where q: "q \<in> set (Split CHR '','' v)" "p = TrimSpace q" "p \<noteq> []"
    by (auto simp: splitCSV_def)
  have "set (TrimSpace q) \<subseteq> set q"
    by (auto simp: TrimSpace_def dest!: set_dropWhileD)
  with q Split_no_sep [of "CHR '',''" v] show ?thesis by auto
qed

end
