(* ===== verification/Core.thy ===== *)
theory Core
  imports Env Config
begin

text \<open>
  The scheduler's own state and its operating mode (\<open>mode.go\<close>), and the retrying etcd
  operations everything else is built on (\<open>etcd.go\<close>). The state is the \<open>Scheduler\<close> struct
  of \<open>scheduler.go\<close>: configuration, mode, frozen snapshot and the three caches, together
  with the world it acts on. Mutexes protect single fields in the source; an operation
  here is one goroutine's run, and interleavings are sequences of operations.
\<close>

section \<open>State\<close>

datatype OperatingMode = ModeNormal | ModeDegraded | ModeRecovery

record frozen_state =
  fz_CreatedAt :: time
  fz_Reason :: string
  fz_Nodes :: "node gomap"
  fz_Workloads :: "workload gomap"
  fz_Assignments :: "assignment_record gomap"

record 'w sched =
  sc_cfg :: config
  sc_domain :: string
  sc_agentsDomain :: string
  sc_schedulerShard :: string
  sc_redis :: bool
  sc_mode :: OperatingMode
  sc_modeReasonText :: string
  sc_modeChangedAt :: time
  sc_frozen :: "frozen_state option"
  sc_cacheNodes :: "node gomap"
  sc_cacheWorkloads :: "workload gomap"
  sc_cacheAssignments :: "assignment_record gomap"
  sc_world :: 'w

type_synonym ('w, 'a) op = "('w sched, 'a) state"

definition call :: "('w \<Rightarrow> 'a \<times> 'w) \<Rightarrow> ('w, 'a) op" where
  "call f = State (\<lambda>s. case f (sc_world s) of (x, w') \<Rightarrow> (x, s\<lparr>sc_world := w'\<rparr>))"

definition sleep :: "'w env \<Rightarrow> duration \<Rightarrow> ('w, unit) op" where
  "sleep E d = modify (\<lambda>s. s\<lparr>sc_world := sleepFor E d (sc_world s)\<rparr>)"

abbreviation now :: "'w env \<Rightarrow> ('w, time) op" where
  "now E \<equiv> call (timeNow E)"

lemma run_call [simp, run_simps]:
  "run_state (call f) s = (fst (f (sc_world s)), s\<lparr>sc_world := snd (f (sc_world s))\<rparr>)"
  by (simp add: call_def split: prod.splits)

lemma run_sleep [simp, run_simps]:
  "run_state (sleep E d) s = ((), s\<lparr>sc_world := sleepFor E d (sc_world s)\<rparr>)"
  by (simp add: sleep_def)

text \<open>\<open>NewScheduler\<close>: the state once the etcd connection is verified and Redis was tried.\<close>

definition NewScheduler :: "'w env \<Rightarrow> config \<Rightarrow> bool \<Rightarrow> 'w \<Rightarrow> ('w sched) result \<times> 'w" where
  "NewScheduler E cfg redisUp w =
     (case etcdGet E ''/health'' w of
        (Inl e, w1) \<Rightarrow> (Inl (wrapv ''failed to connect to etcd: '' e), w1)
      | (Inr _, w1) \<Rightarrow>
          (case timeNow E w1 of (t, w2) \<Rightarrow>
            (Inr \<lparr>sc_cfg = cfg, sc_domain = c_Domain cfg, sc_agentsDomain = c_AgentsDiscoveryDomain cfg,
                  sc_schedulerShard = c_SchedulerShardKey cfg,
                  sc_redis = (c_RedisAddr cfg \<noteq> [] \<and> redisUp),
                  sc_mode = ModeNormal, sc_modeReasonText = ''startup'', sc_modeChangedAt = t,
                  sc_frozen = None, sc_cacheNodes = [], sc_cacheWorkloads = [],
                  sc_cacheAssignments = [], sc_world = w2\<rparr>, w2)))"

section \<open>Operating mode\<close>

definition errControlPlaneFrozen :: goerr where
  "errControlPlaneFrozen = errorf ''scheduler control plane is frozen (degraded/recovery mode)''"

abbreviation currentMode :: "('w, OperatingMode) op" where
  "currentMode \<equiv> gets sc_mode"

definition writable :: "'w sched \<Rightarrow> bool" where
  "writable s = (sc_mode s = ModeNormal)"

abbreviation isWritable :: "('w, bool) op" where
  "isWritable \<equiv> gets writable"

definition requireWritable :: "('w, goerr option) op" where
  "requireWritable = gets (\<lambda>s. if writable s then None else Some errControlPlaneFrozen)"

definition snapshot :: "string \<Rightarrow> time \<Rightarrow> 'w sched \<Rightarrow> frozen_state" where
  "snapshot reason t s = \<lparr>fz_CreatedAt = t, fz_Reason = reason, fz_Nodes = sc_cacheNodes s,
     fz_Workloads = sc_cacheWorkloads s, fz_Assignments = sc_cacheAssignments s\<rparr>"

definition enterDegraded :: "'w env \<Rightarrow> string \<Rightarrow> ('w, unit) op" where
  "enterDegraded E reason = do {
     m \<leftarrow> currentMode;
     if m = ModeDegraded then ret ()
     else do {
       t \<leftarrow> now E;
       modify (\<lambda>s. s\<lparr>sc_mode := ModeDegraded, sc_modeReasonText := reason, sc_modeChangedAt := t,
                     sc_frozen := Some (snapshot reason t s)\<rparr>) } }"

definition enterRecovery :: "'w env \<Rightarrow> string \<Rightarrow> ('w, unit) op" where
  "enterRecovery E reason = do {
     m \<leftarrow> currentMode;
     if m = ModeRecovery then ret ()
     else do {
       t \<leftarrow> now E;
       modify (\<lambda>s. s\<lparr>sc_mode := ModeRecovery, sc_modeReasonText := reason, sc_modeChangedAt := t,
                     sc_frozen := (case sc_frozen s of None \<Rightarrow> Some (snapshot reason t s)
                                   | Some f \<Rightarrow> Some f)\<rparr>) } }"

definition enterNormal :: "'w env \<Rightarrow> string \<Rightarrow> ('w, unit) op" where
  "enterNormal E reason = do {
     m \<leftarrow> currentMode;
     if m = ModeNormal then ret ()
     else do {
       t \<leftarrow> now E;
       modify (\<lambda>s. s\<lparr>sc_mode := ModeNormal, sc_modeReasonText := reason, sc_modeChangedAt := t,
                     sc_frozen := None\<rparr>) } }"

definition pingEtcd :: "'w env \<Rightarrow> ('w, goerr option) op" where
  "pingEtcd E = do {
     r \<leftarrow> call (etcdGet E ''/health'');
     (case r of Inl e \<Rightarrow> ret (Some e) | Inr _ \<Rightarrow> ret None) }"

definition nodesPrefix :: string where "nodesPrefix = ''/nodes/''"
definition workloadsPrefix :: string where "workloadsPrefix = ''/workloads/''"
definition assignmentsPrefix :: string where "assignmentsPrefix = ''/assignments/''"

text \<open>The loop over the three prefixes stops at the first error or the first non-empty range.\<close>

fun hasState_loop :: "'w env \<Rightarrow> string list \<Rightarrow> ('w, bool result) op" where
  "hasState_loop E [] = ret (Inr False)"
| "hasState_loop E (p # ps) = do {
     r \<leftarrow> call (etcdGetPrefix E p);
     (case r of
        Inl e \<Rightarrow> ret (Inl e)
      | Inr kvs \<Rightarrow> if kvs \<noteq> [] then ret (Inr True) else hasState_loop E ps) }"

definition etcdHasState :: "'w env \<Rightarrow> ('w, bool result) op" where
  "etcdHasState E = hasState_loop E [nodesPrefix, workloadsPrefix, assignmentsPrefix]"

definition evaluateMode :: "'w env \<Rightarrow> ('w, unit) op" where
  "evaluateMode E = do {
     p \<leftarrow> pingEtcd E;
     (case p of
        Some e \<Rightarrow> enterDegraded E (''etcd unreachable: '' @ err_msg e)
      | None \<Rightarrow> do {
          m \<leftarrow> currentMode;
          if m = ModeNormal then ret ()
          else do {
            h \<leftarrow> etcdHasState E;
            (case h of
               Inl e \<Rightarrow> enterDegraded E (''etcd health probe failed: '' @ err_msg e)
             | Inr True \<Rightarrow> enterNormal E ''etcd recovered with persistent state intact''
             | Inr False \<Rightarrow>
                 enterRecovery E ''etcd recovered but state is empty; waiting for restore/import'') } }) }"

text \<open>Caches.\<close>

definition cacheNode :: "node \<Rightarrow> ('w, unit) op" where
  "cacheNode n = modify (\<lambda>s. s\<lparr>sc_cacheNodes := mput (n_NodeID n) n (sc_cacheNodes s)\<rparr>)"

definition cacheWorkload :: "workload \<Rightarrow> ('w, unit) op" where
  "cacheWorkload x = modify (\<lambda>s. s\<lparr>sc_cacheWorkloads := mput (w_ID x) x (sc_cacheWorkloads s)\<rparr>)"

definition cacheAssignment :: "assignment_record \<Rightarrow> ('w, unit) op" where
  "cacheAssignment a = modify (\<lambda>s. s\<lparr>sc_cacheAssignments := mput (ar_WorkloadID a) a (sc_cacheAssignments s)\<rparr>)"

definition removeCachedWorkload :: "string \<Rightarrow> ('w, unit) op" where
  "removeCachedWorkload i = modify (\<lambda>s. s\<lparr>sc_cacheWorkloads := mdel i (sc_cacheWorkloads s),
     sc_cacheAssignments := mdel i (sc_cacheAssignments s)\<rparr>)"

definition getCachedNode :: "string \<Rightarrow> ('w, node option) op" where
  "getCachedNode i = gets (\<lambda>s. mget (sc_cacheNodes s) i)"

definition getCachedWorkload :: "string \<Rightarrow> ('w, workload option) op" where
  "getCachedWorkload i = gets (\<lambda>s. mget (sc_cacheWorkloads s) i)"

definition getCachedNodes :: "('w, node list) op" where
  "getCachedNodes = gets (\<lambda>s. map snd (sc_cacheNodes s))"

definition getCachedWorkloads :: "('w, workload list) op" where
  "getCachedWorkloads = gets (\<lambda>s. map snd (sc_cacheWorkloads s))"

section \<open>Retrying etcd operations\<close>

definition maxRetries :: nat where "maxRetries = 5"
definition retryWaitTime :: duration where "retryWaitTime = 2 * Second"

text \<open>
  The first argument counts the attempts that may still follow. The call result is an
  option for writes and a sum for reads.
\<close>

fun write_attempts :: "'w env \<Rightarrow> nat \<Rightarrow> ('w \<Rightarrow> goerr option \<times> 'w) \<Rightarrow> ('w, goerr option) op" where
  "write_attempts E n f = do {
     r \<leftarrow> call f;
     (case r of
        None \<Rightarrow> ret None
      | Some e \<Rightarrow>
          (case n of 0 \<Rightarrow> ret (Some e)
           | Suc m \<Rightarrow> do { _ \<leftarrow> sleep E retryWaitTime; write_attempts E m f })) }"

fun read_attempts :: "'w env \<Rightarrow> nat \<Rightarrow> ('w \<Rightarrow> 'a result \<times> 'w) \<Rightarrow> ('w, 'a result) op" where
  "read_attempts E n f = do {
     r \<leftarrow> call f;
     (case r of
        Inr x \<Rightarrow> ret (Inr x)
      | Inl e \<Rightarrow>
          (case n of 0 \<Rightarrow> ret (Inl e)
           | Suc m \<Rightarrow> do { _ \<leftarrow> sleep E retryWaitTime; read_attempts E m f })) }"

declare write_attempts.simps [simp del] read_attempts.simps [simp del]

definition attempts_text :: string where
  "attempts_text = '' after '' @ itoa (int maxRetries + 1) @ '' attempts: ''"

definition RetryableEtcdPut :: "'w env \<Rightarrow> string \<Rightarrow> payload \<Rightarrow> ('w, goerr option) op" where
  "RetryableEtcdPut E key v = do {
     g \<leftarrow> requireWritable;
     (case g of
        Some e \<Rightarrow> ret (Some e)
      | None \<Rightarrow> do {
          r \<leftarrow> write_attempts E maxRetries (etcdPut E key v);
          (case r of
             None \<Rightarrow> ret None
           | Some e \<Rightarrow> do {
               _ \<leftarrow> enterDegraded E (''etcd write failure key='' @ key @ '': '' @ err_msg e);
               ret (Some (wrapv (''failed to put key '' @ key @ attempts_text) e)) }) }) }"

text \<open>
  In \<open>RetryableEtcdGet\<close> the loop declares a new \<open>err\<close>, so the error that the messages after
  the loop print is the outer, still nil one: both texts end in \<open><nil>\<close>.
\<close>

definition get_failed :: "string \<Rightarrow> goerr" where
  "get_failed key = errorf (''failed to get key '' @ key @ attempts_text @ ''<nil>'')"

definition RetryableEtcdGet :: "'w env \<Rightarrow> string \<Rightarrow> ('w, payload option result) op" where
  "RetryableEtcdGet E key = do {
     r \<leftarrow> read_attempts E maxRetries (etcdGet E key);
     (case r of
        Inr x \<Rightarrow> ret (Inr x)
      | Inl e \<Rightarrow> do {
          _ \<leftarrow> enterDegraded E (''etcd read failure key='' @ key @ '': <nil>'');
          ret (Inl (get_failed key)) }) }"

definition RetryableEtcdGetPrefix :: "'w env \<Rightarrow> string \<Rightarrow> ('w, (string \<times> payload) list result) op" where
  "RetryableEtcdGetPrefix E key = do {
     r \<leftarrow> read_attempts E maxRetries (etcdGetPrefix E key);
     (case r of
        Inr x \<Rightarrow> ret (Inr x)
      | Inl e \<Rightarrow> do {
          _ \<leftarrow> enterDegraded E (''etcd read failure key='' @ key @ '': <nil>'');
          ret (Inl (get_failed key)) }) }"

definition RetryableEtcdDelete :: "'w env \<Rightarrow> string \<Rightarrow> ('w, goerr option) op" where
  "RetryableEtcdDelete E key = do {
     g \<leftarrow> requireWritable;
     (case g of
        Some e \<Rightarrow> ret (Some e)
      | None \<Rightarrow> do {
          r \<leftarrow> write_attempts E maxRetries (etcdDelete E key);
          (case r of
             None \<Rightarrow> ret None
           | Some e \<Rightarrow> do {
               _ \<leftarrow> enterDegraded E (''etcd delete failure key='' @ key @ '': '' @ err_msg e);
               ret (Some (wrapv (''failed to delete key '' @ key @ attempts_text) e)) }) }) }"

section \<open>Mode invariant and control frame\<close>

text \<open>A frozen snapshot exists exactly when the scheduler is not in normal mode.\<close>

definition mode_ok :: "'w sched \<Rightarrow> bool" where
  "mode_ok s = ((sc_frozen s = None) = (sc_mode s = ModeNormal))"

text \<open>Everything of the state but the world.\<close>

definition same_control :: "'w sched \<Rightarrow> 'w sched \<Rightarrow> bool" where
  "same_control s t = (t = s\<lparr>sc_world := sc_world t\<rparr>)"

text \<open>What never changes while the scheduler runs.\<close>

definition same_setup :: "'w sched \<Rightarrow> 'w sched \<Rightarrow> bool" where
  "same_setup s t = (sc_cfg t = sc_cfg s \<and> sc_domain t = sc_domain s \<and>
     sc_agentsDomain t = sc_agentsDomain s \<and> sc_schedulerShard t = sc_schedulerShard s \<and>
     sc_redis t = sc_redis s)"

lemma same_setup_refl [simp]: "same_setup s s"
  by (simp add: same_setup_def)

lemma same_setup_trans: "same_setup s t \<Longrightarrow> same_setup t u \<Longrightarrow> same_setup s u"
  by (simp add: same_setup_def)

lemma same_setup_upd [simp]:
  "same_setup s (t\<lparr>sc_world := w\<rparr>) = same_setup s t"
  "same_setup s (t\<lparr>sc_cacheNodes := cn\<rparr>) = same_setup s t"
  "same_setup s (t\<lparr>sc_cacheWorkloads := cw\<rparr>) = same_setup s t"
  "same_setup s (t\<lparr>sc_cacheAssignments := ca\<rparr>) = same_setup s t"
  by (simp_all add: same_setup_def)

lemma same_control_refl [simp]: "same_control s s"
  by (simp add: same_control_def)

lemma same_control_world [simp]: "same_control s (t\<lparr>sc_world := w\<rparr>) = same_control s t"
  by (simp add: same_control_def) (metis sched.surjective sched.update_convs(13))

lemma same_control_trans: "same_control s t \<Longrightarrow> same_control t u \<Longrightarrow> same_control s u"
  by (metis same_control_def same_control_world)

lemma same_control_sel:
  assumes "same_control s t"
  shows "sc_mode t = sc_mode s" "sc_frozen t = sc_frozen s" "same_setup s t"
    "sc_cacheNodes t = sc_cacheNodes s" "sc_cacheWorkloads t = sc_cacheWorkloads s"
    "sc_cacheAssignments t = sc_cacheAssignments s" "writable t = writable s" "mode_ok t = mode_ok s"
proof -
  obtain w where "t = s\<lparr>sc_world := w\<rparr>" using assms unfolding same_control_def by blast
  then show "sc_mode t = sc_mode s" "sc_frozen t = sc_frozen s" "same_setup s t"
    "sc_cacheNodes t = sc_cacheNodes s" "sc_cacheWorkloads t = sc_cacheWorkloads s"
    "sc_cacheAssignments t = sc_cacheAssignments s" "writable t = writable s" "mode_ok t = mode_ok s"
    by (simp_all add: writable_def mode_ok_def)
qed

lemma write_attempts_control: "same_control s (snd (run_state (write_attempts E n f) s))"
proof (induction n arbitrary: s)
  case 0
  show ?case by (subst write_attempts.simps) (simp split: option.splits)
next
  case (Suc n)
  show ?case
    by (subst write_attempts.simps)
      (auto split: option.splits intro: same_control_trans [OF _ Suc.IH])
qed

lemma read_attempts_control: "same_control s (snd (run_state (read_attempts E n f) s))"
proof (induction n arbitrary: s)
  case 0
  show ?case by (subst read_attempts.simps) (simp split: sum.splits)
next
  case (Suc n)
  show ?case
    by (subst read_attempts.simps)
      (auto split: sum.splits intro: same_control_trans [OF _ Suc.IH])
qed

lemma enterDegraded_run:
  "run_state (enterDegraded E reason) s =
     ((), if sc_mode s = ModeDegraded then s
          else let t = fst (timeNow E (sc_world s)); w = snd (timeNow E (sc_world s))
               in s\<lparr>sc_world := w, sc_mode := ModeDegraded, sc_modeReasonText := reason,
                    sc_modeChangedAt := t, sc_frozen := Some (snapshot reason t s)\<rparr>)"
  by (simp add: enterDegraded_def Let_def snapshot_def)

lemma enterDegraded_mode [simp]: "sc_mode (snd (run_state (enterDegraded E reason) s)) = ModeDegraded"
  by (simp add: enterDegraded_run Let_def)

lemma enterDegraded_caches [simp]:
  "sc_cacheNodes (snd (run_state (enterDegraded E reason) s)) = sc_cacheNodes s"
  "sc_cacheWorkloads (snd (run_state (enterDegraded E reason) s)) = sc_cacheWorkloads s"
  "sc_cacheAssignments (snd (run_state (enterDegraded E reason) s)) = sc_cacheAssignments s"
  "same_setup s (snd (run_state (enterDegraded E reason) s))"
  by (simp_all add: enterDegraded_run Let_def same_setup_def)

lemma requireWritable_run [simp, run_simps]:
  "run_state requireWritable s = (if writable s then None else Some errControlPlaneFrozen, s)"
  by (simp add: requireWritable_def)

text \<open>A frozen scheduler refuses every write without touching anything.\<close>

lemma put_frozen [simp]:
  "\<not> writable s \<Longrightarrow> run_state (RetryableEtcdPut E k v) s = (Some errControlPlaneFrozen, s)"
  by (simp add: RetryableEtcdPut_def)

lemma delete_frozen [simp]:
  "\<not> writable s \<Longrightarrow> run_state (RetryableEtcdDelete E k) s = (Some errControlPlaneFrozen, s)"
  by (simp add: RetryableEtcdDelete_def)

end
