(* ===== verification/Kv.thy ===== *)
theory Kv
  imports Core
begin

text \<open>
  The contract of the retrying etcd operations towards the rest of the scheduler, and
  the proof that \<open>etcd.go\<close> honours it whenever etcd keeps its own promises. The contract
  ties errors to the operating mode: a write that reports success has taken effect and
  leaves the scheduler live; an operation that reports an error leaves it frozen; a frozen
  scheduler writes nothing. A client may therefore ignore the errors of a whole sequence
  of best-effort writes: if the scheduler is live at the end, all of them have happened.
\<close>

locale kv_store =
  fixes put :: "string \<Rightarrow> payload \<Rightarrow> ('s, goerr option) state"
    and get :: "string \<Rightarrow> ('s, payload option result) state"
    and range :: "string \<Rightarrow> ('s, (string \<times> payload) list result) state"
    and del :: "string \<Rightarrow> ('s, goerr option) state"
    and content :: "'s \<Rightarrow> string \<Rightarrow> payload option"
    and live :: "'s \<Rightarrow> bool"
  assumes put_ok: "run_state (put k v) s = (None, t) \<Longrightarrow> live s \<and> live t \<and> content t = (content s)(k \<mapsto> v)"
    and put_err: "run_state (put k v) s = (Some e, t) \<Longrightarrow> \<not> live t"
    and put_dead: "\<not> live s \<Longrightarrow> snd (run_state (put k v) s) = s"
    and put_others: "k' \<noteq> k \<Longrightarrow> content (snd (run_state (put k v) s)) k' = content s k'"
    and del_ok: "run_state (del k) s = (None, t) \<Longrightarrow> live s \<and> live t \<and> content t = (content s)(k := None)"
    and del_err: "run_state (del k) s = (Some e, t) \<Longrightarrow> \<not> live t"
    and del_dead: "\<not> live s \<Longrightarrow> snd (run_state (del k) s) = s"
    and del_others: "k' \<noteq> k \<Longrightarrow> content (snd (run_state (del k) s)) k' = content s k'"
    and get_ok: "run_state (get k) s = (Inr x, t) \<Longrightarrow> x = content s k \<and> live t = live s"
    and get_err: "run_state (get k) s = (Inl e, t) \<Longrightarrow> \<not> live t"
    and get_content: "content (snd (run_state (get k) s)) = content s"
    and range_ok: "run_state (range p) s = (Inr kvs, t) \<Longrightarrow> live t = live s \<and> distinct (map fst kvs) \<and>
      (\<forall>k v. (k, v) \<in> set kvs \<longleftrightarrow> HasPrefix k p \<and> content s k = Some v)"
    and range_err: "run_state (range p) s = (Inl e, t) \<Longrightarrow> \<not> live t"
    and range_content: "content (snd (run_state (range p) s)) = content s"
begin

lemma put_live: "live (snd (run_state (put k v) s)) \<Longrightarrow>
   live s \<and> content (snd (run_state (put k v) s)) = (content s)(k \<mapsto> v)"
  using put_ok [of k v s] put_err [of k v s] by (cases "run_state (put k v) s"; cases "fst (run_state (put k v) s)") auto

lemma del_live: "live (snd (run_state (del k) s)) \<Longrightarrow>
   live s \<and> content (snd (run_state (del k) s)) = (content s)(k := None)"
  using del_ok [of k s] del_err [of k s] by (cases "run_state (del k) s"; cases "fst (run_state (del k) s)") auto

lemma get_live: "live (snd (run_state (get k) s)) \<Longrightarrow>
   live s \<and> fst (run_state (get k) s) = Inr (content s k)"
  using get_ok [of k s] get_err [of k s] by (cases "run_state (get k) s"; cases "fst (run_state (get k) s)") auto

lemma range_live: "live (snd (run_state (range p) s)) \<Longrightarrow>
   live s \<and> (\<exists>kvs. fst (run_state (range p) s) = Inr kvs \<and> distinct (map fst kvs) \<and>
     (\<forall>k v. (k, v) \<in> set kvs \<longleftrightarrow> HasPrefix k p \<and> content s k = Some v))"
  using range_ok [of p s] range_err [of p s]
  by (cases "run_state (range p) s"; cases "fst (run_state (range p) s)") auto

lemma live_back:
  "live (snd (run_state (put k v) s)) \<Longrightarrow> live s" "live (snd (run_state (del k) s)) \<Longrightarrow> live s"
  "live (snd (run_state (get k) s)) \<Longrightarrow> live s" "live (snd (run_state (range p) s)) \<Longrightarrow> live s"
  using put_live del_live get_live range_live by blast+

text \<open>A loop of best-effort deletions.\<close>

lemma del_all_live:
  "live (snd (run_state (for_each ks del) s)) \<Longrightarrow>
   live s \<and> content (snd (run_state (for_each ks del) s)) = (\<lambda>k. if k \<in> set ks then None else content s k)"
proof (induction ks arbitrary: s)
  case (Cons k ks)
  let ?t = "snd (run_state (del k) s)"
  have run: "snd (run_state (for_each (k # ks) del) s) = snd (run_state (for_each ks del) ?t)"
    by (simp split: prod.splits)
  with Cons.prems have "live (snd (run_state (for_each ks del) ?t))" by simp
  from Cons.IH [OF this] have t: "live ?t"
    and c: "content (snd (run_state (for_each ks del) ?t)) = (\<lambda>k'. if k' \<in> set ks then None else content ?t k')"
    by auto
  from del_live [OF t] c run show ?case by (auto simp: fun_eq_iff)
qed simp

lemma del_all_others:
  "k \<notin> set ks \<Longrightarrow> content (snd (run_state (for_each ks del) s)) k = content s k"
  by (induction ks arbitrary: s) (auto simp: del_others run_bind_proj simp del: run_state_bind)

end

section \<open>The retrying operations honour the contract\<close>

context etcd_client
begin

lemma put_attempts_view:
  assumes "run_state (write_attempts E n (etcdPut E k v)) s = (r, t)"
  shows "(r = None \<longrightarrow> view (sc_world t) = (view (sc_world s))(k \<mapsto> v)) \<and>
    (view (sc_world t) = view (sc_world s) \<or> view (sc_world t) = (view (sc_world s))(k \<mapsto> v))"
  using assms
proof (induction n arbitrary: s)
  case 0
  then show ?case
    using put_ok [of k v "sc_world s"] put_err [of k v "sc_world s"]
    by (cases "etcdPut E k v (sc_world s)") (auto simp: write_attempts.simps [of E 0] split: option.splits)
next
  case (Suc n)
  obtain r1 w1 where c: "etcdPut E k v (sc_world s) = (r1, w1)" by (cases "etcdPut E k v (sc_world s)")
  show ?case
  proof (cases r1)
    case None
    with Suc.prems c put_ok [of k v "sc_world s"] show ?thesis
      by (auto simp: write_attempts.simps [of E "Suc n"])
  next
    case (Some e)
    let ?s = "s\<lparr>sc_world := sleepFor E retryWaitTime w1\<rparr>"
    from Suc.prems c Some have "run_state (write_attempts E n (etcdPut E k v)) ?s = (r, t)"
      by (simp add: write_attempts.simps [of E "Suc n"])
    from Suc.IH [OF this] put_err [of k v "sc_world s" e w1] c Some show ?thesis by auto
  qed
qed

lemma del_attempts_view:
  assumes "run_state (write_attempts E n (etcdDelete E k)) s = (r, t)"
  shows "(r = None \<longrightarrow> view (sc_world t) = (view (sc_world s))(k := None)) \<and>
    (view (sc_world t) = view (sc_world s) \<or> view (sc_world t) = (view (sc_world s))(k := None))"
  using assms
proof (induction n arbitrary: s)
  case 0
  then show ?case
    using del_ok [of k "sc_world s"] del_err [of k "sc_world s"]
    by (cases "etcdDelete E k (sc_world s)") (auto simp: write_attempts.simps [of E 0] split: option.splits)
next
  case (Suc n)
  obtain r1 w1 where c: "etcdDelete E k (sc_world s) = (r1, w1)" by (cases "etcdDelete E k (sc_world s)")
  show ?case
  proof (cases r1)
    case None
    with Suc.prems c del_ok [of k "sc_world s"] show ?thesis
      by (auto simp: write_attempts.simps [of E "Suc n"])
  next
    case (Some e)
    let ?s = "s\<lparr>sc_world := sleepFor E retryWaitTime w1\<rparr>"
    from Suc.prems c Some have "run_state (write_attempts E n (etcdDelete E k)) ?s = (r, t)"
      by (simp add: write_attempts.simps [of E "Suc n"])
    from Suc.IH [OF this] del_err [of k "sc_world s" e w1] c Some show ?thesis by auto
  qed
qed

lemma read_attempts_view:
  assumes keep: "\<And>w. view (snd (f w)) = view w"
  shows "view (sc_world (snd (run_state (read_attempts E n f) s))) = view (sc_world s)"
proof (induction n arbitrary: s)
  case 0
  show ?case by (subst read_attempts.simps) (simp add: keep split: sum.splits)
next
  case (Suc n)
  show ?case by (subst read_attempts.simps) (simp add: keep Suc.IH split: sum.splits)
qed

lemma read_attempts_ok:
  assumes keep: "\<And>w. view (snd (f w)) = view w"
    and ok: "\<And>w x w'. f w = (Inr x, w') \<Longrightarrow> Q x (view w)"
    and run: "run_state (read_attempts E n f) s = (Inr x, t)"
  shows "Q x (view (sc_world s))"
  using run
proof (induction n arbitrary: s)
  case 0
  then show ?case
    using ok [of "sc_world s"]
    by (cases "f (sc_world s)") (auto simp: read_attempts.simps [of E 0] split: sum.splits)
next
  case (Suc n)
  obtain r1 w1 where c: "f (sc_world s) = (r1, w1)" by (cases "f (sc_world s)")
  show ?case
  proof (cases r1)
    case (Inr y)
    with Suc.prems c ok show ?thesis by (auto simp: read_attempts.simps [of E "Suc n"])
  next
    case (Inl e)
    let ?s = "s\<lparr>sc_world := sleepFor E retryWaitTime w1\<rparr>"
    from Suc.prems c Inl have "run_state (read_attempts E n f) ?s = (Inr x, t)"
      by (simp add: read_attempts.simps [of E "Suc n"])
    from Suc.IH [OF this] keep [of "sc_world s"] c show ?thesis by simp
  qed
qed

lemma view_enterDegraded [simp]:
  "view (sc_world (snd (run_state (enterDegraded E reason) s))) = view (sc_world s)"
  by (simp add: enterDegraded_run Let_def)

text \<open>
  The sublocale: under the laws of etcd, the operations of \<open>etcd.go\<close> are a \<open>kv_store\<close>
  whose content is the etcd content and which is live exactly in normal mode.
\<close>

lemma put_cases:
  assumes "run_state (RetryableEtcdPut E k v) s = (r, t)"
  obtains (frozen) "\<not> writable s" "r = Some errControlPlaneFrozen" "t = s"
  | (ok) "writable s" "run_state (write_attempts E maxRetries (etcdPut E k v)) s = (None, t)" "r = None"
  | (failed) e u where "writable s" "run_state (write_attempts E maxRetries (etcdPut E k v)) s = (Some e, u)"
      "r \<noteq> None" "t = snd (run_state (enterDegraded E (''etcd write failure key='' @ k @ '': '' @ err_msg e)) u)"
  using assms unfolding RetryableEtcdPut_def
  by (auto split: if_splits option.splits prod.splits)

lemma delete_cases:
  assumes "run_state (RetryableEtcdDelete E k) s = (r, t)"
  obtains (frozen) "\<not> writable s" "r = Some errControlPlaneFrozen" "t = s"
  | (ok) "writable s" "run_state (write_attempts E maxRetries (etcdDelete E k)) s = (None, t)" "r = None"
  | (failed) e u where "writable s" "run_state (write_attempts E maxRetries (etcdDelete E k)) s = (Some e, u)"
      "r \<noteq> None" "t = snd (run_state (enterDegraded E (''etcd delete failure key='' @ k @ '': '' @ err_msg e)) u)"
  using assms unfolding RetryableEtcdDelete_def
  by (auto split: if_splits option.splits prod.splits)

lemma get_cases:
  assumes "run_state (RetryableEtcdGet E k) s = (r, t)"
  obtains (ok) x where "run_state (read_attempts E maxRetries (etcdGet E k)) s = (Inr x, t)" "r = Inr x"
  | (failed) e u where "run_state (read_attempts E maxRetries (etcdGet E k)) s = (Inl e, u)"
      "r = Inl (get_failed k)" "t = snd (run_state (enterDegraded E (''etcd read failure key='' @ k @ '': <nil>'')) u)"
  using assms unfolding RetryableEtcdGet_def
  by (auto split: sum.splits prod.splits)

lemma prefix_cases:
  assumes "run_state (RetryableEtcdGetPrefix E k) s = (r, t)"
  obtains (ok) x where "run_state (read_attempts E maxRetries (etcdGetPrefix E k)) s = (Inr x, t)" "r = Inr x"
  | (failed) e u where "run_state (read_attempts E maxRetries (etcdGetPrefix E k)) s = (Inl e, u)"
      "r = Inl (get_failed k)" "t = snd (run_state (enterDegraded E (''etcd read failure key='' @ k @ '': <nil>'')) u)"
  using assms unfolding RetryableEtcdGetPrefix_def
  by (auto split: sum.splits prod.splits)

lemma not_writable_degraded [simp]: "\<not> writable (snd (run_state (enterDegraded E reason) s))"
  by (simp add: writable_def)

lemma write_attempts_writable: "run_state (write_attempts E n f) s = (r, t) \<Longrightarrow> writable t = writable s"
  using same_control_sel(7) [OF write_attempts_control, of E n f s] by simp

lemma read_attempts_writable: "run_state (read_attempts E n f) s = (r, t) \<Longrightarrow> writable t = writable s"
  using same_control_sel(7) [OF read_attempts_control, of E n f s] by simp

lemma retry_put_ok:
  assumes "run_state (RetryableEtcdPut E k v) s = (None, t)"
  shows "writable s \<and> writable t \<and> view (sc_world t) = (view (sc_world s))(k \<mapsto> v)"
  using assms
proof (cases rule: put_cases)
  case ok
  then show ?thesis using put_attempts_view [OF ok(2)] write_attempts_writable [OF ok(2)] by simp
qed auto

lemma retry_put_err: "run_state (RetryableEtcdPut E k v) s = (Some e, t) \<Longrightarrow> \<not> writable t"
  by (erule put_cases) auto

lemma retry_put_others:
  assumes "k' \<noteq> k"
  shows "view (sc_world (snd (run_state (RetryableEtcdPut E k v) s))) k' = view (sc_world s) k'"
proof -
  obtain r t where run: "run_state (RetryableEtcdPut E k v) s = (r, t)"
    by (cases "run_state (RetryableEtcdPut E k v) s")
  then have "view (sc_world t) k' = view (sc_world s) k'"
  proof (cases rule: put_cases)
    case ok
    then show ?thesis using put_attempts_view [OF ok(2)] assms by auto
  next
    case (failed e u)
    then show ?thesis using put_attempts_view [OF failed(2)] assms by auto
  qed simp
  with run show ?thesis by simp
qed

lemma retry_del_ok:
  assumes "run_state (RetryableEtcdDelete E k) s = (None, t)"
  shows "writable s \<and> writable t \<and> view (sc_world t) = (view (sc_world s))(k := None)"
  using assms
proof (cases rule: delete_cases)
  case ok
  then show ?thesis using del_attempts_view [OF ok(2)] write_attempts_writable [OF ok(2)] by simp
qed auto

lemma retry_del_err: "run_state (RetryableEtcdDelete E k) s = (Some e, t) \<Longrightarrow> \<not> writable t"
  by (erule delete_cases) auto

lemma retry_del_others:
  assumes "k' \<noteq> k"
  shows "view (sc_world (snd (run_state (RetryableEtcdDelete E k) s))) k' = view (sc_world s) k'"
proof -
  obtain r t where run: "run_state (RetryableEtcdDelete E k) s = (r, t)"
    by (cases "run_state (RetryableEtcdDelete E k) s")
  then have "view (sc_world t) k' = view (sc_world s) k'"
  proof (cases rule: delete_cases)
    case ok
    then show ?thesis using del_attempts_view [OF ok(2)] assms by auto
  next
    case (failed e u)
    then show ?thesis using del_attempts_view [OF failed(2)] assms by auto
  qed simp
  with run show ?thesis by simp
qed

lemma retry_get_ok:
  assumes "run_state (RetryableEtcdGet E k) s = (Inr x, t)"
  shows "x = view (sc_world s) k \<and> writable t = writable s"
  using assms
proof (cases rule: get_cases)
  case (ok y)
  then show ?thesis
    using read_attempts_ok [where f = "etcdGet E k" and Q = "\<lambda>x c. x = c k", OF _ _ ok(1)]
      read_attempts_writable [OF ok(1)] get_ok by auto
qed auto

lemma retry_get_err: "run_state (RetryableEtcdGet E k) s = (Inl e, t) \<Longrightarrow> \<not> writable t"
  by (erule get_cases) auto

lemma retry_get_content: "view (sc_world (snd (run_state (RetryableEtcdGet E k) s))) = view (sc_world s)"
proof -
  obtain r t where run: "run_state (RetryableEtcdGet E k) s = (r, t)"
    by (cases "run_state (RetryableEtcdGet E k) s")
  have keep: "view (sc_world (snd (run_state (read_attempts E maxRetries (etcdGet E k)) s))) = view (sc_world s)"
    by (rule read_attempts_view) simp
  from run have "view (sc_world t) = view (sc_world s)"
    by (cases rule: get_cases) (use keep in auto)
  with run show ?thesis by simp
qed

lemma retry_range_ok:
  assumes "run_state (RetryableEtcdGetPrefix E p) s = (Inr kvs, t)"
  shows "writable t = writable s \<and> distinct (map fst kvs) \<and>
    (\<forall>k v. (k, v) \<in> set kvs \<longleftrightarrow> HasPrefix k p \<and> view (sc_world s) k = Some v)"
  using assms
proof (cases rule: prefix_cases)
  case (ok y)
  then show ?thesis
    using read_attempts_ok [where f = "etcdGetPrefix E p" and Q = "\<lambda>kvs c. distinct (map fst kvs) \<and>
        (\<forall>k v. (k, v) \<in> set kvs \<longleftrightarrow> HasPrefix k p \<and> c k = Some v)", OF _ _ ok(1)]
      read_attempts_writable [OF ok(1)] prefix_ok by auto
qed auto

lemma retry_range_err: "run_state (RetryableEtcdGetPrefix E p) s = (Inl e, t) \<Longrightarrow> \<not> writable t"
  by (erule prefix_cases) auto

lemma retry_range_content:
  "view (sc_world (snd (run_state (RetryableEtcdGetPrefix E p) s))) = view (sc_world s)"
proof -
  obtain r t where run: "run_state (RetryableEtcdGetPrefix E p) s = (r, t)"
    by (cases "run_state (RetryableEtcdGetPrefix E p) s")
  have keep: "view (sc_world (snd (run_state (read_attempts E maxRetries (etcdGetPrefix E p)) s))) = view (sc_world s)"
    by (rule read_attempts_view) simp
  from run have "view (sc_world t) = view (sc_world s)"
    by (cases rule: prefix_cases) (use keep in auto)
  with run show ?thesis by simp
qed

end

sublocale etcd_client \<subseteq> kv: kv_store "RetryableEtcdPut E" "RetryableEtcdGet E" "RetryableEtcdGetPrefix E"
  "RetryableEtcdDelete E" "\<lambda>s. view (sc_world s)" writable
proof (unfold_locales, goal_cases)
  case 1 then show ?case by (rule retry_put_ok)
next
  case 2 then show ?case by (rule retry_put_err)
next
  case 3 then show ?case by simp
next
  case 4 then show ?case by (rule retry_put_others)
next
  case 5 then show ?case by (rule retry_del_ok)
next
  case 6 then show ?case by (rule retry_del_err)
next
  case 7 then show ?case by simp
next
  case 8 then show ?case by (rule retry_del_others)
next
  case 9 then show ?case by (rule retry_get_ok)
next
  case 10 then show ?case by (rule retry_get_err)
next
  case 11 show ?case by (rule retry_get_content)
next
  case 12 then show ?case by (rule retry_range_ok)
next
  case 13 then show ?case by (rule retry_range_err)
next
  case 14 show ?case by (rule retry_range_content)
qed

end
