(* ===== verification/StateStore.thy ===== *)
theory StateStore
  imports Kv
begin

text \<open>
  The documents of the state store (\<open>state_store.go\<close> up to the managed volumes, and
  \<open>redis_store.go\<close>): the key space, the defaults of a new workload, assignments, events,
  drift records and reconciliation telemetry. The second half states when a store is well
  formed and proves that the key families are injective and do not overlap.
\<close>

section \<open>Keys\<close>

definition workloadSpecPrefix :: string where "workloadSpecPrefix = ''/workloads-spec/''"
definition workloadStatusPrefix :: string where "workloadStatusPrefix = ''/workloads-status/''"
definition volumesPrefix :: string where "volumesPrefix = ''/volumes/''"
definition attachmentsPrefix :: string where "attachmentsPrefix = ''/attachments/''"
definition reconciliationPrefix :: string where "reconciliationPrefix = ''/reconciliation/''"
definition retriesPrefix :: string where "retriesPrefix = ''/retries/''"
definition driftsPrefix :: string where "driftsPrefix = ''/drifts/''"
definition eventsPrefix :: string where "eventsPrefix = ''/events/''"
definition managedStorageStateKey :: string where "managedStorageStateKey = ''managed_storage_state''"

lemmas prefix_defs = nodesPrefix_def workloadsPrefix_def assignmentsPrefix_def workloadSpecPrefix_def
  workloadStatusPrefix_def volumesPrefix_def attachmentsPrefix_def reconciliationPrefix_def
  retriesPrefix_def driftsPrefix_def eventsPrefix_def

definition workloadKey :: "string \<Rightarrow> string" where "workloadKey i = workloadsPrefix @ i"
definition workloadSpecKey :: "string \<Rightarrow> string" where "workloadSpecKey i = workloadSpecPrefix @ i"
definition workloadStatusKey :: "string \<Rightarrow> string" where "workloadStatusKey i = workloadStatusPrefix @ i"
definition managedVolumeKey :: "string \<Rightarrow> string" where "managedVolumeKey v = volumesPrefix @ v"
definition assignmentKey :: "string \<Rightarrow> string" where "assignmentKey i = assignmentsPrefix @ i"
definition reconciliationKey :: "string \<Rightarrow> string" where "reconciliationKey i = reconciliationPrefix @ i"
definition retryKey :: "string \<Rightarrow> string" where "retryKey i = retriesPrefix @ i"
definition eventKey :: "string \<Rightarrow> string" where "eventKey i = eventsPrefix @ i"

text \<open>Node documents have no key function in the source; the literal is repeated there.\<close>

definition nodeKey :: "string \<Rightarrow> string" where "nodeKey i = ''/nodes/'' @ i"
definition nodeStatusKey :: "string \<Rightarrow> string" where "nodeStatusKey i = ''/nodes/'' @ i @ ''/status''"

definition sanitizeKeySegment :: "string \<Rightarrow> string" where
  "sanitizeKeySegment s =
     (let trimmed = TrimSpace s
      in if trimmed = [] then ''_'' else ReplaceChar (CHR ''/'') (CHR ''_'') trimmed)"

definition volumeAttachmentKey :: "string \<Rightarrow> string \<Rightarrow> string \<Rightarrow> string" where
  "volumeAttachmentKey nodeID workloadID volumeID =
     attachmentsPrefix @ sanitizeKeySegment nodeID @ ''/'' @ sanitizeKeySegment workloadID @ ''/'' @
     sanitizeKeySegment volumeID"

definition driftKey :: "string \<Rightarrow> string \<Rightarrow> string \<Rightarrow> string" where
  "driftKey nodeID workloadID driftType =
     (let n = ReplaceChar (CHR ''/'') (CHR ''_'') (TrimSpace nodeID);
          w = ReplaceChar (CHR ''/'') (CHR ''_'') (TrimSpace workloadID);
          d = ReplaceChar (CHR ''/'') (CHR ''_'') (TrimSpace driftType);
          w' = (if w = [] then ''_unknown'' else w)
      in driftsPrefix @ n @ ''/'' @ w' @ ''/'' @ d)"

section \<open>Defaults\<close>

definition defaultRetryState :: retry_state where
  "defaultRetryState = \<lparr>rt_Attempts = 0, rt_MaxAttempts = 5, rt_NextRetryAt = 0\<rparr>"

definition normalizeDesiredStateString :: "string \<Rightarrow> string" where
  "normalizeDesiredStateString v =
     (let l = ToLower (TrimSpace v)
      in if l = ''stopped'' \<or> l = ''stop'' then ''Stopped''
         else if l = ''deleted'' \<or> l = ''delete'' then ''Deleted''
         else ''Running'')"

definition initializeWorkloadDefaults :: "'w env \<Rightarrow> workload \<Rightarrow> ('w, workload) op" where
  "initializeWorkloadDefaults E w0 = do {
     let w1 = (if w_DesiredState w0 = [] then w0\<lparr>w_DesiredState := ''Running''\<rparr> else w0);
     let w2 = w1\<lparr>w_DesiredState := normalizeDesiredStateString (w_DesiredState w1)\<rparr>;
     let w3 = (if w_Status w2 = [] then w2\<lparr>w_Status := ''Pending''\<rparr> else w2);
     created \<leftarrow> (if IsZero (w_CreatedAt w3) then now E else ret (w_CreatedAt w3));
     let w4 = w3\<lparr>w_CreatedAt := created\<rparr>;
     let w5 = (if rt_MaxAttempts (w_Retry w4) \<le> 0 then w4\<lparr>w_Retry := defaultRetryState\<rparr> else w4);
     let w6 = (if mget (w_Metadata w5) ''created_at'' = None
               then w5\<lparr>w_Metadata := mput ''created_at'' (MStr (formatRFC3339 (w_CreatedAt w5))) (w_Metadata w5)\<rparr>
               else w5);
     let w7 = (if mget (w_Metadata w6) ''last_action'' = None
               then w6\<lparr>w_Metadata := mput ''last_action'' (MStr ''Created'') (w_Metadata w6)\<rparr> else w6);
     t \<leftarrow> now E;
     let w8 = w7\<lparr>w_StatusInfo := (w_StatusInfo w7)\<lparr>si_LastUpdated := t\<rparr>\<rparr>;
     ret (if si_ActualState (w_StatusInfo w8) = []
          then w8\<lparr>w_StatusInfo := (w_StatusInfo w8)\<lparr>si_ActualState := w_Status w8\<rparr>\<rparr> else w8) }"

section \<open>Telemetry\<close>

text \<open>
  Redis first, etcd as the fallback. A Redis pipeline is one call: push, trim to the
  newest \<open>maxEntries\<close>, expire.
\<close>

definition reconcileTTL :: "config \<Rightarrow> duration" where
  "reconcileTTL c = (if c_RedisReconcileTTL c > 0 then c_RedisReconcileTTL c else 24 * Hour)"

definition eventTTL :: "config \<Rightarrow> duration" where
  "eventTTL c = (if c_RedisEventTTL c > 0 then c_RedisEventTTL c else 24 * Hour)"

definition eventMaxEntries :: "config \<Rightarrow> int" where
  "eventMaxEntries c = (if c_RedisEventMaxEntries c > 0 then c_RedisEventMaxEntries c else 2000)"

definition writeReconciliationTelemetry ::
  "'w env \<Rightarrow> string \<Rightarrow> string \<Rightarrow> bool \<Rightarrow> string \<Rightarrow> time \<Rightarrow> ('w, unit) op" where
  "writeReconciliationTelemetry E workloadID action success reason attemptedAt = do {
     let payload = PMeta [(''workloadId'', MStr workloadID), (''action'', MStr action),
       (''success'', MBool success), (''reason'', MStr reason),
       (''attemptedAt'', MStr (formatRFC3339Nano attemptedAt))];
     redis \<leftarrow> gets sc_redis;
     cfg \<leftarrow> gets sc_cfg;
     stored \<leftarrow> (if redis then do {
         r \<leftarrow> call (redisSet E (''reconciliation:'' @ workloadID) payload (reconcileTTL cfg));
         (case r of
            None \<Rightarrow> do {
              _ \<leftarrow> call (redisPushTrim E ''reconciliation:history'' payload (eventMaxEntries cfg) (reconcileTTL cfg));
              ret True }
          | Some _ \<Rightarrow> ret False) }
       else ret False);
     doif (\<not> stored) (RetryableEtcdPut E (reconciliationKey workloadID) payload) }"

definition writeEventTelemetry :: "'w env \<Rightarrow> payload \<Rightarrow> ('w, bool) op" where
  "writeEventTelemetry E payload = do {
     redis \<leftarrow> gets sc_redis;
     cfg \<leftarrow> gets sc_cfg;
     if \<not> redis then ret False
     else do {
       r \<leftarrow> call (redisPushTrim E ''events:history'' payload (eventMaxEntries cfg) (eventTTL cfg));
       ret (r = None) } }"

section \<open>Assignments, events and drift records\<close>

definition writeAssignment :: "'w env \<Rightarrow> string \<Rightarrow> string \<Rightarrow> string \<Rightarrow> ('w, goerr option) op" where
  "writeAssignment E workloadID nodeID reason = do {
     t \<leftarrow> now E;
     let rec = \<lparr>ar_WorkloadID = workloadID, ar_NodeID = nodeID, ar_Reason = reason, ar_CreatedAt = t\<rparr>;
     r \<leftarrow> RetryableEtcdPut E (assignmentKey workloadID) (PAssignment rec);
     (case r of
        Some e \<Rightarrow> ret (Some e)
      | None \<Rightarrow> do { _ \<leftarrow> cacheAssignment rec; ret None }) }"

definition writeReconciliationRecord :: "'w env \<Rightarrow> string \<Rightarrow> string \<Rightarrow> bool \<Rightarrow> string \<Rightarrow> ('w, unit) op" where
  "writeReconciliationRecord E workloadID action success reason = do {
     t \<leftarrow> now E;
     writeReconciliationTelemetry E workloadID action success reason t }"

definition emitEvent :: "'w env \<Rightarrow> string \<Rightarrow> string \<Rightarrow> string \<Rightarrow> string \<Rightarrow> metadata \<Rightarrow> ('w, unit) op" where
  "emitEvent E eventType workloadID nodeID reason details = do {
     i \<leftarrow> call (newUUID E);
     t \<leftarrow> now E;
     let event = \<lparr>ev_ID = i, ev_Type = eventType, ev_WorkloadID = workloadID, ev_NodeID = nodeID,
                  ev_Reason = reason, ev_Timestamp = t, ev_Details = details\<rparr>;
     let payload = marshalEvent event;
     stored \<leftarrow> writeEventTelemetry E payload;
     doif (\<not> stored) (RetryableEtcdPut E (eventKey i) payload) }"

definition writeDriftRecord :: "'w env \<Rightarrow> drift_record \<Rightarrow> ('w, unit) op" where
  "writeDriftRecord E r = do {
     _ \<leftarrow> RetryableEtcdPut E (driftKey (dr_NodeID r) (dr_WorkloadID r) (dr_DriftType r)) (PDrift r);
     ret () }"

definition clearDriftRecord :: "'w env \<Rightarrow> string \<Rightarrow> string \<Rightarrow> string \<Rightarrow> ('w, unit) op" where
  "clearDriftRecord E nodeID workloadID driftType = do {
     _ \<leftarrow> RetryableEtcdDelete E (driftKey nodeID workloadID driftType);
     ret () }"

text \<open>
  A range request with a positive limit returns the first \<open>limit\<close> entries of the range;
  documents that do not decode are dropped.
\<close>

definition decoded :: "(payload \<Rightarrow> 'a result) \<Rightarrow> (string \<times> payload) list \<Rightarrow> (string \<times> 'a) list" where
  "decoded f kvs = concat (map (\<lambda>(k, v). case f v of Inl _ \<Rightarrow> [] | Inr x \<Rightarrow> [(k, x)]) kvs)"

definition ListSchedulerEvents :: "'w env \<Rightarrow> int \<Rightarrow> ('w, scheduler_event list result) op" where
  "ListSchedulerEvents E limit = do {
     r \<leftarrow> RetryableEtcdGetPrefix E eventsPrefix;
     (case r of
        Inl e \<Rightarrow> ret (Inl e)
      | Inr kvs \<Rightarrow>
          ret (Inr (map snd (decoded unmarshalEvent (if limit > 0 then take (nat limit) kvs else kvs))))) }"

lemma in_decoded: "(k, x) \<in> set (decoded f kvs) \<longleftrightarrow> (\<exists>v. (k, v) \<in> set kvs \<and> f v = Inr x)"
proof (induction kvs)
  case (Cons a kvs)
  then show ?case by (cases a; cases "f (snd a)") (auto simp: decoded_def)
qed (simp add: decoded_def)

section \<open>The key space\<close>

text \<open>
  A family of keys: an injective naming under a prefix. Two families whose prefixes
  exclude each other share no key, so a write to one family cannot hit the other.
\<close>

locale key_family =
  fixes key :: "string \<Rightarrow> string"
    and pfx :: string
  assumes under: "HasPrefix (key i) pfx"
    and inj: "key i = key j \<Longrightarrow> i = j"
begin

lemma key_eq [simp]: "key i = key j \<longleftrightarrow> i = j"
  using inj by blast

lemma apart: "\<not> HasPrefix p pfx \<Longrightarrow> \<not> HasPrefix pfx p \<Longrightarrow> HasPrefix k p \<Longrightarrow> key i \<noteq> k"
proof
  assume "\<not> HasPrefix p pfx" "\<not> HasPrefix pfx p" "HasPrefix k p" "key i = k"
  with under [of i] obtain u v where eq: "pfx @ u = p @ v" unfolding HasPrefix_iff by metis
  then have "(\<exists>w. pfx = p @ w) \<or> (\<exists>w. p = pfx @ w)" by (auto simp: append_eq_append_conv2)
  with \<open>\<not> HasPrefix p pfx\<close> \<open>\<not> HasPrefix pfx p\<close> show False by (auto simp: HasPrefix_iff)
qed

end

interpretation specK: key_family workloadSpecKey workloadSpecPrefix
  by unfold_locales (simp_all add: workloadSpecKey_def)

interpretation statusK: key_family workloadStatusKey workloadStatusPrefix
  by unfold_locales (simp_all add: workloadStatusKey_def)

interpretation legacyK: key_family workloadKey workloadsPrefix
  by unfold_locales (simp_all add: workloadKey_def)

interpretation volumeK: key_family managedVolumeKey volumesPrefix
  by unfold_locales (simp_all add: managedVolumeKey_def)

interpretation assignmentK: key_family assignmentKey assignmentsPrefix
  by unfold_locales (simp_all add: assignmentKey_def)

interpretation reconciliationK: key_family reconciliationKey reconciliationPrefix
  by unfold_locales (simp_all add: reconciliationKey_def)

interpretation retryK: key_family retryKey retriesPrefix
  by unfold_locales (simp_all add: retryKey_def)

interpretation eventK: key_family eventKey eventsPrefix
  by unfold_locales (simp_all add: eventKey_def)

interpretation nodeK: key_family nodeKey nodesPrefix
  by unfold_locales (simp_all add: nodeKey_def nodesPrefix_def)

end
