(* ===== verification/Guard.thy ===== *)
theory Guard
  imports StateStore
begin

text \<open>
  The invariant of the scheduler and the guarantee every operation gives. The invariant:
  a frozen snapshot exists exactly outside normal mode, the caches are keyed by the
  identifiers of their entries, and every document of the store sits under the key of its
  own identifier. The guarantee of an operation with footprint \<open>K\<close>: the setup stays, keys
  outside \<open>K\<close> keep their documents, and a frozen scheduler stays frozen and writes nothing
  (outside an exception set \<open>X\<close>, which is empty for all operations but one).
\<close>

section \<open>Well-formed stores and caches\<close>

definition entry_ok :: "string \<Rightarrow> payload \<Rightarrow> bool" where
  "entry_ok k v =
    ((HasPrefix k workloadSpecPrefix \<longrightarrow> (case v of PSpec p \<Rightarrow> k = workloadSpecKey (ws_ID p) | _ \<Rightarrow> False)) \<and>
     (HasPrefix k workloadStatusPrefix \<longrightarrow> (case v of PStatus p \<Rightarrow> k = workloadStatusKey (wt_ID p) | _ \<Rightarrow> False)) \<and>
     (HasPrefix k workloadsPrefix \<longrightarrow> (case v of PWorkload w \<Rightarrow> k = workloadKey (w_ID w) | _ \<Rightarrow> False)) \<and>
     (HasPrefix k assignmentsPrefix \<longrightarrow> (case v of PAssignment a \<Rightarrow> k = assignmentKey (ar_WorkloadID a) | _ \<Rightarrow> False)) \<and>
     (HasPrefix k volumesPrefix \<longrightarrow> (case v of PVolume r \<Rightarrow> k = managedVolumeKey (vr_ID r) | _ \<Rightarrow> False)) \<and>
     (HasPrefix k attachmentsPrefix \<longrightarrow> (case v of PAttachment a \<Rightarrow> k = va_ID a | _ \<Rightarrow> False)) \<and>
     (HasPrefix k nodesPrefix \<longrightarrow> (case v of PNode n \<Rightarrow> k = nodeKey (n_NodeID n) | PText _ \<Rightarrow> True | _ \<Rightarrow> False)))"

definition store_ok :: "(string \<Rightarrow> payload option) \<Rightarrow> bool" where
  "store_ok c = (\<forall>k v. c k = Some v \<longrightarrow> entry_ok k v)"

definition keyed :: "('v \<Rightarrow> string) \<Rightarrow> 'v gomap \<Rightarrow> bool" where
  "keyed f m = (wf_map m \<and> (\<forall>(k, v) \<in> set m. f v = k))"

definition cache_ok :: "'w sched \<Rightarrow> bool" where
  "cache_ok s = (keyed n_NodeID (sc_cacheNodes s) \<and> keyed w_ID (sc_cacheWorkloads s) \<and>
     keyed ar_WorkloadID (sc_cacheAssignments s))"

definition sched_inv :: "('w \<Rightarrow> string \<Rightarrow> payload option) \<Rightarrow> 'w sched \<Rightarrow> bool" where
  "sched_inv view s = (mode_ok s \<and> cache_ok s \<and> store_ok (view (sc_world s)))"

definition footprint ::
  "('w \<Rightarrow> string \<Rightarrow> payload option) \<Rightarrow> string set \<Rightarrow> string set \<Rightarrow> 'w sched \<Rightarrow> 'w sched \<Rightarrow> bool" where
  "footprint view K X s t = (same_setup s t \<and>
     (\<forall>k. k \<notin> K \<longrightarrow> view (sc_world t) k = view (sc_world s) k) \<and>
     (\<not> writable s \<longrightarrow> \<not> writable t \<and>
        (\<forall>k. k \<notin> X \<longrightarrow> view (sc_world t) k = view (sc_world s) k)))"

abbreviation safe ::
  "('w \<Rightarrow> string \<Rightarrow> payload option) \<Rightarrow> string set \<Rightarrow> string set \<Rightarrow> ('w, 'a) op \<Rightarrow> ('a \<Rightarrow> bool) \<Rightarrow> bool" where
  "safe view K X m Q \<equiv> ensures (sched_inv view) (footprint view K X) m Q"

interpretation fp: guarantee "sched_inv view" "footprint view K X" for view K X
  by unfold_locales (auto simp: footprint_def intro: same_setup_trans)

text \<open>An operation that stops at once when the scheduler is frozen needs no exception set.\<close>

lemma safe_tighten:
  assumes "safe view K X m Q"
    and "\<And>s. \<not> writable s \<Longrightarrow> \<not> writable (snd (run_state m s)) \<and>
      view (sc_world (snd (run_state m s))) = view (sc_world s)"
  shows "safe view K Y m Q"
  using assms by (auto simp: ensures_def footprint_def)

text \<open>The key families an operation on workloads, nodes or volumes may write.\<close>

definition workload_keys :: "string set" where
  "workload_keys = {k. HasPrefix k workloadSpecPrefix \<or> HasPrefix k workloadStatusPrefix \<or>
     HasPrefix k retriesPrefix}"

definition own_keys :: "string \<Rightarrow> string set" where
  "own_keys i = {workloadSpecKey i, workloadStatusKey i, retryKey i}"

definition storage_keys :: "string set" where
  "storage_keys = {k. HasPrefix k volumesPrefix \<or> HasPrefix k attachmentsPrefix}"

definition node_keys :: "string set" where
  "node_keys = {k. HasPrefix k nodesPrefix}"

definition event_keys :: "string set" where
  "event_keys = {k. HasPrefix k eventsPrefix}"

definition drift_keys :: "string set" where
  "drift_keys = {k. HasPrefix k driftsPrefix}"

definition dns_keys :: "string set" where
  "dns_keys = {k. HasPrefix k ''/skydns/''}"

lemmas family_defs = workload_keys_def own_keys_def storage_keys_def node_keys_def event_keys_def
  drift_keys_def dns_keys_def

lemmas key_defs = workloadKey_def workloadSpecKey_def workloadStatusKey_def managedVolumeKey_def
  assignmentKey_def reconciliationKey_def retryKey_def eventKey_def nodeKey_def nodeStatusKey_def

lemma in_families [simp]:
  "eventKey i \<in> event_keys" "driftKey n w d \<in> drift_keys" "managedVolumeKey v \<in> storage_keys"
  "volumeAttachmentKey n w v \<in> storage_keys" "nodeKey i \<in> node_keys" "nodeStatusKey i \<in> node_keys"
  "''/skydns/'' @ k \<in> dns_keys" "workloadSpecKey i \<in> own_keys i" "workloadStatusKey i \<in> own_keys i"
  "retryKey i \<in> own_keys i"
  by (simp_all add: family_defs key_defs driftKey_def volumeAttachmentKey_def Let_def prefix_defs)

text \<open>Every writer of the store writes a document under its own key.\<close>

lemma entry_ok_writers [simp]:
  "entry_ok (workloadSpecKey i) (PSpec p) = (ws_ID p = i)"
  "entry_ok (workloadStatusKey i) (PStatus q) = (wt_ID q = i)"
  "entry_ok (retryKey i) v"
  "entry_ok (assignmentKey i) (PAssignment a) = (ar_WorkloadID a = i)"
  "entry_ok (reconciliationKey i) v"
  "entry_ok (eventKey i) v"
  "entry_ok (managedVolumeKey i) (PVolume r) = (vr_ID r = i)"
  "entry_ok (nodeKey i) (PNode n) = (n_NodeID n = i)"
  "entry_ok (nodeStatusKey i) (PText x)"
  by (auto simp: entry_ok_def key_defs prefix_defs)

lemma entry_ok_drift [simp]: "entry_ok (driftKey n w d) v"
  by (simp add: driftKey_def Let_def entry_ok_def prefix_defs)

lemma entry_ok_attachment [simp]:
  "entry_ok (volumeAttachmentKey n w v) (PAttachment a) = (va_ID a = volumeAttachmentKey n w v)"
  by (auto simp: volumeAttachmentKey_def entry_ok_def prefix_defs)

lemma entry_ok_dns [simp]: "entry_ok (''/skydns/'' @ k) v"
  by (simp add: entry_ok_def prefix_defs)

lemma volumeAttachmentKey_nonblank [simp]: "TrimSpace (volumeAttachmentKey n w v) \<noteq> []"
  by (simp add: TrimSpace_eq_Nil volumeAttachmentKey_def attachmentsPrefix_def isSpace_def)

lemma keyed_Nil [simp]: "keyed f []"
  by (simp add: keyed_def)

lemma keyed_iff: "keyed f m \<longleftrightarrow> wf_map m \<and> (\<forall>k v. mget m k = Some v \<longrightarrow> f v = k)"
  by (auto simp: keyed_def mget_Some_in)

lemma keyed_mput [simp]: "keyed f m \<Longrightarrow> f v = k \<Longrightarrow> keyed f (mput k v m)"
  by (auto simp: keyed_iff mget_mput)

lemma keyed_mdel [simp]: "keyed f m \<Longrightarrow> keyed f (mdel k m)"
  by (auto simp: keyed_iff mget_mdel)

lemma keyedD: "keyed f m \<Longrightarrow> mget m k = Some v \<Longrightarrow> f v = k"
  by (auto simp: keyed_iff)

lemma keyed_fold: "keyed f m \<Longrightarrow> keyed f (fold (\<lambda>x. mput (f x) x) xs m)"
  by (induction xs arbitrary: m) auto

lemma keyed_snd: "keyed f m \<Longrightarrow> v \<in> snd ` set m \<Longrightarrow> mget m (f v) = Some v"
  by (force simp: keyed_def mget_Some_in)

section \<open>Guarantees of the primitive operations\<close>

text \<open>Programs that leave the control part and the store alone.\<close>

lemma sched_inv_world:
  "view w = view (sc_world s) \<Longrightarrow> sched_inv view (s\<lparr>sc_world := w\<rparr>) = sched_inv view s"
  by (simp add: sched_inv_def mode_ok_def cache_ok_def)

lemma footprint_world:
  "view w = view (sc_world s) \<Longrightarrow> footprint view K X s (s\<lparr>sc_world := w\<rparr>)"
  by (simp add: footprint_def same_setup_def writable_def)

lemma safe_call: "(\<And>w. view (snd (f w)) = view w) \<Longrightarrow> safe view K X (call f) (\<lambda>_. True)"
  by (simp add: ensures_def sched_inv_world footprint_world)

lemma safe_cacheNode [op_intros]: "safe view K X (cacheNode n) (\<lambda>_. True)"
  unfolding cacheNode_def
  by (rule ensures_modify)
    (simp_all add: sched_inv_def mode_ok_def cache_ok_def footprint_def writable_def)

lemma safe_cacheWorkload [op_intros]: "safe view K X (cacheWorkload w) (\<lambda>_. True)"
  unfolding cacheWorkload_def
  by (rule ensures_modify)
    (simp_all add: sched_inv_def mode_ok_def cache_ok_def footprint_def writable_def)

lemma safe_cacheAssignment [op_intros]: "safe view K X (cacheAssignment a) (\<lambda>_. True)"
  unfolding cacheAssignment_def
  by (rule ensures_modify)
    (simp_all add: sched_inv_def mode_ok_def cache_ok_def footprint_def writable_def)

lemma safe_removeCachedWorkload [op_intros]: "safe view K X (removeCachedWorkload i) (\<lambda>_. True)"
  unfolding removeCachedWorkload_def
  by (rule ensures_modify)
    (simp_all add: sched_inv_def mode_ok_def cache_ok_def footprint_def writable_def)

lemma safe_requireWritable [op_intros]: "safe view K X requireWritable (\<lambda>_. True)"
  unfolding requireWritable_def by (rule fp.g_gets) simp

lemma safe_getCachedNode: "safe view K X (getCachedNode i) (\<lambda>x. \<forall>n. x = Some n \<longrightarrow> n_NodeID n = i)"
  unfolding getCachedNode_def
  by (rule fp.g_gets) (auto simp: sched_inv_def cache_ok_def dest: keyedD)

lemma safe_getCachedWorkload: "safe view K X (getCachedWorkload i) (\<lambda>x. \<forall>n. x = Some n \<longrightarrow> w_ID n = i)"
  unfolding getCachedWorkload_def
  by (rule fp.g_gets) (auto simp: sched_inv_def cache_ok_def dest: keyedD)

context etcd_client
begin

lemma safe_now [op_intros]: "safe view K X (now E) (\<lambda>_. True)"
  by (rule safe_call) simp

lemma safe_uuid [op_intros]: "safe view K X (call (newUUID E)) (\<lambda>_. True)"
  by (rule safe_call) simp

lemma safe_redis [op_intros]:
  "safe view K X (call (redisSet E k v d)) (\<lambda>_. True)"
  "safe view K X (call (redisPushTrim E k v n d)) (\<lambda>_. True)"
  by (rule safe_call; simp)+

lemma safe_agent [op_intros]:
  "safe view K X (call (agentDial E a)) (\<lambda>_. True)"
  "safe view K X (call (agentApply E a q)) (\<lambda>_. True)"
  "safe view K X (call (agentStatus E a i)) (\<lambda>_. True)"
  "safe view K X (call (agentList E a)) (\<lambda>_. True)"
  "safe view K X (call (agentActions E a i l)) (\<lambda>_. True)"
  "safe view K X (call (agentDelete E a i)) (\<lambda>_. True)"
  by (rule safe_call; simp)+

lemma safe_sleep [op_intros]: "safe view K X (sleep E d) (\<lambda>_. True)"
  by (simp add: ensures_def sched_inv_world footprint_world)

lemma sched_inv_degraded:
  "sched_inv view s \<Longrightarrow> sched_inv view (snd (run_state (enterDegraded E r) s))"
  by (simp add: sched_inv_def enterDegraded_run Let_def mode_ok_def cache_ok_def)

lemma inv_control:
  "same_control s t \<Longrightarrow> view (sc_world t) = view (sc_world s) \<Longrightarrow> sched_inv view s \<Longrightarrow> sched_inv view t"
  using same_control_sel [of s t] by (simp add: sched_inv_def cache_ok_def)

lemma safe_enterDegraded [op_intros]: "safe view K X (enterDegraded E r) (\<lambda>_. True)"
  using not_writable_degraded by (simp add: ensures_def sched_inv_degraded footprint_def)

lemma inv_store:
  "same_control s t \<Longrightarrow> store_ok (view (sc_world t)) \<Longrightarrow> sched_inv view s \<Longrightarrow> sched_inv view t"
  using same_control_sel [of s t] by (simp add: sched_inv_def cache_ok_def)

text \<open>
  The common shape of a guarded write: it is refused, or it changes at most the document
  of its key to something well formed, and then either succeeds or freezes the scheduler.
\<close>

lemma safe_write:
  assumes k: "k \<in> K"
    and run: "\<And>s. sched_inv view s \<Longrightarrow>
      snd (run_state m s) = s \<or>
      (writable s \<and> (\<exists>u. same_control s u \<and> store_ok (view (sc_world u)) \<and>
         (\<forall>k'. k' \<noteq> k \<longrightarrow> view (sc_world u) k' = view (sc_world s) k') \<and>
         (snd (run_state m s) = u \<or> (\<exists>r. snd (run_state m s) = snd (run_state (enterDegraded E r) u)))))"
  shows "safe view K X m (\<lambda>_. True)"
  unfolding ensures_def
proof (intro allI impI)
  fix s assume s: "sched_inv view s"
  from run [OF s] show "sched_inv view (snd (run_state m s)) \<and> footprint view K X s (snd (run_state m s)) \<and> True"
  proof (elim disjE conjE exE, goal_cases)
    case 1
    then show ?case using s by (simp add: fp.R_refl)
  next
    case (2 u)
    then show ?case using inv_store [of s u] same_control_sel(3) [of s u] s k by (auto simp: footprint_def)
  next
    case (3 u r)
    let ?t = "snd (run_state (enterDegraded E r) u)"
    have "sched_inv view u" using inv_store [of s u] 3 s by simp
    moreover have "same_setup s ?t"
      using same_setup_trans [of s u ?t] same_control_sel(3) [of s u] 3 by simp
    ultimately show ?case using 3 k by (auto simp: footprint_def sched_inv_degraded)
  qed
qed

lemma safe_put [op_intros]:
  assumes "k \<in> K" "entry_ok k v"
  shows "safe view K X (RetryableEtcdPut E k v) (\<lambda>_. True)"
proof (rule safe_write [OF assms(1)])
  fix s assume s: "sched_inv view s"
  let ?c = "view (sc_world s)" and ?m = "RetryableEtcdPut E k v"
  obtain r t where run: "run_state ?m s = (r, t)" by (cases "run_state ?m s")
  have fine: "store_ok (?c(k \<mapsto> v))" "store_ok ?c"
    using s assms(2) by (auto simp: sched_inv_def store_ok_def)
  have control: "same_control s u" if "run_state (write_attempts E n f) s = (x, u)" for n f x u
    using write_attempts_control [of s E n f] that by simp
  from run show "snd (run_state ?m s) = s \<or>
      (writable s \<and> (\<exists>u. same_control s u \<and> store_ok (view (sc_world u)) \<and>
         (\<forall>k'. k' \<noteq> k \<longrightarrow> view (sc_world u) k' = view (sc_world s) k') \<and>
         (snd (run_state ?m s) = u \<or> (\<exists>r. snd (run_state ?m s) = snd (run_state (enterDegraded E r) u)))))"
  proof (cases rule: put_cases)
    case ok
    from put_attempts_view [OF ok(2)] have "view (sc_world t) = ?c(k \<mapsto> v)" by simp
    with ok run control [OF ok(2)] fine show ?thesis by auto
  next
    case (failed e u)
    from put_attempts_view [OF failed(2)] have "view (sc_world u) = ?c \<or> view (sc_world u) = ?c(k \<mapsto> v)" by simp
    then have "store_ok (view (sc_world u))" "\<forall>k'. k' \<noteq> k \<longrightarrow> view (sc_world u) k' = ?c k'"
      using fine by auto
    with failed run control [OF failed(2)] show ?thesis by auto
  qed (use run in auto)
qed

lemma safe_delete [op_intros]:
  assumes "k \<in> K"
  shows "safe view K X (RetryableEtcdDelete E k) (\<lambda>_. True)"
proof (rule safe_write [OF assms(1)])
  fix s assume s: "sched_inv view s"
  let ?c = "view (sc_world s)" and ?m = "RetryableEtcdDelete E k"
  obtain r t where run: "run_state ?m s = (r, t)" by (cases "run_state ?m s")
  have fine: "store_ok (?c(k := None))" "store_ok ?c"
    using s by (auto simp: sched_inv_def store_ok_def)
  have control: "same_control s u" if "run_state (write_attempts E n f) s = (x, u)" for n f x u
    using write_attempts_control [of s E n f] that by simp
  from run show "snd (run_state ?m s) = s \<or>
      (writable s \<and> (\<exists>u. same_control s u \<and> store_ok (view (sc_world u)) \<and>
         (\<forall>k'. k' \<noteq> k \<longrightarrow> view (sc_world u) k' = view (sc_world s) k') \<and>
         (snd (run_state ?m s) = u \<or> (\<exists>r. snd (run_state ?m s) = snd (run_state (enterDegraded E r) u)))))"
  proof (cases rule: delete_cases)
    case ok
    from del_attempts_view [OF ok(2)] have "view (sc_world t) = ?c(k := None)" by simp
    with ok run control [OF ok(2)] fine show ?thesis by auto
  next
    case (failed e u)
    from del_attempts_view [OF failed(2)] have "view (sc_world u) = ?c \<or> view (sc_world u) = ?c(k := None)" by simp
    then have "store_ok (view (sc_world u))" "\<forall>k'. k' \<noteq> k \<longrightarrow> view (sc_world u) k' = ?c k'"
      using fine by auto
    with failed run control [OF failed(2)] show ?thesis by auto
  qed (use run in auto)
qed

lemma safe_read:
  assumes "\<And>s. sched_inv view s \<Longrightarrow> \<exists>u. same_control s u \<and> view (sc_world u) = view (sc_world s) \<and>
      (snd (run_state m s) = u \<or> (\<exists>r. snd (run_state m s) = snd (run_state (enterDegraded E r) u))) \<and>
      Q (fst (run_state m s))"
  shows "safe view K X m Q"
  unfolding ensures_def
proof (intro allI impI)
  fix s assume s: "sched_inv view s"
  from assms [OF s] show "sched_inv view (snd (run_state m s)) \<and> footprint view K X s (snd (run_state m s)) \<and>
      Q (fst (run_state m s))"
  proof (elim disjE conjE exE, goal_cases)
    case (1 u)
    then show ?case using inv_control [of s u] same_control_sel [of s u] s by (auto simp: footprint_def)
  next
    case (2 u r)
    let ?t = "snd (run_state (enterDegraded E r) u)"
    have "sched_inv view u" using inv_control [of s u] 2 s by simp
    moreover have "same_setup s ?t"
      using same_setup_trans [of s u ?t] same_control_sel(3) [of s u] 2 by simp
    ultimately show ?case using 2 by (auto simp: footprint_def sched_inv_degraded)
  qed
qed

lemma safe_get:
  "safe view K X (RetryableEtcdGet E k) (\<lambda>x. \<forall>v. x = Inr (Some v) \<longrightarrow> entry_ok k v)"
proof (rule safe_read)
  fix s assume s: "sched_inv view s"
  let ?m = "RetryableEtcdGet E k"
  obtain r t where run: "run_state ?m s = (r, t)" by (cases "run_state ?m s")
  have control: "same_control s u \<and> view (sc_world u) = view (sc_world s)"
    if "run_state (read_attempts E n (etcdGet E k)) s = (x, u)" for n x u
    using read_attempts_control [of s E n "etcdGet E k"] read_attempts_view [of "etcdGet E k" n s] that by simp
  have q: "entry_ok k v" if "r = Inr (Some v)" for v
    using retry_get_ok [of k s "Some v" t] run that s by (auto simp: sched_inv_def store_ok_def)
  from run show "\<exists>u. same_control s u \<and> view (sc_world u) = view (sc_world s) \<and>
      (snd (run_state ?m s) = u \<or> (\<exists>r. snd (run_state ?m s) = snd (run_state (enterDegraded E r) u))) \<and>
      (\<forall>v. fst (run_state ?m s) = Inr (Some v) \<longrightarrow> entry_ok k v)"
  proof (cases rule: get_cases)
    case (ok x)
    with run control [OF ok(1)] q show ?thesis by auto
  next
    case (failed e u)
    with run control [OF failed(1)] q show ?thesis by auto
  qed
qed

lemma safe_range:
  "safe view K X (RetryableEtcdGetPrefix E p)
     (\<lambda>x. \<forall>kvs. x = Inr kvs \<longrightarrow> (\<forall>k v. (k, v) \<in> set kvs \<longrightarrow> HasPrefix k p \<and> entry_ok k v))"
proof (rule safe_read)
  fix s assume s: "sched_inv view s"
  let ?m = "RetryableEtcdGetPrefix E p"
  obtain r t where run: "run_state ?m s = (r, t)" by (cases "run_state ?m s")
  have control: "same_control s u \<and> view (sc_world u) = view (sc_world s)"
    if "run_state (read_attempts E n (etcdGetPrefix E p)) s = (x, u)" for n x u
    using read_attempts_control [of s E n "etcdGetPrefix E p"]
      read_attempts_view [of "etcdGetPrefix E p" n s] that by simp
  have q: "HasPrefix k p \<and> entry_ok k v" if "r = Inr kvs" "(k, v) \<in> set kvs" for kvs k v
    using retry_range_ok [of p s kvs t] run that s by (auto simp: sched_inv_def store_ok_def)
  from run show "\<exists>u. same_control s u \<and> view (sc_world u) = view (sc_world s) \<and>
      (snd (run_state ?m s) = u \<or> (\<exists>r. snd (run_state ?m s) = snd (run_state (enterDegraded E r) u))) \<and>
      (\<forall>kvs. fst (run_state ?m s) = Inr kvs \<longrightarrow>
        (\<forall>k v. (k, v) \<in> set kvs \<longrightarrow> HasPrefix k p \<and> entry_ok k v))"
  proof (cases rule: prefix_cases)
    case (ok x)
    with run control [OF ok(1)] q show ?thesis by auto
  next
    case (failed e u)
    with run control [OF failed(1)] q show ?thesis by auto
  qed
qed

lemmas safe_get_any [op_intros] = safe_get [THEN ensures_any]
lemmas safe_range_any [op_intros] = safe_range [THEN ensures_any]

section \<open>Guarantees of the state store\<close>

lemma safe_writeReconciliationTelemetry [op_intros]:
  assumes "reconciliationKey i \<in> K"
  shows "safe view K X (writeReconciliationTelemetry E i a b r t) (\<lambda>_. True)"
  unfolding writeReconciliationTelemetry_def
  by (rule fp.g_rules op_intros assms entry_ok_writers TrueI)+

lemma safe_writeReconciliationRecord [op_intros]:
  "reconciliationKey i \<in> K \<Longrightarrow> safe view K X (writeReconciliationRecord E i a b r) (\<lambda>_. True)"
  unfolding writeReconciliationRecord_def by (rule fp.g_rules op_intros | assumption)+

lemma safe_writeEventTelemetry [op_intros]: "safe view K X (writeEventTelemetry E p) (\<lambda>_. True)"
  unfolding writeEventTelemetry_def by (rule fp.g_rules op_intros TrueI)+

lemma safe_emitEvent [op_intros]:
  "event_keys \<subseteq> K \<Longrightarrow> safe view K X (emitEvent E ty i n r d) (\<lambda>_. True)"
  unfolding emitEvent_def
  by (rule fp.g_rules op_intros TrueI | (auto; fail))+

lemma safe_writeAssignment [op_intros]:
  "assignmentKey i \<in> K \<Longrightarrow> safe view K X (writeAssignment E i n r) (\<lambda>_. True)"
  unfolding writeAssignment_def
  by (rule fp.g_rules op_intros TrueI | simp; fail)+

lemma safe_writeDriftRecord [op_intros]:
  "drift_keys \<subseteq> K \<Longrightarrow> safe view K X (writeDriftRecord E r) (\<lambda>_. True)"
  unfolding writeDriftRecord_def
  by (rule fp.g_rules op_intros TrueI | (auto; fail))+

lemma safe_clearDriftRecord [op_intros]:
  "drift_keys \<subseteq> K \<Longrightarrow> safe view K X (clearDriftRecord E n w d) (\<lambda>_. True)"
  unfolding clearDriftRecord_def
  by (rule fp.g_rules op_intros TrueI | (auto; fail))+

end

lemma safe_initializeWorkloadDefaults:
  assumes "etcd_client E view"
  shows "safe view K X (initializeWorkloadDefaults E w) (\<lambda>x. w_ID x = w_ID w)"
proof -
  note n = etcd_client.safe_now [OF assms]
  show ?thesis
    unfolding initializeWorkloadDefaults_def
    by (rule n fp.g_rules TrueI | simp; fail)+
qed

end
