(* ===== verification/Storage.thy ===== *)
theory Storage
  imports Guard
begin

text \<open>
  Managed volumes (\<open>state_store.go\<close>, second half): the volume and attachment records, the
  synchronisation of a saved workload with them, their cleanup when a workload is deleted,
  and \<open>saveWorkload\<close>, which writes the projections of a workload and runs the
  synchronisation.
\<close>

section \<open>Pure helpers\<close>

definition workloadManagedVolumeSpecs :: "workload \<Rightarrow> managed_volume_spec list" where
  "workloadManagedVolumeSpecs w = w_ManagedVolumes w @
     (case w_VM w of None \<Rightarrow> [] | Some vm \<Rightarrow> vm_ManagedVolumes vm)"

definition metadataStringValue :: "metadata \<Rightarrow> string \<Rightarrow> string" where
  "metadataStringValue m key = (case mget m key of None \<Rightarrow> [] | Some raw \<Rightarrow> TrimSpace (fmt_v raw))"

definition managedStorageStateEnabled :: "workload \<Rightarrow> bool" where
  "managedStorageStateEnabled w = EqualFold (metadataStringValue (w_Metadata w) managedStorageStateKey) ''true''"

definition shouldSyncManagedStorage :: "workload \<Rightarrow> bool" where
  "shouldSyncManagedStorage w =
     (if workloadManagedVolumeSpecs w \<noteq> [] then True
      else if managedStorageStateEnabled w then True else False)"

definition canonicalStorageDriver :: "string \<Rightarrow> string" where
  "canonicalStorageDriver s =
     (let driver = ToLower (TrimSpace s)
      in if driver = ''ceph_rbd'' then ''ceph-rbd'' else if driver = [] then ''local'' else driver)"

definition managedVolumeID :: "managed_volume_spec \<Rightarrow> string" where
  "managedVolumeID sp = canonicalStorageDriver (mv_Driver sp) @ '':'' @ TrimSpace (mv_Name sp)"

definition normalizeRetainPolicy :: "string \<Rightarrow> string" where
  "normalizeRetainPolicy policy = (if ToLower (TrimSpace policy) = ''retain'' then ''Retain'' else ''Delete'')"

fun containsString :: "string list \<Rightarrow> string \<Rightarrow> bool" where
  "containsString [] target = False"
| "containsString (v # vs) target = (if v = target then True else containsString vs target)"

definition appendUniqueString :: "string list \<Rightarrow> string \<Rightarrow> string list" where
  "appendUniqueString vs target =
     (let trimmed = TrimSpace target
      in if trimmed = [] then vs else if containsString vs trimmed then vs else vs @ [trimmed])"

definition removeString :: "string list \<Rightarrow> string \<Rightarrow> string list" where
  "removeString vs target =
     (let trimmed = TrimSpace target
      in if trimmed = [] \<or> vs = [] then vs else filter (\<lambda>v. v \<noteq> trimmed) vs)"

definition workloadStatusToAttachmentPhase :: "string \<Rightarrow> bool \<Rightarrow> string" where
  "workloadStatusToAttachmentPhase status deleting =
     (if deleting then ''Detaching''
      else let l = ToLower (TrimSpace status)
           in if l = ''running'' then ''Attached'' else if l = ''failed'' then ''Error''
              else if l = ''deleting'' then ''Detaching'' else ''Attaching'')"

definition workloadStatusToVolumePhase :: "workload \<Rightarrow> string \<Rightarrow> bool \<Rightarrow> string" where
  "workloadStatusToVolumePhase w assignedNode deleting =
     (if deleting then ''Released''
      else if TrimSpace assignedNode = [] then ''Provisioned''
      else let l = ToLower (TrimSpace (w_Status w))
           in if l = ''running'' then ''Attached'' else if l = ''failed'' then ''Error'' else ''Provisioned'')"

definition volumeLastError :: "workload \<Rightarrow> string" where
  "volumeLastError w =
     (if TrimSpace (si_FailureReason (w_StatusInfo w)) \<noteq> [] then TrimSpace (si_FailureReason (w_StatusInfo w))
      else case mget (w_Metadata w) ''reason_message'' of
             None \<Rightarrow> []
           | Some raw \<Rightarrow> TrimSpace (fmt_v raw))"

section \<open>Records\<close>

text \<open>The pair of a record pointer and an existence flag is an option.\<close>

definition getManagedVolumeRecord :: "'w env \<Rightarrow> string \<Rightarrow> ('w, managed_volume_record option result) op" where
  "getManagedVolumeRecord E volumeID = do {
     r \<leftarrow> RetryableEtcdGet E (managedVolumeKey volumeID);
     (case r of
        Inl e \<Rightarrow> ret (Inl e)
      | Inr None \<Rightarrow> ret (Inr None)
      | Inr (Some v) \<Rightarrow>
          (case unmarshalVolume v of Inl e \<Rightarrow> ret (Inl e) | Inr record \<Rightarrow> ret (Inr (Some record)))) }"

definition saveManagedVolumeRecord :: "'w env \<Rightarrow> managed_volume_record \<Rightarrow> ('w, goerr option) op" where
  "saveManagedVolumeRecord E record =
     (if TrimSpace (vr_ID record) = [] then ret (Some (errorf ''managed volume id is required''))
      else do {
        t \<leftarrow> now E;
        let record1 = (if IsZero (vr_CreatedAt record) then record\<lparr>vr_CreatedAt := t\<rparr> else record);
        let record2 = record1\<lparr>vr_UpdatedAt := t\<rparr>;
        RetryableEtcdPut E (managedVolumeKey (vr_ID record2)) (PVolume record2) })"

definition deleteManagedVolumeRecord :: "'w env \<Rightarrow> string \<Rightarrow> ('w, goerr option) op" where
  "deleteManagedVolumeRecord E volumeID = RetryableEtcdDelete E (managedVolumeKey volumeID)"

definition listManagedVolumeRecords :: "'w env \<Rightarrow> ('w, managed_volume_record list result) op" where
  "listManagedVolumeRecords E = do {
     r \<leftarrow> RetryableEtcdGetPrefix E volumesPrefix;
     (case r of
        Inl e \<Rightarrow> ret (Inl e)
      | Inr kvs \<Rightarrow> ret (Inr (map snd (decoded unmarshalVolume kvs)))) }"

definition saveVolumeAttachmentRecord :: "'w env \<Rightarrow> volume_attachment_record \<Rightarrow> ('w, goerr option) op" where
  "saveVolumeAttachmentRecord E record = do {
     let record0 = (if TrimSpace (va_ID record) = []
       then record\<lparr>va_ID := volumeAttachmentKey (va_NodeID record) (va_WorkloadID record) (va_VolumeID record)\<rparr>
       else record);
     t \<leftarrow> now E;
     let record1 = (if IsZero (va_CreatedAt record0) then record0\<lparr>va_CreatedAt := t\<rparr> else record0);
     let record2 = record1\<lparr>va_UpdatedAt := t\<rparr>;
     let record3 = (if IsZero (va_LastTransition record2) then record2\<lparr>va_LastTransition := t\<rparr> else record2);
     RetryableEtcdPut E (va_ID record3) (PAttachment record3) }"

definition deleteVolumeAttachmentRecord :: "'w env \<Rightarrow> string \<Rightarrow> ('w, goerr option) op" where
  "deleteVolumeAttachmentRecord E key = RetryableEtcdDelete E key"

definition attachment_of_entry :: "string \<times> volume_attachment_record \<Rightarrow> volume_attachment_record" where
  "attachment_of_entry e =
     (case e of (k, a) \<Rightarrow> if TrimSpace (va_ID a) = [] then a\<lparr>va_ID := k\<rparr> else a)"

definition listVolumeAttachmentsByWorkload ::
  "'w env \<Rightarrow> string \<Rightarrow> ('w, volume_attachment_record list result) op" where
  "listVolumeAttachmentsByWorkload E workloadID = do {
     r \<leftarrow> RetryableEtcdGetPrefix E attachmentsPrefix;
     (case r of
        Inl e \<Rightarrow> ret (Inl e)
      | Inr kvs \<Rightarrow>
          (let flt = TrimSpace workloadID
           in ret (Inr (map attachment_of_entry
                (filter (\<lambda>(k, a). \<not> (flt \<noteq> [] \<and> va_WorkloadID a \<noteq> flt))
                   (decoded unmarshalAttachment kvs)))))) }"

section \<open>Synchronisation\<close>

definition requiredVolumes :: "managed_volume_spec list \<Rightarrow> managed_volume_spec gomap" where
  "requiredVolumes specs =
     fold (\<lambda>sp m. if TrimSpace (mv_Name sp) = [] then m else mput (managedVolumeID sp) sp m) specs []"

text \<open>The first loop: attachments that are no longer wanted. Errors are ignored.\<close>

definition detachAttachment ::
  "'w env \<Rightarrow> string \<Rightarrow> bool \<Rightarrow> string \<Rightarrow> volume_attachment_record \<Rightarrow> managed_volume_spec gomap \<Rightarrow>
   ('w, managed_volume_spec gomap) op" where
  "detachAttachment E workloadID deleting assignedNode attachment required =
     (if deleting \<or> mget required (va_VolumeID attachment) = None \<or>
         va_NodeID attachment \<noteq> assignedNode \<or> assignedNode = []
      then do {
        _ \<leftarrow> deleteVolumeAttachmentRecord E (va_ID attachment);
        r \<leftarrow> getManagedVolumeRecord E (va_VolumeID attachment);
        _ \<leftarrow> (case r of
           Inl _ \<Rightarrow> ret None
         | Inr None \<Rightarrow> ret None
         | Inr (Some record) \<Rightarrow>
             (let record1 = record\<lparr>vr_AttachedNodes := removeString (vr_AttachedNodes record) (va_NodeID attachment),
                                   vr_WorkloadRefs := removeString (vr_WorkloadRefs record) workloadID\<rparr>
              in if vr_WorkloadRefs record1 = [] \<and> normalizeRetainPolicy (vr_RetainPolicy record1) = ''Delete''
                 then deleteManagedVolumeRecord E (vr_ID record1)
                 else saveManagedVolumeRecord E (record1\<lparr>vr_Phase :=
                   (if normalizeRetainPolicy (vr_RetainPolicy record1) = ''Retain'' \<and> deleting
                    then ''Retained'' else ''Released'')\<rparr>)));
        ret (mdel (va_VolumeID attachment) required) }
      else ret required)"

text \<open>The second loop: one required volume.\<close>

definition specified :: "managed_volume_spec \<Rightarrow> managed_volume_record \<Rightarrow> managed_volume_record" where
  "specified sp record = record\<lparr>vr_Name := TrimSpace (mv_Name sp),
     vr_Driver := canonicalStorageDriver (mv_Driver sp), vr_SizeGB := mv_SizeGB sp,
     vr_AccessMode := TrimSpace (mv_AccessMode sp), vr_FSType := TrimSpace (mv_FSType sp),
     vr_RetainPolicy := normalizeRetainPolicy (mv_RetainPolicy sp), vr_LastError := []\<rparr>"

definition fresh_volume :: "string \<Rightarrow> managed_volume_spec \<Rightarrow> time \<Rightarrow> managed_volume_record" where
  "fresh_volume volumeID sp t = \<lparr>vr_ID = volumeID, vr_Name = TrimSpace (mv_Name sp),
     vr_Driver = canonicalStorageDriver (mv_Driver sp), vr_SizeGB = 0, vr_AccessMode = [],
     vr_FSType = [], vr_RetainPolicy = [], vr_Phase = ''Provisioning'', vr_LastError = [],
     vr_WorkloadRefs = [], vr_AttachedNodes = [], vr_CreatedAt = t, vr_UpdatedAt = 0\<rparr>"

definition releaseRequired ::
  "'w env \<Rightarrow> string \<Rightarrow> string \<Rightarrow> managed_volume_record \<Rightarrow> ('w, goerr option) op" where
  "releaseRequired E workloadID assignedNode record =
     (let record1 = record\<lparr>vr_WorkloadRefs := removeString (vr_WorkloadRefs record) workloadID,
                           vr_AttachedNodes := removeString (vr_AttachedNodes record) assignedNode\<rparr>
      in if vr_WorkloadRefs record1 = [] \<and> vr_RetainPolicy record1 = ''Delete''
         then do {
           r \<leftarrow> saveManagedVolumeRecord E (record1\<lparr>vr_Phase := ''Deleting''\<rparr>);
           (case r of
              Some e \<Rightarrow> ret (Some e)
            | None \<Rightarrow> deleteManagedVolumeRecord E (vr_ID record1)) }
         else saveManagedVolumeRecord E (record1\<lparr>vr_Phase := ''Retained''\<rparr>))"

definition attachRequired ::
  "'w env \<Rightarrow> workload \<Rightarrow> string \<Rightarrow> string \<Rightarrow> string \<Rightarrow> managed_volume_spec \<Rightarrow>
   managed_volume_record \<Rightarrow> ('w, goerr option) op" where
  "attachRequired E w workloadID assignedNode volumeID sp record = do {
     let record1 = record\<lparr>vr_WorkloadRefs := appendUniqueString (vr_WorkloadRefs record) workloadID\<rparr>;
     let record2 = (if assignedNode \<noteq> []
       then record1\<lparr>vr_AttachedNodes := appendUniqueString (vr_AttachedNodes record1) assignedNode\<rparr> else record1);
     let record3 = record2\<lparr>vr_Phase := workloadStatusToVolumePhase w assignedNode False\<rparr>;
     let record4 = (if EqualFold (vr_Phase record3) ''Error''
       then record3\<lparr>vr_LastError := volumeLastError w\<rparr> else record3);
     r \<leftarrow> saveManagedVolumeRecord E record4;
     (case r of
        Some e \<Rightarrow> ret (Some e)
      | None \<Rightarrow>
          if assignedNode = [] then ret None
          else do {
            t \<leftarrow> now E;
            let phase = workloadStatusToAttachmentPhase (w_Status w) False;
            let attachment = \<lparr>va_ID = volumeAttachmentKey assignedNode workloadID volumeID,
              va_VolumeID = volumeID, va_WorkloadID = workloadID, va_NodeID = assignedNode,
              va_Driver = canonicalStorageDriver (mv_Driver sp), va_MountPath = TrimSpace (mv_MountPath sp),
              va_ReadOnly = mv_ReadOnly sp, va_Phase = phase,
              va_LastError = (if EqualFold phase ''Error'' then volumeLastError w else []),
              va_LastTransition = t, va_CreatedAt = 0, va_UpdatedAt = 0\<rparr>;
            saveVolumeAttachmentRecord E attachment }) }"

definition syncRequired ::
  "'w env \<Rightarrow> workload \<Rightarrow> string \<Rightarrow> bool \<Rightarrow> string \<Rightarrow> string \<times> managed_volume_spec \<Rightarrow> ('w, goerr option) op" where
  "syncRequired E w workloadID deleting assignedNode entry = do {
     let volumeID = fst entry;
     let sp = snd entry;
     r \<leftarrow> getManagedVolumeRecord E volumeID;
     (case r of
        Inl e \<Rightarrow> ret (Some e)
      | Inr found \<Rightarrow> do {
          record0 \<leftarrow> (case found of
             Some record \<Rightarrow> ret record
           | None \<Rightarrow> do { t \<leftarrow> now E; ret (fresh_volume volumeID sp t) });
          let record = specified sp record0;
          if deleting then releaseRequired E workloadID assignedNode record
          else attachRequired E w workloadID assignedNode volumeID sp record }) }"

text \<open>The third loop: references from volumes the workload no longer names.\<close>

definition releaseStale ::
  "'w env \<Rightarrow> string \<Rightarrow> bool \<Rightarrow> string \<Rightarrow> managed_volume_spec gomap \<Rightarrow> managed_volume_record \<Rightarrow>
   ('w, goerr option) op" where
  "releaseStale E workloadID deleting assignedNode required record =
     (if \<not> containsString (vr_WorkloadRefs record) workloadID then ret None
      else if mget required (vr_ID record) \<noteq> None \<and> \<not> deleting then ret None
      else
        (let record1 = record\<lparr>vr_WorkloadRefs := removeString (vr_WorkloadRefs record) workloadID,
                              vr_AttachedNodes := removeString (vr_AttachedNodes record) assignedNode\<rparr>
         in if vr_WorkloadRefs record1 = [] \<and> normalizeRetainPolicy (vr_RetainPolicy record1) = ''Delete''
            then deleteManagedVolumeRecord E (vr_ID record1)
            else saveManagedVolumeRecord E (record1\<lparr>vr_Phase :=
              (if deleting \<and> normalizeRetainPolicy (vr_RetainPolicy record1) = ''Retain''
               then ''Retained'' else ''Released'')\<rparr>)))"

definition assignedNodeOf :: "workload \<Rightarrow> string" where
  "assignedNodeOf w = (if TrimSpace (w_NodeID w) = [] then TrimSpace (w_AssignedNode w) else TrimSpace (w_NodeID w))"

definition syncWorkloadManagedStorage :: "'w env \<Rightarrow> workload \<Rightarrow> ('w, goerr option) op" where
  "syncWorkloadManagedStorage E w = do {
     let workloadID = TrimSpace (w_ID w);
     if workloadID = [] then ret None
     else do {
       let required0 = requiredVolumes (workloadManagedVolumeSpecs w);
       let deleting = EqualFold (TrimSpace (w_DesiredState w)) ''deleted'';
       let assignedNode = assignedNodeOf w;
       as \<leftarrow> listVolumeAttachmentsByWorkload E workloadID;
       (case as of
          Inl e \<Rightarrow> ret (Some e)
        | Inr existing \<Rightarrow> do {
            required \<leftarrow> fold_st (detachAttachment E workloadID deleting assignedNode) existing required0;
            r \<leftarrow> for_err required (syncRequired E w workloadID deleting assignedNode);
            (case r of
               Some e \<Rightarrow> ret (Some e)
             | None \<Rightarrow> do {
                 vs \<leftarrow> listManagedVolumeRecords E;
                 (case vs of
                    Inl e \<Rightarrow> ret (Some e)
                  | Inr records \<Rightarrow>
                      for_err records (releaseStale E workloadID deleting assignedNode required)) }) }) } }"

section \<open>Cleanup\<close>

definition cleanupVolume ::
  "'w env \<Rightarrow> string \<Rightarrow> volume_attachment_record list \<Rightarrow> managed_volume_record \<Rightarrow> ('w, goerr option) op" where
  "cleanupVolume E workloadID attachments volume =
     (let seen = map va_VolumeID (filter (\<lambda>a. TrimSpace (va_VolumeID a) \<noteq> []) attachments)
      in if \<not> containsString (vr_WorkloadRefs volume) workloadID \<and> vr_ID volume \<notin> set seen then ret None
         else
           (let volume1 = volume\<lparr>vr_WorkloadRefs := removeString (vr_WorkloadRefs volume) workloadID\<rparr>;
                nodes = fold (\<lambda>a ns. if va_VolumeID a = vr_ID volume1 then removeString ns (va_NodeID a) else ns)
                          attachments (vr_AttachedNodes volume1);
                volume2 = volume1\<lparr>vr_AttachedNodes := nodes\<rparr>
            in if vr_WorkloadRefs volume2 = [] \<and> normalizeRetainPolicy (vr_RetainPolicy volume2) = ''Delete''
               then deleteManagedVolumeRecord E (vr_ID volume2)
               else saveManagedVolumeRecord E
                 (if vr_WorkloadRefs volume2 = [] \<and> normalizeRetainPolicy (vr_RetainPolicy volume2) = ''Retain''
                  then volume2\<lparr>vr_Phase := ''Retained''\<rparr>
                  else if vr_WorkloadRefs volume2 = [] then volume2\<lparr>vr_Phase := ''Released''\<rparr> else volume2)))"

definition cleanupManagedStorageForWorkload :: "'w env \<Rightarrow> string \<Rightarrow> ('w, goerr option) op" where
  "cleanupManagedStorageForWorkload E workloadID0 = do {
     let workloadID = TrimSpace workloadID0;
     if workloadID = [] then ret None
     else do {
       as \<leftarrow> listVolumeAttachmentsByWorkload E workloadID;
       (case as of
          Inl e \<Rightarrow> ret (Some e)
        | Inr attachments \<Rightarrow> do {
            _ \<leftarrow> for_each attachments (\<lambda>a. deleteVolumeAttachmentRecord E (va_ID a));
            vs \<leftarrow> listManagedVolumeRecords E;
            (case vs of
               Inl e \<Rightarrow> ret (Some e)
             | Inr volumes \<Rightarrow> for_err volumes (cleanupVolume E workloadID attachments)) }) } }"

section \<open>Saving a workload\<close>

text \<open>
  A workload with managed volumes is marked before it is written. The metadata are a map shared with
  the caller's copy of the workload, so the mark shows there as well: an operation that goes on with
  a workload after saving it, or returns it, continues with the marked one.
\<close>

definition markManagedStorage :: "workload \<Rightarrow> workload" where
  "markManagedStorage w =
     (if workloadManagedVolumeSpecs w \<noteq> []
      then w\<lparr>w_Metadata := mput managedStorageStateKey (MStr ''true'') (w_Metadata w)\<rparr> else w)"

definition saveWorkload :: "'w env \<Rightarrow> workload \<Rightarrow> ('w, goerr option) op" where
  "saveWorkload E w0 = do {
     let w = markManagedStorage w0;
     r1 \<leftarrow> RetryableEtcdPut E (workloadSpecKey (w_ID w)) (PSpec (workloadSpecFromWorkload w));
     (case r1 of
        Some e \<Rightarrow> ret (Some e)
      | None \<Rightarrow> do {
          r2 \<leftarrow> RetryableEtcdPut E (workloadStatusKey (w_ID w)) (marshalStatus (workloadStatusFromWorkload w));
          (case r2 of
             Some e \<Rightarrow> ret (Some e)
           | None \<Rightarrow> do {
               _ \<leftarrow> cacheWorkload w;
               _ \<leftarrow> RetryableEtcdPut E (retryKey (w_ID w)) (PRetry (w_Retry w));
               if shouldSyncManagedStorage w then do {
                 r3 \<leftarrow> syncWorkloadManagedStorage E w;
                 ret (map_option (wrapw (''sync managed storage state for workload '' @ w_ID w @ '': '')) r3) }
               else ret None }) }) }"

section \<open>Guarantees\<close>

lemma mark_id [simp]: "w_ID (markManagedStorage w) = w_ID w" "w_NodeID (markManagedStorage w) = w_NodeID w"
  by (simp_all add: markManagedStorage_def)

lemma mark_plain: "\<not> shouldSyncManagedStorage w \<Longrightarrow> markManagedStorage w = w"
  unfolding markManagedStorage_def shouldSyncManagedStorage_def by (cases "workloadManagedVolumeSpecs w \<noteq> []") simp_all

lemma attachment_entry_key:
  assumes "entry_ok k (PAttachment a)" "HasPrefix k attachmentsPrefix"
  shows "va_ID (attachment_of_entry (k, a)) = k"
  using assms by (auto simp: entry_ok_def attachment_of_entry_def)

lemma unmarshal_sel [simp]:
  "unmarshalAttachment v = Inr a \<longleftrightarrow> v = PAttachment a"
  "unmarshalVolume v = Inr r \<longleftrightarrow> v = PVolume r"
  "unmarshalNode v = Inr n \<longleftrightarrow> v = PNode n"
  "unmarshalSpec v = Inr p \<longleftrightarrow> v = PSpec p"
  "unmarshalStatus v = Inr q \<longleftrightarrow> v = PStatus q"
  "unmarshalWorkload v = Inr w \<longleftrightarrow> v = PWorkload w"
  by (cases v; simp)+

context etcd_client
begin

lemma safe_getManagedVolumeRecord:
  "safe view K X (getManagedVolumeRecord E v) (\<lambda>x. \<forall>r. x = Inr (Some r) \<longrightarrow> vr_ID r = v)"
  unfolding getManagedVolumeRecord_def
  by (rule fp.g_bind [OF safe_get] fp.g_rules | (auto; fail))+

lemmas safe_getManagedVolumeRecord_any [op_intros] = safe_getManagedVolumeRecord [THEN ensures_any]

lemma safe_saveManagedVolumeRecord [op_intros]:
  "storage_keys \<subseteq> K \<Longrightarrow> safe view K X (saveManagedVolumeRecord E r) (\<lambda>_. True)"
  unfolding saveManagedVolumeRecord_def
  by (rule fp.g_rules op_intros | (auto; fail))+

lemma safe_deleteManagedVolumeRecord [op_intros]:
  "storage_keys \<subseteq> K \<Longrightarrow> safe view K X (deleteManagedVolumeRecord E v) (\<lambda>_. True)"
  unfolding deleteManagedVolumeRecord_def by (rule op_intros) auto

lemma safe_listManagedVolumeRecords [op_intros]:
  "safe view K X (listManagedVolumeRecords E) (\<lambda>_. True)"
  unfolding listManagedVolumeRecords_def by (rule fp.g_rules op_intros TrueI)+

lemma safe_saveVolumeAttachmentRecord:
  assumes "storage_keys \<subseteq> K" "va_ID a = volumeAttachmentKey n w v"
  shows "safe view K X (saveVolumeAttachmentRecord E a) (\<lambda>_. True)"
  using assms unfolding saveVolumeAttachmentRecord_def
  by (intro fp.g_let fp.g_seq [OF safe_now] safe_put)
    (auto split: if_splits)

lemma safe_deleteVolumeAttachmentRecord [op_intros]:
  "k \<in> K \<Longrightarrow> safe view K X (deleteVolumeAttachmentRecord E k) (\<lambda>_. True)"
  unfolding deleteVolumeAttachmentRecord_def by (rule op_intros)

lemma safe_listVolumeAttachments:
  "safe view K X (listVolumeAttachmentsByWorkload E i)
     (\<lambda>x. \<forall>as. x = Inr as \<longrightarrow> (\<forall>a \<in> set as. va_ID a \<in> storage_keys))"
  unfolding listVolumeAttachmentsByWorkload_def
  by (rule fp.g_bind [OF safe_range] fp.g_rules
      | (fastforce simp: in_decoded attachment_entry_key storage_keys_def; fail))+

lemma safe_detachAttachment:
  assumes "storage_keys \<subseteq> K" "va_ID a \<in> storage_keys"
  shows "safe view K X (detachAttachment E i d n a req) (\<lambda>_. True)"
  unfolding detachAttachment_def
  by (rule fp.g_rules op_intros assms TrueI | (use assms in auto; fail))+

lemma safe_releaseRequired [op_intros]:
  "storage_keys \<subseteq> K \<Longrightarrow> safe view K X (releaseRequired E i n r) (\<lambda>_. True)"
  unfolding releaseRequired_def
  by (rule fp.g_rules op_intros TrueI | assumption)+

lemma safe_attachRequired [op_intros]:
  "storage_keys \<subseteq> K \<Longrightarrow> safe view K X (attachRequired E w i n v sp r) (\<lambda>_. True)"
  unfolding attachRequired_def
  by (rule fp.g_rules op_intros TrueI safe_saveVolumeAttachmentRecord | assumption | (simp; fail))+

lemma safe_syncRequired [op_intros]:
  "storage_keys \<subseteq> K \<Longrightarrow> safe view K X (syncRequired E w i d n e) (\<lambda>_. True)"
  unfolding syncRequired_def
  by (rule fp.g_rules op_intros TrueI | assumption)+

lemma safe_releaseStale [op_intros]:
  "storage_keys \<subseteq> K \<Longrightarrow> safe view K X (releaseStale E i d n req r) (\<lambda>_. True)"
  unfolding releaseStale_def
  by (rule fp.g_rules op_intros TrueI | assumption)+

lemma safe_sync [op_intros]:
  assumes "storage_keys \<subseteq> K"
  shows "safe view K X (syncWorkloadManagedStorage E w) (\<lambda>_. True)"
  unfolding syncWorkloadManagedStorage_def
  by (rule fp.g_bind [OF safe_listVolumeAttachments] fp.g_rules fp.g_fold_st op_intros assms TrueI
      safe_detachAttachment | (auto; fail))+

lemma safe_cleanupVolume [op_intros]:
  "storage_keys \<subseteq> K \<Longrightarrow> safe view K X (cleanupVolume E i as v) (\<lambda>_. True)"
  unfolding cleanupVolume_def
  by (rule fp.g_rules op_intros TrueI | assumption)+

lemma safe_cleanup [op_intros]:
  assumes "storage_keys \<subseteq> K"
  shows "safe view K X (cleanupManagedStorageForWorkload E i) (\<lambda>_. True)"
  unfolding cleanupManagedStorageForWorkload_def
  by (rule fp.g_bind [OF safe_listVolumeAttachments] fp.g_rules op_intros assms TrueI
      | (use assms in auto; fail))+

lemma safe_saveWorkload [op_intros]:
  assumes "own_keys (w_ID w) \<subseteq> K" "storage_keys \<subseteq> K"
  shows "safe view K X (saveWorkload E w) (\<lambda>_. True)"
  unfolding saveWorkload_def
  by (rule fp.g_rules op_intros assms TrueI
      | (use assms in \<open>auto simp: workloadSpecFromWorkload_def workloadStatusFromWorkload_def
           marshalStatus_def own_keys_def\<close>; fail))+

end

end
