(* ===== verification/Placement.thy ===== *)
theory Placement
  imports Storage
begin

text \<open>
  Placement (\<open>scheduler.go\<close>, \<open>matchesLabels\<close> to \<open>selectNodeForWorkload\<close>): which nodes may
  run a workload, how they are ranked, and the selection itself. \<open>float64\<close> arithmetic is
  rational arithmetic here.
\<close>

section \<open>Conditions on a node\<close>

definition matchesLabels :: "string gomap \<Rightarrow> string gomap \<Rightarrow> bool" where
  "matchesLabels workloadLabels nodeLabels =
     (if workloadLabels = [] then True
      else list_all (\<lambda>(k, v). case mget nodeLabels k of None \<Rightarrow> False | Some nv \<Rightarrow> nv = v) workloadLabels)"

definition nodeUtilizationScore :: "node \<Rightarrow> rat" where
  "nodeUtilizationScore n =
     (let cpuTotal = n_TotalCPU n; memTotal = of_int (n_TotalMemory n)
      in if cpuTotal \<le> 0 \<or> memTotal \<le> 0 then 1000000000
         else (let cpuUsed = cpuTotal - n_AvailableCPU n;
                   memUsed = memTotal - of_int (n_AvailableMemory n);
                   cpuRatio = cpuUsed / cpuTotal;
                   memRatio = memUsed / memTotal
               in (cpuRatio + memRatio) / 2))"

definition canonicalWorkloadType :: "string \<Rightarrow> string" where
  "canonicalWorkloadType t =
     (let l = ToLower (TrimSpace t)
      in if l = ''docker-container'' \<or> l = ''container'' then ''container''
         else if l = ''docker-compose'' \<or> l = ''compose'' then ''compose''
         else if l = ''vm'' then ''vm'' else l)"

definition nodeSupportsWorkloadType :: "node \<Rightarrow> string \<Rightarrow> bool" where
  "nodeSupportsWorkloadType n workloadType =
     (let want = canonicalWorkloadType workloadType
      in if want = [] then True
         else if n_SupportedWorkloadTypes n \<noteq> []
              then list_ex (\<lambda>t. canonicalWorkloadType t = want) (n_SupportedWorkloadTypes n)
         else if want = ''vm''
              then TrimSpace (hv_Type (n_Hypervisor n)) \<noteq> [] \<or>
                   EqualFold (hv_Status (n_Hypervisor n)) ''active'' \<or>
                   EqualFold (hv_Status (n_Hypervisor n)) ''ready''
         else True)"

definition addDriver :: "string \<Rightarrow> string list \<Rightarrow> string list" where
  "addDriver driver out =
     (let canon0 = ToLower (TrimSpace driver);
          canon = (if canon0 = ''ceph_rbd'' then ''ceph-rbd'' else canon0)
      in if canon = [] then out else if canon \<in> set out then out else out @ [canon])"

definition requiredStorageDrivers :: "workload \<Rightarrow> string list" where
  "requiredStorageDrivers w =
     (let out = fold (\<lambda>mv. addDriver (mv_Driver mv)) (w_ManagedVolumes w) []
      in case w_VM w of None \<Rightarrow> out
         | Some vm \<Rightarrow> fold (\<lambda>mv. addDriver (mv_Driver mv)) (vm_ManagedVolumes vm) out)"

definition labelDriver :: "string \<times> string \<Rightarrow> string list" where
  "labelDriver kv =
     (case kv of (k, v) \<Rightarrow>
        (let l = ToLower (TrimSpace k)
         in if \<not> HasPrefix l ''storage.'' then []
            else if \<not> EqualFold (TrimSpace v) ''true'' then []
            else (let driver0 = TrimPrefix l ''storage.'';
                      driver = (if driver0 = ''ceph_rbd'' then ''ceph-rbd'' else driver0)
                  in if driver \<noteq> [] then [driver] else [])))"

definition supportedDrivers :: "node \<Rightarrow> string list" where
  "supportedDrivers n = ''local'' #
     filter (\<lambda>c. c \<noteq> []) (map (\<lambda>d. ToLower (TrimSpace d)) (n_SupportedStorageDrivers n)) @
     concat (map labelDriver (n_Labels n))"

definition nodeSupportsStorageDrivers :: "node \<Rightarrow> string list \<Rightarrow> bool" where
  "nodeSupportsStorageDrivers n required =
     (if required = [] then True
      else list_all (\<lambda>needed. ToLower (TrimSpace needed) \<in> set (supportedDrivers n)) required)"

definition isNodeStatusSubKey :: "string \<Rightarrow> bool" where
  "isNodeStatusSubKey key = HasSuffix key ''/status''"

section \<open>Selection\<close>

text \<open>
  The checks of the selection loop in order. The status check comes before the clock is
  read, the others after it; each gives the text of the rejection.
\<close>

definition nodeIsReady :: "node \<Rightarrow> bool" where
  "nodeIsReady n = (EqualFold (n_Status n) ''active'' \<or> EqualFold (n_Status n) ''ready'')"

definition statusRejection :: "node \<Rightarrow> string" where
  "statusRejection n =
     (let reason0 = TrimSpace (n_StatusReason n);
          reason = (if reason0 = [] then ''unspecified'' else reason0)
      in n_NodeID n @ '': status='' @ n_Status n @ '' reason='' @ fmt_q reason @ '' by='' @
         n_StatusUpdatedBy n @ '' at='' @ formatRFC3339 (n_StatusUpdatedAt n))"

definition heartbeatStale :: "time \<Rightarrow> node \<Rightarrow> bool" where
  "heartbeatStale t n = (t - n_LastHeartbeat n > 10 * Minute)"

definition otherRejection :: "workload \<Rightarrow> string list \<Rightarrow> node \<Rightarrow> string option" where
  "otherRejection w needed n =
     (if \<not> matchesLabels (w_Labels w) (n_Labels n) then Some (n_NodeID n @ '': label_mismatch'')
      else if \<not> nodeSupportsWorkloadType n (w_Type w)
        then Some (n_NodeID n @ '': workload_type_unsupported need='' @ canonicalWorkloadType (w_Type w) @
                   '' supports='' @ fmt_strs (n_SupportedWorkloadTypes n))
      else if \<not> nodeSupportsStorageDrivers n needed
        then Some (n_NodeID n @ '': storage_driver_unsupported need='' @ fmt_strs needed @
                   '' supports='' @ fmt_strs (n_SupportedStorageDrivers n))
      else if r_CPUUsage (w_Resources w) > 0 \<and> n_AvailableCPU n < r_CPUUsage (w_Resources w)
        then Some (n_NodeID n @ '': cpu_insufficient need='' @ fmt_fixed 3 (r_CPUUsage (w_Resources w)) @
                   '' have='' @ fmt_fixed 3 (n_AvailableCPU n))
      else if r_MemoryUsage (w_Resources w) > 0 \<and> of_int (n_AvailableMemory n) < r_MemoryUsage (w_Resources w)
        then Some (n_NodeID n @ '': memory_insufficient need='' @ fmt_fixed 0 (r_MemoryUsage (w_Resources w)) @
                   ''MB have='' @ itoa (n_AvailableMemory n) @ ''MB'')
      else None)"

definition considerNode ::
  "'w env \<Rightarrow> workload \<Rightarrow> string list \<Rightarrow> string \<times> payload \<Rightarrow> node list \<times> string list \<Rightarrow>
   ('w, node list \<times> string list) op" where
  "considerNode E w needed kv acc =
     (case kv of (k, v) \<Rightarrow> case acc of (candidates, rejections) \<Rightarrow>
        if isNodeStatusSubKey k then ret acc
        else case unmarshalNode v of
            Inl _ \<Rightarrow> ret acc
          | Inr n \<Rightarrow>
              if \<not> nodeIsReady n then ret (candidates, rejections @ [statusRejection n])
              else do {
                t \<leftarrow> now E;
                if heartbeatStale t n
                then ret (candidates, rejections @
                  [n_NodeID n @ '': heartbeat_stale last='' @ formatRFC3339 (n_LastHeartbeat n)])
                else case otherRejection w needed n of
                    Some why \<Rightarrow> ret (candidates, rejections @ [why])
                  | None \<Rightarrow> ret (candidates @ [n], rejections) })"

text \<open>
  \<open>sort.Slice\<close> puts the candidates in ascending order of their scores. It promises no
  order among equal scores; here they keep their order, as Go's insertion sort (used up
  to twelve elements) does.
\<close>

definition selectNodeForWorkload :: "'w env \<Rightarrow> workload \<Rightarrow> ('w, (node \<times> string) result) op" where
  "selectNodeForWorkload E w = do {
     ok \<leftarrow> isWritable;
     if \<not> ok then ret (Inl errControlPlaneFrozen)
     else do {
       r \<leftarrow> RetryableEtcdGetPrefix E nodesPrefix;
       (case r of
          Inl e \<Rightarrow> ret (Inl (wrapv ''failed to get nodes for scheduling: '' e))
        | Inr kvs \<Rightarrow>
            if kvs = [] then ret (Inl (errorf ''no nodes available''))
            else do {
              let needed = requiredStorageDrivers w;
              acc \<leftarrow> fold_st (considerNode E w needed) kvs ([], []);
              (case acc of (candidates, rejections) \<Rightarrow>
                 case sort_key nodeUtilizationScore candidates of
                   [] \<Rightarrow> if rejections \<noteq> []
                          then ret (Inl (errorf (''no suitable node available ('' @ Join ''; '' rejections @ '')'')))
                          else ret (Inl (errorf ''no suitable node available''))
                 | n # _ \<Rightarrow>
                     ret (Inr (n, ''selected by lowest utilization score '' @
                       fmt_fixed 4 (nodeUtilizationScore n)))) }) } }"

section \<open>Guarantees\<close>

context etcd_client
begin

lemma safe_considerNode [op_intros]: "safe view K X (considerNode E w needed kv acc) (\<lambda>_. True)"
  unfolding considerNode_def by (rule fp.g_rules op_intros TrueI)+

lemma safe_selectNodeForWorkload [op_intros]: "safe view K X (selectNodeForWorkload E w) (\<lambda>_. True)"
  unfolding selectNodeForWorkload_def
  by (rule fp.g_rules fp.g_fold_st op_intros TrueI | (simp split: list.splits; fail)
      | (auto simp: fp.g_return split: list.splits; fail))+

end

end
