(* ===== verification/Nodes.thy ===== *)
theory Nodes
  imports Placement
begin

text \<open>
  Nodes: registration, lookup and removal (\<open>scheduler.go\<close>), heartbeats and status changes
  (\<open>node_control.go\<close>), and the service discovery records of nodes and of the scheduler
  itself (\<open>dns.go\<close>).
\<close>

section \<open>Service discovery\<close>

definition reverseDomain :: "string \<Rightarrow> string" where
  "reverseDomain domain = Join ''/'' (rev (Split (CHR ''.'') domain))"

definition dnsNodeKey :: "string \<Rightarrow> string \<Rightarrow> string \<Rightarrow> string" where
  "dnsNodeKey agentsDomain shard nodeID = ''/skydns/'' @ reverseDomain agentsDomain @ ''/'' @ shard @ ''/'' @ nodeID"

definition UpdateCoreDNS :: "'w env \<Rightarrow> node \<Rightarrow> ('w, goerr option) op" where
  "UpdateCoreDNS E n =
     (if n_NodeID n = [] \<or> n_IPAddress n = []
      then ret (Some (errorf ''invalid node data: NodeID and IPAddress are required''))
      else do {
        sh \<leftarrow> gets sc_schedulerShard;
        agents \<leftarrow> gets sc_agentsDomain;
        let shard = (if TrimSpace sh = [] then ''genesis'' else TrimSpace sh);
        RetryableEtcdPut E (dnsNodeKey agents shard (n_NodeID n)) (PDnsA (n_IPAddress n) 300) })"

definition RegisterSchedulerInCoreDNS :: "'w env \<Rightarrow> string \<Rightarrow> int \<Rightarrow> ('w, goerr option) op" where
  "RegisterSchedulerInCoreDNS E ipAddress port =
     (if ipAddress = [] \<or> port = 0
      then ret (Some (errorf ''invalid scheduler data: IPAddress and Port are required''))
      else do {
        domain \<leftarrow> gets sc_domain;
        r1 \<leftarrow> RetryableEtcdPut E (''/skydns/'' @ reverseDomain domain @ ''/_persys-scheduler'')
                (PDnsSrv ipAddress port 300);
        (case r1 of
           Some e \<Rightarrow> ret (Some (wrapv ''failed to register SRV record: '' e))
         | None \<Rightarrow> do {
             r2 \<leftarrow> RetryableEtcdPut E (''/skydns/'' @ reverseDomain domain @ ''/persys-scheduler'')
                     (PDnsA ipAddress 300);
             ret (map_option (wrapv ''failed to register A record: '') r2) }) })"

definition RegisterSchedulerSelfInCoreDNS :: "'w env \<Rightarrow> int \<Rightarrow> ('w, goerr option) op" where
  "RegisterSchedulerSelfInCoreDNS E defaultPort = do {
     cfg \<leftarrow> gets sc_cfg;
     ip \<leftarrow> (if TrimSpace (c_SchedulerAdvertiseIP cfg) = [] then call (hostIPv4 E)
            else ret (Inr (TrimSpace (c_SchedulerAdvertiseIP cfg))));
     (case ip of
        Inl e \<Rightarrow> ret (Some (wrapw ''resolve scheduler advertise IP: '' e))
      | Inr ipAddress \<Rightarrow>
          (let port = (if c_SchedulerAdvertisePort cfg \<le> 0 then defaultPort else c_SchedulerAdvertisePort cfg)
           in RegisterSchedulerInCoreDNS E ipAddress port)) }"

section \<open>Registration and lookup\<close>

text \<open>
  The document that a registration stores: the heartbeat and the status are stamped, an
  empty status becomes Ready, and resources that are not given count as free.
\<close>

definition registered_node :: "string \<Rightarrow> string \<Rightarrow> time \<Rightarrow> time \<Rightarrow> node \<Rightarrow> node" where
  "registered_node domain shard t1 t2 n =
     n\<lparr>n_LastHeartbeat := t1, n_DomainName := n_NodeID n @ ''.'' @ domain,
       n_Status := (if n_Status n = [] then ''Ready'' else n_Status n),
       n_StatusReason := ''registered'', n_StatusUpdatedBy := ''register'', n_StatusUpdatedAt := t2,
       n_AvailableCPU := (if n_AvailableCPU n = 0 then n_TotalCPU n else n_AvailableCPU n),
       n_AvailableMemory := (if n_AvailableMemory n = 0 then n_TotalMemory n else n_AvailableMemory n),
       n_Labels := mput ''scheduler_shard'' shard (n_Labels n)\<rparr>"

definition RegisterNode :: "'w env \<Rightarrow> node \<Rightarrow> ('w, goerr option) op" where
  "RegisterNode E n0 = do {
     g \<leftarrow> requireWritable;
     (case g of
        Some e \<Rightarrow> ret (Some e)
      | None \<Rightarrow>
          if n_NodeID n0 = [] \<or> n_IPAddress n0 = [] \<or> n_AgentPort n0 = 0
          then ret (Some (errorf ''nodeID, IPAddress, and AgentPort are required''))
          else if n_TotalCPU n0 \<le> 0 \<or> n_TotalMemory n0 \<le> 0
          then ret (Some (errorf ''totalCPU and totalMemory must be positive''))
          else do {
            t1 \<leftarrow> now E;
            domain \<leftarrow> gets sc_domain;
            t2 \<leftarrow> now E;
            shard \<leftarrow> gets sc_schedulerShard;
            let n = registered_node domain shard t1 t2 n0;
            r \<leftarrow> RetryableEtcdPut E (nodeKey (n_NodeID n)) (PNode n);
            (case r of
               Some e \<Rightarrow> ret (Some (wrapv (''failed to register node '' @ n_NodeID n @ '': '') e))
             | None \<Rightarrow> do {
                 _ \<leftarrow> RetryableEtcdPut E (nodeStatusKey (n_NodeID n)) (PText (n_Status n));
                 _ \<leftarrow> UpdateCoreDNS E n;
                 _ \<leftarrow> cacheNode n;
                 ret None }) }) }"

lemma registered_node_sel [simp]:
  "n_NodeID (registered_node d sh t1 t2 n) = n_NodeID n" "n_IPAddress (registered_node d sh t1 t2 n) = n_IPAddress n"
  by (simp_all add: registered_node_def)

definition setCacheNodes :: "node list \<Rightarrow> ('w, unit) op" where
  "setCacheNodes ns = modify (\<lambda>s. s\<lparr>sc_cacheNodes := fold (\<lambda>n. mput (n_NodeID n) n) ns []\<rparr>)"

definition GetNodes :: "'w env \<Rightarrow> ('w, node list result) op" where
  "GetNodes E = do {
     r \<leftarrow> RetryableEtcdGetPrefix E ''/nodes/'';
     (case r of
        Inl e \<Rightarrow> do {
          m \<leftarrow> currentMode;
          if m \<noteq> ModeNormal then do { ns \<leftarrow> getCachedNodes; ret (Inr ns) }
          else ret (Inl (wrapv ''failed to get nodes: '' e)) }
      | Inr kvs \<Rightarrow> do {
          let nodes = map snd (decoded unmarshalNode (filter (\<lambda>(k, v). \<not> isNodeStatusSubKey k) kvs));
          _ \<leftarrow> setCacheNodes nodes;
          ret (Inr nodes) }) }"

definition GetNodeByID :: "'w env \<Rightarrow> string \<Rightarrow> ('w, node result) op" where
  "GetNodeByID E nodeID = do {
     r \<leftarrow> RetryableEtcdGet E (nodeKey nodeID);
     (case r of
        Inl e \<Rightarrow> do {
          m \<leftarrow> currentMode;
          c \<leftarrow> getCachedNode nodeID;
          (case (if m \<noteq> ModeNormal then c else None) of
             Some n \<Rightarrow> ret (Inr n)
           | None \<Rightarrow> ret (Inl (wrapv (''failed to get node '' @ nodeID @ '': '') e))) }
      | Inr None \<Rightarrow> ret (Inl (errorf (''node '' @ nodeID @ '' not found'')))
      | Inr (Some v) \<Rightarrow>
          (case unmarshalNode v of
             Inl e \<Rightarrow> ret (Inl (wrapv (''failed to unmarshal node '' @ nodeID @ '': '') e))
           | Inr n \<Rightarrow> do { _ \<leftarrow> cacheNode n; ret (Inr n) })) }"

definition DeleteNode :: "'w env \<Rightarrow> string \<Rightarrow> ('w, goerr option) op" where
  "DeleteNode E nodeID = do {
     g \<leftarrow> requireWritable;
     (case g of
        Some e \<Rightarrow> ret (Some e)
      | None \<Rightarrow> do {
          r \<leftarrow> RetryableEtcdDelete E (nodeKey nodeID);
          (case r of
             Some e \<Rightarrow> ret (Some (wrapv (''failed to delete node '' @ nodeID @ '': '') e))
           | None \<Rightarrow> do {
               _ \<leftarrow> RetryableEtcdDelete E (nodeStatusKey nodeID);
               sh \<leftarrow> gets sc_schedulerShard;
               agents \<leftarrow> gets sc_agentsDomain;
               let shard = (if TrimSpace sh = [] then ''default'' else TrimSpace sh);
               _ \<leftarrow> RetryableEtcdDelete E (dnsNodeKey agents shard nodeID);
               ret None }) }) }"

section \<open>Heartbeats and status\<close>

text \<open>The three updates of a stored node start alike: guard, read, decode.\<close>

definition loadNodeForUpdate :: "'w env \<Rightarrow> string \<Rightarrow> ('w, node result) op" where
  "loadNodeForUpdate E nodeID = do {
     g \<leftarrow> requireWritable;
     (case g of
        Some e \<Rightarrow> ret (Inl e)
      | None \<Rightarrow> do {
          r \<leftarrow> RetryableEtcdGet E (nodeKey nodeID);
          (case r of
             Inl e \<Rightarrow> ret (Inl (wrapw (''failed to get node '' @ nodeID @ '' from etcd: '') e))
           | Inr None \<Rightarrow> ret (Inl (errorf (''node '' @ nodeID @ '' not found'')))
           | Inr (Some v) \<Rightarrow>
               (case unmarshalNode v of
                  Inl e \<Rightarrow> ret (Inl (wrapw (''failed to unmarshal node '' @ nodeID @ '': '') e))
                | Inr n \<Rightarrow> ret (Inr n))) }) }"

definition UpdateNodeHeartbeat :: "'w env \<Rightarrow> string \<Rightarrow> string \<Rightarrow> rat \<Rightarrow> int \<Rightarrow> ('w, goerr option) op" where
  "UpdateNodeHeartbeat E nodeID status availableCPU availableMemory = do {
     l \<leftarrow> loadNodeForUpdate E nodeID;
     (case l of
        Inl e \<Rightarrow> ret (Some e)
      | Inr n0 \<Rightarrow> do {
          t \<leftarrow> now E;
          let n1 = n0\<lparr>n_LastHeartbeat := t\<rparr>;
          n2 \<leftarrow> (if TrimSpace status \<noteq> [] then do {
              let previous = n_Status n1;
              let m = n1\<lparr>n_Status := status\<rparr>;
              if EqualFold status ''Ready'' then do {
                t2 \<leftarrow> now E;
                ret (m\<lparr>n_StatusReason := (if EqualFold previous ''Ready'' then ''heartbeat received''
                         else ''status transition '' @ previous @ '' -> '' @ status @ '' via heartbeat''),
                       n_StatusUpdatedBy := ''heartbeat'', n_StatusUpdatedAt := t2\<rparr>) }
              else if \<not> EqualFold previous status then do {
                t2 \<leftarrow> now E;
                ret (m\<lparr>n_StatusReason := ''heartbeat status transition'',
                       n_StatusUpdatedBy := ''heartbeat'', n_StatusUpdatedAt := t2\<rparr>) }
              else ret m }
            else ret n1);
          let n3 = (if availableCPU \<ge> 0 then n2\<lparr>n_AvailableCPU := availableCPU\<rparr> else n2);
          let n = (if availableMemory \<ge> 0 then n3\<lparr>n_AvailableMemory := availableMemory\<rparr> else n3);
          r \<leftarrow> RetryableEtcdPut E (nodeKey nodeID) (PNode n);
          (case r of
             Some e \<Rightarrow> ret (Some (wrapw (''failed to update node '' @ nodeID @ '' heartbeat: '') e))
           | None \<Rightarrow> do {
               _ \<leftarrow> RetryableEtcdPut E (nodeStatusKey nodeID) (PText (n_Status n));
               _ \<leftarrow> cacheNode n;
               ret None }) }) }"

text \<open>The capability list after a runtime was found missing; \<open>None\<close> when nothing changes.\<close>

definition withoutType :: "string \<Rightarrow> node \<Rightarrow> node option" where
  "withoutType want n =
     (if n_SupportedWorkloadTypes n = []
      then if want = ''vm'' then Some (n\<lparr>n_SupportedWorkloadTypes := [''container'', ''compose'']\<rparr>) else None
      else if list_ex (\<lambda>t. canonicalWorkloadType t = want) (n_SupportedWorkloadTypes n)
           then Some (n\<lparr>n_SupportedWorkloadTypes :=
             map canonicalWorkloadType (filter (\<lambda>t. canonicalWorkloadType t \<noteq> want) (n_SupportedWorkloadTypes n))\<rparr>)
           else None)"

definition MarkNodeWorkloadTypeUnsupported ::
  "'w env \<Rightarrow> string \<Rightarrow> string \<Rightarrow> string \<Rightarrow> ('w, goerr option) op" where
  "MarkNodeWorkloadTypeUnsupported E nodeID workloadType reason = do {
     l \<leftarrow> loadNodeForUpdate E nodeID;
     (case l of
        Inl e \<Rightarrow> ret (Some e)
      | Inr n0 \<Rightarrow>
          (let want = canonicalWorkloadType workloadType
           in if want = [] then ret None
              else case withoutType want n0 of
                None \<Rightarrow> ret None
              | Some n1 \<Rightarrow> do {
                  t \<leftarrow> now E;
                  let n = n1\<lparr>n_StatusReason := ''runtime for '' @ want @ '' unavailable on agent: '' @ TrimSpace reason,
                             n_StatusUpdatedBy := ''reconciler'', n_StatusUpdatedAt := t\<rparr>;
                  r \<leftarrow> RetryableEtcdPut E (nodeKey nodeID) (PNode n);
                  (case r of
                     Some e \<Rightarrow> ret (Some (wrapw
                       (''failed to persist workload type capability update for node '' @ nodeID @ '': '') e))
                   | None \<Rightarrow> do { _ \<leftarrow> cacheNode n; ret None }) })) }"

definition markNodeNotReady :: "'w env \<Rightarrow> string \<Rightarrow> string \<Rightarrow> string \<Rightarrow> ('w, goerr option) op" where
  "markNodeNotReady E nodeID reason source = do {
     l \<leftarrow> loadNodeForUpdate E nodeID;
     (case l of
        Inl e \<Rightarrow> ret (Some e)
      | Inr n0 \<Rightarrow> do {
          let incoming = TrimSpace reason;
          let shown = (if incoming = [] then ''node marked NotReady'' else incoming);
          if EqualFold (n_Status n0) ''NotReady'' then
            if TrimSpace (n_StatusReason n0) \<noteq> [] \<and> TrimSpace (n_StatusUpdatedBy n0) \<noteq> [] \<and>
               \<not> IsZero (n_StatusUpdatedAt n0) \<and>
               (incoming = [] \<or> EqualFold (TrimSpace (n_StatusReason n0)) incoming) \<and>
               EqualFold (TrimSpace (n_StatusUpdatedBy n0)) source
            then ret None
            else do {
              t \<leftarrow> now E;
              let n = n0\<lparr>n_StatusReason := shown, n_StatusUpdatedBy := source, n_StatusUpdatedAt := t\<rparr>;
              r \<leftarrow> RetryableEtcdPut E (nodeKey nodeID) (PNode n);
              (case r of
                 Some e \<Rightarrow> ret (Some (wrapw (''failed to persist NotReady metadata for node '' @ nodeID @ '': '') e))
               | None \<Rightarrow> do {
                   _ \<leftarrow> RetryableEtcdPut E (nodeStatusKey nodeID) (PText (n_Status n));
                   _ \<leftarrow> cacheNode n;
                   ret None }) }
          else do {
            t \<leftarrow> now E;
            let n = n0\<lparr>n_Status := ''NotReady'', n_StatusReason := shown, n_StatusUpdatedBy := source,
                       n_StatusUpdatedAt := t\<rparr>;
            r \<leftarrow> RetryableEtcdPut E (nodeKey nodeID) (PNode n);
            (case r of
               Some e \<Rightarrow> ret (Some (wrapw (''failed to persist NotReady for node '' @ nodeID @ '': '') e))
             | None \<Rightarrow> do {
                 _ \<leftarrow> RetryableEtcdPut E (nodeStatusKey nodeID) (PText (n_Status n));
                 _ \<leftarrow> cacheNode n;
                 _ \<leftarrow> emitEvent E ''NodeLost'' [] nodeID reason [];
                 ret None }) } }) }"

definition MarkNodeNotReady :: "'w env \<Rightarrow> string \<Rightarrow> string \<Rightarrow> ('w, goerr option) op" where
  "MarkNodeNotReady E nodeID reason = markNodeNotReady E nodeID reason ''reconciler''"

text \<open>One tick of \<open>MonitorNodes\<close>.\<close>

definition MonitorNodes_tick :: "'w env \<Rightarrow> ('w, unit) op" where
  "MonitorNodes_tick E = do {
     ok \<leftarrow> isWritable;
     if \<not> ok then ret ()
     else do {
       r \<leftarrow> GetNodes E;
       (case r of
          Inl _ \<Rightarrow> ret ()
        | Inr nodes \<Rightarrow> for_each nodes (\<lambda>n. do {
            t \<leftarrow> now E;
            doif (t - n_LastHeartbeat n > 3 * Minute)
              (markNodeNotReady E (n_NodeID n)
                 (''heartbeat expired: last heartbeat '' @ formatRFC3339 (n_LastHeartbeat n)) ''monitor'') })) } }"

section \<open>Guarantees\<close>

lemma dns_keys_in [simp]: "dnsNodeKey a sh i \<in> dns_keys"
  unfolding dnsNodeKey_def by (rule in_families)

lemma entry_ok_dnsNode [simp]: "entry_ok (dnsNodeKey a sh i) v"
  unfolding dnsNodeKey_def by (rule entry_ok_dns)

context etcd_client
begin

lemma safe_UpdateCoreDNS [op_intros]:
  "dns_keys \<subseteq> K \<Longrightarrow> safe view K X (UpdateCoreDNS E n) (\<lambda>_. True)"
  unfolding UpdateCoreDNS_def by (rule fp.g_rules op_intros TrueI | (auto; fail))+

lemma safe_RegisterScheduler [op_intros]:
  "dns_keys \<subseteq> K \<Longrightarrow> safe view K X (RegisterSchedulerInCoreDNS E ip port) (\<lambda>_. True)"
  unfolding RegisterSchedulerInCoreDNS_def
  by (rule fp.g_rules op_intros TrueI entry_ok_dns | (rule subsetD, assumption, rule in_families))+

lemma safe_RegisterSchedulerSelf [op_intros]:
  "dns_keys \<subseteq> K \<Longrightarrow> safe view K X (RegisterSchedulerSelfInCoreDNS E port) (\<lambda>_. True)"
  unfolding RegisterSchedulerSelfInCoreDNS_def
  by (rule fp.g_rules op_intros TrueI safe_call | assumption | (simp; fail))+

lemma safe_RegisterNode [op_intros]:
  assumes "node_keys \<subseteq> K" "dns_keys \<subseteq> K"
  shows "safe view K X (RegisterNode E n) (\<lambda>_. True)"
  unfolding RegisterNode_def
  by (rule fp.g_rules op_intros TrueI assms | (use assms in auto; fail))+

lemma safe_setCacheNodes [op_intros]: "safe view K X (setCacheNodes ns) (\<lambda>_. True)"
  unfolding setCacheNodes_def
  by (rule ensures_modify)
    (simp_all add: sched_inv_def mode_ok_def cache_ok_def footprint_def writable_def keyed_fold)

lemma safe_GetNodes [op_intros]: "safe view K X (GetNodes E) (\<lambda>_. True)"
  unfolding GetNodes_def getCachedNodes_def
  by (rule fp.g_rules op_intros TrueI)+

lemma safe_GetNodeByID: "safe view K X (GetNodeByID E i) (\<lambda>x. \<forall>n. x = Inr n \<longrightarrow> n_NodeID n = i)"
  unfolding GetNodeByID_def
  by (rule fp.g_bind [OF safe_get] fp.g_bind [OF safe_getCachedNode] fp.g_rules op_intros TrueI
      | (auto split: if_splits; fail))+

lemmas safe_GetNodeByID_any [op_intros] = safe_GetNodeByID [THEN ensures_any]

lemma safe_DeleteNode [op_intros]:
  assumes "node_keys \<subseteq> K" "dns_keys \<subseteq> K"
  shows "safe view K X (DeleteNode E i) (\<lambda>_. True)"
  unfolding DeleteNode_def
  by (rule fp.g_rules op_intros TrueI | (use assms in auto; fail))+

lemma safe_loadNode: "safe view K X (loadNodeForUpdate E i) (\<lambda>x. \<forall>n. x = Inr n \<longrightarrow> n_NodeID n = i)"
  unfolding loadNodeForUpdate_def
  by (rule fp.g_bind [OF safe_get] fp.g_rules op_intros TrueI | (auto; fail))+

lemma withoutType_id: "withoutType want n = Some m \<Longrightarrow> n_NodeID m = n_NodeID n"
  by (auto simp: withoutType_def split: if_splits)

lemma safe_heartbeat_status:
  "safe view K X (if b then do {
       let previous = n_Status n1;
       let m = n1\<lparr>n_Status := status\<rparr>;
       if EqualFold status ''Ready'' then do { t2 \<leftarrow> now E; ret (f m previous t2) }
       else if \<not> EqualFold previous status then do { t2 \<leftarrow> now E; ret (g m t2) }
       else ret m } else ret n1) (\<lambda>x. n_NodeID x = n_NodeID n1)"
  if "\<And>m p t. n_NodeID (f m p t) = n_NodeID m" "\<And>m t. n_NodeID (g m t) = n_NodeID m"
  by (rule fp.g_rules op_intros TrueI | (simp add: that; fail))+

lemma safe_UpdateNodeHeartbeat [op_intros]:
  assumes "node_keys \<subseteq> K"
  shows "safe view K X (UpdateNodeHeartbeat E i status cpu memory) (\<lambda>_. True)"
  unfolding UpdateNodeHeartbeat_def
  by (rule fp.g_bind [OF safe_loadNode] fp.g_bind [OF safe_heartbeat_status] fp.g_rules op_intros TrueI
      | (use assms in auto; fail))+

lemma safe_MarkUnsupported [op_intros]:
  assumes "node_keys \<subseteq> K"
  shows "safe view K X (MarkNodeWorkloadTypeUnsupported E i ty r) (\<lambda>_. True)"
  unfolding MarkNodeWorkloadTypeUnsupported_def
  by (rule fp.g_bind [OF safe_loadNode] fp.g_rules op_intros TrueI
      | (use assms in \<open>auto dest: withoutType_id\<close>; fail))+

lemma safe_markNodeNotReady [op_intros]:
  assumes "node_keys \<subseteq> K" "event_keys \<subseteq> K"
  shows "safe view K X (markNodeNotReady E i r src) (\<lambda>_. True)"
  unfolding markNodeNotReady_def
  by (rule fp.g_bind [OF safe_loadNode] fp.g_rules op_intros TrueI
      | (use assms in auto; fail))+

lemma safe_MarkNodeNotReady [op_intros]:
  "node_keys \<subseteq> K \<Longrightarrow> event_keys \<subseteq> K \<Longrightarrow> safe view K X (MarkNodeNotReady E i r) (\<lambda>_. True)"
  unfolding MarkNodeNotReady_def by (rule op_intros)

lemma safe_MonitorNodes_tick [op_intros]:
  "node_keys \<subseteq> K \<Longrightarrow> event_keys \<subseteq> K \<Longrightarrow> safe view K X (MonitorNodes_tick E) (\<lambda>_. True)"
  unfolding MonitorNodes_tick_def by (rule fp.g_rules op_intros TrueI | assumption)+

end

end
