(* ===== verification/Agent.thy ===== *)
theory Agent
  imports Nodes "HOL-Library.Word"
begin

text \<open>
  The agent client (\<open>agent_grpc.go\<close>): timeouts, addresses, the translation of a workload
  into an apply request, the remote calls, the classification of their errors, and the
  polling loop that waits for a terminal state.
\<close>

section \<open>Settings and addresses\<close>

definition defaultMissingGracePeriod :: duration where "defaultMissingGracePeriod = 15 * Second"

definition agentPollInterval :: "config \<Rightarrow> duration" where
  "agentPollInterval c =
     (if c_SchedulerAgentStatusPollInterval c > 0 then c_SchedulerAgentStatusPollInterval c else Second)"

definition applyTimeoutFor :: "config \<Rightarrow> workload \<Rightarrow> duration" where
  "applyTimeoutFor c w =
     (if EqualFold (w_Type w) ''vm''
      then if c_SchedulerAgentVMApplyTimeout c > 0 then c_SchedulerAgentVMApplyTimeout c else 240 * Second
      else if c_SchedulerAgentApplyTimeout c > 0 then c_SchedulerAgentApplyTimeout c else 45 * Second)"

definition deleteTimeout :: "config \<Rightarrow> duration" where
  "deleteTimeout c = (if c_SchedulerAgentDeleteTimeout c > 0 then c_SchedulerAgentDeleteTimeout c else 60 * Second)"

definition grpcAddressForNode :: "node \<Rightarrow> string" where
  "grpcAddressForNode n =
     (if TrimSpace (n_AgentEndpoint n) \<noteq> [] then TrimSpace (n_AgentEndpoint n)
      else n_IPAddress n @ '':'' @ itoa (if n_AgentGRPCPort n > 0 then n_AgentGRPCPort n else n_AgentPort n))"

text \<open>
  The certificate files are read and parsed by the standard library and the operating
  system; what can fail there is the parameter \<open>loadTLSFiles\<close>.
\<close>

definition loadClientTLSConfig :: "'w env \<Rightarrow> ('w, goerr option) op" where
  "loadClientTLSConfig E = do {
     cfg \<leftarrow> gets sc_cfg;
     let caPath = TrimSpace (c_TLSCAPath cfg);
     if caPath = [] then ret (Some (errorf ''PERSYS_TLS_CA must be set when PERSYS_TLS_ENABLED=true''))
     else call (loadTLSFiles E caPath (TrimSpace (c_TLSCertPath cfg)) (TrimSpace (c_TLSKeyPath cfg))) }"

definition newAgentClient :: "'w env \<Rightarrow> node \<Rightarrow> ('w, string result) op" where
  "newAgentClient E n = do {
     let addr = grpcAddressForNode n;
     if TrimSpace addr = [] then ret (Inl (errorf (''node '' @ n_NodeID n @ '' has invalid grpc address'')))
     else do {
       cfg \<leftarrow> gets sc_cfg;
       tls \<leftarrow> (if c_SchedulerAgentTLSEnabled cfg then loadClientTLSConfig E else ret None);
       (case tls of
          Some e \<Rightarrow> ret (Inl e)
        | None \<Rightarrow> do {
            r \<leftarrow> call (agentDial E addr);
            (case r of
               Some e \<Rightarrow> ret (Inl (wrapw (''dial agent '' @ n_NodeID n @ '' ('' @ addr @ ''): '') e))
             | None \<Rightarrow> ret (Inr addr)) }) } }"

section \<open>Apply requests\<close>

definition normalizeDesiredState :: "string \<Rightarrow> DesiredState" where
  "normalizeDesiredState v =
     (let l = ToLower (TrimSpace v)
      in if l = [] \<or> l = ''running'' then DS_RUNNING
         else if l = ''stopped'' \<or> l = ''stop'' then DS_STOPPED else DS_RUNNING)"

definition ensureWorkloadRevision :: "'w env \<Rightarrow> workload \<Rightarrow> workload" where
  "ensureWorkloadRevision E w =
     (if TrimSpace (w_RevisionID w) \<noteq> [] then w
      else w\<lparr>w_RevisionID := revHash E (w\<lparr>w_CreatedAt := 0, w_Logs := [], w_Status := [], w_Metadata := []\<rparr>)\<rparr>)"

text \<open>Conversion of an \<open>int\<close> to an \<open>int32\<close> keeps the low 32 bits.\<close>

definition int32 :: "int \<Rightarrow> int" where
  "int32 i = sint (word_of_int i :: 32 word)"

definition atoi_error :: "string \<Rightarrow> goerr" where
  "atoi_error s = errorf (''strconv.Atoi: parsing '' @ fmt_q s @ '': '' @
     (let ds = (case s of c # cs \<Rightarrow> if c = CHR ''-'' \<or> c = CHR ''+'' then cs else s | [] \<Rightarrow> [])
      in if ds = [] \<or> digits_val 0 ds = None then ''invalid syntax'' else ''value out of range''))"

definition parsePortMapping :: "string \<Rightarrow> port_mapping result" where
  "parsePortMapping port =
     (if TrimSpace port = [] then Inl (errorf ''empty port mapping'')
      else case Split (CHR '':'') port of
        [hostPortRaw, spec0] \<Rightarrow>
          (let slash = CHR ''/'' \<in> set spec0;
               containerSpec = (if slash then takeWhile (\<lambda>c. c \<noteq> CHR ''/'') spec0 else spec0);
               proto0 = (if slash then tl (dropWhile (\<lambda>c. c \<noteq> CHR ''/'') spec0) else []);
               protocol = (if proto0 \<noteq> [] then ToLower proto0 else ''tcp'')
           in case Atoi hostPortRaw of
                None \<Rightarrow> Inl (wrapw (''invalid host port in '' @ fmt_q port @ '': '') (atoi_error hostPortRaw))
              | Some hostPort \<Rightarrow>
                  (case Atoi containerSpec of
                     None \<Rightarrow> Inl (wrapw (''invalid container port in '' @ fmt_q port @ '': '') (atoi_error containerSpec))
                   | Some containerPort \<Rightarrow>
                       Inr \<lparr>pm_HostPort = int32 hostPort, pm_ContainerPort = int32 containerPort,
                            pm_Protocol = protocol\<rparr>))
      | _ \<Rightarrow> Inl (errorf (''invalid port mapping '' @ fmt_q port)))"

definition parseVolumeMount :: "string \<Rightarrow> volume_mount result" where
  "parseVolumeMount volume =
     (if TrimSpace volume = [] then Inl (errorf ''empty volume mapping'')
      else case Split (CHR '':'') volume of
        hostPath # containerPath # rest \<Rightarrow>
          Inr \<lparr>vmt_HostPath = hostPath, vmt_ContainerPath = containerPath,
               vmt_ReadOnly = (case rest of [] \<Rightarrow> False | m # _ \<Rightarrow> EqualFold m ''ro'')\<rparr>
      | _ \<Rightarrow> Inl (errorf (''invalid volume mapping '' @ fmt_q volume)))"

definition projectChar :: "char \<Rightarrow> bool" where
  "projectChar c = (isLower c \<or> digit_val c \<noteq> None \<or>
     c = CHR ''-'' \<or> c = CHR ''_'')"

definition normalizeProjectName :: "string \<Rightarrow> string" where
  "normalizeProjectName name0 =
     (let name = TrimSpace (ToLower name0)
      in if name = [] then ''workload''
         else (let out = TrimChar (CHR ''-'') (map (\<lambda>c. if projectChar c then c else CHR ''-'') name)
               in if out = [] then ''workload'' else out))"

text \<open>\<open>filepath.Join\<close> under an absolute directory: empty and dot elements vanish, dot-dot removes one.\<close>

fun cleanPath :: "string list \<Rightarrow> string list \<Rightarrow> string list" where
  "cleanPath [] acc = rev acc"
| "cleanPath (p # ps) acc =
     (if p = [] \<or> p = ''.'' then cleanPath ps acc
      else if p = ''..'' then cleanPath ps (drop 1 acc)
      else cleanPath ps (p # acc))"

definition joinAbs :: "string \<Rightarrow> string \<Rightarrow> string" where
  "joinAbs dir name = CHR ''/'' # Join ''/'' (cleanPath (Split (CHR ''/'') (dir @ ''/'' @ name)) [])"

definition normalizeVMDiskForAgent :: "string \<Rightarrow> vm_disk_config \<Rightarrow> vm_disk_config" where
  "normalizeVMDiskForAgent workloadID d0 =
     (let d1 = (if TrimSpace (vd_Device d0) = [] then d0\<lparr>vd_Device := ''vda''\<rparr> else d0);
          d2 = (if TrimSpace (vd_Format d1) = [] then d1\<lparr>vd_Format := ''qcow2''\<rparr> else d1);
          d3 = (if TrimSpace (vd_Type d2) = [] then d2\<lparr>vd_Type := ''disk''\<rparr> else d2);
          d4 = (if vd_SizeGB d3 \<le> 0 then d3\<lparr>vd_SizeGB := 20\<rparr> else d3)
      in if TrimSpace (vd_Path d4) = []
         then d4\<lparr>vd_Path := joinAbs ''/var/lib/libvirt/images''
                (TrimSpace workloadID @ ''-'' @ ToLower (TrimSpace (vd_Device d4)) @
                 (if EqualFold (vd_Format d4) ''raw'' then ''.img'' else ''.qcow2''))\<rparr>
         else d4)"

definition toAgentManagedVolumes :: "managed_volume_spec list \<Rightarrow> managed_volume_spec list" where
  "toAgentManagedVolumes vs = map (\<lambda>v. v\<lparr>mv_Name := TrimSpace (mv_Name v), mv_Driver := TrimSpace (mv_Driver v),
     mv_AccessMode := TrimSpace (mv_AccessMode v), mv_FSType := TrimSpace (mv_FSType v),
     mv_MountPath := TrimSpace (mv_MountPath v), mv_RetainPolicy := TrimSpace (mv_RetainPolicy v)\<rparr>) vs"

fun mapM_result :: "('a \<Rightarrow> 'b result) \<Rightarrow> 'a list \<Rightarrow> 'b list result" where
  "mapM_result f [] = Inr []"
| "mapM_result f (x # xs) =
     (case f x of Inl e \<Rightarrow> Inl e
      | Inr y \<Rightarrow> (case mapM_result f xs of Inl e \<Rightarrow> Inl e | Inr ys \<Rightarrow> Inr (y # ys)))"

text \<open>Conversion of a \<open>float64\<close> to an \<open>int64\<close> truncates; values beyond the range are not modelled.\<close>

definition truncate64 :: "rat \<Rightarrow> int" where
  "truncate64 r = (if r \<ge> 0 then \<lfloor>r\<rfloor> else \<lceil>r\<rceil>)"

definition containerLabels :: "workload \<Rightarrow> string gomap" where
  "containerLabels w =
     (if w_Labels w \<noteq> [] then w_Labels w
      else concat (map (\<lambda>(k, v). case v of MStr t \<Rightarrow> if TrimSpace t \<noteq> [] then [(k, t)] else [] | _ \<Rightarrow> [])
             (w_Metadata w)))"

definition containerSpecOf :: "workload \<Rightarrow> container_spec result" where
  "containerSpecOf w =
     (case mapM_result parsePortMapping (w_Ports w) of
        Inl e \<Rightarrow> Inl e
      | Inr ports \<Rightarrow>
          (case mapM_result parseVolumeMount (w_Volumes w) of
             Inl e \<Rightarrow> Inl e
           | Inr mounts \<Rightarrow>
               Inr \<lparr>cs_Image = w_Image w,
                 cs_Command = (if w_CommandList w \<noteq> [] then w_CommandList w
                   else if TrimSpace (w_Command w) \<noteq> [] then Fields (TrimSpace (w_Command w)) else []),
                 cs_Env = w_EnvVars w, cs_Volumes = mounts, cs_Ports = ports,
                 cs_Resources = (if r_CPUUsage (w_Resources w) > 0 \<or> r_MemoryUsage (w_Resources w) > 0
                   then Some \<lparr>rl_CpuShares = truncate64 (r_CPUUsage (w_Resources w) * 1000),
                              rl_MemoryBytes = wrap64 (truncate64 (r_MemoryUsage (w_Resources w)) * 1024 * 1024)\<rparr>
                   else None),
                 cs_RestartPolicy = w_RestartPolicy w, cs_Labels = containerLabels w,
                 cs_ManagedVolumes = toAgentManagedVolumes (w_ManagedVolumes w)\<rparr>))"

definition vmSpecOf :: "string \<Rightarrow> vm_spec \<Rightarrow> agent_vm_spec" where
  "vmSpecOf workloadID vm = \<lparr>av_Name = vm_Name vm, av_Vcpus = vm_VCPUs vm, av_MemoryMb = vm_MemoryMB vm,
     av_Disks = map (normalizeVMDiskForAgent workloadID) (vm_Disks vm), av_Networks = vm_Networks vm,
     av_CloudInit = vm_CloudInit vm, av_Metadata = vm_Metadata vm,
     av_CloudInitConfig = vm_CloudInitConfig vm,
     av_ManagedVolumes = toAgentManagedVolumes (vm_ManagedVolumes vm)\<rparr>"

definition buildApplyWorkloadRequest :: "'w env \<Rightarrow> workload \<Rightarrow> apply_request result" where
  "buildApplyWorkloadRequest E w0 =
     (let w = ensureWorkloadRevision E w0;
          ty = ToLower (TrimSpace (w_Type w));
          req = (\<lambda>t sp. \<lparr>aq_Id = w_ID w, aq_Type = t, aq_RevisionId = w_RevisionID w,
                         aq_DesiredState = normalizeDesiredState (w_DesiredState w), aq_Spec = sp\<rparr>)
      in if ty = ''docker-container'' \<or> ty = ''container'' then
           (case containerSpecOf w of Inl e \<Rightarrow> Inl e | Inr c \<Rightarrow> Inr (req WT_CONTAINER (ContainerSpec c)))
         else if ty = ''docker-compose'' \<or> ty = ''compose'' then
           (let yaml = (if TrimSpace (w_ComposeYAML w) = [] then TrimSpace (w_Compose w) else TrimSpace (w_ComposeYAML w))
            in if yaml = [] then Inl (errorf ''compose_yaml is required for compose workloads'')
               else Inr (req WT_COMPOSE (ComposeSpec
                 \<lparr>cp_ProjectName = (if TrimSpace (w_ProjectName w) = [] then normalizeProjectName (w_Name w)
                                    else TrimSpace (w_ProjectName w)),
                  cp_ComposeYaml = yaml, cp_Env = w_EnvVars w\<rparr>)))
         else if ty = ''vm'' then
           (case w_VM w of
              None \<Rightarrow> Inl (errorf ''vm spec is required for vm workloads'')
            | Some vm \<Rightarrow> Inr (req WT_VM (VMSpec (vmSpecOf (w_ID w) vm))))
         else Inl (errorf (''unsupported workload type: '' @ w_Type w)))"

section \<open>Remote calls\<close>

definition applyWorkloadOnNode :: "'w env \<Rightarrow> node \<Rightarrow> workload \<Rightarrow> ('w, apply_response result) op" where
  "applyWorkloadOnNode E n w = do {
     c \<leftarrow> newAgentClient E n;
     (case c of
        Inl e \<Rightarrow> ret (Inl e)
      | Inr addr \<Rightarrow>
          (case buildApplyWorkloadRequest E w of
             Inl e \<Rightarrow> ret (Inl e)
           | Inr req \<Rightarrow> call (agentApply E addr req))) }"

definition getWorkloadStatusFromNode :: "'w env \<Rightarrow> node \<Rightarrow> string \<Rightarrow> ('w, agent_status option result) op" where
  "getWorkloadStatusFromNode E n workloadID = do {
     c \<leftarrow> newAgentClient E n;
     (case c of Inl e \<Rightarrow> ret (Inl e) | Inr addr \<Rightarrow> call (agentStatus E addr workloadID)) }"

definition listWorkloadsFromNode :: "'w env \<Rightarrow> node \<Rightarrow> ('w, agent_status list result) op" where
  "listWorkloadsFromNode E n = do {
     c \<leftarrow> newAgentClient E n;
     (case c of Inl e \<Rightarrow> ret (Inl e) | Inr addr \<Rightarrow> call (agentList E addr)) }"

definition getWorkloadActionsFromNode ::
  "'w env \<Rightarrow> node \<Rightarrow> string \<Rightarrow> int \<Rightarrow> ('w, agent_action list result) op" where
  "getWorkloadActionsFromNode E n workloadID limit = do {
     c \<leftarrow> newAgentClient E n;
     (case c of Inl e \<Rightarrow> ret (Inl e) | Inr addr \<Rightarrow> call (agentActions E addr workloadID limit)) }"

definition deleteWorkloadFromNode :: "'w env \<Rightarrow> node \<Rightarrow> string \<Rightarrow> ('w, goerr option) op" where
  "deleteWorkloadFromNode E n workloadID = do {
     c \<leftarrow> newAgentClient E n;
     (case c of Inl e \<Rightarrow> ret (Some e) | Inr addr \<Rightarrow> call (agentDelete E addr workloadID)) }"

fun mapActualStateToSchedulerStatus :: "ActualState \<Rightarrow> string" where
  "mapActualStateToSchedulerStatus AS_PENDING = ''Pending''"
| "mapActualStateToSchedulerStatus AS_RUNNING = ''Running''"
| "mapActualStateToSchedulerStatus AS_STOPPED = ''Stopped''"
| "mapActualStateToSchedulerStatus AS_FAILED = ''Failed''"
| "mapActualStateToSchedulerStatus AS_UNKNOWN = ''Unknown''"
| "mapActualStateToSchedulerStatus AS_UNSPECIFIED = ''Unknown''"

definition isTerminalActualState :: "ActualState \<Rightarrow> bool" where
  "isTerminalActualState a = (a = AS_RUNNING \<or> a = AS_STOPPED \<or> a = AS_FAILED)"

definition grpcStatusCode :: "goerr \<Rightarrow> string" where
  "grpcStatusCode e = (case err_code e of None \<Rightarrow> [] | Some c \<Rightarrow> c)"

definition isWorkloadStatusNotFound :: "goerr \<Rightarrow> bool" where
  "isWorkloadStatusNotFound e =
     (if EqualFold (grpcStatusCode e) ''not_found'' then True
      else (let msg = ToLower (err_msg e)
            in Contains msg ''status not found'' \<or> Contains msg ''workload not found'' \<or> Contains msg ''not found''))"

definition isNodeUnreachableError :: "goerr \<Rightarrow> bool" where
  "isNodeUnreachableError e =
     (let code = ToLower (grpcStatusCode e)
      in if code = ''unavailable'' \<or> code = ''deadline_exceeded'' then True
         else (let msg = ToLower (err_msg e)
               in Contains msg ''connection refused'' \<or> Contains msg ''no such host'' \<or>
                  Contains msg ''transport: error while dialing'' \<or> Contains msg ''connection error''))"

section \<open>Polling\<close>

text \<open>
  A polling loop: a step either ends it or goes on with a new loop state. The fuel bounds
  the number of steps; \<open>None\<close> is a loop that has not ended within it.
\<close>

fun poll_until :: "nat \<Rightarrow> ('b \<Rightarrow> ('w, 'a + 'b) op) \<Rightarrow> 'b \<Rightarrow> ('w, 'a option) op" where
  "poll_until 0 step b = ret None"
| "poll_until (Suc fuel) step b = do {
     r \<leftarrow> step b;
     (case r of Inl a \<Rightarrow> ret (Some a) | Inr b' \<Rightarrow> poll_until fuel step b') }"

type_synonym wait_result = "agent_status option \<times> agent_action list \<times> goerr option"

text \<open>The end of an iteration: past the deadline the recent actions are fetched, else it sleeps.\<close>

definition wait_deadline ::
  "'w env \<Rightarrow> node \<Rightarrow> string \<Rightarrow> time \<Rightarrow> time \<Rightarrow> ('w, wait_result + time) op" where
  "wait_deadline E n workloadID deadline missing = do {
     t \<leftarrow> now E;
     if t > deadline then do {
       a \<leftarrow> getWorkloadActionsFromNode E n workloadID 20;
       (case a of
          Inl e \<Rightarrow> ret (Inl (None, [], Some (wrapv
            ''timeout waiting for workload terminal state; also failed to query actions: '' e)))
        | Inr actions \<Rightarrow>
            ret (Inl (None, actions, Some (errorf ''timeout waiting for workload terminal state'')))) }
     else do {
       cfg \<leftarrow> gets sc_cfg;
       _ \<leftarrow> sleep E (agentPollInterval cfg);
       ret (Inr missing) } }"

definition wait_step ::
  "'w env \<Rightarrow> node \<Rightarrow> string \<Rightarrow> time \<Rightarrow> time \<Rightarrow> ('w, wait_result + time) op" where
  "wait_step E n workloadID deadline missing = do {
     st \<leftarrow> getWorkloadStatusFromNode E n workloadID;
     (case st of
        Inr resp \<Rightarrow>
          (case resp of
             Some r \<Rightarrow> if isTerminalActualState (as_ActualState r) then ret (Inl (Some r, [], None))
                        else wait_deadline E n workloadID deadline 0
           | None \<Rightarrow> wait_deadline E n workloadID deadline 0)
      | Inl e \<Rightarrow>
          if isWorkloadStatusNotFound e then do {
            missing' \<leftarrow> (if IsZero missing then now E else ret missing);
            t \<leftarrow> now E;
            if t - missing' > defaultMissingGracePeriod then ret (Inl (None, [], Some e))
            else wait_deadline E n workloadID deadline missing' }
          else if isNodeUnreachableError e then do {
            t \<leftarrow> now E;
            if t > deadline then ret (Inl (None, [], Some e))
            else wait_deadline E n workloadID deadline missing }
          else wait_deadline E n workloadID deadline missing) }"

definition waitForWorkloadTerminalStatus ::
  "nat \<Rightarrow> 'w env \<Rightarrow> node \<Rightarrow> workload \<Rightarrow> duration \<Rightarrow> ('w, wait_result option) op" where
  "waitForWorkloadTerminalStatus fuel E n w timeout = do {
     t \<leftarrow> now E;
     poll_until fuel (wait_step E n (w_ID w) (t + timeout)) 0 }"

section \<open>Guarantees\<close>

lemma safe_poll_until:
  assumes "\<And>b. safe view K X (step b) (\<lambda>_. True)"
  shows "safe view K X (poll_until fuel step b) (\<lambda>_. True)"
  by (induction fuel arbitrary: b) (simp_all add: fp.g_return, (rule fp.g_rules assms TrueI | simp)+)

context etcd_client
begin

lemma safe_newAgentClient [op_intros]: "safe view K X (newAgentClient E n) (\<lambda>_. True)"
  unfolding newAgentClient_def loadClientTLSConfig_def
  by (rule fp.g_rules op_intros TrueI safe_call | (simp; fail))+

lemma safe_remote_calls [op_intros]:
  "safe view K X (applyWorkloadOnNode E n w) (\<lambda>_. True)"
  "safe view K X (getWorkloadStatusFromNode E n i) (\<lambda>_. True)"
  "safe view K X (listWorkloadsFromNode E n) (\<lambda>_. True)"
  "safe view K X (getWorkloadActionsFromNode E n i l) (\<lambda>_. True)"
  "safe view K X (deleteWorkloadFromNode E n i) (\<lambda>_. True)"
  unfolding applyWorkloadOnNode_def getWorkloadStatusFromNode_def listWorkloadsFromNode_def
    getWorkloadActionsFromNode_def deleteWorkloadFromNode_def
  by (rule fp.g_rules op_intros TrueI)+

lemma safe_wait [op_intros]: "safe view K X (waitForWorkloadTerminalStatus fuel E n w t) (\<lambda>_. True)"
  unfolding waitForWorkloadTerminalStatus_def wait_step_def wait_deadline_def
  by (rule fp.g_rules op_intros TrueI safe_poll_until)+

end

end
