(* ===== verification/Workloads.thy ===== *)
theory Workloads
  imports Agent
begin

text \<open>
  Reading workloads back from the store and the partial updates of a stored workload
  (\<open>scheduler.go\<close>, \<open>GetWorkloads\<close> to \<open>GetWorkloadsByNode\<close>), with the metadata accessors
  that \<open>reconciler.go\<close> and \<open>workload_control.go\<close> share. Every update reads the workload,
  changes it and saves the whole of it again.
\<close>

section \<open>Metadata access\<close>

definition metadataTimestamp :: "metadata \<Rightarrow> string \<Rightarrow> time option" where
  "metadataTimestamp m key =
     (case mget m key of
        Some (MStr v) \<Rightarrow> parseRFC3339 v
      | Some (MTime t) \<Rightarrow> Some t
      | _ \<Rightarrow> None)"

definition metadataString :: "metadata \<Rightarrow> string \<Rightarrow> string option" where
  "metadataString m key = (case mget m key of Some (MStr v) \<Rightarrow> Some v | _ \<Rightarrow> None)"

text \<open>\<open>fmt.Sscanf(s, "%d")\<close>: an optional sign and the longest run of digits; text after it is ignored.\<close>

definition sscanf_d :: "string \<Rightarrow> int option" where
  "sscanf_d s =
     (let neg = (case s of c # _ \<Rightarrow> c = CHR ''-'' | [] \<Rightarrow> False);
          rest = (case s of c # cs \<Rightarrow> if c = CHR ''-'' \<or> c = CHR ''+'' then cs else s | [] \<Rightarrow> []);
          ds = takeWhile (\<lambda>c. digit_val c \<noteq> None) rest
      in if ds = [] then None else Atoi ((if neg then ''-'' else []) @ ds))"

definition metadataInt :: "metadata \<Rightarrow> string \<Rightarrow> int option" where
  "metadataInt m key =
     (case mget m key of
        Some (MInt i) \<Rightarrow> Some i
      | Some (MFloat r) \<Rightarrow> Some (truncate64 r)
      | Some (MStr v) \<Rightarrow> sscanf_d (TrimSpace v)
      | _ \<Rightarrow> None)"

definition isMetadataTrue :: "metadata \<Rightarrow> string \<Rightarrow> bool" where
  "isMetadataTrue m key =
     (case mget m key of
        Some (MBool b) \<Rightarrow> b
      | Some (MStr v) \<Rightarrow> EqualFold (TrimSpace v) ''true''
      | _ \<Rightarrow> False)"

definition isInfrastructureFailureReason :: "string \<Rightarrow> bool" where
  "isInfrastructureFailureReason reason =
     (let lower = ToLower (TrimSpace reason)
      in if lower = [] then False
         else (Contains lower ''node'' \<and> Contains lower ''unavailable'') \<or>
              Contains lower ''no failover target'' \<or> Contains lower ''heartbeat expired'' \<or>
              Contains lower ''connection refused'' \<or> Contains lower ''deadline exceeded'' \<or>
              Contains lower ''transport: error while dialing'')"

section \<open>Reading\<close>

definition setCacheWorkloads :: "workload list \<Rightarrow> ('w, unit) op" where
  "setCacheWorkloads ws = modify (\<lambda>s. s\<lparr>sc_cacheWorkloads := fold (\<lambda>w. mput (w_ID w) w) ws []\<rparr>)"

definition statusMapOf :: "(string \<times> payload) list \<Rightarrow> workload_status gomap" where
  "statusMapOf kvs = fold (\<lambda>(_, st). mput (wt_ID st) st) (decoded unmarshalStatus kvs) []"

definition workloadOfSpec :: "workload_status gomap \<Rightarrow> workload_spec \<Rightarrow> workload" where
  "workloadOfSpec statuses p =
     (let w = workloadFromSpec p
      in case mget statuses (w_ID w) of None \<Rightarrow> w | Some st \<Rightarrow> withStatus st w)"

definition GetWorkloads :: "'w env \<Rightarrow> ('w, workload list result) op" where
  "GetWorkloads E = do {
     r \<leftarrow> RetryableEtcdGetPrefix E workloadSpecPrefix;
     (case r of
        Inl e \<Rightarrow> do {
          m \<leftarrow> currentMode;
          if m \<noteq> ModeNormal then do { ws \<leftarrow> getCachedWorkloads; ret (Inr ws) }
          else ret (Inl (wrapv ''failed to get workloads: '' e)) }
      | Inr specs \<Rightarrow> do {
          sr \<leftarrow> RetryableEtcdGetPrefix E workloadStatusPrefix;
          let statuses = (case sr of Inl _ \<Rightarrow> [] | Inr kvs \<Rightarrow> statusMapOf kvs);
          let workloads = map (workloadOfSpec statuses) (map snd (decoded unmarshalSpec specs));
          m \<leftarrow> currentMode;
          if m \<noteq> ModeNormal \<and> workloads = [] then do { ws \<leftarrow> getCachedWorkloads; ret (Inr ws) }
          else do { _ \<leftarrow> setCacheWorkloads workloads; ret (Inr workloads) } }) }"

definition GetWorkloadByID :: "'w env \<Rightarrow> string \<Rightarrow> ('w, workload result) op" where
  "GetWorkloadByID E workloadID = do {
     r \<leftarrow> RetryableEtcdGet E (workloadSpecKey workloadID);
     (case r of
        Inl e \<Rightarrow> do {
          m \<leftarrow> currentMode;
          c \<leftarrow> getCachedWorkload workloadID;
          (case (if m \<noteq> ModeNormal then c else None) of
             Some w \<Rightarrow> ret (Inr w)
           | None \<Rightarrow> ret (Inl (wrapv (''failed to get workload '' @ workloadID @ '': '') e))) }
      | Inr None \<Rightarrow> do {
          l \<leftarrow> RetryableEtcdGet E (workloadKey workloadID);
          (case l of
             Inr (Some v) \<Rightarrow>
               (case unmarshalWorkload v of
                  Inl e \<Rightarrow> ret (Inl (wrapv (''failed to unmarshal legacy workload '' @ workloadID @ '': '') e))
                | Inr legacy \<Rightarrow> do { _ \<leftarrow> cacheWorkload legacy; ret (Inr legacy) })
           | _ \<Rightarrow> ret (Inl (errorf (''workload '' @ workloadID @ '' not found'')))) }
      | Inr (Some v) \<Rightarrow>
          (case unmarshalSpec v of
             Inl e \<Rightarrow> ret (Inl (wrapv (''failed to unmarshal workload spec '' @ workloadID @ '': '') e))
           | Inr p \<Rightarrow> do {
               sr \<leftarrow> RetryableEtcdGet E (workloadStatusKey workloadID);
               let w0 = workloadFromSpec p;
               let w = (case sr of
                          Inr (Some sv) \<Rightarrow>
                            (case unmarshalStatus sv of
                               Inr st \<Rightarrow> if wt_ID st \<noteq> [] then withStatus st w0 else w0
                             | Inl _ \<Rightarrow> w0)
                        | _ \<Rightarrow> w0);
               _ \<leftarrow> cacheWorkload w;
               ret (Inr w) })) }"

definition GetWorkloadsByNode :: "'w env \<Rightarrow> string \<Rightarrow> ('w, workload list result) op" where
  "GetWorkloadsByNode E nodeID = do {
     r \<leftarrow> GetWorkloads E;
     (case r of
        Inl e \<Rightarrow> ret (Inl e)
      | Inr ws \<Rightarrow> ret (Inr (filter (\<lambda>w. w_NodeID w = nodeID) ws))) }"

section \<open>State metrics\<close>

text \<open>\<open>metrics.go\<close>: the counts that go to the gauges.\<close>

definition normalizeLabel :: "string \<Rightarrow> string" where
  "normalizeLabel v = (let l = ToLower (TrimSpace v) in if l = [] then ''unknown'' else l)"

definition countBy :: "('a \<Rightarrow> string) \<Rightarrow> 'a list \<Rightarrow> nat gomap" where
  "countBy f xs = fold (\<lambda>x m. mput (f x) (Suc (case mget m (f x) of None \<Rightarrow> 0 | Some c \<Rightarrow> c)) m) xs []"

definition RefreshStateMetrics :: "'w env \<Rightarrow> ('w, (nat gomap \<times> nat gomap \<times> nat gomap) result) op" where
  "RefreshStateMetrics E = do {
     nr \<leftarrow> GetNodes E;
     (case nr of
        Inl e \<Rightarrow> ret (Inl e)
      | Inr nodes \<Rightarrow> do {
          wr \<leftarrow> GetWorkloads E;
          (case wr of
             Inl e \<Rightarrow> ret (Inl e)
           | Inr workloads \<Rightarrow>
               ret (Inr (countBy (\<lambda>n. normalizeLabel (n_Status n)) nodes,
                 countBy (\<lambda>w. normalizeLabel (w_Status w)) workloads,
                 countBy (\<lambda>w. normalizeLabel (w_DesiredState w)) workloads))) }) }"

section \<open>Updates\<close>

text \<open>The opening of every update: the write guard, then the workload.\<close>

definition loadWorkloadForUpdate :: "'w env \<Rightarrow> string \<Rightarrow> ('w, workload result) op" where
  "loadWorkloadForUpdate E workloadID = do {
     g \<leftarrow> requireWritable;
     (case g of Some e \<Rightarrow> ret (Inl e) | None \<Rightarrow> GetWorkloadByID E workloadID) }"

abbreviation set_meta :: "string \<Rightarrow> mval \<Rightarrow> workload \<Rightarrow> workload" where
  "set_meta k v w \<equiv> w\<lparr>w_Metadata := mput k v (w_Metadata w)\<rparr>"

abbreviation touch :: "time \<Rightarrow> workload \<Rightarrow> workload" where
  "touch t w \<equiv> w\<lparr>w_StatusInfo := (w_StatusInfo w)\<lparr>si_LastUpdated := t\<rparr>\<rparr>"

definition UpdateWorkloadStatus :: "'w env \<Rightarrow> string \<Rightarrow> string \<Rightarrow> ('w, goerr option) op" where
  "UpdateWorkloadStatus E workloadID status = do {
     l \<leftarrow> loadWorkloadForUpdate E workloadID;
     (case l of
        Inl e \<Rightarrow> ret (Some e)
      | Inr w0 \<Rightarrow>
          if EqualFold (w_Status w0) status \<and> EqualFold (si_ActualState (w_StatusInfo w0)) status then ret None
          else do {
            t \<leftarrow> now E;
            let w1 = w0\<lparr>w_Status := status,
                        w_StatusInfo := (w_StatusInfo w0)\<lparr>si_ActualState := status, si_LastUpdated := t\<rparr>\<rparr>;
            let w = (if EqualFold status ''failed'' then set_meta ''last_action'' (MStr ''Failed'') w1 else w1);
            r \<leftarrow> saveWorkload E w;
            ret (map_option (wrapv (''failed to update workload '' @ workloadID @ '' status: '')) r) }) }"

definition logEntry :: "'w env \<Rightarrow> time \<Rightarrow> string \<Rightarrow> string" where
  "logEntry E t logs = ''['' @ formatLogTime (localOffset E) t @ ''] '' @ logs @ [CHR 0x0A]"

definition UpdateWorkloadLogs :: "'w env \<Rightarrow> string \<Rightarrow> string \<Rightarrow> ('w, goerr option) op" where
  "UpdateWorkloadLogs E workloadID logs = do {
     l \<leftarrow> loadWorkloadForUpdate E workloadID;
     (case l of
        Inl e \<Rightarrow> ret (Some e)
      | Inr w0 \<Rightarrow> do {
          t1 \<leftarrow> now E;
          if TrimSpace logs = [] then ret None
          else do {
            let w1 = w0\<lparr>w_Logs := w_Logs w0 @ logEntry E t1 logs\<rparr>;
            t2 \<leftarrow> now E;
            r \<leftarrow> saveWorkload E (touch t2 w1);
            ret (map_option (wrapv (''failed to update workload '' @ workloadID @ '' logs: '')) r) } }) }"

definition mergeMetadata :: "string \<times> string \<Rightarrow> workload \<times> bool \<Rightarrow> workload \<times> bool" where
  "mergeMetadata kv acc =
     (case kv of (k, v) \<Rightarrow> case acc of (w, changed) \<Rightarrow>
        (let key = TrimSpace k; cleanVal = TrimSpace v
         in if key = [] then acc
            else
              (let differs = (case mget (w_Metadata w) key of None \<Rightarrow> True | Some old \<Rightarrow> fmt_v old \<noteq> cleanVal);
                   w1 = set_meta key (MStr cleanVal) w;
                   w2 = (if (key = ''container.stderr'' \<or> key = ''container.runtime_error'') \<and> cleanVal \<noteq> []
                         then (let w' = set_meta ''last_runtime_error'' (MStr cleanVal) w1
                               in if TrimSpace (si_FailureReason (w_StatusInfo w')) = [] \<or>
                                     isInfrastructureFailureReason (si_FailureReason (w_StatusInfo w'))
                                  then w'\<lparr>w_StatusInfo := (w_StatusInfo w')\<lparr>si_FailureReason := cleanVal\<rparr>\<rparr>
                                  else w')
                         else w1)
               in (w2, changed \<or> differs))))"

definition UpdateWorkloadMetadata :: "'w env \<Rightarrow> string \<Rightarrow> string gomap \<Rightarrow> ('w, goerr option) op" where
  "UpdateWorkloadMetadata E workloadID metadata = do {
     g \<leftarrow> requireWritable;
     (case g of
        Some e \<Rightarrow> ret (Some e)
      | None \<Rightarrow>
          if metadata = [] then ret None
          else do {
            l \<leftarrow> GetWorkloadByID E workloadID;
            (case l of
               Inl e \<Rightarrow> ret (Some e)
             | Inr w0 \<Rightarrow>
                 (case fold mergeMetadata metadata (w0, False) of (w1, changed) \<Rightarrow>
                    if \<not> changed then ret None
                    else do {
                      t \<leftarrow> now E;
                      r \<leftarrow> saveWorkload E (touch t w1);
                      ret (map_option (wrapv (''failed to update workload '' @ workloadID @ '' metadata: '')) r) })) }) }"

definition withReason :: "workload_reason \<Rightarrow> workload \<Rightarrow> workload" where
  "withReason r w0 =
     (let w1 = w0\<lparr>w_StatusInfo := (w_StatusInfo w0)\<lparr>si_Reason := Some r\<rparr>\<rparr>;
          w2 = (if TrimSpace (wr_Message r) \<noteq> []
                then w1\<lparr>w_StatusInfo := (w_StatusInfo w1)\<lparr>si_FailureReason := wr_Message r\<rparr>\<rparr> else w1);
          w3 = (if TrimSpace (wr_Code r) \<noteq> [] then set_meta ''reason_code'' (MStr (wr_Code r)) w2 else w2);
          w4 = (if TrimSpace (wr_Message r) \<noteq> [] then set_meta ''reason_message'' (MStr (wr_Message r)) w3 else w3);
          w5 = (if \<not> IsZero (wr_LastTransition r)
                then set_meta ''reason_last_transition'' (MStr (formatRFC3339 (wr_LastTransition r))) w4 else w4);
          w6 = (if \<not> IsZero (wr_NextRetryAt r)
                then set_meta ''reason_next_retry_at'' (MStr (formatRFC3339 (wr_NextRetryAt r))) w5 else w5)
      in set_meta ''reason_retryable'' (MStr (fmt_bool (wr_Retryable r))) w6)"

definition withUsage :: "workload_usage \<Rightarrow> workload \<Rightarrow> workload" where
  "withUsage u w0 =
     (let w1 = w0\<lparr>w_Usage := Some u\<rparr>;
          w2 = set_meta ''usage_cpu_percent'' (MStr (fmt_fixed 4 (wu_CPUPercent u))) w1;
          w3 = set_meta ''usage_memory_bytes'' (MStr (itoa (wu_MemoryBytes u))) w2;
          w4 = set_meta ''usage_disk_read_bytes'' (MStr (itoa (wu_DiskReadBytes u))) w3;
          w5 = set_meta ''usage_disk_write_bytes'' (MStr (itoa (wu_DiskWriteBytes u))) w4;
          w6 = set_meta ''usage_net_rx_bytes'' (MStr (itoa (wu_NetRXBytes u))) w5;
          w7 = set_meta ''usage_net_tx_bytes'' (MStr (itoa (wu_NetTXBytes u))) w6;
          w8 = (if \<not> IsZero (wu_CollectedAt u)
                then set_meta ''usage_collected_at'' (MStr (formatRFC3339 (wu_CollectedAt u))) w7 else w7)
      in if TrimSpace (wu_Source u) \<noteq> [] then set_meta ''usage_source'' (MStr (wu_Source u)) w8 else w8)"

definition UpdateWorkloadRuntimeDetails ::
  "'w env \<Rightarrow> string \<Rightarrow> workload_reason option \<Rightarrow> workload_usage option \<Rightarrow> ('w, goerr option) op" where
  "UpdateWorkloadRuntimeDetails E workloadID reason usage = do {
     l \<leftarrow> loadWorkloadForUpdate E workloadID;
     (case l of
        Inl e \<Rightarrow> ret (Some e)
      | Inr w0 \<Rightarrow> do {
          let w1 = (case reason of None \<Rightarrow> w0 | Some rs \<Rightarrow> withReason rs w0);
          let w2 = (case usage of None \<Rightarrow> w1 | Some u \<Rightarrow> withUsage u w1);
          t \<leftarrow> now E;
          r \<leftarrow> saveWorkload E (touch t w2);
          ret (map_option (wrapv (''failed to update workload '' @ workloadID @ '' runtime details: '')) r) }) }"

section \<open>Guarantees\<close>

lemma mergeMetadata_id: "w_ID (fst (mergeMetadata kv acc)) = w_ID (fst acc)"
  by (simp add: mergeMetadata_def Let_def split: prod.splits)

lemma fold_mergeMetadata_id: "w_ID (fst (fold mergeMetadata kvs acc)) = w_ID (fst acc)"
  by (induction kvs arbitrary: acc) (simp_all add: mergeMetadata_id)

lemma details_id [simp]: "w_ID (withReason r w) = w_ID w" "w_ID (withUsage u w) = w_ID w"
  by (simp_all add: withReason_def withUsage_def Let_def)

lemma projected_id [simp]:
  "w_ID (workloadFromSpec p) = ws_ID p" "w_ID (withStatus st w) = w_ID w"
  by (simp_all add: workloadFromSpec_def withStatus_def)

lemma entry_ok_readers [simp]:
  "entry_ok (workloadSpecKey i) v \<longleftrightarrow> (\<exists>p. v = PSpec p \<and> ws_ID p = i)"
  "entry_ok (workloadStatusKey i) v \<longleftrightarrow> (\<exists>q. v = PStatus q \<and> wt_ID q = i)"
  "entry_ok (workloadKey i) v \<longleftrightarrow> (\<exists>w. v = PWorkload w \<and> w_ID w = i)"
  by (cases v; auto simp: entry_ok_def key_defs prefix_defs)+

context etcd_client
begin

lemma safe_setCacheWorkloads [op_intros]: "safe view K X (setCacheWorkloads ws) (\<lambda>_. True)"
  unfolding setCacheWorkloads_def
  by (rule ensures_modify)
    (simp_all add: sched_inv_def mode_ok_def cache_ok_def footprint_def writable_def keyed_fold)

lemma safe_GetWorkloads [op_intros]: "safe view K X (GetWorkloads E) (\<lambda>_. True)"
  unfolding GetWorkloads_def getCachedWorkloads_def
  by (rule fp.g_rules op_intros TrueI)+

lemma safe_RefreshStateMetrics [op_intros]: "safe view K X (RefreshStateMetrics E) (\<lambda>_. True)"
  unfolding RefreshStateMetrics_def by (rule fp.g_rules op_intros TrueI)+

lemma safe_GetWorkloadByID: "safe view K X (GetWorkloadByID E i) (\<lambda>x. \<forall>w. x = Inr w \<longrightarrow> w_ID w = i)"
  unfolding GetWorkloadByID_def
  by (rule fp.g_bind [OF safe_get [of _ _ "workloadSpecKey i"]]
        fp.g_bind [OF safe_get [of _ _ "workloadKey i"]] fp.g_bind [OF safe_getCachedWorkload]
        fp.g_rules op_intros TrueI
      | (auto split: if_splits sum.splits option.splits; fail))+

lemmas safe_GetWorkloadByID_any [op_intros] = safe_GetWorkloadByID [THEN ensures_any]

lemma safe_GetWorkloadsByNode [op_intros]: "safe view K X (GetWorkloadsByNode E n) (\<lambda>_. True)"
  unfolding GetWorkloadsByNode_def by (rule fp.g_rules op_intros TrueI)+

lemma safe_loadWorkload:
  "safe view K X (loadWorkloadForUpdate E i) (\<lambda>x. \<forall>w. x = Inr w \<longrightarrow> w_ID w = i)"
  unfolding loadWorkloadForUpdate_def
  by (rule fp.g_rules safe_GetWorkloadByID op_intros | (simp; fail))+

lemma safe_UpdateWorkloadStatus [op_intros]:
  assumes "own_keys i \<subseteq> K" "storage_keys \<subseteq> K"
  shows "safe view K X (UpdateWorkloadStatus E i st) (\<lambda>_. True)"
  unfolding UpdateWorkloadStatus_def
  by (rule fp.g_bind [OF safe_loadWorkload] fp.g_rules op_intros assms TrueI | (use assms in auto; fail))+

lemma safe_UpdateWorkloadLogs [op_intros]:
  assumes "own_keys i \<subseteq> K" "storage_keys \<subseteq> K"
  shows "safe view K X (UpdateWorkloadLogs E i logs) (\<lambda>_. True)"
  unfolding UpdateWorkloadLogs_def
  by (rule fp.g_bind [OF safe_loadWorkload] fp.g_rules op_intros assms TrueI | (use assms in auto; fail))+

lemma safe_UpdateWorkloadMetadata [op_intros]:
  assumes "own_keys i \<subseteq> K" "storage_keys \<subseteq> K"
  shows "safe view K X (UpdateWorkloadMetadata E i m) (\<lambda>_. True)"
proof -
  have id: "fold mergeMetadata m (w, False) = (w', c) \<Longrightarrow> w_ID w' = w_ID w" for w w' c
    using fold_mergeMetadata_id [of m "(w, False)"] by simp
  show ?thesis
    unfolding UpdateWorkloadMetadata_def
    by (rule fp.g_bind [OF safe_GetWorkloadByID] fp.g_rules op_intros assms TrueI
        | (use assms in \<open>auto dest!: id\<close>; fail))+
qed

lemma safe_UpdateWorkloadRuntimeDetails [op_intros]:
  assumes "own_keys i \<subseteq> K" "storage_keys \<subseteq> K"
  shows "safe view K X (UpdateWorkloadRuntimeDetails E i r u) (\<lambda>_. True)"
  unfolding UpdateWorkloadRuntimeDetails_def
  by (rule fp.g_bind [OF safe_loadWorkload] fp.g_rules op_intros assms TrueI
      | (use assms in \<open>auto split: option.splits\<close>; fail))+

end

end
