(* ===== verification/Retry.thy ===== *)
theory Retry
  imports Workloads
begin

text \<open>
  Failures and retries (\<open>workload_control.go\<close>): the backoff computed in 64-bit
  nanoseconds, the failure reason that is kept, the retry state machine with its grace
  period, and the manual retry.
\<close>

definition workloadFailureObservedAtKey :: string where "workloadFailureObservedAtKey = ''failureObservedAt''"
definition workloadFailureGraceUntilKey :: string where "workloadFailureGraceUntilKey = ''failureGraceUntil''"
definition defaultFailureGracePeriod :: duration where "defaultFailureGracePeriod = 2 * Minute"
definition minAttemptsBeforeBackoff :: int where "minAttemptsBeforeBackoff = 3"

definition workloadReapplyTimestampKey :: string where "workloadReapplyTimestampKey = ''lastApplyRequestAt''"
definition workloadReapplyRevisionKey :: string where "workloadReapplyRevisionKey = ''lastApplyRevision''"
definition workloadReapplyAttemptsKey :: string where "workloadReapplyAttemptsKey = ''reapplyAttempts''"
definition workloadReapplyNextAtKey :: string where "workloadReapplyNextAtKey = ''reapplyNextAt''"
definition terminalRetryMetadataKey :: string where "terminalRetryMetadataKey = ''retry_terminal''"
definition terminalRetryReasonMetadataKey :: string where "terminalRetryReasonMetadataKey = ''retry_terminal_reason''"
definition terminalFailureReasonMetadataKey :: string where
  "terminalFailureReasonMetadataKey = ''terminal_failure_reason''"

lemmas meta_key_defs = workloadFailureObservedAtKey_def workloadFailureGraceUntilKey_def
  workloadReapplyTimestampKey_def workloadReapplyRevisionKey_def workloadReapplyAttemptsKey_def
  workloadReapplyNextAtKey_def terminalRetryMetadataKey_def terminalRetryReasonMetadataKey_def
  terminalFailureReasonMetadataKey_def managedStorageStateKey_def

section \<open>Backoff\<close>

text \<open>A \<open>time.Duration\<close> is an \<open>int64\<close>, so the doubling loop works on 64-bit words.\<close>

fun doubled :: "nat \<Rightarrow> 64 word \<Rightarrow> 64 word" where
  "doubled 0 b = b"
| "doubled (Suc n) b = doubled n (b * 2)"

definition retryBackoff :: "int \<Rightarrow> duration" where
  "retryBackoff attempt0 =
     (let attempt = (if attempt0 < 1 then 1 else attempt0)
      in if attempt < minAttemptsBeforeBackoff then 0
         else (let effective0 = attempt - (minAttemptsBeforeBackoff - 1);
                   effective = (if effective0 < 1 then 1 else effective0);
                   backoff = sint (doubled (nat (effective - 1)) (word_of_int (5 * Second)))
               in if backoff > 2 * Minute then 2 * Minute else backoff))"

section \<open>Failure reasons\<close>

text \<open>The first of the keys that holds a non-blank string.\<close>

fun firstNonBlank :: "metadata \<Rightarrow> string list \<Rightarrow> string" where
  "firstNonBlank m [] = []"
| "firstNonBlank m (k # ks) =
     (case metadataString m k of
        Some v \<Rightarrow> if TrimSpace v \<noteq> [] then TrimSpace v else firstNonBlank m ks
      | None \<Rightarrow> firstNonBlank m ks)"

definition preferredRuntimeFailureReason :: "metadata \<Rightarrow> string" where
  "preferredRuntimeFailureReason m =
     firstNonBlank m [''container.stderr'', ''last_runtime_error'', ''container.runtime_error'']"

abbreviation set_failure :: "string \<Rightarrow> workload \<Rightarrow> workload" where
  "set_failure r w \<equiv> w\<lparr>w_StatusInfo := (w_StatusInfo w)\<lparr>si_FailureReason := r\<rparr>\<rparr>"

definition applyFailureReason :: "workload \<Rightarrow> string \<Rightarrow> workload" where
  "applyFailureReason w0 reason =
     (let cleanReason = TrimSpace reason;
          w = set_meta ''scheduler_last_error'' (MStr cleanReason) w0;
          runtimeReason = preferredRuntimeFailureReason (w_Metadata w)
      in if runtimeReason \<noteq> [] \<and> isInfrastructureFailureReason cleanReason
         then set_meta ''last_error'' (MStr runtimeReason) (set_failure runtimeReason w)
         else set_meta ''last_error'' (MStr cleanReason) (set_failure cleanReason w))"

definition clearReapplyMetadata :: "workload \<Rightarrow> workload" where
  "clearReapplyMetadata w = w\<lparr>w_Metadata := mdels [workloadReapplyAttemptsKey, workloadReapplyNextAtKey,
     workloadReapplyTimestampKey, workloadReapplyRevisionKey, ''lastLaunchTime''] (w_Metadata w)\<rparr>"

section \<open>The retry state machine\<close>

definition withMaxAttempts :: "workload \<Rightarrow> workload" where
  "withMaxAttempts w =
     (if rt_MaxAttempts (w_Retry w) \<le> 0 then w\<lparr>w_Retry := (w_Retry w)\<lparr>rt_MaxAttempts := 5\<rparr>\<rparr> else w)"

datatype retry_outcome = InGrace | Exhausted | Scheduled

text \<open>
  The new workload at time \<open>now\<close>, with the branch that was taken and the end of the grace
  period; the events and the save follow below.
\<close>

definition retryStep :: "time \<Rightarrow> string \<Rightarrow> workload \<Rightarrow> retry_outcome \<times> time \<times> workload" where
  "retryStep t reason w0 =
     (let w1 = withMaxAttempts w0;
          observed = metadataTimestamp (w_Metadata w1) workloadFailureObservedAtKey;
          firstObserved = (case observed of None \<Rightarrow> t | Some o1 \<Rightarrow> o1);
          w2 = (case observed of
                  None \<Rightarrow> set_meta workloadFailureObservedAtKey (MStr (formatRFC3339 firstObserved)) w1
                | Some _ \<Rightarrow> w1);
          graceUntil = firstObserved + defaultFailureGracePeriod
      in if t < graceUntil then
           (let w3 = set_meta workloadFailureGraceUntilKey (MStr (formatRFC3339 graceUntil)) w2;
                n = rt_Attempts (w_Retry w3);
                n' = (if n < rt_MaxAttempts (w_Retry w3) - 1 then n + 1 else n);
                w4 = w3\<lparr>w_Retry := (w_Retry w3)\<lparr>rt_Attempts := n', rt_NextRetryAt := t + retryBackoff n'\<rparr>,
                        w_Status := ''RetryPending'',
                        w_StatusInfo := (w_StatusInfo w3)\<lparr>si_ActualState := ''Pending'', si_LastUpdated := t\<rparr>\<rparr>
            in (InGrace, graceUntil, set_meta ''last_action'' (MStr ''RetryGracePeriod'') (applyFailureReason w4 reason)))
         else
           (let n' = rt_Attempts (w_Retry w2) + 1;
                w3 = w2\<lparr>w_Retry := (w_Retry w2)\<lparr>rt_Attempts := n'\<rparr>\<rparr>
            in if n' \<ge> rt_MaxAttempts (w_Retry w3) then
                 (let w4 = w3\<lparr>w_Status := ''Failed'',
                              w_StatusInfo := (w_StatusInfo w3)\<lparr>si_ActualState := ''Failed'', si_LastUpdated := t\<rparr>\<rparr>;
                      w5 = set_meta ''last_action'' (MStr ''RetryExhausted'') (applyFailureReason w4 reason)
                  in (Exhausted, graceUntil, w5\<lparr>w_Metadata :=
                       mdels [workloadFailureObservedAtKey, workloadFailureGraceUntilKey] (w_Metadata w5)\<rparr>))
               else
                 (let w4 = w3\<lparr>w_Retry := (w_Retry w3)\<lparr>rt_NextRetryAt := t + retryBackoff n'\<rparr>,
                              w_Status := ''RetryPending'',
                              w_StatusInfo := (w_StatusInfo w3)\<lparr>si_LastUpdated := t\<rparr>\<rparr>
                  in (Scheduled, graceUntil,
                      set_meta ''last_action'' (MStr ''RetryScheduled'') (applyFailureReason w4 reason)))))"

definition emitRetryEvent :: "'w env \<Rightarrow> retry_outcome \<Rightarrow> time \<Rightarrow> string \<Rightarrow> workload \<Rightarrow> ('w, unit) op" where
  "emitRetryEvent E oc graceUntil reason w =
     (let attempts = (''attempts'', MInt (rt_Attempts (w_Retry w)));
          next_at = (''next_retry_at'', MStr (formatRFC3339 (rt_NextRetryAt (w_Retry w))))
      in case oc of
           InGrace \<Rightarrow> emitEvent E ''RetryTriggered'' (w_ID w) (w_NodeID w) ''failure observed within grace period''
             [attempts, next_at, (''failure_grace_until'', MStr (formatRFC3339 graceUntil))]
         | Exhausted \<Rightarrow> emitEvent E ''WorkloadFailed'' (w_ID w) (w_NodeID w) reason [attempts]
         | Scheduled \<Rightarrow> emitEvent E ''RetryTriggered'' (w_ID w) (w_NodeID w) reason [attempts, next_at])"

definition UpdateWorkloadRetryOnFailure :: "'w env \<Rightarrow> string \<Rightarrow> string \<Rightarrow> ('w, goerr option) op" where
  "UpdateWorkloadRetryOnFailure E workloadID reason = do {
     l \<leftarrow> loadWorkloadForUpdate E workloadID;
     (case l of
        Inl e \<Rightarrow> ret (Some e)
      | Inr w0 \<Rightarrow> do {
          t \<leftarrow> now E;
          (case retryStep t reason w0 of (oc, graceUntil, w) \<Rightarrow> do {
             _ \<leftarrow> emitRetryEvent E oc graceUntil reason w;
             saveWorkload E w }) }) }"

definition dueForRetry :: "time \<Rightarrow> workload \<Rightarrow> bool" where
  "dueForRetry t w =
     (if rt_Attempts (w_Retry w) \<ge> rt_MaxAttempts (w_Retry w) \<and> rt_MaxAttempts (w_Retry w) > 0 then False
      else if IsZero (rt_NextRetryAt (w_Retry w)) then False
      else \<not> t < rt_NextRetryAt (w_Retry w))"

definition retriggered :: "time \<Rightarrow> workload \<Rightarrow> workload" where
  "retriggered t w0 =
     (let w1 = withMaxAttempts w0;
          w2 = w1\<lparr>w_Retry := (w_Retry w1)\<lparr>rt_NextRetryAt := t, rt_Attempts := 0\<rparr>\<rparr>;
          w3 = clearReapplyMetadata w2;
          w4 = w3\<lparr>w_Metadata := mdels [terminalRetryMetadataKey, terminalRetryReasonMetadataKey,
                    terminalFailureReasonMetadataKey] (w_Metadata w3)\<rparr>
      in set_meta ''last_action'' (MStr ''RetryTriggered'') w4)"

definition TriggerWorkloadRetry :: "'w env \<Rightarrow> string \<Rightarrow> ('w, workload result) op" where
  "TriggerWorkloadRetry E workloadID = do {
     l \<leftarrow> loadWorkloadForUpdate E workloadID;
     (case l of
        Inl e \<Rightarrow> ret (Inl e)
      | Inr w0 \<Rightarrow> do {
          t \<leftarrow> now E;
          let w = retriggered t w0;
          r \<leftarrow> saveWorkload E w;
          (case r of
             Some e \<Rightarrow> ret (Inl e)
           | None \<Rightarrow> do {
               _ \<leftarrow> emitEvent E ''RetryTriggered'' (w_ID w) (w_NodeID w) ''Manual retry requested''
                     [(''attempts'', MInt (rt_Attempts (w_Retry w)))];
               ret (Inr (markManagedStorage w)) }) }) }"

section \<open>Guarantees\<close>

lemma retry_ids [simp]:
  "w_ID (applyFailureReason w r) = w_ID w" "w_ID (clearReapplyMetadata w) = w_ID w"
  "w_ID (withMaxAttempts w) = w_ID w" "w_ID (retriggered t w) = w_ID w"
  by (simp_all add: applyFailureReason_def clearReapplyMetadata_def withMaxAttempts_def retriggered_def Let_def)

lemma retryStep_id: "retryStep t r w = (oc, g, w') \<Longrightarrow> w_ID w' = w_ID w"
  by (auto simp: retryStep_def Let_def split: if_splits option.splits)

context etcd_client
begin

lemma safe_emitRetryEvent [op_intros]:
  "event_keys \<subseteq> K \<Longrightarrow> safe view K X (emitRetryEvent E oc g r w) (\<lambda>_. True)"
  unfolding emitRetryEvent_def by (cases oc) (simp_all add: safe_emitEvent)

lemma safe_UpdateWorkloadRetryOnFailure [op_intros]:
  assumes "own_keys i \<subseteq> K" "storage_keys \<subseteq> K" "event_keys \<subseteq> K"
  shows "safe view K X (UpdateWorkloadRetryOnFailure E i r) (\<lambda>_. True)"
  unfolding UpdateWorkloadRetryOnFailure_def
  by (rule fp.g_bind [OF safe_loadWorkload] fp.g_rules op_intros assms TrueI
      | (use assms in \<open>auto dest!: retryStep_id\<close>; fail))+

lemma safe_TriggerWorkloadRetry [op_intros]:
  assumes "own_keys i \<subseteq> K" "storage_keys \<subseteq> K" "event_keys \<subseteq> K"
  shows "safe view K X (TriggerWorkloadRetry E i) (\<lambda>_. True)"
  unfolding TriggerWorkloadRetry_def
  by (rule fp.g_bind [OF safe_loadWorkload] fp.g_rules op_intros assms TrueI
      | (use assms in auto; fail))+

end

end
