(* ===== verification/Lifecycle.thy ===== *)
theory Lifecycle
  imports Retry
begin

text \<open>
  The life of a workload: creation and specification changes (\<open>workload_control.go\<close>),
  assignment, the direct schedule operation and deletion (\<open>scheduler.go\<close>).
\<close>

section \<open>Creation and specification\<close>

definition CreateWorkload :: "'w env \<Rightarrow> workload \<Rightarrow> ('w, workload result) op" where
  "CreateWorkload E w0 = do {
     g \<leftarrow> requireWritable;
     (case g of
        Some e \<Rightarrow> ret (Inl e)
      | None \<Rightarrow> do {
          i \<leftarrow> (if TrimSpace (w_ID w0) = [] then call (newUUID E) else ret (w_ID w0));
          w1 \<leftarrow> initializeWorkloadDefaults E (ensureWorkloadRevision E (w0\<lparr>w_ID := i\<rparr>));
          let w2 = w1\<lparr>w_Status := ''Pending'', w_StatusInfo := (w_StatusInfo w1)\<lparr>si_ActualState := ''Pending''\<rparr>\<rparr>;
          let w = set_meta ''last_action'' (MStr ''Created'') w2;
          r \<leftarrow> saveWorkload E w;
          (case r of
             Some e \<Rightarrow> ret (Inl e)
           | None \<Rightarrow> do {
               _ \<leftarrow> emitEvent E ''WorkloadScheduled'' (w_ID w) [] ''Workload created''
                     [(''desired_state'', MStr (w_DesiredState w))];
               ret (Inr (markManagedStorage w)) }) }) }"

text \<open>
  \<open>reflect.DeepEqual\<close> of two maps does not look at their order. It tells a nil slice or map from an
  empty one; both are the empty list here.
\<close>

definition map_eq :: "'v gomap \<Rightarrow> 'v gomap \<Rightarrow> bool" where
  "map_eq a b = (list_all (\<lambda>(k, v). mget b k = Some v) a \<and> list_all (\<lambda>(k, v). mget a k = Some v) b)"

definition vm_eq :: "vm_spec option \<Rightarrow> vm_spec option \<Rightarrow> bool" where
  "vm_eq a b =
     (case (a, b) of
        (Some x, Some y) \<Rightarrow> map_eq (vm_Metadata x) (vm_Metadata y) \<and> x\<lparr>vm_Metadata := []\<rparr> = y\<lparr>vm_Metadata := []\<rparr>
      | (None, None) \<Rightarrow> True
      | _ \<Rightarrow> False)"

text \<open>
  One field of the update: when it is given it replaces the field of the workload, and a
  difference is noted. The desired state is handled on its own.
\<close>

definition upd :: "bool \<Rightarrow> bool \<Rightarrow> (workload \<Rightarrow> workload) \<Rightarrow> workload \<times> bool \<Rightarrow> workload \<times> bool" where
  "upd given same f acc = (if given then (f (fst acc), snd acc \<or> \<not> same) else acc)"

definition specUpdates :: "workload \<Rightarrow> workload \<Rightarrow> workload \<times> bool" where
  "specUpdates u c =
     (let a1 = upd (TrimSpace (w_Name u) \<noteq> []) (w_Name c = w_Name u) (\<lambda>w. w\<lparr>w_Name := w_Name u\<rparr>) (c, False);
          a2 = upd (TrimSpace (w_Type u) \<noteq> []) (w_Type c = w_Type u) (\<lambda>w. w\<lparr>w_Type := w_Type u\<rparr>) a1;
          a3 = upd (TrimSpace (w_Image u) \<noteq> []) (w_Image c = w_Image u) (\<lambda>w. w\<lparr>w_Image := w_Image u\<rparr>) a2;
          a4 = upd (w_Command u \<noteq> []) (w_Command c = w_Command u) (\<lambda>w. w\<lparr>w_Command := w_Command u\<rparr>) a3;
          a5 = upd (w_CommandList u \<noteq> []) (w_CommandList c = w_CommandList u)
                 (\<lambda>w. w\<lparr>w_CommandList := w_CommandList u\<rparr>) a4;
          a6 = upd (w_Compose u \<noteq> []) (w_Compose c = w_Compose u) (\<lambda>w. w\<lparr>w_Compose := w_Compose u\<rparr>) a5;
          a7 = upd (w_ComposeYAML u \<noteq> []) (w_ComposeYAML c = w_ComposeYAML u)
                 (\<lambda>w. w\<lparr>w_ComposeYAML := w_ComposeYAML u\<rparr>) a6;
          a8 = upd (w_ProjectName u \<noteq> []) (w_ProjectName c = w_ProjectName u)
                 (\<lambda>w. w\<lparr>w_ProjectName := w_ProjectName u\<rparr>) a7;
          a9 = upd (w_EnvVars u \<noteq> []) (map_eq (w_EnvVars c) (w_EnvVars u)) (\<lambda>w. w\<lparr>w_EnvVars := w_EnvVars u\<rparr>) a8;
          a10 = upd (w_Labels u \<noteq> []) (map_eq (w_Labels c) (w_Labels u)) (\<lambda>w. w\<lparr>w_Labels := w_Labels u\<rparr>) a9;
          a11 = upd (w_Ports u \<noteq> []) (w_Ports c = w_Ports u) (\<lambda>w. w\<lparr>w_Ports := w_Ports u\<rparr>) a10;
          a12 = upd (w_Volumes u \<noteq> []) (w_Volumes c = w_Volumes u) (\<lambda>w. w\<lparr>w_Volumes := w_Volumes u\<rparr>) a11;
          a13 = upd (w_RestartPolicy u \<noteq> []) (w_RestartPolicy c = w_RestartPolicy u)
                  (\<lambda>w. w\<lparr>w_RestartPolicy := w_RestartPolicy u\<rparr>) a12
      in upd (w_VM u \<noteq> None) (vm_eq (w_VM c) (w_VM u)) (\<lambda>w. w\<lparr>w_VM := w_VM u\<rparr>) a13)"

definition desiredUpdate :: "workload \<Rightarrow> workload \<Rightarrow> workload \<times> bool" where
  "desiredUpdate u c =
     (if TrimSpace (w_DesiredState u) \<noteq> []
      then (c\<lparr>w_DesiredState := normalizeDesiredStateString (w_DesiredState u)\<rparr>,
            w_DesiredState c \<noteq> normalizeDesiredStateString (w_DesiredState u))
      else (c, False))"

definition UpdateWorkloadSpec :: "'w env \<Rightarrow> string \<Rightarrow> workload \<Rightarrow> ('w, workload result) op" where
  "UpdateWorkloadSpec E workloadID u = do {
     l \<leftarrow> loadWorkloadForUpdate E workloadID;
     (case l of
        Inl e \<Rightarrow> ret (Inl e)
      | Inr c0 \<Rightarrow>
          (case specUpdates u c0 of (c1, specChanged) \<Rightarrow>
             case desiredUpdate u c1 of (c2, desiredChanged) \<Rightarrow> do {
               t \<leftarrow> now E;
               let c3 = touch t c2;
               let c = (if specChanged then
                   (let d = ensureWorkloadRevision E (c3\<lparr>w_RevisionID := []\<rparr>)
                    in set_meta ''last_action'' (MStr ''Updated'')
                         (d\<lparr>w_Status := ''Updating'', w_StatusInfo := (w_StatusInfo d)\<lparr>si_ActualState := ''Pending''\<rparr>\<rparr>))
                 else if desiredChanged then
                   set_meta ''last_action'' (MStr ''DesiredStateUpdated'') (clearReapplyMetadata c3)
                 else set_meta ''last_action'' (MStr ''NoopUpdate'') c3);
               r \<leftarrow> saveWorkload E c;
               (case r of
                  Some e \<Rightarrow> ret (Inl e)
                | None \<Rightarrow> do {
                    _ \<leftarrow> (if specChanged then
                            emitEvent E ''WorkloadScheduled'' (w_ID c) (w_NodeID c) ''Workload updated''
                              [(''revision_id'', MStr (w_RevisionID c))]
                          else if desiredChanged then
                            emitEvent E ''WorkloadScheduled'' (w_ID c) (w_NodeID c) ''Desired state updated''
                              [(''desired_state'', MStr (w_DesiredState c))]
                          else ret ());
                    ret (Inr (markManagedStorage c)) }) })) }"

definition MarkWorkloadDeleted :: "'w env \<Rightarrow> string \<Rightarrow> ('w, goerr option) op" where
  "MarkWorkloadDeleted E workloadID = do {
     l \<leftarrow> loadWorkloadForUpdate E workloadID;
     (case l of
        Inl e \<Rightarrow> ret (Some e)
      | Inr w0 \<Rightarrow> do {
          t \<leftarrow> now E;
          let w = set_meta ''last_action'' (MStr ''MarkedDeleted'')
                    (touch t (w0\<lparr>w_DesiredState := ''Deleted'', w_Status := ''Deleting''\<rparr>));
          r \<leftarrow> saveWorkload E w;
          (case r of
             Some e \<Rightarrow> ret (Some e)
           | None \<Rightarrow> do {
               _ \<leftarrow> emitEvent E ''WorkloadScheduled'' (w_ID w) (w_NodeID w) ''Marked for deletion'' [];
               ret None }) }) }"

section \<open>Assignment\<close>

text \<open>The workload is passed by reference: it is returned in the state the operation leaves it in.\<close>

definition assigned :: "time \<Rightarrow> string \<Rightarrow> string \<Rightarrow> workload \<Rightarrow> workload" where
  "assigned t nodeID reason w =
     set_meta ''assignment_reason'' (MStr reason) (set_meta ''last_action'' (MStr ''Assigned'')
       (w\<lparr>w_NodeID := nodeID, w_AssignedNode := nodeID, w_Status := ''Scheduled'',
          w_StatusInfo := (w_StatusInfo w)\<lparr>si_ActualState := ''Pending'', si_LastUpdated := t\<rparr>\<rparr>))"

definition assignWorkload :: "'w env \<Rightarrow> workload \<Rightarrow> node \<Rightarrow> string \<Rightarrow> ('w, workload \<times> goerr option) op" where
  "assignWorkload E w0 n reason = do {
     g \<leftarrow> requireWritable;
     (case g of
        Some e \<Rightarrow> ret (w0, Some e)
      | None \<Rightarrow> do {
          t \<leftarrow> now E;
          let w = assigned t (n_NodeID n) reason w0;
          r \<leftarrow> saveWorkload E w;
          (case r of
             Some e \<Rightarrow> ret (markManagedStorage w, Some e)
           | None \<Rightarrow> do {
               a \<leftarrow> writeAssignment E (w_ID w) (n_NodeID n) reason;
               (case a of
                  Some e \<Rightarrow> ret (markManagedStorage w, Some e)
                | None \<Rightarrow> do {
                    _ \<leftarrow> emitEvent E ''WorkloadScheduled'' (w_ID w) (n_NodeID n) reason [];
                    ret (markManagedStorage w, None) }) }) }) }"

definition EnsureWorkloadAssigned :: "'w env \<Rightarrow> workload \<Rightarrow> ('w, workload \<times> goerr option) op" where
  "EnsureWorkloadAssigned E w = do {
     g \<leftarrow> requireWritable;
     (case g of
        Some e \<Rightarrow> ret (w, Some e)
      | None \<Rightarrow>
          if w_NodeID w \<noteq> [] then ret (w, None)
          else do {
            sel \<leftarrow> selectNodeForWorkload E w;
            (case sel of
               Inl e \<Rightarrow> ret (w, Some e)
             | Inr (n, reason) \<Rightarrow> do {
                 r \<leftarrow> assignWorkload E w n reason;
                 (case r of (w', e) \<Rightarrow> ret (w', map_option (wrapw ''assign workload: '') e)) }) }) }"

section \<open>Scheduling\<close>

definition withApplied :: "time \<Rightarrow> apply_response \<Rightarrow> workload \<Rightarrow> workload" where
  "withApplied t resp w0 =
     (let stamp = MStr (formatRFC3339 t);
          w1 = set_meta workloadReapplyTimestampKey stamp w0;
          w2 = set_meta workloadReapplyRevisionKey (MStr (TrimSpace (w_RevisionID w1))) w1;
          w3 = set_meta ''lastLaunchTime'' stamp w2;
          w4 = set_meta ''last_action'' (MStr ''ApplyAcceptedAsync'') w3
      in case ap_Status resp of
           None \<Rightarrow> w4
         | Some st \<Rightarrow> fold (\<lambda>(k, v). set_meta k (MStr (TrimSpace v))) (as_Metadata st) w4)"

definition taskOf :: "apply_response \<Rightarrow> string" where
  "taskOf resp = (case ap_Status resp of
     None \<Rightarrow> []
   | Some st \<Rightarrow> (case mget (as_Metadata st) ''task_id'' of None \<Rightarrow> [] | Some v \<Rightarrow> TrimSpace v))"

text \<open>The response of a successful call is never nil, so only its flags decide.\<close>

definition ScheduleWorkload :: "'w env \<Rightarrow> workload \<Rightarrow> ('w, string result) op" where
  "ScheduleWorkload E w0 = do {
     g \<leftarrow> requireWritable;
     (case g of
        Some e \<Rightarrow> ret (Inl e)
      | None \<Rightarrow> do {
          i \<leftarrow> (if w_ID w0 = [] then call (newUUID E) else ret (w_ID w0));
          w1 \<leftarrow> initializeWorkloadDefaults E (ensureWorkloadRevision E (w0\<lparr>w_ID := i\<rparr>));
          sel \<leftarrow> selectNodeForWorkload E w1;
          (case sel of
             Inl e \<Rightarrow> do {
               _ \<leftarrow> emitEvent E ''WorkloadFailed'' i [] (err_msg e) [];
               ret (Inl e) }
           | Inr (n, reason) \<Rightarrow> do {
               a \<leftarrow> assignWorkload E w1 n reason;
               (case a of
                  (_, Some e) \<Rightarrow> ret (Inl (wrapw (''failed assigning workload '' @ i @ '': '') e))
                | (w2, None) \<Rightarrow> do {
                    ar \<leftarrow> applyWorkloadOnNode E n w2;
                    (case ar of
                       Inl e \<Rightarrow> do {
                         _ \<leftarrow> UpdateWorkloadStatus E i ''Failed'';
                         _ \<leftarrow> UpdateWorkloadLogs E i (''ApplyWorkload failed: '' @ err_msg e);
                         _ \<leftarrow> emitEvent E ''WorkloadFailed'' i (n_NodeID n) (err_msg e) [];
                         ret (Inl (wrapv (''apply workload on node '' @ n_NodeID n @ '': '') e)) }
                     | Inr resp \<Rightarrow>
                         if \<not> ap_Applied resp \<and> \<not> ap_Skipped resp then do {
                           let msg = (if TrimSpace (ap_Message resp) \<noteq> [] then ap_Message resp
                                      else ''agent rejected apply request'');
                           _ \<leftarrow> UpdateWorkloadStatus E i ''Failed'';
                           _ \<leftarrow> UpdateWorkloadLogs E i (''ApplyWorkload rejected: '' @ msg);
                           _ \<leftarrow> emitEvent E ''WorkloadFailed'' i (n_NodeID n) msg [];
                           ret (Inl (errorf (''apply workload on node '' @ n_NodeID n @ '' rejected: '' @ msg))) }
                         else do {
                           _ \<leftarrow> (case ap_Status resp of
                                  None \<Rightarrow> ret None
                                | Some st \<Rightarrow> UpdateWorkloadStatus E i (mapActualStateToSchedulerStatus (as_ActualState st)));
                           _ \<leftarrow> UpdateWorkloadLogs E i (''Apply response: applied='' @ fmt_bool (ap_Applied resp) @
                                 '' skipped='' @ fmt_bool (ap_Skipped resp) @ '' message='' @ ap_Message resp);
                           t \<leftarrow> now E;
                           let w = withApplied t resp w2;
                           _ \<leftarrow> doif (taskOf resp \<noteq> [])
                                 (UpdateWorkloadLogs E i (''Tracking async apply task: '' @ taskOf resp));
                           r \<leftarrow> saveWorkload E w;
                           (case r of
                              Some e \<Rightarrow> ret (Inl (wrapw ''persist async apply guard metadata: '' e))
                            | None \<Rightarrow> do {
                                _ \<leftarrow> writeReconciliationRecord E i ''Apply'' True
                                      ''Apply accepted by agent (async tracking)'';
                                ret (Inr (n_NodeID n)) }) }) }) }) }) }"

section \<open>Deletion\<close>

text \<open>
  The loop that waits until the agent no longer knows the workload. A step that does not
  end the loop sleeps for the poll interval, so the loop makes at most one step more than
  there are poll intervals in the timeout, plus the step that notices the deadline;
  \<open>deletePolls\<close> is that bound.
\<close>

definition deletePolls :: "config \<Rightarrow> nat" where
  "deletePolls c = nat (deleteTimeout c div agentPollInterval c) + 2"

definition delete_step :: "'w env \<Rightarrow> node \<Rightarrow> string \<Rightarrow> time \<Rightarrow> unit \<Rightarrow> ('w, unit + unit) op" where
  "delete_step E n workloadID deadline u = do {
     st \<leftarrow> getWorkloadStatusFromNode E n workloadID;
     if (case st of Inl e \<Rightarrow> isWorkloadStatusNotFound e | Inr _ \<Rightarrow> False) then ret (Inl ())
     else if (case st of Inl e \<Rightarrow> isNodeUnreachableError e | Inr _ \<Rightarrow> False) then do {
       _ \<leftarrow> UpdateWorkloadLogs E workloadID (''delete verification skipped: node '' @ n_NodeID n @ '' unreachable'');
       ret (Inl ()) }
     else do {
       t \<leftarrow> now E;
       if t > deadline then do {
         _ \<leftarrow> UpdateWorkloadLogs E workloadID
               (''delete verification timed out on node '' @ n_NodeID n @ ''; removing scheduler state'');
         ret (Inl ()) }
       else do {
         cfg \<leftarrow> gets sc_cfg;
         _ \<leftarrow> sleep E (agentPollInterval cfg);
         ret (Inr ()) } } }"

definition deleteOnNode :: "'w env \<Rightarrow> node \<Rightarrow> string \<Rightarrow> ('w, goerr option) op" where
  "deleteOnNode E n workloadID = do {
     d \<leftarrow> deleteWorkloadFromNode E n workloadID;
     c \<leftarrow> (case d of
            None \<Rightarrow> ret None
          | Some e \<Rightarrow>
              if isNodeUnreachableError e \<or> isWorkloadStatusNotFound e then do {
                _ \<leftarrow> UpdateWorkloadLogs E workloadID
                      (''best-effort delete: node '' @ n_NodeID n @ '' unreachable, removing scheduler state'');
                ret None }
              else ret (Some (wrapv (''delete workload on node '' @ n_NodeID n @ '': '') e)));
     (case c of
        Some e \<Rightarrow> ret (Some e)
      | None \<Rightarrow> do {
          t \<leftarrow> now E;
          cfg \<leftarrow> gets sc_cfg;
          _ \<leftarrow> poll_until (deletePolls cfg) (delete_step E n workloadID (t + deleteTimeout cfg)) ();
          ret None }) }"

definition removeWorkloadState :: "'w env \<Rightarrow> string \<Rightarrow> ('w, goerr option) op" where
  "removeWorkloadState E workloadID = do {
     r \<leftarrow> RetryableEtcdDelete E (workloadSpecKey workloadID);
     (case r of
        Some e \<Rightarrow> ret (Some (wrapv (''failed to delete workload '' @ workloadID @ '': '') e))
      | None \<Rightarrow> do {
          _ \<leftarrow> for_each [workloadStatusKey workloadID, workloadKey workloadID, assignmentKey workloadID,
                         retryKey workloadID, reconciliationKey workloadID] (RetryableEtcdDelete E);
          _ \<leftarrow> emitEvent E ''Rescheduled'' workloadID [] ''Workload state removed'' [];
          _ \<leftarrow> removeCachedWorkload workloadID;
          ret None }) }"

definition DeleteWorkload :: "'w env \<Rightarrow> string \<Rightarrow> ('w, goerr option) op" where
  "DeleteWorkload E workloadID = do {
     g \<leftarrow> requireWritable;
     (case g of
        Some e \<Rightarrow> ret (Some e)
      | None \<Rightarrow> do {
          l \<leftarrow> GetWorkloadByID E workloadID;
          (case l of
             Inl _ \<Rightarrow> removeWorkloadState E workloadID
           | Inr w \<Rightarrow> do {
               c \<leftarrow> (if shouldSyncManagedStorage w then cleanupManagedStorageForWorkload E workloadID else ret None);
               (case c of
                  Some e \<Rightarrow> ret (Some (wrapv
                    (''failed to cleanup managed storage state for workload '' @ workloadID @ '': '') e))
                | None \<Rightarrow> do {
                    d \<leftarrow> (if w_NodeID w \<noteq> [] then do {
                           nr \<leftarrow> GetNodeByID E (w_NodeID w);
                           (case nr of Inl _ \<Rightarrow> ret None | Inr n \<Rightarrow> deleteOnNode E n workloadID) }
                         else ret None);
                    (case d of
                       Some e \<Rightarrow> ret (Some e)
                     | None \<Rightarrow> removeWorkloadState E workloadID) }) }) }) }"

section \<open>Guarantees\<close>

lemma upd_id: "(\<And>w. w_ID (f w) = w_ID w) \<Longrightarrow> w_ID (fst (upd g d f acc)) = w_ID (fst acc)"
  by (simp add: upd_def)

lemma update_ids:
  "w_ID (fst (specUpdates u c)) = w_ID c" "w_ID (fst (desiredUpdate u c)) = w_ID c"
  by (simp_all add: specUpdates_def desiredUpdate_def Let_def upd_id)

lemma update_idD:
  "specUpdates u c = (c1, b) \<Longrightarrow> w_ID c1 = w_ID c" "desiredUpdate u c = (c2, d) \<Longrightarrow> w_ID c2 = w_ID c"
  using update_ids [of u c] by auto

lemma lifecycle_ids [simp]:
  "w_ID (ensureWorkloadRevision E w) = w_ID w" "w_ID (assigned t n r w) = w_ID w"
  by (simp_all add: ensureWorkloadRevision_def assigned_def)

lemma withApplied_id [simp]: "w_ID (withApplied t resp w) = w_ID w"
proof -
  have "w_ID (fold (\<lambda>(k, v). set_meta k (MStr (TrimSpace v))) m x) = w_ID x" for m :: "string gomap" and x
    by (induction m arbitrary: x) (auto split: prod.splits)
  then show ?thesis by (simp add: withApplied_def Let_def split: option.splits)
qed

definition removed_keys :: "string \<Rightarrow> string set" where
  "removed_keys i = {workloadSpecKey i, workloadStatusKey i, workloadKey i, assignmentKey i, retryKey i,
     reconciliationKey i}"

context etcd_client
begin

lemmas safe_defaults = safe_initializeWorkloadDefaults [OF etcd_client_axioms]

lemma safe_new_id: "safe view K X (if b then call (newUUID E) else ret j) (\<lambda>_. True)"
  by (rule fp.g_rules op_intros TrueI)+

lemma safe_CreateWorkload:
  assumes "workload_keys \<union> storage_keys \<union> event_keys \<subseteq> K"
  shows "safe view K X (CreateWorkload E w) (\<lambda>_. True)"
proof -
  have own: "own_keys i \<subseteq> K" for i
    using assms by (auto simp: own_keys_def workload_keys_def key_defs)
  show ?thesis
    unfolding CreateWorkload_def
    by (rule fp.g_bind [OF safe_defaults] fp.g_bind [OF safe_new_id] fp.g_rules op_intros own TrueI
        | (use assms in auto; fail))+
qed

lemma safe_UpdateWorkloadSpec [op_intros]:
  assumes "own_keys i \<subseteq> K" "storage_keys \<subseteq> K" "event_keys \<subseteq> K"
  shows "safe view K X (UpdateWorkloadSpec E i u) (\<lambda>_. True)"
  unfolding UpdateWorkloadSpec_def
  by (rule fp.g_bind [OF safe_loadWorkload] fp.g_rules op_intros assms TrueI
      | (use assms in \<open>auto simp: Let_def dest!: update_idD\<close>; fail))+

lemma safe_MarkWorkloadDeleted [op_intros]:
  assumes "own_keys i \<subseteq> K" "storage_keys \<subseteq> K" "event_keys \<subseteq> K"
  shows "safe view K X (MarkWorkloadDeleted E i) (\<lambda>_. True)"
  unfolding MarkWorkloadDeleted_def
  by (rule fp.g_bind [OF safe_loadWorkload] fp.g_rules op_intros assms TrueI
      | (use assms in auto; fail))+

lemma safe_assignWorkload:
  assumes "own_keys (w_ID w) \<subseteq> K" "storage_keys \<subseteq> K" "event_keys \<subseteq> K" "assignmentKey (w_ID w) \<in> K"
  shows "safe view K X (assignWorkload E w n r) (\<lambda>x. w_ID (fst x) = w_ID w)"
  unfolding assignWorkload_def
  by (rule fp.g_rules op_intros TrueI | (use assms in auto; fail))+

lemma safe_EnsureWorkloadAssigned:
  assumes "own_keys (w_ID w) \<subseteq> K" "storage_keys \<subseteq> K" "event_keys \<subseteq> K" "assignmentKey (w_ID w) \<in> K"
  shows "safe view K X (EnsureWorkloadAssigned E w) (\<lambda>x. w_ID (fst x) = w_ID w)"
  unfolding EnsureWorkloadAssigned_def
  by (rule fp.g_bind [OF safe_assignWorkload] fp.g_rules op_intros assms TrueI | (use assms in auto; fail))+

lemma safe_ScheduleWorkload:
  assumes K: "workload_keys \<union> storage_keys \<union> event_keys \<subseteq> K"
    and a: "\<And>i. assignmentKey i \<in> K" "\<And>i. reconciliationKey i \<in> K"
  shows "safe view K X (ScheduleWorkload E w) (\<lambda>_. True)"
proof -
  have own: "own_keys i \<subseteq> K" for i
    using K by (auto simp: own_keys_def workload_keys_def key_defs)
  have k: "storage_keys \<subseteq> K" "event_keys \<subseteq> K" using K by auto
  show ?thesis
    unfolding ScheduleWorkload_def
    by (rule fp.g_bind [OF safe_defaults] fp.g_bind [OF safe_new_id] fp.g_bind [OF safe_assignWorkload]
        fp.g_rules op_intros own k a TrueI | (simp; fail))+
qed

lemma safe_delete_step [op_intros]:
  assumes "own_keys i \<subseteq> K" "storage_keys \<subseteq> K"
  shows "safe view K X (delete_step E n i d u) (\<lambda>_. True)"
  unfolding delete_step_def by (rule fp.g_rules op_intros assms TrueI)+

lemma safe_deleteOnNode [op_intros]:
  assumes "own_keys i \<subseteq> K" "storage_keys \<subseteq> K"
  shows "safe view K X (deleteOnNode E n i) (\<lambda>_. True)"
  unfolding deleteOnNode_def by (rule fp.g_rules op_intros safe_poll_until assms TrueI)+

lemma safe_removeWorkloadState [op_intros]:
  assumes "removed_keys i \<subseteq> K" "event_keys \<subseteq> K"
  shows "safe view K X (removeWorkloadState E i) (\<lambda>_. True)"
  unfolding removeWorkloadState_def
  by (rule fp.g_rules op_intros assms TrueI | (use assms in \<open>auto simp: removed_keys_def\<close>; fail))+

lemma own_removed: "removed_keys i \<subseteq> K \<Longrightarrow> own_keys i \<subseteq> K"
  by (auto simp: own_keys_def removed_keys_def)

lemma safe_DeleteWorkload [op_intros]:
  assumes "removed_keys i \<subseteq> K" "storage_keys \<subseteq> K" "event_keys \<subseteq> K"
  shows "safe view K X (DeleteWorkload E i) (\<lambda>_. True)"
  unfolding DeleteWorkload_def
  by (rule fp.g_rules op_intros assms own_removed TrueI)+

end

end
