(* ===== verification/Reconciler.thy ===== *)
theory Reconciler
  imports Lifecycle
begin

text \<open>
  The reconciler (\<open>reconciler.go\<close>): bring the actual state of a workload to its desired
  state. The decision functions are pure or read only the clock; the handlers follow the
  source, with a workload passed by reference returned in the state it is left in.
\<close>

record reconciliation_result =
  rc_WorkloadID :: string
  rc_DesiredState :: string
  rc_ActualState :: string
  rc_Action :: string
  rc_Success :: bool
  rc_ErrorMessage :: string
  rc_RetryCount :: int
  rc_LastAttempt :: time

definition defaultNodeUnavailableGrace :: duration where "defaultNodeUnavailableGrace = 3 * Minute"
definition maxReapplyBackoff :: duration where "maxReapplyBackoff = 15 * Minute"
definition nonRetryableFailureReasons :: "string list" where
  "nonRetryableFailureReasons =
     [''INVALID_IMAGE'', ''INVALID_SPECIFICATION'', ''INVALID_CONFIGURATION'', ''PORT_BIND_CONFLICT'']"

section \<open>Decisions\<close>

definition desiredOf :: "workload \<Rightarrow> string" where
  "desiredOf w = (if TrimSpace (w_DesiredState w) = [] then ''Running'' else TrimSpace (w_DesiredState w))"

definition needsReconciliation :: "workload \<Rightarrow> string \<Rightarrow> bool" where
  "needsReconciliation w actualState =
     (if EqualFold actualState (desiredOf w) then False
      else if EqualFold (desiredOf w) ''Stopped'' \<and> EqualFold actualState ''Stopped'' then False
      else True)"

definition baseReapplyBackoff :: "config \<Rightarrow> workload \<Rightarrow> duration" where
  "baseReapplyBackoff c w =
     (let guard0 = applyTimeoutFor c w;
          guard = (if c_SchedulerReapplyGuard c > 0 then c_SchedulerReapplyGuard c else guard0)
      in if guard < defaultMissingGracePeriod then defaultMissingGracePeriod else guard)"

text \<open>
  \<open>time.Duration(f)\<close> of a \<open>float64\<close> truncates. Outside the range of an \<open>int64\<close> the language
  leaves the result to the implementation; amd64 yields the smallest \<open>int64\<close>.
\<close>

definition durationOfFloat :: "rat \<Rightarrow> duration" where
  "durationOfFloat r =
     (let d = truncate64 r in if - (2 ^ 63) \<le> d \<and> d < 2 ^ 63 then d else - (2 ^ 63))"

definition reapplyBackoff :: "config \<Rightarrow> workload \<Rightarrow> int \<Rightarrow> duration" where
  "reapplyBackoff c w attempt =
     (let base = baseReapplyBackoff c w;
          effective0 = attempt - (minAttemptsBeforeBackoff - 1);
          effective = (if effective0 < 1 then 1 else effective0);
          backoff = durationOfFloat (of_int base * 2 ^ nat (effective - 1))
      in if backoff > maxReapplyBackoff then maxReapplyBackoff else backoff)"

definition nextReapplyAttempt :: "'w env \<Rightarrow> workload \<Rightarrow> ('w, int \<times> time) op" where
  "nextReapplyAttempt E w = do {
     cfg \<leftarrow> gets sc_cfg;
     let attempt0 = (case metadataInt (w_Metadata w) workloadReapplyAttemptsKey of
                       None \<Rightarrow> 0 | Some a \<Rightarrow> if a < 0 then 0 else a);
     let attempt = attempt0 + 1;
     t \<leftarrow> now E;
     ret (attempt, t + reapplyBackoff cfg w attempt) }"

definition reapplyStillGuarded :: "'w env \<Rightarrow> workload \<Rightarrow> ('w, time option) op" where
  "reapplyStillGuarded E w =
     (if (case metadataInt (w_Metadata w) workloadReapplyAttemptsKey of
            None \<Rightarrow> True | Some a \<Rightarrow> a < minAttemptsBeforeBackoff)
      then ret None
      else if (case metadataString (w_Metadata w) workloadReapplyRevisionKey of
                 None \<Rightarrow> False
               | Some l \<Rightarrow> TrimSpace (w_RevisionID w) \<noteq> [] \<and> \<not> EqualFold (TrimSpace l) (TrimSpace (w_RevisionID w)))
      then ret None
      else case metadataTimestamp (w_Metadata w) workloadReapplyNextAtKey of
          Some until \<Rightarrow> do { t \<leftarrow> now E; ret (if t < until then Some until else None) }
        | None \<Rightarrow> do {
            cfg \<leftarrow> gets sc_cfg;
            let guard = baseReapplyBackoff cfg w;
            let legacy = (\<lambda>key. case metadataTimestamp (w_Metadata w) key of
                None \<Rightarrow> ret None
              | Some s \<Rightarrow> do { t \<leftarrow> now E; ret (if t - s < guard then Some (s + guard) else None) });
            a \<leftarrow> legacy workloadReapplyTimestampKey;
            (case a of Some u \<Rightarrow> ret (Some u) | None \<Rightarrow> legacy ''lastLaunchTime'') })"

definition runtimeFailureReason :: "metadata \<Rightarrow> string" where
  "runtimeFailureReason m = firstNonBlank m [terminalRetryReasonMetadataKey, terminalFailureReasonMetadataKey,
     ''container.stderr'', ''last_runtime_error'', ''container.runtime_error'', ''last_error'', ''failure_reason'']"

text \<open>\<open>None\<close> is not halted; otherwise the reason.\<close>

definition shouldHaltReapply :: "workload \<Rightarrow> string \<Rightarrow> string option" where
  "shouldHaltReapply w actualState =
     (let reasonOr = (\<lambda>dflt. let r = TrimSpace (runtimeFailureReason (w_Metadata w)) in if r = [] then dflt else r)
      in if \<not> EqualFold (TrimSpace (w_DesiredState w)) ''Running'' then None
         else if \<not> (EqualFold actualState ''Failed'' \<or> EqualFold actualState ''Stopped'' \<or>
                   EqualFold actualState ''Missing'') then None
         else if isMetadataTrue (w_Metadata w) terminalRetryMetadataKey
           then Some (reasonOr ''agent marked workload as terminal/non-retryable'')
         else if (case metadataString (w_Metadata w) ''failure_reason'' of
                    None \<Rightarrow> False | Some code \<Rightarrow> ToUpper (TrimSpace code) \<in> set nonRetryableFailureReasons)
           then Some (reasonOr (''non-retryable failure reason: '' @
                  TrimSpace (the (metadataString (w_Metadata w) ''failure_reason''))))
         else if rt_MaxAttempts (w_Retry w) > 0 \<and> rt_Attempts (w_Retry w) \<ge> rt_MaxAttempts (w_Retry w) \<and>
                 (EqualFold actualState ''Failed'' \<or> EqualFold (w_Status w) ''Failed'')
           then Some (reasonOr (''scheduler retry limit reached ('' @ itoa (rt_Attempts (w_Retry w)) @ ''/'' @
                  itoa (rt_MaxAttempts (w_Retry w)) @ '')''))
         else None)"

section \<open>Observing\<close>

definition getActualWorkloadState :: "'w env \<Rightarrow> workload \<Rightarrow> ('w, string result) op" where
  "getActualWorkloadState E w = do {
     nr \<leftarrow> GetNodeByID E (w_NodeID w);
     (case nr of
        Inl e \<Rightarrow> ret (Inl (wrapv (''failed to get node '' @ w_NodeID w @ '': '') e))
      | Inr n \<Rightarrow> do {
          st \<leftarrow> getWorkloadStatusFromNode E n (w_ID w);
          (case st of
             Inl e \<Rightarrow> if isWorkloadStatusNotFound e then ret (Inr ''Missing'')
                       else ret (Inl (wrapv ''failed to get workload status: '' e))
           | Inr None \<Rightarrow> ret (Inr ''Unknown'')
           | Inr (Some s) \<Rightarrow> do {
               _ \<leftarrow> doif (as_Metadata s \<noteq> []) (UpdateWorkloadMetadata E (w_ID w) (as_Metadata s));
               _ \<leftarrow> doif (EqualFold (mapActualStateToSchedulerStatus (as_ActualState s)) ''Failed'' \<and>
                          TrimSpace (as_Message s) \<noteq> [])
                     (UpdateWorkloadMetadata E (w_ID w) [(''last_runtime_error'', TrimSpace (as_Message s))]);
               ret (Inr (mapActualStateToSchedulerStatus (as_ActualState s))) }) }) }"

section \<open>Acting\<close>

definition resetReapplyBackoff :: "'w env \<Rightarrow> workload \<Rightarrow> ('w, unit) op" where
  "resetReapplyBackoff E w =
     (let ks = [workloadReapplyAttemptsKey, workloadReapplyNextAtKey, workloadReapplyTimestampKey,
                workloadReapplyRevisionKey]
      in if list_all (\<lambda>k. mget (w_Metadata w) k = None) ks then ret ()
         else do {
           t \<leftarrow> now E;
           _ \<leftarrow> saveWorkload E (touch t (w\<lparr>w_Metadata := mdels ks (w_Metadata w)\<rparr>));
           ret () })"

definition applyDesiredState ::
  "'w env \<Rightarrow> workload \<Rightarrow> DesiredState \<Rightarrow> string \<Rightarrow> ('w, string \<times> goerr option) op" where
  "applyDesiredState E w desired action = do {
     nr \<leftarrow> GetNodeByID E (w_NodeID w);
     (case nr of
        Inl e \<Rightarrow> ret (action, Some (wrapv ''failed to get node: '' e))
      | Inr n \<Rightarrow> do {
          st \<leftarrow> getWorkloadStatusFromNode E n (w_ID w);
          (case (case st of Inl e \<Rightarrow> if isWorkloadStatusNotFound e then None else Some e | Inr _ \<Rightarrow> None) of
             Some e \<Rightarrow> ret (action, Some (wrapv ''pre-apply status check failed: '' e))
           | None \<Rightarrow>
               (case (case st of Inr (Some s) \<Rightarrow>
                        (let current = mapActualStateToSchedulerStatus (as_ActualState s)
                         in if desired = DS_RUNNING \<and> EqualFold current ''Running'' \<or>
                               desired = DS_STOPPED \<and> EqualFold current ''Stopped''
                            then Some (s, current) else None)
                      | _ \<Rightarrow> None) of
                  Some (s, current) \<Rightarrow> do {
                    _ \<leftarrow> UpdateWorkloadStatus E (w_ID w) current;
                    _ \<leftarrow> doif (as_Metadata s \<noteq> []) (UpdateWorkloadMetadata E (w_ID w) (as_Metadata s));
                    _ \<leftarrow> resetReapplyBackoff E w;
                    ret (''NoAction'', None) }
                | None \<Rightarrow> do {
                    let w1 = w\<lparr>w_DesiredState := (if desired = DS_STOPPED then ''Stopped'' else ''Running'')\<rparr>;
                    ar \<leftarrow> applyWorkloadOnNode E n w1;
                    (case ar of
                       Inl e \<Rightarrow> ret (action, Some (wrapv ''failed to apply desired state: '' e))
                     | Inr resp \<Rightarrow>
                         if \<not> ap_Applied resp \<and> \<not> ap_Skipped resp
                         then ret (action, Some (errorf (''agent rejected apply: '' @ TrimSpace (ap_Message resp))))
                         else do {
                           _ \<leftarrow> (case ap_Status resp of
                                  None \<Rightarrow> ret ()
                                | Some s \<Rightarrow> do {
                                    _ \<leftarrow> UpdateWorkloadStatus E (w_ID w1) (mapActualStateToSchedulerStatus (as_ActualState s));
                                    doif (as_Metadata s \<noteq> []) (UpdateWorkloadMetadata E (w_ID w1) (as_Metadata s)) });
                           t1 \<leftarrow> now E;
                           _ \<leftarrow> UpdateWorkloadLogs E (w_ID w1) (''Reconciler action '' @ action @ '' at '' @
                                 formatRFC3339_in (localOffset E) t1);
                           _ \<leftarrow> emitEvent E ''WorkloadScheduled'' (w_ID w1) (w_NodeID w1) action [];
                           w2 \<leftarrow> (if desired = DS_RUNNING then do {
                               t2 \<leftarrow> now E;
                               let stamp = MStr (formatRFC3339 t2);
                               let v = set_meta ''lastLaunchTime'' stamp
                                         (set_meta workloadReapplyRevisionKey (MStr (TrimSpace (w_RevisionID w1)))
                                           (set_meta workloadReapplyTimestampKey stamp w1));
                               na \<leftarrow> nextReapplyAttempt E v;
                               let v2 = set_meta workloadReapplyNextAtKey (MStr (formatRFC3339 (snd na)))
                                          (set_meta workloadReapplyAttemptsKey (MInt (fst na)) v);
                               _ \<leftarrow> UpdateWorkloadLogs E (w_ID v2) (''Reapply attempt '' @ itoa (fst na) @
                                     '' recorded; next retry allowed after '' @ formatRFC3339 (snd na));
                               ret v2 }
                             else ret (clearReapplyMetadata w1));
                           r \<leftarrow> saveWorkload E w2;
                           ret (action, map_option (wrapw ''persist apply metadata: '') r) }) })) }) }"

definition deleteDesiredWorkload :: "'w env \<Rightarrow> workload \<Rightarrow> ('w, string \<times> goerr option) op" where
  "deleteDesiredWorkload E w = do {
     d \<leftarrow> (if w_NodeID w \<noteq> [] then do {
            nr \<leftarrow> GetNodeByID E (w_NodeID w);
            (case nr of
               Inl _ \<Rightarrow> ret None
             | Inr n \<Rightarrow> do {
                 r \<leftarrow> deleteWorkloadFromNode E n (w_ID w);
                 ret (case r of
                        Some e \<Rightarrow> if isWorkloadStatusNotFound e then None
                                   else Some (wrapv ''failed deleting workload on node: '' e)
                      | None \<Rightarrow> None) }) }
          else ret None);
     (case d of
        Some e \<Rightarrow> ret (''Delete'', Some e)
      | None \<Rightarrow> do {
          r \<leftarrow> DeleteWorkload E (w_ID w);
          (case r of
             Some e \<Rightarrow> ret (''Delete'', Some e)
           | None \<Rightarrow> do {
               _ \<leftarrow> emitEvent E ''Rescheduled'' (w_ID w) (w_NodeID w) ''Deleted workload'' [];
               ret (''Delete'', None) }) }) }"

definition haltReapply :: "'w env \<Rightarrow> workload \<Rightarrow> string \<Rightarrow> ('w, unit) op" where
  "haltReapply E w reason =
     (if EqualFold (TrimSpace (case metadataString (w_Metadata w) ''last_action'' of None \<Rightarrow> [] | Some a \<Rightarrow> a))
           ''TerminalFailureNoReapply''
      then ret ()
      else do {
        t \<leftarrow> now E;
        let w1 = w\<lparr>w_Status := ''Failed'', w_StatusInfo := (w_StatusInfo w)
                    \<lparr>si_ActualState := ''Failed'', si_FailureReason := reason, si_LastUpdated := t\<rparr>\<rparr>;
        let w2 = set_meta terminalFailureReasonMetadataKey (MStr reason)
                   (set_meta ''last_action'' (MStr ''TerminalFailureNoReapply'') w1);
        _ \<leftarrow> saveWorkload E (clearReapplyMetadata w2);
        _ \<leftarrow> UpdateWorkloadLogs E (w_ID w) (''Reapply halted due to terminal failure: '' @ reason);
        ret () })"

definition performReconciliation :: "'w env \<Rightarrow> workload \<Rightarrow> string \<Rightarrow> ('w, string \<times> goerr option) op" where
  "performReconciliation E w actualState =
     (let desired = desiredOf w
      in if EqualFold desired ''Deleted'' then deleteDesiredWorkload E w
         else if EqualFold desired ''Running'' \<and> (EqualFold actualState ''Missing'' \<or>
                 EqualFold actualState ''Stopped'' \<or> EqualFold actualState ''Failed'') then
           (case shouldHaltReapply w actualState of
              Some reason \<Rightarrow> do { _ \<leftarrow> haltReapply E w reason; ret (''NoAction'', None) }
            | None \<Rightarrow> do {
                g \<leftarrow> reapplyStillGuarded E w;
                (case g of
                   Some until \<Rightarrow> do {
                     _ \<leftarrow> UpdateWorkloadLogs E (w_ID w) (''Reapply deferred by backoff until '' @ formatRFC3339 until @
                           '' (state='' @ actualState @ '' desired='' @ desired @ '')'');
                     ret (''ReapplyBackoffWait'', None) }
                 | None \<Rightarrow> applyDesiredState E w DS_RUNNING ''ReapplyRunning'') })
         else if EqualFold desired ''Stopped'' \<and> (EqualFold actualState ''Running'' \<or>
                 EqualFold actualState ''Pending'' \<or> EqualFold actualState ''Unknown'') then
           applyDesiredState E w DS_STOPPED ''ApplyStopped''
         else ret (''NoAction'', None))"

section \<open>Failover\<close>

text \<open>
  The assignment is removed with the bare etcd client, not through the guarded
  operation: no retries, no mode check.
\<close>

definition handleRuntimeUnavailable ::
  "'w env \<Rightarrow> workload \<Rightarrow> goerr \<Rightarrow> ('w, workload \<times> bool \<times> goerr option) op" where
  "handleRuntimeUnavailable E w applyErr =
     (if TrimSpace (w_NodeID w) = [] \<or> \<not> Contains (ToLower (err_msg applyErr)) ''runtime not available''
      then ret (w, False, None)
      else do {
        let oldNode = w_NodeID w;
        m \<leftarrow> MarkNodeWorkloadTypeUnsupported E oldNode (w_Type w) (err_msg applyErr);
        (case m of
           Some e \<Rightarrow> ret (w, True, Some e)
         | None \<Rightarrow> do {
             t \<leftarrow> now E;
             let w1 = touch t (w\<lparr>w_NodeID := [], w_AssignedNode := [], w_Status := ''Pending''\<rparr>);
             let w2 = set_meta ''last_error'' (MStr (err_msg applyErr))
                        (set_meta ''last_action'' (MStr ''RuntimeUnsupportedReschedulePending'') w1);
             r \<leftarrow> saveWorkload E w2;
             (case r of
                Some e \<Rightarrow> ret (markManagedStorage w2, True, Some e)
              | None \<Rightarrow> do {
                  _ \<leftarrow> call (etcdDelete E (assignmentKey (w_ID w2)));
                  _ \<leftarrow> UpdateWorkloadLogs E (w_ID w2)
                        (''Runtime unavailable on node '' @ oldNode @ ''; scheduling on another node'');
                  _ \<leftarrow> emitEvent E ''Rescheduled'' (w_ID w2) oldNode ''runtime unsupported on assigned node''
                        [(''workload_type'', MStr (w_Type w2))];
                  ret (markManagedStorage w2, True, None) }) }) })"

definition unavailableGrace :: "config \<Rightarrow> duration" where
  "unavailableGrace c =
     (if c_SchedulerNodeUnavailableGrace c > 0 then c_SchedulerNodeUnavailableGrace c else defaultNodeUnavailableGrace)"

definition failover :: "string \<Rightarrow> workload \<Rightarrow> workload" where
  "failover oldNode w =
     (let w1 = set_meta ''last_action'' (MStr ''Rescheduled'') (set_meta ''previous_node'' (MStr oldNode) w)
      in w1\<lparr>w_Retry := (w_Retry w1)\<lparr>rt_Attempts := 0, rt_NextRetryAt := 0\<rparr>\<rparr>)"

text \<open>The clock is read only for a node whose status is good.\<close>

definition handleUnavailableAssignedNode ::
  "'w env \<Rightarrow> workload \<Rightarrow> ('w, workload \<times> bool \<times> goerr option) op" where
  "handleUnavailableAssignedNode E w = do {
     nr \<leftarrow> GetNodeByID E (w_NodeID w);
     (case nr of
        Inl _ \<Rightarrow> ret (w, False, None)
      | Inr n \<Rightarrow> do {
          cfg \<leftarrow> gets sc_cfg;
          bad \<leftarrow> (if \<not> EqualFold (n_Status n) ''Ready'' \<and> \<not> EqualFold (n_Status n) ''Active'' then ret True
                  else do { t \<leftarrow> now E; ret (t - n_LastHeartbeat n > unavailableGrace cfg) });
          if \<not> bad then ret (w, False, None)
          else do {
            let oldNode = w_NodeID w;
            sel \<leftarrow> selectNodeForWorkload E w;
            (case sel of
               Inl e \<Rightarrow> do {
                 r \<leftarrow> UpdateWorkloadRetryOnFailure E (w_ID w)
                       (''node '' @ oldNode @ '' unavailable; no failover target: '' @ err_msg e);
                 (case r of Some e2 \<Rightarrow> ret (w, False, Some e2) | None \<Rightarrow> ret (w, True, None)) }
             | Inr (next_node, reason) \<Rightarrow>
                 if EqualFold (n_NodeID next_node) oldNode then do {
                   r \<leftarrow> UpdateWorkloadRetryOnFailure E (w_ID w)
                         (''node '' @ oldNode @ '' unavailable; selected same node'');
                   (case r of Some e2 \<Rightarrow> ret (w, False, Some e2) | None \<Rightarrow> ret (w, True, None)) }
                 else do {
                   let failoverReason = ''node '' @ oldNode @ '' unavailable; '' @ reason;
                   a \<leftarrow> assignWorkload E (failover oldNode w) next_node failoverReason;
                   (case a of
                      (w2, Some e) \<Rightarrow> ret (w2, False, Some e)
                    | (w2, None) \<Rightarrow> do {
                        _ \<leftarrow> UpdateWorkloadLogs E (w_ID w2)
                              (''Rescheduled from node '' @ oldNode @ '' to '' @ n_NodeID next_node);
                        _ \<leftarrow> emitEvent E ''Rescheduled'' (w_ID w2) (n_NodeID next_node) failoverReason
                              [(''previous_node'', MStr oldNode)];
                        ret (w2, False, None) }) }) } }) }"

section \<open>One workload\<close>

definition updateWorkloadReconciliationStatus ::
  "'w env \<Rightarrow> string \<Rightarrow> reconciliation_result \<Rightarrow> ('w, unit) op" where
  "updateWorkloadReconciliationStatus E workloadID res = do {
     l \<leftarrow> GetWorkloadByID E workloadID;
     (case l of
        Inl _ \<Rightarrow> ret ()
      | Inr w0 \<Rightarrow> do {
          let w1 = set_meta ''reconciliationRetryCount'' (MInt (rc_RetryCount res))
                     (set_meta ''lastReconciliationSuccess'' (MBool (rc_Success res))
                       (set_meta ''lastReconciliationAction'' (MStr (rc_Action res))
                         (set_meta ''lastReconciliation''
                           (MStr (formatRFC3339_in (localOffset E) (rc_LastAttempt res))) w0)));
          redis \<leftarrow> gets sc_redis;
          cfg \<leftarrow> gets sc_cfg;
          stored \<leftarrow> (if redis then do {
              r \<leftarrow> call (redisSet E (''workload:'' @ workloadID @ '':reconcile_status'')
                     (PMeta (json_meta (w_Metadata w1))) (reconcileTTL cfg));
              ret (r = None) }
            else ret False);
          if stored \<or> rc_Action res = ''NoAction'' \<and> metadataString (w_Metadata w1) ''last_action'' = Some ''NoAction''
          then ret ()
          else do {
            _ \<leftarrow> saveWorkload E (set_meta ''last_action'' (MStr (rc_Action res)) w1);
            ret () } }) }"

text \<open>A finished reconciliation: record it, store its outcome, return it.\<close>

definition concludeReconciliation ::
  "'w env \<Rightarrow> string \<Rightarrow> reconciliation_result \<Rightarrow> string \<Rightarrow> goerr option \<Rightarrow>
   ('w, reconciliation_result \<times> goerr option) op" where
  "concludeReconciliation E i res note e = do {
     _ \<leftarrow> writeReconciliationRecord E i (rc_Action res) (rc_Success res) note;
     _ \<leftarrow> updateWorkloadReconciliationStatus E i res;
     ret (res, e) }"

definition reconcileFinalizeDelete ::
  "'w env \<Rightarrow> workload \<Rightarrow> reconciliation_result \<Rightarrow> ('w, reconciliation_result \<times> goerr option) op" where
  "reconcileFinalizeDelete E w res = do {
     d \<leftarrow> DeleteWorkload E (w_ID w);
     (case d of
        Some e \<Rightarrow>
          (let res1 = res\<lparr>rc_Action := ''FinalizeDelete'', rc_Success := False, rc_ErrorMessage := err_msg e\<rparr>
           in concludeReconciliation E (w_ID w) res1 (rc_ErrorMessage res1) (Some e))
      | None \<Rightarrow> do {
          let res1 = res\<lparr>rc_Action := ''FinalizeDelete'', rc_Success := True\<rparr>;
          _ \<leftarrow> writeReconciliationRecord E (w_ID w) (rc_Action res1) True ''Deleted from state store'';
          ret (res1, None) }) }"

definition reconcileFailover ::
  "'w env \<Rightarrow> workload \<Rightarrow> reconciliation_result \<Rightarrow> string \<Rightarrow>
   ('w, (reconciliation_result \<times> goerr option) + workload) op" where
  "reconcileFailover E w res waitNote = do {
     h \<leftarrow> handleUnavailableAssignedNode E w;
     (case h of (w1, waiting, err) \<Rightarrow>
        case err of
          Some e \<Rightarrow> do {
            let res1 = res\<lparr>rc_ActualState := ''Unknown'', rc_Action := ''Reschedule'', rc_Success := False,
                           rc_ErrorMessage := err_msg e\<rparr>;
            _ \<leftarrow> writeReconciliationRecord E (w_ID w1) (rc_Action res1) False (rc_ErrorMessage res1);
            _ \<leftarrow> UpdateWorkloadRetryOnFailure E (w_ID w1) (rc_ErrorMessage res1);
            _ \<leftarrow> updateWorkloadReconciliationStatus E (w_ID w1) res1;
            ret (Inl (res1, Some e)) }
        | None \<Rightarrow>
            if waiting then do {
              let res1 = res\<lparr>rc_ActualState := ''Unknown'', rc_Action := ''AwaitFailover'', rc_Success := True\<rparr>;
              r \<leftarrow> concludeReconciliation E (w_ID w1) res1 waitNote None;
              ret (Inl r) }
            else ret (Inr w1)) }"

definition reconcileInvestigate ::
  "'w env \<Rightarrow> workload \<Rightarrow> reconciliation_result \<Rightarrow> goerr \<Rightarrow> ('w, reconciliation_result \<times> goerr option) op" where
  "reconcileInvestigate E w res e =
     (let res1 = res\<lparr>rc_ActualState := ''Unknown'', rc_Action := ''Investigate'', rc_Success := False,
                     rc_ErrorMessage := ''failed to get actual state: '' @ err_msg e\<rparr>
      in concludeReconciliation E (w_ID w) res1 (rc_ErrorMessage res1) (Some e))"

definition reconcileAct ::
  "'w env \<Rightarrow> workload \<Rightarrow> reconciliation_result \<Rightarrow> string \<Rightarrow> ('w, reconciliation_result \<times> goerr option) op" where
  "reconcileAct E w res0 actualState = do {
     let res = res0\<lparr>rc_ActualState := actualState\<rparr>;
     res2 \<leftarrow> (if needsReconciliation w actualState then do {
         p \<leftarrow> performReconciliation E w actualState;
         (case p of (action, err) \<Rightarrow> do {
            let res1 = res\<lparr>rc_Action := action, rc_Success := (err = None)\<rparr>;
            (case err of
               None \<Rightarrow> ret res1
             | Some e \<Rightarrow> do {
                 h \<leftarrow> handleRuntimeUnavailable E w e;
                 (case h of (w1, handled, hErr) \<Rightarrow>
                    if handled then
                      (case hErr of
                         Some he \<Rightarrow> do {
                           _ \<leftarrow> UpdateWorkloadRetryOnFailure E (w_ID w1) (err_msg he);
                           ret (res1\<lparr>rc_Success := False, rc_ErrorMessage := err_msg he\<rparr>) }
                       | None \<Rightarrow> ret (res1\<lparr>rc_Action := ''ReschedulePending'', rc_Success := True, rc_ErrorMessage := []\<rparr>))
                    else do {
                      _ \<leftarrow> UpdateWorkloadRetryOnFailure E (w_ID w1) (err_msg e);
                      ret (res1\<lparr>rc_ErrorMessage := err_msg e\<rparr>) }) }) }) }
       else ret (res\<lparr>rc_Action := ''NoAction'', rc_Success := True\<rparr>));
     concludeReconciliation E (w_ID w) res2 (rc_ErrorMessage res2) None }"

definition reconcileObserve ::
  "'w env \<Rightarrow> workload \<Rightarrow> reconciliation_result \<Rightarrow> ('w, reconciliation_result \<times> goerr option) op" where
  "reconcileObserve E w res = do {
     a \<leftarrow> getActualWorkloadState E w;
     (case a of
        Inr actual \<Rightarrow> reconcileAct E w res actual
      | Inl e \<Rightarrow>
          if TrimSpace (w_NodeID w) \<noteq> [] \<and> isNodeUnreachableError e \<and> \<not> EqualFold (w_DesiredState w) ''Deleted''
          then do {
            _ \<leftarrow> MarkNodeNotReady E (w_NodeID w) (err_msg e);
            f \<leftarrow> reconcileFailover E w res ''node unreachable; waiting for retry window'';
            (case f of
               Inl done \<Rightarrow> ret done
             | Inr w1 \<Rightarrow> do {
                 a2 \<leftarrow> getActualWorkloadState E w1;
                 (case a2 of
                    Inr actual \<Rightarrow> reconcileAct E w1 res actual
                  | Inl e2 \<Rightarrow> reconcileInvestigate E w1 res e2) }) }
          else reconcileInvestigate E w res e) }"

definition retryDue :: "'w env \<Rightarrow> workload \<Rightarrow> ('w, workload) op" where
  "retryDue E w = do {
     t \<leftarrow> now E;
     if dueForRetry t w then do {
       let w1 = set_meta ''last_action'' (MStr ''RetryDue'')
                  (w\<lparr>w_Retry := (w_Retry w)\<lparr>rt_NextRetryAt := 0\<rparr>, w_Status := ''Pending''\<rparr>);
       _ \<leftarrow> saveWorkload E w1;
       ret (markManagedStorage w1) }
     else ret w }"

definition reconcileAssigned ::
  "'w env \<Rightarrow> workload \<Rightarrow> reconciliation_result \<Rightarrow> ('w, reconciliation_result \<times> goerr option) op" where
  "reconcileAssigned E w0 res = do {
     w \<leftarrow> retryDue E w0;
     if TrimSpace (w_NodeID w) \<noteq> [] \<and> \<not> EqualFold (w_DesiredState w) ''Deleted'' then do {
       f \<leftarrow> reconcileFailover E w res ''node unavailable; waiting for retry window'';
       (case f of Inl done \<Rightarrow> ret done | Inr w1 \<Rightarrow> reconcileObserve E w1 res) }
     else reconcileObserve E w res }"

definition ReconcileWorkload :: "'w env \<Rightarrow> workload \<Rightarrow> ('w, reconciliation_result \<times> goerr option) op" where
  "ReconcileWorkload E w = do {
     ok \<leftarrow> isWritable;
     t \<leftarrow> now E;
     let res = \<lparr>rc_WorkloadID = w_ID w, rc_DesiredState = w_DesiredState w, rc_ActualState = [], rc_Action = [],
                rc_Success = False, rc_ErrorMessage = [], rc_RetryCount = 0, rc_LastAttempt = t\<rparr>;
     if \<not> ok then ret (res\<lparr>rc_Action := ''Frozen'', rc_ErrorMessage := err_msg errControlPlaneFrozen\<rparr>,
                       Some errControlPlaneFrozen)
     else do {
       gated \<leftarrow> (if rt_Attempts (w_Retry w) \<ge> minAttemptsBeforeBackoff \<and> \<not> IsZero (rt_NextRetryAt (w_Retry w))
                 then do { t2 \<leftarrow> now E; ret (t2 < rt_NextRetryAt (w_Retry w)) } else ret False);
       if gated then ret (res\<lparr>rc_Action := ''BackoffWait'', rc_Success := True\<rparr>, None)
       else if EqualFold (w_DesiredState w) ''Deleted'' \<and> w_NodeID w = [] then reconcileFinalizeDelete E w res
       else do {
         a \<leftarrow> EnsureWorkloadAssigned E w;
         (case a of (w1, err) \<Rightarrow>
            (case (if \<not> EqualFold (w_DesiredState w1) ''Deleted'' then err else None) of
               Some e \<Rightarrow>
                 (let res1 = res\<lparr>rc_ActualState := ''Unknown'', rc_Action := ''Assign'', rc_Success := False,
                                 rc_ErrorMessage := ''failed to assign node: '' @ err_msg e\<rparr>
                  in concludeReconciliation E (w_ID w1) res1 (rc_ErrorMessage res1) (Some e))
             | None \<Rightarrow> reconcileAssigned E w1 res)) } } }"

section \<open>All workloads\<close>

definition ReconcileAllWorkloads :: "'w env \<Rightarrow> ('w, reconciliation_result list result) op" where
  "ReconcileAllWorkloads E = do {
     ws \<leftarrow> GetWorkloads E;
     (case ws of
        Inl e \<Rightarrow> ret (Inl (wrapv ''failed to get workloads: '' e))
      | Inr workloads \<Rightarrow> do {
          results \<leftarrow> fold_st (\<lambda>w acc.
            if w_Status w = ''Completed'' \<or> w_Status w = ''Deleted'' then ret acc
            else do {
              r \<leftarrow> ReconcileWorkload E w;
              (case r of (res, None) \<Rightarrow> ret (acc @ [res]) | (_, Some _) \<Rightarrow> ret acc) }) workloads [];
          ret (Inr results) }) }"

text \<open>One tick of the reconciliation loop.\<close>

definition ReconciliationLoop_tick :: "'w env \<Rightarrow> ('w, unit) op" where
  "ReconciliationLoop_tick E = do {
     ok \<leftarrow> isWritable;
     if \<not> ok then ret ()
     else do {
       r \<leftarrow> ReconcileAllWorkloads E;
       (case r of
          Inl _ \<Rightarrow> ret ()
        | Inr _ \<Rightarrow> do { _ \<leftarrow> RefreshStateMetrics E; ret () }) } }"

text \<open>The last reconciliation is kept as an instant; the source renders it in the zone it was stored with.\<close>

record reconciliation_stats =
  rs_totalWorkloads :: int
  rs_needingReconciliation :: int
  rs_reconciliationErrors :: int
  rs_lastReconciliation :: "time option"

definition statsStep :: "'w env \<Rightarrow> workload \<Rightarrow> time \<times> int \<times> int \<Rightarrow> ('w, time \<times> int \<times> int) op" where
  "statsStep E w acc =
     (case acc of (latest, needing, errors) \<Rightarrow> do {
        let latest1 = (case metadataString (w_Metadata w) ''lastReconciliation'' of
            None \<Rightarrow> latest
          | Some s \<Rightarrow> (case parseRFC3339 s of Some t \<Rightarrow> if t > latest then t else latest | None \<Rightarrow> latest));
        let errors1 = (case mget (w_Metadata w) ''lastReconciliationSuccess'' of
            Some (MBool b) \<Rightarrow> if b then errors else errors + 1 | _ \<Rightarrow> errors);
        a \<leftarrow> getActualWorkloadState E w;
        ret (latest1, (case a of Inr actual \<Rightarrow> if needsReconciliation w actual then needing + 1 else needing
                       | Inl _ \<Rightarrow> needing), errors1) })"

definition GetReconciliationStats :: "'w env \<Rightarrow> ('w, reconciliation_stats result) op" where
  "GetReconciliationStats E = do {
     ws \<leftarrow> GetWorkloads E;
     (case ws of
        Inl e \<Rightarrow> ret (Inl e)
      | Inr workloads \<Rightarrow> do {
          acc \<leftarrow> fold_st (statsStep E) workloads (0, 0, 0);
          (case acc of (latest, needing, errors) \<Rightarrow>
             ret (Inr \<lparr>rs_totalWorkloads = int (length workloads), rs_needingReconciliation = needing,
               rs_reconciliationErrors = errors,
               rs_lastReconciliation = (if IsZero latest then None else Some latest)\<rparr>)) }) }"

section \<open>Guarantees\<close>

definition reconcile_keys :: "string \<Rightarrow> string set" where
  "reconcile_keys i = removed_keys i \<union> storage_keys \<union> event_keys \<union> node_keys"

lemma reconcile_keysD:
  assumes "reconcile_keys i \<subseteq> K"
  shows "removed_keys i \<subseteq> K" "own_keys i \<subseteq> K" "storage_keys \<subseteq> K" "event_keys \<subseteq> K" "node_keys \<subseteq> K"
    "assignmentKey i \<in> K" "reconciliationKey i \<in> K"
  using assms by (auto simp: reconcile_keys_def own_keys_def removed_keys_def)

lemma failover_id [simp]: "w_ID (failover o1 w) = w_ID w"
  by (simp add: failover_def Let_def)

context etcd_client
begin

lemma safe_nextReapplyAttempt [op_intros]: "safe view K X (nextReapplyAttempt E w) (\<lambda>_. True)"
  unfolding nextReapplyAttempt_def by (rule fp.g_rules op_intros TrueI)+

lemma safe_reapplyStillGuarded [op_intros]: "safe view K X (reapplyStillGuarded E w) (\<lambda>_. True)"
  unfolding reapplyStillGuarded_def Let_def by (rule fp.g_rules op_intros TrueI)+

lemma safe_getActualWorkloadState [op_intros]:
  assumes "own_keys (w_ID w) \<subseteq> K" "storage_keys \<subseteq> K"
  shows "safe view K X (getActualWorkloadState E w) (\<lambda>_. True)"
  unfolding getActualWorkloadState_def by (rule fp.g_rules op_intros assms TrueI)+

lemma safe_resetReapplyBackoff [op_intros]:
  assumes "own_keys (w_ID w) \<subseteq> K" "storage_keys \<subseteq> K"
  shows "safe view K X (resetReapplyBackoff E w) (\<lambda>_. True)"
  unfolding resetReapplyBackoff_def by (rule fp.g_rules op_intros assms TrueI | (use assms in simp; fail))+

lemma safe_reapplied:
  assumes that: "\<And>s. w_ID (g s) = w_ID w1" "\<And>n v. w_ID (h n v) = w_ID v"
    and assms: "own_keys (w_ID w1) \<subseteq> K" "storage_keys \<subseteq> K"
  shows "safe view K X (if b then do {
       t2 \<leftarrow> now E;
       let stamp = f t2;
       let v = g stamp;
       na \<leftarrow> nextReapplyAttempt E v;
       let v2 = h na v;
       _ \<leftarrow> UpdateWorkloadLogs E (w_ID v2) (l na);
       ret v2 } else ret (clearReapplyMetadata w1)) (\<lambda>x. w_ID x = w_ID w1)"
  by (rule fp.g_rules op_intros TrueI | (use assms that in simp; fail))+

lemma safe_applyDesiredState [op_intros]:
  assumes "own_keys (w_ID w) \<subseteq> K" "storage_keys \<subseteq> K" "event_keys \<subseteq> K"
  shows "safe view K X (applyDesiredState E w d a) (\<lambda>_. True)"
  unfolding applyDesiredState_def
  by (rule fp.g_bind [OF safe_reapplied] fp.g_rules op_intros assms TrueI | (use assms in simp; fail))+

lemma safe_deleteDesiredWorkload [op_intros]:
  assumes "removed_keys (w_ID w) \<subseteq> K" "storage_keys \<subseteq> K" "event_keys \<subseteq> K"
  shows "safe view K X (deleteDesiredWorkload E w) (\<lambda>_. True)"
  unfolding deleteDesiredWorkload_def by (rule fp.g_rules op_intros assms TrueI)+

lemma safe_haltReapply [op_intros]:
  assumes "own_keys (w_ID w) \<subseteq> K" "storage_keys \<subseteq> K"
  shows "safe view K X (haltReapply E w r) (\<lambda>_. True)"
  unfolding haltReapply_def by (rule fp.g_rules op_intros assms TrueI | (use assms in simp; fail))+

lemma safe_performReconciliation [op_intros]:
  assumes "reconcile_keys (w_ID w) \<subseteq> K"
  shows "safe view K X (performReconciliation E w a) (\<lambda>_. True)"
  unfolding performReconciliation_def
  by (rule fp.g_rules op_intros reconcile_keysD [OF assms] TrueI)+

lemma safe_raw_delete:
  assumes "k \<in> K" "k \<in> X"
  shows "safe view K X (call (etcdDelete E k)) (\<lambda>_. True)"
  unfolding ensures_def
proof (intro allI impI)
  fix s assume s: "sched_inv view s"
  let ?t = "snd (run_state (call (etcdDelete E k)) s)"
  have v: "view (sc_world ?t) = view (sc_world s) \<or> view (sc_world ?t) = (view (sc_world s))(k := None)"
    using del_ok [of k "sc_world s"] del_err [of k "sc_world s"]
    by (cases "etcdDelete E k (sc_world s)"; cases "fst (etcdDelete E k (sc_world s))") auto
  have "same_control s ?t" by simp
  moreover have "store_ok (view (sc_world ?t))" using v s by (auto simp: sched_inv_def store_ok_def split: if_splits)
  ultimately have "sched_inv view ?t" using s by (rule inv_store)
  moreover have "footprint view K X s ?t"
    using v assms by (auto simp: footprint_def same_setup_def writable_def)
  ultimately show "sched_inv view ?t \<and> footprint view K X s ?t \<and> True" by blast
qed

lemma safe_handleRuntimeUnavailable:
  assumes "reconcile_keys (w_ID w) \<subseteq> K" "assignmentKey (w_ID w) \<in> X"
  shows "safe view K X (handleRuntimeUnavailable E w e) (\<lambda>x. w_ID (fst x) = w_ID w)"
proof -
  note k = reconcile_keysD [OF assms(1)]
  show ?thesis
    unfolding handleRuntimeUnavailable_def
    by (rule fp.g_rules op_intros safe_raw_delete k TrueI | (use k assms(2) in simp; fail))+
qed

lemma safe_handleUnavailableAssignedNode:
  assumes "reconcile_keys (w_ID w) \<subseteq> K"
  shows "safe view K X (handleUnavailableAssignedNode E w) (\<lambda>x. w_ID (fst x) = w_ID w)"
proof -
  note k = reconcile_keysD [OF assms]
  show ?thesis
    unfolding handleUnavailableAssignedNode_def
    by (rule fp.g_bind [OF safe_assignWorkload] fp.g_rules op_intros k TrueI | (use k in simp; fail)
        | (use k in \<open>auto\<close>; fail))+
qed

lemma safe_updateWorkloadReconciliationStatus [op_intros]:
  assumes "own_keys i \<subseteq> K" "storage_keys \<subseteq> K"
  shows "safe view K X (updateWorkloadReconciliationStatus E i res) (\<lambda>_. True)"
  unfolding updateWorkloadReconciliationStatus_def
  by (rule fp.g_bind [OF safe_GetWorkloadByID] fp.g_rules op_intros assms TrueI | (use assms in auto; fail))+

lemma safe_conclude [op_intros]:
  assumes "reconcile_keys i \<subseteq> K"
  shows "safe view K X (concludeReconciliation E i res n e) (\<lambda>_. True)"
  unfolding concludeReconciliation_def
  by (rule fp.g_rules op_intros reconcile_keysD [OF assms] TrueI)+

lemma safe_reconcileFinalizeDelete [op_intros]:
  assumes "reconcile_keys (w_ID w) \<subseteq> K"
  shows "safe view K X (reconcileFinalizeDelete E w res) (\<lambda>_. True)"
  unfolding reconcileFinalizeDelete_def
  by (rule fp.g_rules op_intros assms reconcile_keysD [OF assms] TrueI)+

lemma safe_reconcileFailover:
  assumes "reconcile_keys (w_ID w) \<subseteq> K"
  shows "safe view K X (reconcileFailover E w res n) (\<lambda>x. \<forall>w1. x = Inr w1 \<longrightarrow> w_ID w1 = w_ID w)"
proof -
  note k = reconcile_keysD [OF assms]
  show ?thesis
    unfolding reconcileFailover_def
    by (rule fp.g_bind [OF safe_handleUnavailableAssignedNode] fp.g_rules op_intros assms k TrueI
        | (use assms k in simp; fail))+
qed

lemma safe_reconcileInvestigate [op_intros]:
  "reconcile_keys (w_ID w) \<subseteq> K \<Longrightarrow> safe view K X (reconcileInvestigate E w res e) (\<lambda>_. True)"
  unfolding reconcileInvestigate_def by (rule fp.g_rules op_intros | assumption)+

lemma safe_reconcileAct [op_intros]:
  assumes "reconcile_keys (w_ID w) \<subseteq> K" "assignmentKey (w_ID w) \<in> X"
  shows "safe view K X (reconcileAct E w res a) (\<lambda>_. True)"
proof -
  note k = reconcile_keysD [OF assms(1)]
  show ?thesis
    unfolding reconcileAct_def
    by (rule fp.g_bind [OF safe_handleRuntimeUnavailable] fp.g_rules op_intros assms k TrueI
        | (use assms k in simp; fail))+
qed

lemma safe_reconcileObserve [op_intros]:
  assumes "reconcile_keys (w_ID w) \<subseteq> K" "assignmentKey (w_ID w) \<in> X"
  shows "safe view K X (reconcileObserve E w res) (\<lambda>_. True)"
proof -
  note k = reconcile_keysD [OF assms(1)]
  show ?thesis
    unfolding reconcileObserve_def
    by (rule fp.g_bind [OF safe_reconcileFailover] fp.g_rules op_intros assms k TrueI
        | (use assms k in simp; fail))+
qed

lemma safe_retryDue:
  assumes "own_keys (w_ID w) \<subseteq> K" "storage_keys \<subseteq> K"
  shows "safe view K X (retryDue E w) (\<lambda>x. w_ID x = w_ID w)"
  unfolding retryDue_def
  by (rule fp.g_rules op_intros TrueI | (use assms in simp; fail))+

lemma safe_failover_then_observe:
  assumes "reconcile_keys (w_ID w) \<subseteq> K" "assignmentKey (w_ID w) \<in> X"
  shows "safe view K X (if c then do {
       f \<leftarrow> reconcileFailover E w res n;
       (case f of Inl done \<Rightarrow> ret done | Inr w1 \<Rightarrow> reconcileObserve E w1 res) }
     else reconcileObserve E w res) (\<lambda>_. True)"
  by (rule fp.g_bind [OF safe_reconcileFailover] fp.g_rules op_intros assms TrueI
      | (use assms in simp; fail))+

lemma safe_reconcileAssigned [op_intros]:
  assumes "reconcile_keys (w_ID w) \<subseteq> K" "assignmentKey (w_ID w) \<in> X"
  shows "safe view K X (reconcileAssigned E w res) (\<lambda>_. True)"
  unfolding reconcileAssigned_def
  by (rule fp.g_bind [OF safe_retryDue] reconcile_keysD [OF assms(1)] safe_failover_then_observe
      | (use assms in simp; fail))+

lemma safe_ReconcileWorkload_raw:
  assumes "reconcile_keys (w_ID w) \<subseteq> K" "assignmentKey (w_ID w) \<in> X"
  shows "safe view K X (ReconcileWorkload E w) (\<lambda>_. True)"
proof -
  note k = reconcile_keysD [OF assms(1)]
  show ?thesis
    unfolding ReconcileWorkload_def
    by (rule fp.g_bind [OF safe_EnsureWorkloadAssigned] fp.g_rules op_intros assms k TrueI
        | (use assms k in simp; fail))+
qed

text \<open>
  The unguarded deletion in \<open>handleRuntimeUnavailable\<close> is out of reach for a scheduler that
  is frozen from the start.
\<close>

lemma ReconcileWorkload_frozen:
  assumes "\<not> writable s"
  shows "\<not> writable (snd (run_state (ReconcileWorkload E w) s)) \<and>
    view (sc_world (snd (run_state (ReconcileWorkload E w) s))) = view (sc_world s)"
  using assms by (simp add: ReconcileWorkload_def Let_def writable_def)

lemma safe_ReconcileWorkload [op_intros]:
  assumes "reconcile_keys (w_ID w) \<subseteq> K"
  shows "safe view K X (ReconcileWorkload E w) (\<lambda>_. True)"
  by (rule safe_tighten [OF safe_ReconcileWorkload_raw [OF assms UNIV_I] ReconcileWorkload_frozen])

lemma safe_ReconcileAllWorkloads [op_intros]:
  assumes "\<And>i. reconcile_keys i \<subseteq> K"
  shows "safe view K X (ReconcileAllWorkloads E) (\<lambda>_. True)"
  unfolding ReconcileAllWorkloads_def by (rule fp.g_rules fp.g_fold_st op_intros assms TrueI)+

lemma safe_ReconciliationLoop_tick [op_intros]:
  assumes "\<And>i. reconcile_keys i \<subseteq> K"
  shows "safe view K X (ReconciliationLoop_tick E) (\<lambda>_. True)"
  unfolding ReconciliationLoop_tick_def by (rule fp.g_rules op_intros assms TrueI)+

lemma safe_GetReconciliationStats [op_intros]:
  assumes "\<And>i. own_keys i \<subseteq> K" "storage_keys \<subseteq> K"
  shows "safe view K X (GetReconciliationStats E) (\<lambda>_. True)"
  unfolding GetReconciliationStats_def statsStep_def
  by (rule fp.g_rules fp.g_fold_st op_intros assms TrueI)+

end

end
