(* ===== verification/Drift.thy ===== *)
theory Drift
  imports Reconciler
begin

text \<open>
  Drift detection (\<open>drift.go\<close>): compare what each agent runs with what the store assigns
  to its node, repair the differences and record them. The map of all known workloads is
  shared by the whole cycle and updated when an orphan is adopted; it is threaded through.
\<close>

section \<open>Pure helpers\<close>

definition driftDetectInterval :: "config \<Rightarrow> duration" where
  "driftDetectInterval c =
     (if c_SchedulerDriftDetectInterval c > 0 then c_SchedulerDriftDetectInterval c else 300 * Second)"

definition StartDriftDetection_enabled :: "duration \<Rightarrow> bool" where
  "StartDriftDetection_enabled interval = (\<not> interval \<le> 0)"

definition groupByNode :: "workload list \<Rightarrow> workload gomap gomap" where
  "groupByNode ws = fold (\<lambda>w m.
     let nodeID = TrimSpace (w_NodeID w)
     in if nodeID = [] then m
        else mput nodeID (mput (w_ID w) w (case mget m nodeID of None \<Rightarrow> [] | Some g \<Rightarrow> g)) m) ws []"

definition groupByID :: "workload list \<Rightarrow> workload gomap" where
  "groupByID ws = fold (\<lambda>w. mput (w_ID w) w) ws []"

definition selectProbe :: "node \<Rightarrow> node gomap \<Rightarrow> node gomap" where
  "selectProbe n m =
     (let endpoint = grpcAddressForNode n
      in if endpoint = [] then m
         else case mget m endpoint of
             Some existing \<Rightarrow> if n_LastHeartbeat n > n_LastHeartbeat existing then mput endpoint n m else m
           | None \<Rightarrow> mput endpoint n m)"

definition statusOnline :: "node \<Rightarrow> bool" where
  "statusOnline n = (let st = ToLower (TrimSpace (n_Status n)) in st = ''ready'' \<or> st = ''active'')"

definition driftProbeEligible :: "'w env \<Rightarrow> node \<Rightarrow> ('w, bool) op" where
  "driftProbeEligible E n =
     (if \<not> statusOnline n then ret False
      else if IsZero (n_LastHeartbeat n) then ret False
      else do { t \<leftarrow> now E; ret (\<not> t - n_LastHeartbeat n > 3 * Minute) })"

definition isNodeLikelyUnavailable :: "'w env \<Rightarrow> node \<Rightarrow> ('w, bool) op" where
  "isNodeLikelyUnavailable E n =
     (if \<not> statusOnline n then ret True
      else if IsZero (n_LastHeartbeat n) then ret True
      else do { t \<leftarrow> now E; ret (t - n_LastHeartbeat n > 3 * Minute) })"

definition sameEndpoint :: "string \<Rightarrow> string \<Rightarrow> bool" where
  "sameEndpoint a b = (TrimSpace a \<noteq> [] \<and> TrimSpace b \<noteq> [] \<and> EqualFold (TrimSpace a) (TrimSpace b))"

definition isWorkloadMissingError :: "goerr \<Rightarrow> bool" where
  "isWorkloadMissingError e =
     (let msg = ToLower (TrimSpace (err_msg e)) in Contains msg ''workload'' \<and> Contains msg ''not found'')"

definition errString :: "goerr option \<Rightarrow> string" where
  "errString e = (case e of None \<Rightarrow> [] | Some x \<Rightarrow> err_msg x)"

definition reportedByID :: "agent_status list \<Rightarrow> agent_status gomap" where
  "reportedByID sts = fold (\<lambda>st m. if TrimSpace (as_Id st) = [] then m else mput (as_Id st) st m) sts []"

section \<open>Records\<close>

definition markDrift :: "'w env \<Rightarrow> drift_record \<Rightarrow> ('w, unit) op" where
  "markDrift E r = do {
     ok \<leftarrow> isWritable;
     _ \<leftarrow> doif ok (writeDriftRecord E r);
     emitEvent E ''DriftDetected'' (dr_WorkloadID r) (dr_NodeID r) (dr_DriftType r)
       [(''scheduler_status'', MStr (dr_SchedulerStatus r)), (''agent_status'', MStr (dr_AgentStatus r)),
        (''action'', MStr (dr_Action r)), (''resolved'', MBool (dr_Resolved r)),
        (''last_error'', MStr (dr_LastError r))] }"

definition driftRecord ::
  "node \<Rightarrow> string \<Rightarrow> string \<Rightarrow> time \<Rightarrow> string \<Rightarrow> string \<Rightarrow> string \<Rightarrow> goerr option \<Rightarrow> drift_record" where
  "driftRecord n i ty t sched agent action err = \<lparr>dr_NodeID = n_NodeID n, dr_WorkloadID = i, dr_DriftType = ty,
     dr_DetectedAt = t, dr_SchedulerStatus = sched, dr_AgentStatus = agent, dr_Action = action,
     dr_Resolved = (err = None), dr_LastError = errString err\<rparr>"

section \<open>Remediation\<close>

definition remediateStateMismatch :: "'w env \<Rightarrow> workload \<Rightarrow> agent_status \<Rightarrow> ('w, goerr option) op" where
  "remediateStateMismatch E sw aw = do {
     ok \<leftarrow> isWritable;
     if \<not> ok then ret (Some errControlPlaneFrozen)
     else do {
       let actual = mapActualStateToSchedulerStatus (as_ActualState aw);
       r \<leftarrow> UpdateWorkloadStatus E (w_ID sw) actual;
       (case r of
          Some e \<Rightarrow> ret (Some e)
        | None \<Rightarrow> do {
            _ \<leftarrow> UpdateWorkloadLogs E (w_ID sw)
                  (''drift remediation: aligned scheduler state to agent state='' @ actual);
            ret None }) } }"

definition remediateRevisionMismatch :: "'w env \<Rightarrow> node \<Rightarrow> workload \<Rightarrow> ('w, goerr option) op" where
  "remediateRevisionMismatch E n sw = do {
     ok \<leftarrow> isWritable;
     if \<not> ok then ret (Some errControlPlaneFrozen)
     else do {
       ar \<leftarrow> applyWorkloadOnNode E n sw;
       (case ar of
          Inl e \<Rightarrow> do {
            _ \<leftarrow> UpdateWorkloadRetryOnFailure E (w_ID sw) (''drift revision mismatch apply failed: '' @ err_msg e);
            ret (Some e) }
        | Inr resp \<Rightarrow>
            if \<not> ap_Applied resp \<and> \<not> ap_Skipped resp then do {
              let msg = (if TrimSpace (ap_Message resp) \<noteq> [] then ap_Message resp
                         else ''agent rejected apply during drift remediation'');
              _ \<leftarrow> UpdateWorkloadRetryOnFailure E (w_ID sw) msg;
              ret (Some (errorf msg)) }
            else do {
              _ \<leftarrow> UpdateWorkloadLogs E (w_ID sw) ''drift remediation: re-applied scheduler revision on agent'';
              ret None }) } }"

definition remediateMissingOnAgent :: "'w env \<Rightarrow> workload \<Rightarrow> ('w, goerr option) op" where
  "remediateMissingOnAgent E sw = do {
     ok \<leftarrow> isWritable;
     if \<not> ok then ret (Some errControlPlaneFrozen)
     else do {
       _ \<leftarrow> UpdateWorkloadRetryOnFailure E (w_ID sw) ''drift: workload missing on agent'';
       r \<leftarrow> ReconcileWorkload E sw;
       ret (snd r) } }"

definition deleteOrphanFromNode :: "'w env \<Rightarrow> node \<Rightarrow> string \<Rightarrow> ('w, goerr option) op" where
  "deleteOrphanFromNode E n workloadID = do {
     r \<leftarrow> deleteWorkloadFromNode E n workloadID;
     ret (case r of Some e \<Rightarrow> if isWorkloadStatusNotFound e then None else Some e | None \<Rightarrow> None) }"

definition adopted :: "time \<Rightarrow> string \<Rightarrow> agent_status \<Rightarrow> string \<Rightarrow> workload \<Rightarrow> workload" where
  "adopted t nodeID aw reason w0 =
     (let previousNode = TrimSpace (w_NodeID w0);
          w1 = w0\<lparr>w_NodeID := nodeID, w_AssignedNode := nodeID\<rparr>;
          w2 = set_meta ''drift_reconciled_at'' (MStr (formatRFC3339 t))
                 (set_meta ''drift_reason'' (MStr reason)
                   (set_meta ''previous_node'' (MStr previousNode)
                     (set_meta ''last_action'' (MStr ''DriftRemediatedOrphan'') w1)));
          actual = mapActualStateToSchedulerStatus (as_ActualState aw);
          w3 = (if actual \<noteq> []
                then w2\<lparr>w_Status := actual, w_StatusInfo := (w_StatusInfo w2)\<lparr>si_ActualState := actual\<rparr>\<rparr> else w2)
      in touch t w3)"

definition adoptOrphanedWorkload ::
  "'w env \<Rightarrow> node \<Rightarrow> workload \<Rightarrow> agent_status \<Rightarrow> string \<Rightarrow> workload gomap \<Rightarrow>
   ('w, goerr option \<times> workload gomap) op" where
  "adoptOrphanedWorkload E n w0 aw reason expectedAll = do {
     t \<leftarrow> now E;
     let w = adopted t (n_NodeID n) aw reason w0;
     r \<leftarrow> saveWorkload E w;
     (case r of
        Some e \<Rightarrow> ret (Some e, expectedAll)
      | None \<Rightarrow> do {
          a \<leftarrow> writeAssignment E (w_ID w) (n_NodeID n) (''drift remediation: '' @ reason);
          (case a of
             Some e \<Rightarrow> ret (Some e, expectedAll)
           | None \<Rightarrow> do {
               _ \<leftarrow> UpdateWorkloadLogs E (w_ID w)
                     (''drift remediation: reassigned workload to node '' @ n_NodeID n @ '' ('' @ reason @ '')'');
               ret (None, mput (w_ID w) (markManagedStorage w) expectedAll) }) }) }"

type_synonym orphan_result = "string \<times> goerr option \<times> workload gomap"

definition adoptAs ::
  "'w env \<Rightarrow> node \<Rightarrow> workload \<Rightarrow> agent_status \<Rightarrow> workload gomap \<Rightarrow> string \<Rightarrow> string \<Rightarrow> ('w, orphan_result) op" where
  "adoptAs E n sw aw expectedAll reason action = do {
     r \<leftarrow> adoptOrphanedWorkload E n sw aw reason expectedAll;
     ret (action, r) }"

definition deleteAs ::
  "'w env \<Rightarrow> node \<Rightarrow> string \<Rightarrow> workload gomap \<Rightarrow> string \<Rightarrow> ('w, orphan_result) op" where
  "deleteAs E n workloadID expectedAll action = do {
     r \<leftarrow> deleteOrphanFromNode E n workloadID;
     ret (action, r, expectedAll) }"

text \<open>The decision for an orphan whose workload is known.\<close>

definition remediateKnownOrphan ::
  "'w env \<Rightarrow> node \<Rightarrow> string \<Rightarrow> agent_status \<Rightarrow> workload \<Rightarrow> workload gomap \<Rightarrow> ('w, orphan_result) op" where
  "remediateKnownOrphan E n workloadID aw sw expectedAll =
     (if ToLower (TrimSpace (w_DesiredState sw)) = ''deleted''
      then deleteAs E n workloadID expectedAll ''delete_deleted_residual_on_agent''
      else
        (let expectedNodeID = TrimSpace (w_NodeID sw)
         in if expectedNodeID = [] \<or> EqualFold expectedNodeID (n_NodeID n)
            then adoptAs E n sw aw expectedAll ''missing_or_stale_assignment'' ''adopt_orphan_to_reporting_node''
            else do {
              er \<leftarrow> GetNodeByID E expectedNodeID;
              (case er of
                 Inl _ \<Rightarrow> adoptAs E n sw aw expectedAll ''assigned_node_missing'' ''reassign_from_missing_owner''
               | Inr owner \<Rightarrow>
                   if sameEndpoint (grpcAddressForNode owner) (grpcAddressForNode n)
                   then adoptAs E n sw aw expectedAll ''node_id_rotated_same_endpoint''
                          ''rebind_assignment_to_rotated_node_id''
                   else do {
                     st \<leftarrow> getWorkloadStatusFromNode E owner workloadID;
                     (case st of
                        Inr (Some _) \<Rightarrow> deleteAs E n workloadID expectedAll ''delete_duplicate_on_reporting_node''
                      | Inr None \<Rightarrow> adoptAs E n sw aw expectedAll ''owner_missing_workload'' ''reassign_to_reporting_node''
                      | Inl e \<Rightarrow>
                          if \<not> isWorkloadStatusNotFound e then do {
                            gone \<leftarrow> (if isNodeUnreachableError e then isNodeLikelyUnavailable E owner else ret False);
                            if gone
                            then adoptAs E n sw aw expectedAll ''owner_unreachable_and_unavailable''
                                   ''failover_reassign_to_reporting_node''
                            else ret (''operator_investigation'',
                              Some (wrapw (''failed to validate ownership on node '' @ n_NodeID owner @ '': '') e), expectedAll) }
                          else adoptAs E n sw aw expectedAll ''owner_missing_workload'' ''reassign_to_reporting_node'') }) }))"

definition remediateOrphanOnAgent ::
  "'w env \<Rightarrow> node \<Rightarrow> string \<Rightarrow> agent_status \<Rightarrow> workload gomap \<Rightarrow> ('w, orphan_result) op" where
  "remediateOrphanOnAgent E n workloadID aw expectedAll = do {
     ok \<leftarrow> isWritable;
     if \<not> ok then ret (''control_plane_frozen'', Some errControlPlaneFrozen, expectedAll)
     else case mget expectedAll workloadID of
         Some sw \<Rightarrow> remediateKnownOrphan E n workloadID aw sw expectedAll
       | None \<Rightarrow> do {
           l \<leftarrow> GetWorkloadByID E workloadID;
           (case l of
              Inr latest \<Rightarrow>
                remediateKnownOrphan E n workloadID aw latest (mput workloadID latest expectedAll)
            | Inl e \<Rightarrow>
                if \<not> isWorkloadMissingError e
                then ret (''operator_investigation'',
                  Some (wrapw (''failed to re-check unknown workload '' @ workloadID @ '' before delete: '') e), expectedAll)
                else deleteAs E n workloadID expectedAll ''delete_orphan_on_agent'') } }"

section \<open>Comparison\<close>

definition compareReported ::
  "'w env \<Rightarrow> node \<Rightarrow> workload gomap \<Rightarrow> string \<times> agent_status \<Rightarrow> workload gomap \<Rightarrow> ('w, workload gomap) op" where
  "compareReported E n expected entry expectedAll =
     (case entry of (i, aw) \<Rightarrow>
        (let actual = mapActualStateToSchedulerStatus (as_ActualState aw)
         in case mget expected i of
             None \<Rightarrow> do {
               r \<leftarrow> remediateOrphanOnAgent E n i aw expectedAll;
               (case r of (action, err, expectedAll1) \<Rightarrow> do {
                  t \<leftarrow> now E;
                  _ \<leftarrow> markDrift E (driftRecord n i ''orphan_on_agent'' t [] actual action err);
                  ret expectedAll1 }) }
           | Some sw \<Rightarrow> do {
               let expectedStatus = ToLower (TrimSpace (w_Status sw));
               let actualStatus = ToLower (TrimSpace actual);
               _ \<leftarrow> doif (expectedStatus \<noteq> [] \<and> actualStatus \<noteq> [] \<and> expectedStatus \<noteq> actualStatus) (do {
                 err \<leftarrow> remediateStateMismatch E sw aw;
                 t \<leftarrow> now E;
                 markDrift E (driftRecord n i ''state_mismatch'' t (w_Status sw) actual ''align_scheduler_status'' err) });
               _ \<leftarrow> doif (TrimSpace (w_RevisionID sw) \<noteq> [] \<and> TrimSpace (as_RevisionId aw) \<noteq> [] \<and>
                          \<not> EqualFold (TrimSpace (w_RevisionID sw)) (TrimSpace (as_RevisionId aw))) (do {
                 err \<leftarrow> remediateRevisionMismatch E n sw;
                 t \<leftarrow> now E;
                 markDrift E (driftRecord n i ''revision_mismatch'' t (w_RevisionID sw) (as_RevisionId aw)
                   ''reapply_scheduler_revision'' err) });
               ret expectedAll }))"

definition compareExpected ::
  "'w env \<Rightarrow> node \<Rightarrow> workload gomap \<Rightarrow> agent_status gomap \<Rightarrow> string \<times> workload \<Rightarrow> ('w, unit) op" where
  "compareExpected E n expectedAll reported entry =
     (case entry of (i, sw) \<Rightarrow>
        if (case mget expectedAll i of
              None \<Rightarrow> False
            | Some canonical \<Rightarrow> TrimSpace (w_NodeID canonical) \<noteq> [] \<and>
                \<not> EqualFold (TrimSpace (w_NodeID canonical)) (n_NodeID n))
        then ret ()
        else if mget reported i \<noteq> None then ret ()
        else if ToLower (TrimSpace (w_DesiredState sw)) = ''deleted'' then ret ()
        else do {
          err \<leftarrow> remediateMissingOnAgent E sw;
          t \<leftarrow> now E;
          markDrift E (driftRecord n i ''missing_on_agent'' t (w_Status sw) [] ''retry_and_reconcile'' err) })"

definition compareNodeDrift ::
  "'w env \<Rightarrow> node \<Rightarrow> workload gomap \<Rightarrow> workload gomap \<Rightarrow> agent_status list \<Rightarrow> ('w, workload gomap) op" where
  "compareNodeDrift E n expected expectedAll0 actual = do {
     let reported = reportedByID actual;
     expectedAll \<leftarrow> fold_st (compareReported E n expected) reported expectedAll0;
     _ \<leftarrow> for_each expected (compareExpected E n expectedAll reported);
     ret expectedAll }"

definition probeNode ::
  "'w env \<Rightarrow> workload gomap gomap \<Rightarrow> string \<times> node \<Rightarrow> workload gomap \<Rightarrow> ('w, workload gomap) op" where
  "probeNode E byNode entry byID =
     (case entry of (_, n) \<Rightarrow> do {
        ok \<leftarrow> driftProbeEligible E n;
        if \<not> ok then ret byID
        else do {
          ar \<leftarrow> listWorkloadsFromNode E n;
          (case ar of
             Inl _ \<Rightarrow> ret byID
           | Inr sts \<Rightarrow>
               compareNodeDrift E n (case mget byNode (n_NodeID n) of None \<Rightarrow> [] | Some g \<Rightarrow> g) byID sts) } })"

definition detectDriftOnce :: "'w env \<Rightarrow> ('w, unit) op" where
  "detectDriftOnce E = do {
     nr \<leftarrow> GetNodes E;
     (case nr of
        Inl _ \<Rightarrow> ret ()
      | Inr nodes \<Rightarrow> do {
          wr \<leftarrow> GetWorkloads E;
          (case wr of
             Inl _ \<Rightarrow> ret ()
           | Inr workloads \<Rightarrow> do {
               _ \<leftarrow> fold_st (probeNode E (groupByNode workloads)) (fold selectProbe nodes []) (groupByID workloads);
               ret () }) }) }"

section \<open>The workload monitor\<close>

text \<open>\<open>monitor.go\<close>: copy what the agents report into the store.\<close>

definition syncWorkloadStatus :: "'w env \<Rightarrow> string \<Rightarrow> ('w, goerr option) op" where
  "syncWorkloadStatus E workloadID = do {
     l \<leftarrow> GetWorkloadByID E workloadID;
     (case l of
        Inl e \<Rightarrow> ret (Some e)
      | Inr w \<Rightarrow>
          if w_NodeID w = [] then ret None
          else do {
            nr \<leftarrow> GetNodeByID E (w_NodeID w);
            (case nr of
               Inl e \<Rightarrow> ret (Some (wrapw (''resolve node '' @ w_NodeID w @ '': '') e))
             | Inr n \<Rightarrow>
                 if \<not> nodeIsReady n then ret None
                 else do {
                   st \<leftarrow> getWorkloadStatusFromNode E n (w_ID w);
                   (case st of
                      Inl e \<Rightarrow>
                        if isWorkloadStatusNotFound e then do {
                          _ \<leftarrow> doif (w_Status w \<noteq> ''Deleted'') (UpdateWorkloadStatus E (w_ID w) ''Deleted'');
                          ret None }
                        else ret (Some (wrapw (''GetWorkloadStatus failed for workload '' @ w_ID w @ '' on node '' @
                               n_NodeID n @ '': '') e))
                    | Inr None \<Rightarrow> ret None
                    | Inr (Some s) \<Rightarrow> do {
                        let newStatus = mapActualStateToSchedulerStatus (as_ActualState s);
                        r \<leftarrow> (if newStatus \<noteq> w_Status w then UpdateWorkloadStatus E (w_ID w) newStatus else ret None);
                        (case r of
                           Some e \<Rightarrow> ret (Some e)
                         | None \<Rightarrow> do {
                             let msg = TrimSpace (as_Message s);
                             _ \<leftarrow> doif (msg \<noteq> []) (do {
                               _ \<leftarrow> UpdateWorkloadLogs E (w_ID w) msg;
                               doif (EqualFold newStatus ''Failed'')
                                 (UpdateWorkloadMetadata E (w_ID w) [(''last_runtime_error'', msg)]) });
                             _ \<leftarrow> doif (as_Metadata s \<noteq> []) (UpdateWorkloadMetadata E (w_ID w) (as_Metadata s));
                             ret None }) }) }) }) }"

definition MonitorWorkloads_tick :: "'w env \<Rightarrow> ('w, unit) op" where
  "MonitorWorkloads_tick E = do {
     ok \<leftarrow> isWritable;
     if \<not> ok then ret ()
     else do {
       wr \<leftarrow> GetWorkloads E;
       (case wr of
          Inl _ \<Rightarrow> ret ()
        | Inr workloads \<Rightarrow> do {
            _ \<leftarrow> for_each workloads (\<lambda>w. doif (w_Status w \<noteq> ''Deleted'') (syncWorkloadStatus E (w_ID w)));
            _ \<leftarrow> RefreshStateMetrics E;
            ret () }) } }"

section \<open>Guarantees\<close>

lemma adopted_id [simp]: "w_ID (adopted t n aw r w) = w_ID w"
  by (simp add: adopted_def Let_def)

context etcd_client
begin

lemma safe_driftProbe [op_intros]:
  "safe view K X (driftProbeEligible E n) (\<lambda>_. True)"
  "safe view K X (isNodeLikelyUnavailable E n) (\<lambda>_. True)"
  unfolding driftProbeEligible_def isNodeLikelyUnavailable_def
  by (rule fp.g_rules op_intros TrueI)+

lemma safe_markDrift [op_intros]:
  assumes "drift_keys \<subseteq> K" "event_keys \<subseteq> K"
  shows "safe view K X (markDrift E r) (\<lambda>_. True)"
  unfolding markDrift_def by (rule fp.g_rules op_intros assms TrueI)+

lemma safe_remediateStateMismatch [op_intros]:
  assumes "reconcile_keys (w_ID sw) \<subseteq> K"
  shows "safe view K X (remediateStateMismatch E sw aw) (\<lambda>_. True)"
  unfolding remediateStateMismatch_def
  by (rule fp.g_rules op_intros reconcile_keysD [OF assms] TrueI)+

lemma safe_remediateRevisionMismatch [op_intros]:
  assumes "reconcile_keys (w_ID sw) \<subseteq> K"
  shows "safe view K X (remediateRevisionMismatch E n sw) (\<lambda>_. True)"
  unfolding remediateRevisionMismatch_def
  by (rule fp.g_rules op_intros reconcile_keysD [OF assms] TrueI)+

lemma safe_remediateMissingOnAgent [op_intros]:
  assumes "reconcile_keys (w_ID sw) \<subseteq> K"
  shows "safe view K X (remediateMissingOnAgent E sw) (\<lambda>_. True)"
  unfolding remediateMissingOnAgent_def
  by (rule fp.g_rules op_intros assms reconcile_keysD [OF assms(1)] TrueI)+

lemma safe_deleteAs [op_intros]: "safe view K X (deleteAs E n i m a) (\<lambda>_. True)"
  unfolding deleteAs_def deleteOrphanFromNode_def by (rule fp.g_rules op_intros TrueI)+

lemma safe_adoptAs [op_intros]:
  assumes "reconcile_keys (w_ID sw) \<subseteq> K"
  shows "safe view K X (adoptAs E n sw aw m r a) (\<lambda>_. True)"
  unfolding adoptAs_def adoptOrphanedWorkload_def
  by (rule fp.g_rules op_intros reconcile_keysD [OF assms] TrueI
      | (use reconcile_keysD [OF assms] in simp; fail))+

lemma safe_remediateKnownOrphan [op_intros]:
  assumes "reconcile_keys (w_ID sw) \<subseteq> K"
  shows "safe view K X (remediateKnownOrphan E n i aw sw m) (\<lambda>_. True)"
  unfolding remediateKnownOrphan_def by (rule fp.g_rules op_intros assms TrueI)+

lemma safe_remediateOrphanOnAgent [op_intros]:
  assumes "\<And>i. reconcile_keys i \<subseteq> K"
  shows "safe view K X (remediateOrphanOnAgent E n i aw m) (\<lambda>_. True)"
  unfolding remediateOrphanOnAgent_def by (rule fp.g_rules op_intros assms TrueI)+

lemma safe_compareNodeDrift [op_intros]:
  assumes "\<And>i. reconcile_keys i \<subseteq> K" "drift_keys \<subseteq> K"
  shows "safe view K X (compareNodeDrift E n ex m sts) (\<lambda>_. True)"
  unfolding compareNodeDrift_def compareReported_def compareExpected_def
  by (rule fp.g_rules fp.g_fold_st op_intros assms reconcile_keysD [OF assms(1)] TrueI)+

lemma safe_detectDriftOnce [op_intros]:
  assumes "\<And>i. reconcile_keys i \<subseteq> K" "drift_keys \<subseteq> K"
  shows "safe view K X (detectDriftOnce E) (\<lambda>_. True)"
  unfolding detectDriftOnce_def probeNode_def by (rule fp.g_rules fp.g_fold_st op_intros assms TrueI)+

lemma safe_syncWorkloadStatus [op_intros]:
  assumes "own_keys i \<subseteq> K" "storage_keys \<subseteq> K"
  shows "safe view K X (syncWorkloadStatus E i) (\<lambda>_. True)"
  unfolding syncWorkloadStatus_def
  by (rule fp.g_bind [OF safe_GetWorkloadByID] fp.g_rules op_intros assms TrueI | (use assms in simp; fail))+

lemma safe_MonitorWorkloads_tick [op_intros]:
  assumes "\<And>i. own_keys i \<subseteq> K" "storage_keys \<subseteq> K"
  shows "safe view K X (MonitorWorkloads_tick E) (\<lambda>_. True)"
  unfolding MonitorWorkloads_tick_def by (rule fp.g_rules op_intros assms TrueI)+

end

end
