(* ===== verification/Demo.thy ===== *)
theory Demo
  imports Drift "HOL-Library.Code_Target_Nat"
begin

text \<open>
  A small cluster in the in-memory world: one scheduler, two nodes with agents and a few
  workloads. The witnesses of the development run the operations on it.
\<close>

definition demo_cfg :: config where
  "demo_cfg = \<lparr>c_Insecure = False, c_GRPCAddr = [], c_GRPCPort = 8085, c_MetricsPort = 8084, c_ExternalIP = [],
     c_EtcdEndpoints = [''etcd:2379''], c_Domain = ''persys.cloud'', c_AgentsDiscoveryDomain = ''agents.persys.cloud'',
     c_SchedulerShardKey = ''genesis'', c_SchedulerAdvertiseIP = [], c_SchedulerAdvertisePort = 0,
     c_RedisAddr = [], c_RedisPassword = [], c_RedisDB = 0, c_RedisReconcileTTL = 0, c_RedisEventTTL = 0,
     c_RedisEventMaxEntries = 0, c_TLSEnabled = False, c_TLSCAPath = [], c_TLSCertPath = [], c_TLSKeyPath = [],
     c_VaultEnabled = False, c_VaultAddr = [], c_VaultAuthMethod = [], c_VaultToken = [], c_VaultAppRoleID = [],
     c_VaultAppSecretID = [], c_VaultPKIMount = [], c_VaultPKIRole = [], c_VaultCertTTL = 0,
     c_VaultServiceName = [], c_VaultServiceDomain = [], c_VaultRetryInterval = 0,
     c_SchedulerAgentTLSEnabled = False, c_SchedulerAgentStatusPollInterval = Second,
     c_SchedulerAgentApplyTimeout = 45 * Second, c_SchedulerAgentVMApplyTimeout = 240 * Second,
     c_SchedulerAgentDeleteTimeout = 3 * Second, c_SchedulerAgentRPCTimeout = 10 * Second,
     c_SchedulerReconcileInterval = 30 * Second, c_SchedulerDriftDetectInterval = 0,
     c_SchedulerNodeUnavailableGrace = 0, c_SchedulerReapplyGuard = 45 * Second,
     c_SchedulerMissingGracePeriod = 10 * Second, c_LogLevel = [], c_LogFormat = [], c_OTLPEndpoint = [],
     c_JaegerEndpoint = [], c_OTLPInsecure = True\<rparr>"

definition demo_now :: time where "demo_now = 63000000000 * nsec"

definition demo_node :: "string \<Rightarrow> int \<Rightarrow> node" where
  "demo_node i free = zero_node\<lparr>n_NodeID := i, n_IPAddress := ''10.0.0.7'', n_Status := ''Ready'',
     n_TotalCPU := 8, n_TotalMemory := 1000, n_AvailableCPU := 4, n_AvailableMemory := free,
     n_LastHeartbeat := demo_now, n_AgentPort := 9000, n_AgentEndpoint := i\<rparr>"

definition demo_workload :: workload where
  "demo_workload = zero_workload\<lparr>w_ID := ''w1'', w_Name := ''web'', w_Type := ''container'', w_Image := ''nginx'',
     w_RevisionID := ''r1'', w_DesiredState := ''Running'', w_NodeID := ''a'', w_AssignedNode := ''a'',
     w_Status := ''Running'', w_Retry := defaultRetryState,
     w_Resources := \<lparr>r_CPUUsage = 1, r_MemoryUsage = 100, r_DiskUsage = 0\<rparr>\<rparr>"

definition demo_sched :: "mem \<Rightarrow> mem sched" where
  "demo_sched w = \<lparr>sc_cfg = demo_cfg, sc_domain = ''persys.cloud'', sc_agentsDomain = ''agents.persys.cloud'',
     sc_schedulerShard = ''genesis'', sc_redis = False, sc_mode = ModeNormal, sc_modeReasonText = ''startup'',
     sc_modeChangedAt = demo_now, sc_frozen = None, sc_cacheNodes = [], sc_cacheWorkloads = [],
     sc_cacheAssignments = [], sc_world = w\<rparr>"

definition demo_nodes :: mem where
  "demo_nodes = mem_init\<lparr>m_store := [(nodeKey ''a'', PNode (demo_node ''a'' 200)), (nodeStatusKey ''a'', PText ''Ready''),
       (nodeKey ''b'', PNode (demo_node ''b'' 700))],
     m_agents := [(''a'', []), (''b'', [])]\<rparr>"

text \<open>The same nodes, with the workload \<open>w1\<close> stored, assigned and running on node \<open>a\<close>.\<close>

definition demo_cluster :: mem where
  "demo_cluster = demo_nodes\<lparr>m_store := m_store demo_nodes @
       [(workloadSpecKey ''w1'', PSpec (workloadSpecFromWorkload demo_workload)),
        (workloadStatusKey ''w1'', marshalStatus (workloadStatusFromWorkload demo_workload)),
        (assignmentKey ''w1'', PAssignment \<lparr>ar_WorkloadID = ''w1'', ar_NodeID = ''a'', ar_Reason = ''demo'',
           ar_CreatedAt = demo_now\<rparr>)],
     m_agents := [(''a'', [(''w1'', \<lparr>as_Id = ''w1'', as_RevisionId = ''r1'', as_ActualState = AS_RUNNING,
        as_Message = [], as_Metadata = []\<rparr>)]), (''b'', [])]\<rparr>"

lemma store_ok_list: "(\<And>k v. (k, v) \<in> set m \<Longrightarrow> entry_ok k v) \<Longrightarrow> store_ok (mget m)"
  by (auto simp: store_ok_def mget_def dest: map_of_SomeD)

lemma demo_inv: "sched_inv mem_view (demo_sched demo_cluster)"
proof -
  have "\<forall>(k, v) \<in> set (m_store demo_cluster). entry_ok k v" by code_simp
  then show ?thesis
    by (auto simp: sched_inv_def mode_ok_def cache_ok_def demo_sched_def mem_view_def intro!: store_ok_list)
qed

end
