(* ===== verification/PlacementSpec.thy ===== *)
theory PlacementSpec
  imports Demo
begin

text \<open>
  What placement promises: the conditions on a node as a single predicate, the selection
  as the choice of a node of least utilisation among the stored nodes that satisfy it,
  and the behaviour of the single conditions.
\<close>

section \<open>Normal forms\<close>

lemma lower_trim_idem: "ToLower (TrimSpace (ToLower (TrimSpace t))) = ToLower (TrimSpace t)"
  by (simp add: TrimSpace_ToLower)

lemma lower_trim_literals [simp]:
  "ToLower (TrimSpace ''container'') = ''container''" "ToLower (TrimSpace ''compose'') = ''compose''"
  "ToLower (TrimSpace ''vm'') = ''vm''" "ToLower (TrimSpace ''local'') = ''local''"
  "ToLower (TrimSpace ''ceph-rbd'') = ''ceph-rbd''" "ToLower (TrimSpace ''Retain'') = ''retain''"
  "ToLower (TrimSpace ''Delete'') = ''delete''" "ToLower (TrimSpace ''Running'') = ''running''"
  "ToLower (TrimSpace ''Stopped'') = ''stopped''" "ToLower (TrimSpace ''Deleted'') = ''deleted''"
  by code_simp+

interpretation wtype: normal_form canonicalWorkloadType
proof
  show "canonicalWorkloadType (canonicalWorkloadType s) = canonicalWorkloadType s" for s
    using lower_trim_idem [of s] by (simp add: canonicalWorkloadType_def Let_def)
  show "canonicalWorkloadType (TrimSpace s) = canonicalWorkloadType s" for s
    by (simp add: canonicalWorkloadType_def Let_def)
qed

interpretation sdriver: normal_form canonicalStorageDriver
proof
  show "canonicalStorageDriver (canonicalStorageDriver s) = canonicalStorageDriver s" for s
    using lower_trim_idem [of s] by (simp add: canonicalStorageDriver_def Let_def)
  show "canonicalStorageDriver (TrimSpace s) = canonicalStorageDriver s" for s
    by (simp add: canonicalStorageDriver_def Let_def)
qed

interpretation rpolicy: normal_form normalizeRetainPolicy
  by unfold_locales (simp_all add: normalizeRetainPolicy_def)

interpretation dstate: normal_form normalizeDesiredStateString
  by unfold_locales (simp_all add: normalizeDesiredStateString_def Let_def)

section \<open>The conditions on a node\<close>

lemma matchesLabels_subset:
  "wf_map wl \<Longrightarrow> matchesLabels wl nl \<longleftrightarrow> (\<forall>k v. mget wl k = Some v \<longrightarrow> mget nl k = Some v)"
  by (auto simp: matchesLabels_def list_all_iff mget_Some_in split: option.splits)

definition schedulable :: "workload \<Rightarrow> time \<Rightarrow> node \<Rightarrow> bool" where
  "schedulable w t n =
     (nodeIsReady n \<and> t - n_LastHeartbeat n \<le> 10 * Minute \<and> matchesLabels (w_Labels w) (n_Labels n) \<and>
      nodeSupportsWorkloadType n (w_Type w) \<and> nodeSupportsStorageDrivers n (requiredStorageDrivers w) \<and>
      (0 < r_CPUUsage (w_Resources w) \<longrightarrow> r_CPUUsage (w_Resources w) \<le> n_AvailableCPU n) \<and>
      (0 < r_MemoryUsage (w_Resources w) \<longrightarrow> r_MemoryUsage (w_Resources w) \<le> of_int (n_AvailableMemory n)))"

lemma schedulable_checks:
  "schedulable w t n \<longleftrightarrow>
     nodeIsReady n \<and> \<not> heartbeatStale t n \<and> otherRejection w (requiredStorageDrivers w) n = None"
  by (auto simp: schedulable_def heartbeatStale_def otherRejection_def)

lemma schedulable_earlier: "schedulable w t n \<Longrightarrow> t' \<le> t \<Longrightarrow> schedulable w t' n"
  by (auto simp: schedulable_def)

section \<open>The selection loop\<close>

text \<open>A node document that the loop looks at.\<close>

definition node_entry :: "string \<times> payload \<Rightarrow> node \<Rightarrow> bool" where
  "node_entry kv n = (\<not> isNodeStatusSubKey (fst kv) \<and> snd kv = PNode n)"

context wall_clock
begin

lemma now_run:
  "run_state (now E) s = (t, s') \<Longrightarrow> t = clk (sc_world s') \<and> clk (sc_world s) \<le> clk (sc_world s')"
  using now_reads [of "sc_world s"] by (cases "timeNow E (sc_world s)") auto

lemma considerNode_run:
  assumes "run_state (considerNode E w (requiredStorageDrivers w) kv (cs, rs)) s = ((cs', rs'), s')"
  shows "clk (sc_world s) \<le> clk (sc_world s')"
    and "cs' = cs \<or> (\<exists>n. cs' = cs @ [n] \<and> node_entry kv n \<and> schedulable w (clk (sc_world s')) n)"
    and "node_entry kv n \<Longrightarrow> schedulable w (clk (sc_world s')) n \<Longrightarrow> n \<in> set cs'"
proof -
  have "clk (sc_world s) \<le> clk (sc_world s') \<and>
      (cs' = cs \<or> (\<exists>n. cs' = cs @ [n] \<and> node_entry kv n \<and> schedulable w (clk (sc_world s')) n)) \<and>
      (\<forall>n. node_entry kv n \<longrightarrow> schedulable w (clk (sc_world s')) n \<longrightarrow> n \<in> set cs')"
  proof (cases "\<exists>n. node_entry kv n \<and> nodeIsReady n")
    case False
    then have "cs' = cs \<and> s' = s"
      using assms by (auto simp: considerNode_def node_entry_def split: prod.splits if_splits sum.splits)
    with False show ?thesis by (auto simp: schedulable_checks)
  next
    case True
    then obtain n k where kv: "kv = (k, PNode n)" and n: "\<not> isNodeStatusSubKey k" "nodeIsReady n"
      by (cases kv) (auto simp: node_entry_def)
    obtain t u where r: "run_state (now E) s = (t, u)" by (cases "run_state (now E) s")
    note t = now_run [OF r]
    show ?thesis
      using assms kv n r t
      by (auto simp: considerNode_def node_entry_def schedulable_checks
          split: if_splits option.splits)
  qed
  then show "clk (sc_world s) \<le> clk (sc_world s')"
    "cs' = cs \<or> (\<exists>n. cs' = cs @ [n] \<and> node_entry kv n \<and> schedulable w (clk (sc_world s')) n)"
    "node_entry kv n \<Longrightarrow> schedulable w (clk (sc_world s')) n \<Longrightarrow> n \<in> set cs'"
    by blast+
qed

lemma consider_loop:
  assumes "run_state (fold_st (considerNode E w (requiredStorageDrivers w)) kvs (cs, rs)) s = ((cs', rs'), s')"
  shows "clk (sc_world s) \<le> clk (sc_world s') \<and>
    (\<forall>n \<in> set cs'. n \<in> set cs \<or> (\<exists>kv \<in> set kvs. node_entry kv n \<and>
       (\<exists>t. clk (sc_world s) \<le> t \<and> t \<le> clk (sc_world s') \<and> schedulable w t n))) \<and>
    set cs \<subseteq> set cs' \<and>
    (\<forall>kv \<in> set kvs. \<forall>n. node_entry kv n \<longrightarrow> schedulable w (clk (sc_world s')) n \<longrightarrow> n \<in> set cs')"
  using assms
proof (induction kvs arbitrary: cs rs s)
  case (Cons kv kvs)
  let ?c = "considerNode E w (requiredStorageDrivers w)"
  obtain cs1 rs1 s1 where r1: "run_state (?c kv (cs, rs)) s = ((cs1, rs1), s1)"
    by (metis prod.collapse)
  with Cons.prems have r2: "run_state (fold_st ?c kvs (cs1, rs1)) s1 = ((cs', rs'), s')" by simp
  note one = considerNode_run [OF r1]
  note more = Cons.IH [OF r2]
  have cs1: "set cs \<subseteq> set cs1" using one(2) by auto
  have "n \<in> set cs'" if "node_entry kv n" "schedulable w (clk (sc_world s')) n" for n
    using one(3) [OF that(1)] schedulable_earlier [OF that(2)] more by blast
  moreover have "n \<in> set cs \<or> (\<exists>kv' \<in> set (kv # kvs). node_entry kv' n \<and>
       (\<exists>t. clk (sc_world s) \<le> t \<and> t \<le> clk (sc_world s') \<and> schedulable w t n))" if "n \<in> set cs'" for n
  proof -
    from more that consider "n \<in> set cs1" | kv' t where "kv' \<in> set kvs" "node_entry kv' n"
        "clk (sc_world s1) \<le> t" "t \<le> clk (sc_world s')" "schedulable w t n" by blast
    then show ?thesis
    proof cases
      case 1
      with one(1,2) more show ?thesis by auto
    next
      case 2
      then show ?thesis using one(1) by force
    qed
  qed
  ultimately show ?case using one(1) more cs1 by auto
qed simp

lemma read_attempts_clk:
  assumes "\<And>w. clk w \<le> clk (snd (f w))"
  shows "clk (sc_world s) \<le> clk (sc_world (snd (run_state (read_attempts E n f) s)))"
proof (induction n arbitrary: s)
  case 0
  show ?case by (subst read_attempts.simps) (simp add: assms split: sum.splits)
next
  case (Suc n)
  let ?u = "s\<lparr>sc_world := sleepFor E retryWaitTime (snd (f (sc_world s)))\<rparr>"
  have "clk (sc_world s) \<le> clk (sc_world ?u)"
    using assms [of "sc_world s"] sleep_advances [of retryWaitTime "snd (f (sc_world s))"]
    by (simp add: retryWaitTime_def duration_defs)
  also have "\<dots> \<le> clk (sc_world (snd (run_state (read_attempts E n f) ?u)))" by (rule Suc.IH)
  finally show ?case by (subst read_attempts.simps) (simp add: assms split: sum.splits)
qed

lemma range_clk:
  assumes "run_state (RetryableEtcdGetPrefix E p) s = (Inr kvs, t)"
  shows "clk (sc_world s) \<le> clk (sc_world t)"
proof -
  have "run_state (read_attempts E maxRetries (etcdGetPrefix E p)) s = (Inr kvs, t)"
    using assms by (auto simp: RetryableEtcdGetPrefix_def split: sum.splits prod.splits)
  then show ?thesis using read_attempts_clk [where f = "etcdGetPrefix E p", OF clk_prefix] by (metis snd_conv)
qed

end

lemma sort_key_hd:
  assumes "sort_key f xs = x # ys"
  shows "x \<in> set xs \<and> (\<forall>y \<in> set xs. f x \<le> f y)"
proof -
  have "sorted (map f (x # ys))" using sorted_sort_key [of f xs] assms by simp
  moreover have "set xs = set (x # ys)" using set_sort [of f xs] assms by simp
  ultimately show ?thesis by auto
qed

text \<open>The whole selection, on a live scheduler.\<close>

lemma select_run:
  assumes run: "run_state (selectNodeForWorkload E w) s = (Inr (n, reason), s')"
  obtains kvs s1 cs rs where "writable s" "run_state (RetryableEtcdGetPrefix E nodesPrefix) s = (Inr kvs, s1)"
    "run_state (fold_st (considerNode E w (requiredStorageDrivers w)) kvs ([], [])) s1 = ((cs, rs), s')"
    "n \<in> set cs" "\<forall>m \<in> set cs. nodeUtilizationScore n \<le> nodeUtilizationScore m"
proof -
  obtain r s1 where r1: "run_state (RetryableEtcdGetPrefix E nodesPrefix) s = (r, s1)" by fastforce
  from run r1 obtain kvs where kvs: "r = Inr kvs" "kvs \<noteq> []" "writable s"
    by (auto simp: selectNodeForWorkload_def split: if_splits sum.splits)
  obtain cs rs s2 where r2: "run_state (fold_st (considerNode E w (requiredStorageDrivers w)) kvs ([], [])) s1 =
      ((cs, rs), s2)" by (metis prod.collapse)
  from run r1 kvs r2 obtain ys where "sort_key nodeUtilizationScore cs = n # ys" "s2 = s'"
    by (auto simp: selectNodeForWorkload_def split: list.splits if_splits)
  with sort_key_hd [of nodeUtilizationScore cs n ys] r1 r2 kvs show ?thesis by (intro that) auto
qed

section \<open>Properties\<close>

lemma select_facts:
  assumes etcd: "etcd_client E view" and clock: "wall_clock E clk"
    and run: "run_state (selectNodeForWorkload E w) s = (Inr (n, reason), s')"
  shows "\<exists>k t. view (sc_world s) k = Some (PNode n) \<and> HasPrefix k nodesPrefix \<and> \<not> isNodeStatusSubKey k \<and>
      clk (sc_world s) \<le> t \<and> t \<le> clk (sc_world s') \<and> schedulable w t n"
    and "\<forall>k m. view (sc_world s) k = Some (PNode m) \<and> HasPrefix k nodesPrefix \<and> \<not> isNodeStatusSubKey k \<and>
      schedulable w (clk (sc_world s')) m \<longrightarrow> nodeUtilizationScore n \<le> nodeUtilizationScore m"
proof -
  from run obtain kvs s1 cs rs where r: "run_state (RetryableEtcdGetPrefix E nodesPrefix) s = (Inr kvs, s1)"
    and loop: "run_state (fold_st (considerNode E w (requiredStorageDrivers w)) kvs ([], [])) s1 = ((cs, rs), s')"
    and n: "n \<in> set cs" and least: "\<forall>m \<in> set cs. nodeUtilizationScore n \<le> nodeUtilizationScore m"
    by (rule select_run)
  note store = etcd_client.retry_range_ok [OF etcd r]
  note t1 = wall_clock.range_clk [OF clock r]
  note l = wall_clock.consider_loop [OF clock loop]
  from l n obtain k v t where "(k, v) \<in> set kvs" "node_entry (k, v) n" "clk (sc_world s1) \<le> t"
      "t \<le> clk (sc_world s')" "schedulable w t n" by fastforce
  with store t1 show "\<exists>k t. view (sc_world s) k = Some (PNode n) \<and> HasPrefix k nodesPrefix \<and>
      \<not> isNodeStatusSubKey k \<and> clk (sc_world s) \<le> t \<and> t \<le> clk (sc_world s') \<and> schedulable w t n"
    by (intro exI [of _ k] exI [of _ t]) (auto simp: node_entry_def)
  show "\<forall>k m. view (sc_world s) k = Some (PNode m) \<and> HasPrefix k nodesPrefix \<and> \<not> isNodeStatusSubKey k \<and>
      schedulable w (clk (sc_world s')) m \<longrightarrow> nodeUtilizationScore n \<le> nodeUtilizationScore m"
  proof (intro allI impI, elim conjE)
    fix k m assume "view (sc_world s) k = Some (PNode m)" "HasPrefix k nodesPrefix" "\<not> isNodeStatusSubKey k"
      "schedulable w (clk (sc_world s')) m"
    with store have "(k, PNode m) \<in> set kvs" "node_entry (k, PNode m) m" by (auto simp: node_entry_def)
    with l \<open>schedulable w (clk (sc_world s')) m\<close> have "m \<in> set cs" by blast
    with least show "nodeUtilizationScore n \<le> nodeUtilizationScore m" by blast
  qed
qed

lemma select_failed:
  assumes run: "run_state (selectNodeForWorkload E w) s = (Inl e, s')" and etcd: "etcd_client E view"
    and live: "writable s'"
  obtains kvs s1 rs where "run_state (RetryableEtcdGetPrefix E nodesPrefix) s = (Inr kvs, s1)"
    "run_state (fold_st (considerNode E w (requiredStorageDrivers w)) kvs ([], [])) s1 = (([], rs), s')"
proof -
  obtain r s1 where r1: "run_state (RetryableEtcdGetPrefix E nodesPrefix) s = (r, s1)" by fastforce
  have "writable s" using run live by (auto simp: selectNodeForWorkload_def split: if_splits)
  with run r1 live obtain kvs where kvs: "r = Inr kvs"
    using etcd_client.retry_range_err [OF etcd]
    by (cases r) (auto simp: selectNodeForWorkload_def)
  obtain cs rs s2 where r2: "run_state (fold_st (considerNode E w (requiredStorageDrivers w)) kvs ([], [])) s1 =
      ((cs, rs), s2)" by (metis prod.collapse)
  have "cs = [] \<and> s2 = s'"
    using run r1 kvs r2 \<open>writable s\<close> set_sort [of nodeUtilizationScore cs]
    by (cases "sort_key nodeUtilizationScore cs") (auto simp: selectNodeForWorkload_def split: if_splits)
  with r1 r2 kvs show ?thesis by (intro that) auto
qed

text \<open>
  C3: A successful selection returns a node that is stored under the node prefix, that
  satisfies every placement condition at a moment between the start and the end of the
  call, and whose utilisation score is least among all stored nodes that still satisfy
  the conditions at the end.
\<close>

theorem select_optimal:
  assumes "etcd_client E view" "wall_clock E clk"
    and "run_state (selectNodeForWorkload E w) s = (Inr (n, reason), s')"
  shows "(\<exists>k t. view (sc_world s) k = Some (PNode n) \<and> HasPrefix k nodesPrefix \<and> \<not> isNodeStatusSubKey k \<and>
      clk (sc_world s) \<le> t \<and> t \<le> clk (sc_world s') \<and> schedulable w t n) \<and>
    (\<forall>k m. view (sc_world s) k = Some (PNode m) \<and> HasPrefix k nodesPrefix \<and> \<not> isNodeStatusSubKey k \<and>
      schedulable w (clk (sc_world s')) m \<longrightarrow> nodeUtilizationScore n \<le> nodeUtilizationScore m)"
  using select_facts [OF assms] by (rule conjI)

text \<open>Of two ready nodes the one with more free memory is chosen.\<close>

theorem select_optimal_witness:
  "\<exists>n reason s'. run_state (selectNodeForWorkload memEnv demo_workload) (demo_sched demo_nodes) = (Inr (n, reason), s') \<and>
     n_NodeID n = ''b'' \<and> nodeUtilizationScore n \<le> nodeUtilizationScore (demo_node ''a'' 200)"
proof -
  let ?m = "run_state (selectNodeForWorkload memEnv demo_workload) (demo_sched demo_nodes)"
  have "case ?m of (r, s') \<Rightarrow> (case r of Inl _ \<Rightarrow> False | Inr (n, _) \<Rightarrow> n_NodeID n = ''b'') \<and>
      schedulable demo_workload (m_clock (sc_world s')) (demo_node ''a'' 200)" by code_simp
  then obtain n reason s' where r: "?m = (Inr (n, reason), s')" "n_NodeID n = ''b''"
    and a: "schedulable demo_workload (m_clock (sc_world s')) (demo_node ''a'' 200)"
    by (cases ?m) (auto split: sum.splits)
  have "mem_view (sc_world (demo_sched demo_nodes)) (nodeKey ''a'') = Some (PNode (demo_node ''a'' 200)) \<and>
      HasPrefix (nodeKey ''a'') nodesPrefix \<and> \<not> isNodeStatusSubKey (nodeKey ''a'')" by code_simp
  with a show ?thesis
    using select_optimal [OF memetcd.etcd_client_axioms memclock.wall_clock_axioms r(1)] r by blast
qed

text \<open>
  C7: Placement never misses a node. When the selection reports an error although the
  scheduler is still live, no stored node satisfies the placement conditions at the end
  of the call.
\<close>

theorem select_complete:
  assumes etcd: "etcd_client E view" and clock: "wall_clock E clk"
    and run: "run_state (selectNodeForWorkload E w) s = (Inl e, s')" and live: "writable s'"
    and stored: "view (sc_world s) k = Some (PNode m)" "HasPrefix k nodesPrefix" "\<not> isNodeStatusSubKey k"
  shows "\<not> schedulable w (clk (sc_world s')) m"
proof
  assume ok: "schedulable w (clk (sc_world s')) m"
  from run etcd live obtain kvs s1 rs where r: "run_state (RetryableEtcdGetPrefix E nodesPrefix) s = (Inr kvs, s1)"
    and loop: "run_state (fold_st (considerNode E w (requiredStorageDrivers w)) kvs ([], [])) s1 = (([], rs), s')"
    by (rule select_failed)
  from etcd_client.retry_range_ok [OF etcd r] stored have "(k, PNode m) \<in> set kvs" "node_entry (k, PNode m) m"
    by (auto simp: node_entry_def)
  with wall_clock.consider_loop [OF clock loop] ok show False by auto
qed

theorem select_complete_witness:
  "\<exists>e s'. run_state (selectNodeForWorkload memEnv (demo_workload\<lparr>w_Labels := [(''zone'', ''x'')]\<rparr>)) (demo_sched demo_nodes) =
       (Inl e, s') \<and> \<not> schedulable (demo_workload\<lparr>w_Labels := [(''zone'', ''x'')]\<rparr>) (m_clock (sc_world s')) (demo_node ''a'' 200)"
proof -
  let ?w = "demo_workload\<lparr>w_Labels := [(''zone'', ''x'')]\<rparr>"
  let ?m = "run_state (selectNodeForWorkload memEnv ?w) (demo_sched demo_nodes)"
  have "isl (fst ?m) \<and> writable (snd ?m)" by code_simp
  then obtain e s' where r: "?m = (Inl e, s')" "writable s'" by (cases ?m) (auto simp: isl_def)
  have "mem_view (sc_world (demo_sched demo_nodes)) (nodeKey ''a'') = Some (PNode (demo_node ''a'' 200))"
    "HasPrefix (nodeKey ''a'') nodesPrefix" "\<not> isNodeStatusSubKey (nodeKey ''a'')" by code_simp+
  then have "\<not> schedulable ?w (m_clock (sc_world s')) (demo_node ''a'' 200)"
    by (rule select_complete [OF memetcd.etcd_client_axioms memclock.wall_clock_axioms r])
  with r show ?thesis by blast
qed

end
