(* ===== verification/ControlApi.thy ===== *)
theory ControlApi
  imports Drift
begin

text \<open>
  The control API of the scheduler (\<open>grpcapi/service.go\<close>): the messages with the fields the
  handlers read, the translations between messages and the data model, and one operation
  per remote call. A message pointer that may be nil is an option; a protobuf timestamp is a
  time, and the one that is not set reads as the Unix epoch.
\<close>

section \<open>Messages\<close>

definition rpcError :: "string \<Rightarrow> string \<Rightarrow> goerr" where
  "rpcError code msg = GoErr (''rpc error: code = '' @ code @ '' desc = '' @ msg) (Some code)"

definition unixEpoch :: time where "unixEpoch = 62135596800 * nsec"

definition AsTime :: "time option \<Rightarrow> time" where
  "AsTime t = (case t of None \<Rightarrow> unixEpoch | Some x \<Rightarrow> x)"

record node_capabilities =
  nc_CpuTotalMillicores :: int
  nc_MemoryTotalMb :: int
  nc_SupportedWorkloadTypes :: "string list"
  nc_SupportedStorageDrivers :: "string list"

record register_request =
  rn_NodeId :: string
  rn_GrpcEndpoint :: string
  rn_Labels :: "string gomap"
  rn_Timestamp :: "time option"
  rn_Capabilities :: "node_capabilities option"

record register_response =
  rr_Accepted :: bool
  rr_Reason :: string
  rr_HeartbeatIntervalSeconds :: int
  rr_LeaseExpiresAt :: "time option"

record reason_detail =
  rd_Code :: string
  rd_Message :: string
  rd_LastTransition :: "time option"
  rd_NextRetryAt :: "time option"
  rd_Retryable :: bool

record usage_snapshot =
  us_WorkloadId :: string
  us_Type :: string
  us_CpuPercent :: rat
  us_MemoryBytes :: int
  us_DiskReadBytes :: int
  us_DiskWriteBytes :: int
  us_NetRxBytes :: int
  us_NetTxBytes :: int
  us_CollectedAt :: "time option"
  us_Source :: string

record reported_status =
  rs_WorkloadId :: string
  rs_State :: string
  rs_Message :: string
  rs_LastTransition :: "time option"
  rs_Reason :: "reason_detail option"
  rs_Usage :: "usage_snapshot option"

record node_usage =
  nu_CpuUsedMillicores :: int
  nu_MemoryUsedMb :: int

record heartbeat_request =
  hb_NodeId :: string
  hb_Usage :: "node_usage option"
  hb_WorkloadStatuses :: "reported_status list"
  hb_WorkloadUsage :: "usage_snapshot list"

record heartbeat_response =
  hr_Acknowledged :: bool
  hr_DrainNode :: bool
  hr_LeaseExpiresAt :: time

record api_port =
  qp_HostPort :: int
  qp_ContainerPort :: int
  qp_Protocol :: string

record api_volume =
  qv_HostPath :: string
  qv_ContainerPath :: string
  qv_ReadOnly :: bool

record api_container =
  qc_Image :: string
  qc_Command :: "string list"
  qc_Env :: "string gomap"
  qc_Ports :: "api_port list"
  qc_Volumes :: "api_volume list"
  qc_RestartPolicy :: string
  qc_ManagedVolumes :: "managed_volume_spec list"

record api_compose =
  qo_SourceType :: string
  qo_InlineYaml :: string
  qo_GitRepo :: string
  qo_GitRef :: string
  qo_Env :: "string gomap"

record api_disk =
  qd_SizeGb :: int
  qd_MountPoint :: string

record api_network =
  qn_Bridge :: string
  qn_StaticIp :: string

record api_vm =
  qm_Vcpus :: int
  qm_MemoryMb :: int
  qm_Disks :: "api_disk list"
  qm_Networks :: "api_network list"
  qm_CloudInit :: "cloud_init_config option"
  qm_ManagedVolumes :: "managed_volume_spec list"

datatype api_body = NoBody | ContainerBody api_container | ComposeBody api_compose | VmBody api_vm

record api_resources =
  qr_CpuMillicores :: int
  qr_MemoryMb :: int
  qr_DiskGb :: int

record api_spec =
  qs_Type :: string
  qs_Resources :: "api_resources option"
  qs_Metadata :: "string gomap"
  qs_Body :: api_body

record api_apply =
  qa_WorkloadId :: string
  qa_RevisionId :: string
  qa_DesiredState :: string
  qa_Spec :: "api_spec option"

datatype failure_code = FR_UNSPECIFIED | FR_INVALID_SPEC | FR_RUNTIME_ERROR

record api_result =
  qx_Success :: bool
  qx_FailureReason :: failure_code
  qx_ErrorMessage :: string

datatype automation_action =
  AA_UNSPECIFIED | AA_SET_DESIRED_STATE | AA_RETRY_WORKLOAD | AA_DELETE_WORKLOAD | AA_SCALE_REPLICAS

fun action_text :: "automation_action \<Rightarrow> string" where
  "action_text AA_UNSPECIFIED = ''AUTOMATION_ACTION_TYPE_UNSPECIFIED''"
| "action_text AA_SET_DESIRED_STATE = ''AUTOMATION_ACTION_SET_DESIRED_STATE''"
| "action_text AA_RETRY_WORKLOAD = ''AUTOMATION_ACTION_RETRY_WORKLOAD''"
| "action_text AA_DELETE_WORKLOAD = ''AUTOMATION_ACTION_DELETE_WORKLOAD''"
| "action_text AA_SCALE_REPLICAS = ''AUTOMATION_ACTION_SCALE_REPLICAS''"

record suggestion =
  sg_PolicyId :: string
  sg_PolicyName :: string
  sg_TargetWorkload :: string
  sg_ActionType :: automation_action
  sg_DesiredState :: string

record suggestion_response =
  sr_Accepted :: bool
  sr_Decision :: string
  sr_Reason :: string
  sr_AppliedAction :: string
  sr_DecidedAt :: time

record node_view =
  nv_NodeId :: string
  nv_Status :: string
  nv_StatusReason :: string
  nv_StatusUpdatedBy :: string
  nv_StatusUpdatedAt :: "time option"
  nv_LastHeartbeat :: "time option"
  nv_GrpcEndpoint :: string
  nv_TotalCpuCores :: rat
  nv_AvailableCpuCores :: rat
  nv_TotalMemoryMb :: int
  nv_AvailableMemoryMb :: int
  nv_SupportedWorkloadTypes :: "string list"
  nv_Labels :: "string gomap"

record workload_view =
  wv_WorkloadId :: string
  wv_Type :: string
  wv_DesiredState :: string
  wv_Status :: string
  wv_AssignedNodeId :: string
  wv_RevisionId :: string
  wv_RetryAttempts :: int
  wv_RetryMaxAttempts :: int
  wv_RetryNextAt :: "time option"
  wv_FailureReason :: string
  wv_LastUpdated :: "time option"
  wv_Reason :: "reason_detail option"
  wv_Usage :: "usage_snapshot option"

record cluster_summary =
  sm_TotalNodes :: int
  sm_ReadyNodes :: int
  sm_NotReadyNodes :: int
  sm_TotalWorkloads :: int
  sm_RunningWorkloads :: int
  sm_PendingWorkloads :: int
  sm_FailedWorkloads :: int
  sm_DeletedWorkloads :: int
  sm_GeneratedAt :: time

section \<open>From messages to the data model\<close>

text \<open>
  \<open>normalizeSupportedWorkloadTypes\<close> and \<open>normalizeSupportedStorageDrivers\<close>: canonical names
  without blanks and duplicates, in the order of their first occurrence.
\<close>

definition addCanonical :: "(string \<Rightarrow> string) \<Rightarrow> string \<Rightarrow> string list \<Rightarrow> string list" where
  "addCanonical f t out =
     (let canon = f (ToLower (TrimSpace t)) in if canon = [] then out else if canon \<in> set out then out else out @ [canon])"

definition apiWorkloadType :: "string \<Rightarrow> string" where
  "apiWorkloadType l = (if l = ''docker-container'' then ''container'' else if l = ''docker-compose'' then ''compose'' else l)"

definition apiStorageDriver :: "string \<Rightarrow> string" where
  "apiStorageDriver l = (if l = ''ceph_rbd'' then ''ceph-rbd'' else l)"

definition normalizeSupportedWorkloadTypes :: "string list \<Rightarrow> string list" where
  "normalizeSupportedWorkloadTypes types = fold (addCanonical apiWorkloadType) types []"

definition normalizeSupportedStorageDrivers :: "string list \<Rightarrow> string list" where
  "normalizeSupportedStorageDrivers drivers = fold (addCanonical apiStorageDriver) drivers [''local'']"

text \<open>\<open>strings.Trim\<close> with the cutset of the two brackets.\<close>

definition trimBrackets :: "string \<Rightarrow> string" where
  "trimBrackets s =
     (let p = (\<lambda>c. c = CHR ''['' \<or> c = CHR '']'') in rev (dropWhile p (rev (dropWhile p s))))"

definition splitHostPort :: "string \<Rightarrow> (string \<times> int) result" where
  "splitHostPort endpoint =
     (let parts = Split (CHR '':'') (TrimSpace endpoint)
      in if length parts < 2 then Inl (errorf (''invalid grpc endpoint '' @ fmt_q endpoint))
         else case Atoi (last parts) of
             None \<Rightarrow> Inl (atoi_error (last parts))
           | Some port \<Rightarrow>
               (let host = trimBrackets (Join '':'' (butlast parts))
                in Inr (if host = [] then ''127.0.0.1'' else host, port)))"

definition reasonFromProto :: "reason_detail option \<Rightarrow> time option \<Rightarrow> workload_reason option" where
  "reasonFromProto reason fallback =
     (case reason of
        None \<Rightarrow> None
      | Some r \<Rightarrow>
          (let out = \<lparr>wr_Code = TrimSpace (rd_Code r), wr_Message = TrimSpace (rd_Message r),
                      wr_LastTransition = (case rd_LastTransition r of Some t \<Rightarrow> t
                        | None \<Rightarrow> (case fallback of Some t \<Rightarrow> t | None \<Rightarrow> 0)),
                      wr_NextRetryAt = (case rd_NextRetryAt r of Some t \<Rightarrow> t | None \<Rightarrow> 0),
                      wr_Retryable = rd_Retryable r\<rparr>
           in if wr_Code out = [] \<and> wr_Message out = [] \<and> IsZero (wr_LastTransition out) \<and>
                 IsZero (wr_NextRetryAt out) \<and> \<not> wr_Retryable out
              then None else Some out))"

definition usageFromProto :: "usage_snapshot option \<Rightarrow> string \<Rightarrow> string \<Rightarrow> workload_usage option" where
  "usageFromProto usage workloadID workloadType =
     (case usage of
        None \<Rightarrow> None
      | Some u \<Rightarrow>
          (let out = \<lparr>wu_WorkloadID = (if TrimSpace (us_WorkloadId u) = [] then TrimSpace workloadID else TrimSpace (us_WorkloadId u)),
                      wu_Type = (if TrimSpace (us_Type u) = [] then TrimSpace workloadType else TrimSpace (us_Type u)),
                      wu_CPUPercent = us_CpuPercent u, wu_MemoryBytes = us_MemoryBytes u,
                      wu_DiskReadBytes = us_DiskReadBytes u, wu_DiskWriteBytes = us_DiskWriteBytes u,
                      wu_NetRXBytes = us_NetRxBytes u, wu_NetTXBytes = us_NetTxBytes u,
                      wu_CollectedAt = (case us_CollectedAt u of Some t \<Rightarrow> t | None \<Rightarrow> 0),
                      wu_Source = TrimSpace (us_Source u)\<rparr>
           in if wu_WorkloadID out = [] \<and> wu_Type out = [] \<and> wu_CPUPercent out = 0 \<and> wu_MemoryBytes out = 0 \<and>
                 wu_DiskReadBytes out = 0 \<and> wu_DiskWriteBytes out = 0 \<and> wu_NetRXBytes out = 0 \<and>
                 wu_NetTXBytes out = 0 \<and> IsZero (wu_CollectedAt out) \<and> wu_Source out = []
              then None else Some out))"

definition toModelManagedVolumes :: "managed_volume_spec list \<Rightarrow> managed_volume_spec list" where
  "toModelManagedVolumes = map (\<lambda>mv. mv\<lparr>mv_Name := TrimSpace (mv_Name mv), mv_Driver := TrimSpace (mv_Driver mv),
     mv_AccessMode := TrimSpace (mv_AccessMode mv), mv_FSType := TrimSpace (mv_FSType mv),
     mv_MountPath := TrimSpace (mv_MountPath mv), mv_RetainPolicy := TrimSpace (mv_RetainPolicy mv)\<rparr>)"

definition port_text :: "api_port \<Rightarrow> string" where
  "port_text p = itoa (qp_HostPort p) @ '':'' @ itoa (qp_ContainerPort p) @ ''/'' @
     (if qp_Protocol p = [] then ''tcp'' else qp_Protocol p)"

definition volume_text :: "api_volume \<Rightarrow> string" where
  "volume_text v = qv_HostPath v @ '':'' @ qv_ContainerPath v @ (if qv_ReadOnly v then '':ro'' else [])"

text \<open>
  The VM description that may be embedded in the metadata. \<open>vmOf\<close> stands for the decoding of
  a text as base64 of a JSON document with the fields of \<open>VMSpec\<close>; it gives nothing for a text
  that is not one.
\<close>

definition parseEmbeddedVMSpec :: "(string \<Rightarrow> vm_spec option) \<Rightarrow> metadata \<Rightarrow> vm_spec option" where
  "parseEmbeddedVMSpec vmOf m =
     (case mget m ''persys.vm_spec_b64'' of
        None \<Rightarrow> None
      | Some rawVal \<Rightarrow> (let raw = TrimSpace (fmt_v rawVal) in if raw = [] then None else vmOf raw))"

definition apiBase :: "api_apply \<Rightarrow> api_spec \<Rightarrow> workload" where
  "apiBase q sp = zero_workload\<lparr>w_ID := qa_WorkloadId q, w_Type := ToLower (TrimSpace (qs_Type sp)),
     w_RevisionID := qa_RevisionId q, w_DesiredState := normalizeDesiredStateString (qa_DesiredState q),
     w_Resources := (case qs_Resources sp of
         None \<Rightarrow> w_Resources zero_workload
       | Some r \<Rightarrow> \<lparr>r_CPUUsage = of_int (qr_CpuMillicores r) / 1000, r_MemoryUsage = of_int (qr_MemoryMb r),
                    r_DiskUsage = qr_DiskGb r\<rparr>),
     w_Metadata := map (\<lambda>(k, v). (k, MStr v)) (qs_Metadata sp)\<rparr>"

definition apiContainer :: "api_container \<Rightarrow> workload \<Rightarrow> workload" where
  "apiContainer cs w = w\<lparr>w_Image := qc_Image cs, w_CommandList := qc_Command cs, w_Command := Join '' '' (qc_Command cs),
     w_EnvVars := qc_Env cs, w_RestartPolicy := qc_RestartPolicy cs, w_Ports := map port_text (qc_Ports cs),
     w_Volumes := map volume_text (qc_Volumes cs), w_ManagedVolumes := toModelManagedVolumes (qc_ManagedVolumes cs)\<rparr>"

definition apiCompose :: "api_compose \<Rightarrow> workload \<Rightarrow> workload" where
  "apiCompose cp w =
     (let w1 = w\<lparr>w_Type := ''compose'', w_EnvVars := qo_Env cp\<rparr>
      in if EqualFold (qo_SourceType cp) ''git''
         then w1\<lparr>w_GitRepo := qo_GitRepo cp, w_GitBranch := qo_GitRef cp\<rparr>
         else w1\<lparr>w_ComposeYAML := qo_InlineYaml cp\<rparr>)"

definition apiVM :: "api_vm \<Rightarrow> vm_spec" where
  "apiVM m = \<lparr>vm_Name = [], vm_VCPUs = qm_Vcpus m, vm_MemoryMB = qm_MemoryMb m,
     vm_Disks = map (\<lambda>d. \<lparr>vd_Path = [],
         vd_Device = (if TrimSpace (qd_MountPoint d) = [] then ''vda'' else TrimSpace (qd_MountPoint d)),
         vd_Format = ''qcow2'', vd_SizeGB = qd_SizeGb d, vd_Type = ''disk'', vd_Boot = False\<rparr>) (qm_Disks m),
     vm_Networks = map (\<lambda>n. \<lparr>vn_Network = qn_Bridge n, vn_MAC = [], vn_IPAddress = qn_StaticIp n\<rparr>) (qm_Networks m),
     vm_CloudInit = [], vm_Metadata = [], vm_CloudInitConfig = qm_CloudInit m,
     vm_ManagedVolumes = toModelManagedVolumes (qm_ManagedVolumes m)\<rparr>"

definition controlApplyToModel :: "(string \<Rightarrow> vm_spec option) \<Rightarrow> api_apply \<Rightarrow> workload result" where
  "controlApplyToModel vmOf q =
     (case qa_Spec q of
        None \<Rightarrow> Inl (errorf ''spec is required'')
      | Some sp \<Rightarrow>
          (let w = apiBase q sp; ty = ToLower (qs_Type sp)
           in if ty = ''container'' then
                (case qs_Body sp of ContainerBody cs \<Rightarrow> Inr (apiContainer cs w)
                 | _ \<Rightarrow> Inl (errorf ''container spec required''))
              else if ty = ''compose'' then
                (case qs_Body sp of ComposeBody cp \<Rightarrow> Inr (apiCompose cp w)
                 | _ \<Rightarrow> Inl (errorf ''compose spec required''))
              else if ty = ''vm'' then
                (case parseEmbeddedVMSpec vmOf (w_Metadata w) of
                   Some vm \<Rightarrow> Inr (w\<lparr>w_VM := Some vm, w_Metadata := mdel ''persys.vm_spec_b64'' (w_Metadata w)\<rparr>)
                 | None \<Rightarrow>
                     (case qs_Body sp of VmBody m \<Rightarrow> Inr (w\<lparr>w_VM := Some (apiVM m)\<rparr>)
                      | _ \<Rightarrow> Inl (errorf ''vm spec required'')))
              else Inl (errorf (''unsupported workload type '' @ fmt_q (qs_Type sp)))))"

section \<open>From the data model to views\<close>

definition timestampPtr :: "time \<Rightarrow> time option" where
  "timestampPtr t = (if IsZero t then None else Some t)"

definition nodeToView :: "node \<Rightarrow> node_view" where
  "nodeToView n = \<lparr>nv_NodeId = n_NodeID n, nv_Status = n_Status n, nv_StatusReason = n_StatusReason n,
     nv_StatusUpdatedBy = n_StatusUpdatedBy n, nv_StatusUpdatedAt = timestampPtr (n_StatusUpdatedAt n),
     nv_LastHeartbeat = timestampPtr (n_LastHeartbeat n), nv_GrpcEndpoint = n_AgentEndpoint n,
     nv_TotalCpuCores = n_TotalCPU n, nv_AvailableCpuCores = n_AvailableCPU n,
     nv_TotalMemoryMb = n_TotalMemory n, nv_AvailableMemoryMb = n_AvailableMemory n,
     nv_SupportedWorkloadTypes = n_SupportedWorkloadTypes n, nv_Labels = n_Labels n\<rparr>"

definition workloadStatusForView :: "workload \<Rightarrow> string" where
  "workloadStatusForView w =
     (let st = (if TrimSpace (w_Status w) = [] then ''Unknown'' else TrimSpace (w_Status w))
      in if \<not> EqualFold (TrimSpace (w_Type w)) ''vm'' then st
         else case mget (w_Metadata w) ''vm.primary_ip'' of
             None \<Rightarrow> st
           | Some ip \<Rightarrow> if TrimSpace (fmt_v ip) \<noteq> [] then st @ '' (ip='' @ TrimSpace (fmt_v ip) @ '')'' else st)"

text \<open>Unlike the accessor of the reconciler this one prints values that are not strings.\<close>

definition viewMetadataString :: "metadata \<Rightarrow> string \<Rightarrow> string option" where
  "viewMetadataString m key = map_option fmt_v (mget m key)"

fun firstRuntimeReason :: "metadata \<Rightarrow> string list \<Rightarrow> string" where
  "firstRuntimeReason m [] = []"
| "firstRuntimeReason m (k # ks) =
     (case viewMetadataString m k of
        Some v \<Rightarrow> if TrimSpace v \<noteq> [] then TrimSpace v else firstRuntimeReason m ks
      | None \<Rightarrow> firstRuntimeReason m ks)"

definition isInfrastructureFailureReasonText :: "string \<Rightarrow> bool" where
  "isInfrastructureFailureReasonText reason =
     (let lower = ToLower (TrimSpace reason)
      in if lower = [] then False
         else (Contains lower ''node'' \<and> Contains lower ''unavailable'') \<or>
              Contains lower ''no failover target'' \<or> Contains lower ''heartbeat expired'' \<or>
              Contains lower ''connection refused'' \<or> Contains lower ''deadline exceeded'' \<or>
              Contains lower ''transport: error while dialing'')"

definition workloadFailureReasonForView :: "workload \<Rightarrow> string" where
  "workloadFailureReasonForView w =
     (let reason0 = TrimSpace (si_FailureReason (w_StatusInfo w));
          reason = (if reason0 = [] then
                      (case viewMetadataString (w_Metadata w) ''last_error'' of Some e \<Rightarrow> TrimSpace e | None \<Rightarrow> [])
                    else reason0);
          runtimeReason = firstRuntimeReason (w_Metadata w)
            [''container.stderr'', ''last_runtime_error'', ''container.runtime_error'']
      in if runtimeReason = [] then reason
         else if reason = [] \<or> EqualFold reason runtimeReason then runtimeReason
         else if isInfrastructureFailureReasonText reason then runtimeReason @ [CHR 0x0A] @ reason
         else reason @ [CHR 0x0A] @ runtimeReason)"

definition assignedNodeID :: "workload \<Rightarrow> string" where
  "assignedNodeID w = (if TrimSpace (w_NodeID w) \<noteq> [] then w_NodeID w else w_AssignedNode w)"

definition workloadLastUpdated :: "workload \<Rightarrow> time option" where
  "workloadLastUpdated w =
     (if \<not> IsZero (si_LastUpdated (w_StatusInfo w)) then Some (si_LastUpdated (w_StatusInfo w))
      else if \<not> IsZero (w_CreatedAt w) then Some (w_CreatedAt w) else None)"

definition reasonToProto :: "workload_reason option \<Rightarrow> time \<Rightarrow> reason_detail option" where
  "reasonToProto reason fallback =
     (case reason of
        None \<Rightarrow> None
      | Some r \<Rightarrow>
          (let out = \<lparr>rd_Code = TrimSpace (wr_Code r), rd_Message = TrimSpace (wr_Message r),
                      rd_LastTransition = (if \<not> IsZero (wr_LastTransition r) then Some (wr_LastTransition r)
                        else if \<not> IsZero fallback then Some fallback else None),
                      rd_NextRetryAt = (if \<not> IsZero (wr_NextRetryAt r) then Some (wr_NextRetryAt r) else None),
                      rd_Retryable = wr_Retryable r\<rparr>
           in if rd_Code out = [] \<and> rd_Message out = [] \<and> rd_LastTransition out = None \<and> rd_NextRetryAt out = None \<and>
                 \<not> rd_Retryable out
              then None else Some out))"

definition usageToProto :: "workload_usage option \<Rightarrow> string \<Rightarrow> string \<Rightarrow> usage_snapshot option" where
  "usageToProto usage workloadID workloadType =
     (case usage of
        None \<Rightarrow> None
      | Some u \<Rightarrow> Some
          \<lparr>us_WorkloadId = (if TrimSpace (wu_WorkloadID u) = [] then TrimSpace workloadID else TrimSpace (wu_WorkloadID u)),
           us_Type = (if TrimSpace (wu_Type u) = [] then TrimSpace workloadType else TrimSpace (wu_Type u)),
           us_CpuPercent = wu_CPUPercent u, us_MemoryBytes = wu_MemoryBytes u,
           us_DiskReadBytes = wu_DiskReadBytes u, us_DiskWriteBytes = wu_DiskWriteBytes u,
           us_NetRxBytes = wu_NetRXBytes u, us_NetTxBytes = wu_NetTXBytes u,
           us_CollectedAt = timestampPtr (wu_CollectedAt u), us_Source = TrimSpace (wu_Source u)\<rparr>)"

definition workloadToView :: "workload \<Rightarrow> workload_view" where
  "workloadToView w = \<lparr>wv_WorkloadId = w_ID w, wv_Type = w_Type w, wv_DesiredState = w_DesiredState w,
     wv_Status = workloadStatusForView w, wv_AssignedNodeId = assignedNodeID w, wv_RevisionId = w_RevisionID w,
     wv_RetryAttempts = int32 (rt_Attempts (w_Retry w)), wv_RetryMaxAttempts = int32 (rt_MaxAttempts (w_Retry w)),
     wv_RetryNextAt = timestampPtr (rt_NextRetryAt (w_Retry w)), wv_FailureReason = workloadFailureReasonForView w,
     wv_LastUpdated = workloadLastUpdated w,
     wv_Reason = reasonToProto (si_Reason (w_StatusInfo w)) (si_LastUpdated (w_StatusInfo w)),
     wv_Usage = usageToProto (w_Usage w) (w_ID w) (w_Type w)\<rparr>"

section \<open>Remote calls about nodes\<close>

definition noCapabilities :: node_capabilities where
  "noCapabilities = \<lparr>nc_CpuTotalMillicores = 0, nc_MemoryTotalMb = 0, nc_SupportedWorkloadTypes = [],
     nc_SupportedStorageDrivers = []\<rparr>"

definition registeredAs :: "register_request \<Rightarrow> node result" where
  "registeredAs q =
     (let cap = (case rn_Capabilities q of None \<Rightarrow> noCapabilities | Some c \<Rightarrow> c);
          cpu = of_int (nc_CpuTotalMillicores cap) / 1000;
          n = zero_node\<lparr>n_NodeID := rn_NodeId q, n_Status := ''Ready'', n_Labels := rn_Labels q,
                n_Timestamp := formatRFC3339 (AsTime (rn_Timestamp q)),
                n_AvailableCPU := cpu, n_TotalCPU := cpu,
                n_AvailableMemory := nc_MemoryTotalMb cap, n_TotalMemory := nc_MemoryTotalMb cap,
                n_SupportedWorkloadTypes := normalizeSupportedWorkloadTypes (nc_SupportedWorkloadTypes cap),
                n_SupportedStorageDrivers := normalizeSupportedStorageDrivers (nc_SupportedStorageDrivers cap)\<rparr>;
          endpoint = TrimSpace (rn_GrpcEndpoint q)
      in if endpoint = [] then Inl (rpcError ''InvalidArgument'' ''grpc_endpoint is required'')
         else case splitHostPort endpoint of
             Inl e \<Rightarrow> Inl (rpcError ''InvalidArgument'' (''invalid grpc_endpoint '' @ fmt_q endpoint @ '': '' @ err_msg e))
           | Inr (host, port) \<Rightarrow>
               (let p = (if port = 0 then 50051 else port)
                in Inr (n\<lparr>n_AgentEndpoint := endpoint, n_IPAddress := host, n_AgentGRPCPort := p, n_AgentPort := p,
                         n_Username := ''agent'', n_Hostname := rn_NodeId q, n_OSName := ''linux'',
                         n_KernelVersion := ''unknown''\<rparr>)))"

definition apiRegisterNode :: "'w env \<Rightarrow> register_request option \<Rightarrow> ('w, register_response result) op" where
  "apiRegisterNode E q0 =
     (case q0 of
        None \<Rightarrow> ret (Inl (rpcError ''InvalidArgument'' ''node_id is required''))
      | Some q \<Rightarrow>
          if TrimSpace (rn_NodeId q) = [] then ret (Inl (rpcError ''InvalidArgument'' ''node_id is required''))
          else do {
            ok \<leftarrow> isWritable;
            if \<not> ok then ret (Inr \<lparr>rr_Accepted = False, rr_Reason = ''scheduler degraded/recovery mode'',
                               rr_HeartbeatIntervalSeconds = 0, rr_LeaseExpiresAt = None\<rparr>)
            else case registeredAs q of
                Inl e \<Rightarrow> ret (Inl e)
              | Inr n \<Rightarrow> do {
                  r \<leftarrow> RegisterNode E n;
                  (case r of
                     Some e \<Rightarrow> ret (Inr \<lparr>rr_Accepted = False, rr_Reason = err_msg e,
                                       rr_HeartbeatIntervalSeconds = 0, rr_LeaseExpiresAt = None\<rparr>)
                   | None \<Rightarrow> do {
                       t \<leftarrow> now E;
                       ret (Inr \<lparr>rr_Accepted = True, rr_Reason = ''registered'', rr_HeartbeatIntervalSeconds = 60,
                                 rr_LeaseExpiresAt = Some (t + 180 * Second)\<rparr>) }) } })"

text \<open>What is free on a node after the usage an agent reports; the differences are \<open>int64\<close>.\<close>

definition freeCPU :: "node \<Rightarrow> node_usage option \<Rightarrow> rat" where
  "freeCPU n u =
     (case u of None \<Rightarrow> n_AvailableCPU n
      | Some x \<Rightarrow>
          (let total = truncate64 (n_TotalCPU n * 1000)
           in if total > 0 then of_int (max 0 (wrap64 (total - nu_CpuUsedMillicores x))) / 1000 else n_AvailableCPU n))"

definition freeMemory :: "node \<Rightarrow> node_usage option \<Rightarrow> int" where
  "freeMemory n u =
     (case u of None \<Rightarrow> n_AvailableMemory n
      | Some x \<Rightarrow>
          if n_TotalMemory n > 0 then max 0 (wrap64 (n_TotalMemory n - nu_MemoryUsedMb x)) else n_AvailableMemory n)"

definition applyReported :: "'w env \<Rightarrow> reported_status \<Rightarrow> ('w, unit) op" where
  "applyReported E ws =
     (if TrimSpace (rs_WorkloadId ws) = [] then ret ()
      else do {
        _ \<leftarrow> UpdateWorkloadStatus E (rs_WorkloadId ws) (rs_State ws);
        _ \<leftarrow> doif (TrimSpace (rs_Message ws) \<noteq> [])
              (do { _ \<leftarrow> UpdateWorkloadLogs E (rs_WorkloadId ws) (TrimSpace (rs_Message ws)); ret () });
        let reason = reasonFromProto (rs_Reason ws) (rs_LastTransition ws);
        let usage = usageFromProto (rs_Usage ws) (rs_WorkloadId ws) [];
        doif (reason \<noteq> None \<or> usage \<noteq> None)
          (do { _ \<leftarrow> UpdateWorkloadRuntimeDetails E (rs_WorkloadId ws) reason usage; ret () }) })"

definition applyUsage :: "'w env \<Rightarrow> usage_snapshot \<Rightarrow> ('w, unit) op" where
  "applyUsage E u =
     (let workloadID = TrimSpace (us_WorkloadId u); usage = usageFromProto (Some u) workloadID []
      in doif (workloadID \<noteq> [] \<and> usage \<noteq> None)
           (do { _ \<leftarrow> UpdateWorkloadRuntimeDetails E workloadID None usage; ret () }))"

definition Heartbeat :: "'w env \<Rightarrow> heartbeat_request option \<Rightarrow> ('w, heartbeat_response result) op" where
  "Heartbeat E q0 =
     (case q0 of
        None \<Rightarrow> ret (Inl (rpcError ''InvalidArgument'' ''node_id is required''))
      | Some q \<Rightarrow>
          if TrimSpace (hb_NodeId q) = [] then ret (Inl (rpcError ''InvalidArgument'' ''node_id is required''))
          else do {
            ok \<leftarrow> isWritable;
            if \<not> ok then do {
              t \<leftarrow> now E;
              ret (Inr \<lparr>hr_Acknowledged = True, hr_DrainNode = True, hr_LeaseExpiresAt = t + 30 * Second\<rparr>) }
            else do {
              nr \<leftarrow> GetNodeByID E (hb_NodeId q);
              (case nr of
                 Inl _ \<Rightarrow> ret (Inl (rpcError ''NotFound'' (''node '' @ fmt_q (hb_NodeId q) @ '' not registered'')))
               | Inr n \<Rightarrow> do {
                   r \<leftarrow> UpdateNodeHeartbeat E (hb_NodeId q) ''Ready'' (freeCPU n (hb_Usage q)) (freeMemory n (hb_Usage q));
                   (case r of
                      Some e \<Rightarrow> ret (Inl (rpcError ''Internal'' (err_msg e)))
                    | None \<Rightarrow> do {
                        _ \<leftarrow> for_each (hb_WorkloadStatuses q) (applyReported E);
                        _ \<leftarrow> for_each (hb_WorkloadUsage q) (applyUsage E);
                        t \<leftarrow> now E;
                        ret (Inr \<lparr>hr_Acknowledged = True, hr_DrainNode = False,
                                  hr_LeaseExpiresAt = t + 3 * Minute\<rparr>) }) }) } })"

definition ListNodes :: "'w env \<Rightarrow> string \<Rightarrow> ('w, node_view list result) op" where
  "ListNodes E st = do {
     r \<leftarrow> GetNodes E;
     (case r of
        Inl e \<Rightarrow> ret (Inl (rpcError ''Internal'' (err_msg e)))
      | Inr nodes \<Rightarrow>
          (let filterStatus = ToLower (TrimSpace st)
           in ret (Inr (map nodeToView
                (filter (\<lambda>n. filterStatus = [] \<or> ToLower (TrimSpace (n_Status n)) = filterStatus) nodes))))) }"

definition GetNode :: "'w env \<Rightarrow> string \<Rightarrow> ('w, node_view result) op" where
  "GetNode E nodeID =
     (if TrimSpace nodeID = [] then ret (Inl (rpcError ''InvalidArgument'' ''node_id is required''))
      else do {
        r \<leftarrow> GetNodeByID E nodeID;
        (case r of
           Inl _ \<Rightarrow> ret (Inl (rpcError ''NotFound'' (''node '' @ fmt_q nodeID @ '' not found'')))
         | Inr n \<Rightarrow> ret (Inr (nodeToView n))) })"

section \<open>Remote calls about workloads\<close>

definition runtimeFailure :: "string \<Rightarrow> api_result" where
  "runtimeFailure msg = \<lparr>qx_Success = False, qx_FailureReason = FR_RUNTIME_ERROR, qx_ErrorMessage = msg\<rparr>"

definition applied :: api_result where
  "applied = \<lparr>qx_Success = True, qx_FailureReason = FR_UNSPECIFIED, qx_ErrorMessage = []\<rparr>"

text \<open>The workload is reconciled at once, and a failure of that is reported.\<close>

definition reconcileNow :: "'w env \<Rightarrow> workload \<Rightarrow> ('w, api_result) op" where
  "reconcileNow E w = do {
     r \<leftarrow> ReconcileWorkload E w;
     ret (case snd r of Some e \<Rightarrow> runtimeFailure (err_msg e) | None \<Rightarrow> applied) }"

definition onlyDesired :: "string \<Rightarrow> workload" where
  "onlyDesired d = zero_workload\<lparr>w_DesiredState := d\<rparr>"

definition ApplyWorkload ::
  "(string \<Rightarrow> vm_spec option) \<Rightarrow> 'w env \<Rightarrow> api_apply option \<Rightarrow> ('w, api_result result) op" where
  "ApplyWorkload vmOf E q0 = do {
     ok \<leftarrow> isWritable;
     if \<not> ok then ret (Inr (runtimeFailure ''scheduler degraded/recovery mode; control plane frozen''))
     else case q0 of
         None \<Rightarrow> ret (Inl (rpcError ''InvalidArgument'' ''workload_id is required''))
       | Some q \<Rightarrow>
           if TrimSpace (qa_WorkloadId q) = [] then ret (Inl (rpcError ''InvalidArgument'' ''workload_id is required''))
           else if qa_Spec q = None then do {
             u \<leftarrow> UpdateWorkloadSpec E (qa_WorkloadId q) (onlyDesired (normalizeDesiredStateString (qa_DesiredState q)));
             (case u of
                Inl e \<Rightarrow> ret (Inr (runtimeFailure (err_msg e)))
              | Inr w \<Rightarrow> do { r \<leftarrow> reconcileNow E w; ret (Inr r) }) }
           else case controlApplyToModel vmOf q of
               Inl e \<Rightarrow> ret (Inr \<lparr>qx_Success = False, qx_FailureReason = FR_INVALID_SPEC, qx_ErrorMessage = err_msg e\<rparr>)
             | Inr w \<Rightarrow> do {
                 known \<leftarrow> GetWorkloadByID E (w_ID w);
                 p \<leftarrow> (case known of Inr _ \<Rightarrow> UpdateWorkloadSpec E (w_ID w) w | Inl _ \<Rightarrow> CreateWorkload E w);
                 (case p of
                    Inl e \<Rightarrow> ret (Inr (runtimeFailure (err_msg e)))
                  | Inr persisted \<Rightarrow> do { r \<leftarrow> reconcileNow E persisted; ret (Inr r) }) } }"

definition apiDeleteWorkload :: "'w env \<Rightarrow> string \<Rightarrow> ('w, (bool \<times> string) result) op" where
  "apiDeleteWorkload E workloadID = do {
     ok \<leftarrow> isWritable;
     if \<not> ok then ret (Inr (False, ''scheduler degraded/recovery mode; control plane frozen''))
     else if TrimSpace workloadID = [] then ret (Inl (rpcError ''InvalidArgument'' ''workload_id is required''))
     else do {
       r \<leftarrow> MarkWorkloadDeleted E workloadID;
       ret (Inr (case r of Some e \<Rightarrow> (False, err_msg e) | None \<Rightarrow> (True, []))) } }"

definition RetryWorkload :: "'w env \<Rightarrow> string \<Rightarrow> ('w, bool result) op" where
  "RetryWorkload E workloadID = do {
     ok \<leftarrow> isWritable;
     if \<not> ok then ret (Inr False)
     else if TrimSpace workloadID = [] then ret (Inl (rpcError ''InvalidArgument'' ''workload_id is required''))
     else do {
       r \<leftarrow> TriggerWorkloadRetry E workloadID;
       ret (Inr (case r of Inl _ \<Rightarrow> False | Inr _ \<Rightarrow> True)) } }"

definition rejected :: "'w env \<Rightarrow> string \<Rightarrow> ('w, suggestion_response result) op" where
  "rejected E reason = do {
     t \<leftarrow> now E;
     ret (Inr \<lparr>sr_Accepted = False, sr_Decision = ''rejected'', sr_Reason = reason, sr_AppliedAction = [],
               sr_DecidedAt = t\<rparr>) }"

definition accepted :: "'w env \<Rightarrow> string \<Rightarrow> string \<Rightarrow> string \<Rightarrow> string \<Rightarrow> ('w, suggestion_response result) op" where
  "accepted E target logPrefix reason action = do {
     _ \<leftarrow> UpdateWorkloadLogs E target (logPrefix @ '' decision=accepted'');
     t \<leftarrow> now E;
     ret (Inr \<lparr>sr_Accepted = True, sr_Decision = ''accepted'', sr_Reason = reason, sr_AppliedAction = action,
               sr_DecidedAt = t\<rparr>) }"

definition suggestionLog :: "suggestion \<Rightarrow> string \<Rightarrow> string" where
  "suggestionLog g target = ''automation suggestion policy_id='' @ TrimSpace (sg_PolicyId g) @ '' policy_name='' @
     TrimSpace (sg_PolicyName g) @ '' workload='' @ target @ '' action='' @ action_text (sg_ActionType g)"

definition suggestDesired :: "'w env \<Rightarrow> string \<Rightarrow> string \<Rightarrow> string \<Rightarrow> ('w, suggestion_response result) op" where
  "suggestDesired E target logPrefix state0 =
     (let desired = normalizeDesiredStateString state0
      in if desired = [] then rejected E ''desired_state is required for set_desired_state action''
         else do {
           u \<leftarrow> UpdateWorkloadSpec E target (onlyDesired desired);
           (case u of
              Inl e \<Rightarrow> rejected E (err_msg e)
            | Inr w \<Rightarrow> do {
                r \<leftarrow> ReconcileWorkload E w;
                (case snd r of
                   Some e \<Rightarrow> rejected E (err_msg e)
                 | None \<Rightarrow> accepted E target logPrefix ''desired state change accepted'' ''set_desired_state'') }) })"

definition SubmitAutomationSuggestion :: "'w env \<Rightarrow> suggestion option \<Rightarrow> ('w, suggestion_response result) op" where
  "SubmitAutomationSuggestion E q0 = do {
     ok \<leftarrow> isWritable;
     if \<not> ok then rejected E ''scheduler degraded/recovery mode''
     else case q0 of
         None \<Rightarrow> ret (Inl (rpcError ''InvalidArgument'' ''suggestion is required''))
       | Some g \<Rightarrow>
           (let target = TrimSpace (sg_TargetWorkload g); logPrefix = suggestionLog g target
            in if target = [] then rejected E ''target_workload is required''
               else case sg_ActionType g of
                 AA_SET_DESIRED_STATE \<Rightarrow> suggestDesired E target logPrefix (sg_DesiredState g)
               | AA_RETRY_WORKLOAD \<Rightarrow> do {
                   r \<leftarrow> TriggerWorkloadRetry E target;
                   (case r of
                      Inl e \<Rightarrow> rejected E (err_msg e)
                    | Inr _ \<Rightarrow> accepted E target logPrefix ''retry accepted'' ''retry_workload'') }
               | AA_DELETE_WORKLOAD \<Rightarrow> do {
                   r \<leftarrow> MarkWorkloadDeleted E target;
                   (case r of
                      Some e \<Rightarrow> rejected E (err_msg e)
                    | None \<Rightarrow> accepted E target logPrefix ''delete accepted'' ''delete_workload'') }
               | AA_SCALE_REPLICAS \<Rightarrow> do {
                   _ \<leftarrow> UpdateWorkloadLogs E target (logPrefix @ '' decision=rejected reason=replica updates not supported yet'');
                   rejected E ''replica updates are not supported by scheduler contract yet'' }
               | AA_UNSPECIFIED \<Rightarrow> rejected E ''unsupported automation action type'') }"

definition ListWorkloads :: "'w env \<Rightarrow> string \<Rightarrow> string \<Rightarrow> ('w, workload_view list result) op" where
  "ListWorkloads E nodeID st = do {
     r \<leftarrow> GetWorkloads E;
     (case r of
        Inl e \<Rightarrow> ret (Inl (rpcError ''Internal'' (err_msg e)))
      | Inr ws \<Rightarrow>
          (let filterNodeID = TrimSpace nodeID; filterStatus = ToLower (TrimSpace st)
           in ret (Inr (map workloadToView
                (filter (\<lambda>w. (filterNodeID = [] \<or> assignedNodeID w = filterNodeID) \<and>
                   (filterStatus = [] \<or> ToLower (TrimSpace (w_Status w)) = filterStatus)) ws))))) }"

definition GetWorkload :: "'w env \<Rightarrow> string \<Rightarrow> ('w, workload_view result) op" where
  "GetWorkload E workloadID =
     (if TrimSpace workloadID = [] then ret (Inl (rpcError ''InvalidArgument'' ''workload_id is required''))
      else do {
        r \<leftarrow> GetWorkloadByID E workloadID;
        (case r of
           Inl _ \<Rightarrow> ret (Inl (rpcError ''NotFound'' (''workload '' @ fmt_q workloadID @ '' not found'')))
         | Inr w \<Rightarrow> ret (Inr (workloadToView w))) })"

text \<open>The counters are \<open>int32\<close> and are incremented once per element.\<close>

definition count32 :: "('a \<Rightarrow> bool) \<Rightarrow> 'a list \<Rightarrow> int" where
  "count32 p xs = int32 (int (length (filter p xs)))"

definition summarize :: "node list \<Rightarrow> workload list \<Rightarrow> time \<Rightarrow> cluster_summary" where
  "summarize nodes workloads t =
     (let st = (\<lambda>w. ToLower (TrimSpace (w_Status w))); desired = (\<lambda>w. ToLower (TrimSpace (w_DesiredState w)));
          ready = (\<lambda>n. ToLower (TrimSpace (n_Status n)) = ''ready'')
      in \<lparr>sm_TotalNodes = int32 (int (length nodes)), sm_ReadyNodes = count32 ready nodes,
          sm_NotReadyNodes = count32 (\<lambda>n. \<not> ready n) nodes, sm_TotalWorkloads = int32 (int (length workloads)),
          sm_RunningWorkloads = count32 (\<lambda>w. st w = ''running'') workloads,
          sm_PendingWorkloads = count32 (\<lambda>w. st w = ''pending'' \<or> st w = ''unknown'' \<or> st w = ''updating'') workloads,
          sm_FailedWorkloads = count32 (\<lambda>w. st w = ''failed'') workloads,
          sm_DeletedWorkloads = count32 (\<lambda>w. desired w = ''deleted'' \<or> st w = ''deleted'') workloads,
          sm_GeneratedAt = t\<rparr>)"

definition GetClusterSummary :: "'w env \<Rightarrow> ('w, cluster_summary result) op" where
  "GetClusterSummary E = do {
     nr \<leftarrow> GetNodes E;
     (case nr of
        Inl e \<Rightarrow> ret (Inl (rpcError ''Internal'' (err_msg e)))
      | Inr nodes \<Rightarrow> do {
          wr \<leftarrow> GetWorkloads E;
          (case wr of
             Inl e \<Rightarrow> ret (Inl (rpcError ''Internal'' (err_msg e)))
           | Inr workloads \<Rightarrow> do {
               t \<leftarrow> now E;
               ret (Inr (summarize nodes workloads t)) }) }) }"

section \<open>Requests\<close>

text \<open>All remote calls, for the transition system of the scheduler.\<close>

datatype api_request =
    ApiRegister "register_request option"
  | ApiHeartbeat "heartbeat_request option"
  | ApiApply "string \<Rightarrow> vm_spec option" "api_apply option"
  | ApiDelete string
  | ApiRetry string
  | ApiSuggest "suggestion option"
  | ApiListNodes string
  | ApiGetNode string
  | ApiListWorkloads string string
  | ApiGetWorkload string
  | ApiSummary

definition dropResult :: "('w, 'a) op \<Rightarrow> ('w, unit) op" where
  "dropResult m = do { _ \<leftarrow> m; ret () }"

fun serve :: "'w env \<Rightarrow> api_request \<Rightarrow> ('w, unit) op" where
  "serve E (ApiRegister q) = dropResult (apiRegisterNode E q)"
| "serve E (ApiHeartbeat q) = dropResult (Heartbeat E q)"
| "serve E (ApiApply vmOf q) = dropResult (ApplyWorkload vmOf E q)"
| "serve E (ApiDelete i) = dropResult (apiDeleteWorkload E i)"
| "serve E (ApiRetry i) = dropResult (RetryWorkload E i)"
| "serve E (ApiSuggest q) = dropResult (SubmitAutomationSuggestion E q)"
| "serve E (ApiListNodes st) = dropResult (ListNodes E st)"
| "serve E (ApiGetNode i) = dropResult (GetNode E i)"
| "serve E (ApiListWorkloads i st) = dropResult (ListWorkloads E i st)"
| "serve E (ApiGetWorkload i) = dropResult (GetWorkload E i)"
| "serve E ApiSummary = dropResult (GetClusterSummary E)"

section \<open>Guarantees\<close>

context etcd_client
begin

lemma safe_dropResult: "safe view K X m (\<lambda>_. True) \<Longrightarrow> safe view K X (dropResult m) (\<lambda>_. True)"
  unfolding dropResult_def by (rule fp.g_seq) (auto intro: fp.g_return)

lemma safe_reported [op_intros]:
  "safe view UNIV X (applyReported E ws) (\<lambda>_. True)" "safe view UNIV X (applyUsage E u) (\<lambda>_. True)"
  unfolding applyReported_def applyUsage_def by (rule fp.g_rules op_intros subset_UNIV TrueI)+

lemma safe_apiRegisterNode [op_intros]: "safe view UNIV X (apiRegisterNode E q) (\<lambda>_. True)"
  unfolding apiRegisterNode_def by (rule fp.g_rules op_intros subset_UNIV TrueI)+

lemma safe_Heartbeat [op_intros]: "safe view UNIV X (Heartbeat E q) (\<lambda>_. True)"
  unfolding Heartbeat_def by (rule fp.g_rules op_intros subset_UNIV UNIV_I TrueI)+

lemma safe_reconcileNow [op_intros]: "safe view UNIV X (reconcileNow E w) (\<lambda>_. True)"
  unfolding reconcileNow_def by (rule fp.g_rules op_intros subset_UNIV TrueI)+

lemma safe_ApplyWorkload [op_intros]: "safe view UNIV X (ApplyWorkload vmOf E q) (\<lambda>_. True)"
  unfolding ApplyWorkload_def by (rule fp.g_rules op_intros safe_CreateWorkload subset_UNIV TrueI)+

lemma safe_decisions [op_intros]:
  "safe view UNIV X (rejected E r) (\<lambda>_. True)" "safe view UNIV X (accepted E i l r a) (\<lambda>_. True)"
  unfolding rejected_def accepted_def by (rule fp.g_rules op_intros subset_UNIV TrueI)+

lemma safe_suggestDesired [op_intros]: "safe view UNIV X (suggestDesired E i l d) (\<lambda>_. True)"
  unfolding suggestDesired_def by (rule fp.g_rules op_intros subset_UNIV TrueI)+

lemma safe_action:
  "safe view K X a Q \<Longrightarrow> safe view K X b Q \<Longrightarrow> safe view K X c Q \<Longrightarrow> safe view K X d Q \<Longrightarrow> safe view K X e Q \<Longrightarrow>
   safe view K X (case v of AA_UNSPECIFIED \<Rightarrow> a | AA_SET_DESIRED_STATE \<Rightarrow> b | AA_RETRY_WORKLOAD \<Rightarrow> c
     | AA_DELETE_WORKLOAD \<Rightarrow> d | AA_SCALE_REPLICAS \<Rightarrow> e) Q"
  by (cases v) simp_all

lemma safe_SubmitAutomationSuggestion [op_intros]: "safe view UNIV X (SubmitAutomationSuggestion E q) (\<lambda>_. True)"
  unfolding SubmitAutomationSuggestion_def by (rule safe_action fp.g_rules op_intros subset_UNIV TrueI)+

lemma safe_simple_calls [op_intros]:
  "safe view UNIV X (apiDeleteWorkload E i) (\<lambda>_. True)" "safe view UNIV X (RetryWorkload E i) (\<lambda>_. True)"
  "safe view K X (ListNodes E st) (\<lambda>_. True)" "safe view K X (GetNode E i) (\<lambda>_. True)"
  "safe view K X (ListWorkloads E i st) (\<lambda>_. True)" "safe view K X (GetWorkload E i) (\<lambda>_. True)"
  "safe view K X (GetClusterSummary E) (\<lambda>_. True)"
  unfolding apiDeleteWorkload_def RetryWorkload_def ListNodes_def GetNode_def ListWorkloads_def GetWorkload_def
    GetClusterSummary_def
  by (rule fp.g_rules op_intros subset_UNIV TrueI)+

lemma safe_serve [op_intros]: "safe view UNIV X (serve E q) (\<lambda>_. True)"
  by (cases q; simp only: serve.simps; rule safe_dropResult op_intros; rule op_intros)

end

end
