(* ===== verification/Availability.thy ===== *)
theory Availability
  imports ControlApi
begin

text \<open>
  When the scheduler freezes and when it does not. Three guarantees of every operation, for
  any behaviour of the agents, of Redis and of the clock: an operation never makes a frozen
  scheduler live again (only the mode supervisor does), if etcd answers every request it
  never freezes a live one, and it leaves the configuration alone.
\<close>

named_theorems keep_intros \<open>operations that keep the mode\<close>

section \<open>A reliable etcd\<close>

definition reliable :: "'w env \<Rightarrow> bool" where
  "reliable E = ((\<forall>k v w. fst (etcdPut E k v w) = None) \<and> (\<forall>k w. fst (etcdDelete E k w) = None) \<and>
     (\<forall>k w. \<exists>x. fst (etcdGet E k w) = Inr x) \<and> (\<forall>p w. \<exists>x. fst (etcdGetPrefix E p w) = Inr x))"

definition mode_kept :: "'w env \<Rightarrow> 'w sched \<Rightarrow> 'w sched \<Rightarrow> bool" where
  "mode_kept E s t = (same_setup s t \<and> (writable t \<longrightarrow> writable s) \<and> (reliable E \<longrightarrow> writable s \<longrightarrow> writable t))"

abbreviation keeps :: "'w env \<Rightarrow> ('w, 'a) op \<Rightarrow> bool" where
  "keeps E m \<equiv> ensures (\<lambda>_. True) (mode_kept E) m (\<lambda>_. True)"

interpretation kp: guarantee "\<lambda>_. True" "mode_kept E" for E
  by (unfold_locales; unfold mode_kept_def; blast intro: same_setup_refl same_setup_trans)

lemmas keep_rules = kp.g_rules kp.g_fold_st [where Q = "\<lambda>_. True"] TrueI

lemma keepsD: "keeps E m \<Longrightarrow> run_state m s = (x, t) \<Longrightarrow> mode_kept E s t"
  using ensuresD(2) [of "\<lambda>_. True" "mode_kept E" m "\<lambda>_. True" s] by simp

section \<open>Primitive operations\<close>

lemma keeps_modify: "(\<And>s. sc_mode (f s) = sc_mode s \<and> same_setup s (f s)) \<Longrightarrow> keeps E (modify f)"
  by (simp add: ensures_def mode_kept_def writable_def)

lemma keeps_caches [keep_intros]:
  "keeps E (cacheNode n)" "keeps E (cacheWorkload w)" "keeps E (cacheAssignment a)"
  "keeps E (removeCachedWorkload i)" "keeps E (setCacheNodes ns)" "keeps E (setCacheWorkloads ws)"
  unfolding cacheNode_def cacheWorkload_def cacheAssignment_def removeCachedWorkload_def
    setCacheNodes_def setCacheWorkloads_def
  by (rule keeps_modify, simp)+

lemma keeps_reads_of_state [keep_intros]:
  "keeps E requireWritable" "keeps E (getCachedNode i)" "keeps E (getCachedWorkload i)"
  "keeps E getCachedNodes" "keeps E getCachedWorkloads"
  unfolding requireWritable_def getCachedNode_def getCachedWorkload_def getCachedNodes_def
    getCachedWorkloads_def
  by (simp_all add: ensures_def mode_kept_def)

lemma keeps_call [keep_intros]: "keeps E (call f)"
  by (simp add: ensures_def mode_kept_def writable_def)

lemma keeps_sleep [keep_intros]: "keeps E (sleep E d)"
  by (simp add: ensures_def mode_kept_def writable_def)

lemma reliable_write:
  assumes "\<And>w. fst (f w) = None"
  shows "fst (run_state (write_attempts E n f) s) = None"
  using assms by (subst write_attempts.simps) (simp split: option.splits)

lemma reliable_read:
  assumes "\<And>w. \<exists>x. fst (f w) = Inr x"
  shows "\<exists>x. fst (run_state (read_attempts E n f) s) = Inr x"
  using assms [of "sc_world s"] by (subst read_attempts.simps) auto

text \<open>A call that is retried and freezes the scheduler when all attempts failed.\<close>

lemma keeps_guarded:
  assumes "\<And>s x t. run_state m s = (x, t) \<Longrightarrow>
      t = s \<or> (\<exists>u. same_control s u \<and> (t = u \<or> \<not> reliable E \<and> (\<exists>r. t = snd (run_state (enterDegraded E r) u))))"
  shows "keeps E m"
  unfolding ensures_def
proof (intro allI impI conjI TrueI)
  fix s
  obtain x t where run: "run_state m s = (x, t)" by fastforce
  have frozen: "\<not> writable (snd (run_state (enterDegraded E r) u))" for r u by (simp add: writable_def)
  from assms [OF run] consider "t = s" | "same_control s t"
    | u r where "\<not> reliable E" "same_control s u" "t = snd (run_state (enterDegraded E r) u)" by blast
  then have "mode_kept E s t"
  proof cases
    case 2
    then show ?thesis by (simp add: mode_kept_def same_control_sel(3,7))
  next
    case 3
    have "same_setup s t"
      unfolding 3(3) by (rule same_setup_trans [OF same_control_sel(3) [OF 3(2)] enterDegraded_caches(4)])
    with 3 frozen show ?thesis by (simp add: mode_kept_def)
  qed (simp add: mode_kept_def)
  then show "mode_kept E s (snd (run_state m s))" by (simp add: run)
qed

lemma keeps_put [keep_intros]: "keeps E (RetryableEtcdPut E k v)"
proof (rule keeps_guarded)
  fix s x t assume run: "run_state (RetryableEtcdPut E k v) s = (x, t)"
  define a where "a = run_state (write_attempts E maxRetries (etcdPut E k v)) s"
  have c: "same_control s (snd a)" unfolding a_def by (rule write_attempts_control)
  have ok: "fst a = None" if "reliable E"
    using that unfolding a_def by (intro reliable_write) (auto simp: reliable_def)
  have "t = s \<or> t = snd a \<or> fst a \<noteq> None \<and> (\<exists>r. t = snd (run_state (enterDegraded E r) (snd a)))"
    using run unfolding RetryableEtcdPut_def a_def by (auto simp: case_prod_beta split: if_splits option.splits)
  with c ok show "t = s \<or> (\<exists>u. same_control s u \<and> (t = u \<or> \<not> reliable E \<and>
      (\<exists>r. t = snd (run_state (enterDegraded E r) u))))"
    by blast
qed

lemma keeps_delete [keep_intros]: "keeps E (RetryableEtcdDelete E k)"
proof (rule keeps_guarded)
  fix s x t assume run: "run_state (RetryableEtcdDelete E k) s = (x, t)"
  define a where "a = run_state (write_attempts E maxRetries (etcdDelete E k)) s"
  have c: "same_control s (snd a)" unfolding a_def by (rule write_attempts_control)
  have ok: "fst a = None" if "reliable E"
    using that unfolding a_def by (intro reliable_write) (auto simp: reliable_def)
  have "t = s \<or> t = snd a \<or> fst a \<noteq> None \<and> (\<exists>r. t = snd (run_state (enterDegraded E r) (snd a)))"
    using run unfolding RetryableEtcdDelete_def a_def by (auto simp: case_prod_beta split: if_splits option.splits)
  with c ok show "t = s \<or> (\<exists>u. same_control s u \<and> (t = u \<or> \<not> reliable E \<and>
      (\<exists>r. t = snd (run_state (enterDegraded E r) u))))"
    by blast
qed

lemma keeps_get [keep_intros]: "keeps E (RetryableEtcdGet E k)"
proof (rule keeps_guarded)
  fix s x t assume run: "run_state (RetryableEtcdGet E k) s = (x, t)"
  define a where "a = run_state (read_attempts E maxRetries (etcdGet E k)) s"
  have c: "same_control s (snd a)" unfolding a_def by (rule read_attempts_control)
  have ok: "\<not> isl (fst a)" if "reliable E"
    using that reliable_read [of "etcdGet E k" E maxRetries s] unfolding a_def by (auto simp: reliable_def)
  have "t = snd a \<or> isl (fst a) \<and> (\<exists>r. t = snd (run_state (enterDegraded E r) (snd a)))"
    using run unfolding RetryableEtcdGet_def a_def by (auto simp: case_prod_beta split: sum.splits)
  with c ok show "t = s \<or> (\<exists>u. same_control s u \<and> (t = u \<or> \<not> reliable E \<and>
      (\<exists>r. t = snd (run_state (enterDegraded E r) u))))"
    by blast
qed

lemma keeps_range [keep_intros]: "keeps E (RetryableEtcdGetPrefix E p)"
proof (rule keeps_guarded)
  fix s x t assume run: "run_state (RetryableEtcdGetPrefix E p) s = (x, t)"
  define a where "a = run_state (read_attempts E maxRetries (etcdGetPrefix E p)) s"
  have c: "same_control s (snd a)" unfolding a_def by (rule read_attempts_control)
  have ok: "\<not> isl (fst a)" if "reliable E"
    using that reliable_read [of "etcdGetPrefix E p" E maxRetries s] unfolding a_def by (auto simp: reliable_def)
  have "t = snd a \<or> isl (fst a) \<and> (\<exists>r. t = snd (run_state (enterDegraded E r) (snd a)))"
    using run unfolding RetryableEtcdGetPrefix_def a_def by (auto simp: case_prod_beta split: sum.splits)
  with c ok show "t = s \<or> (\<exists>u. same_control s u \<and> (t = u \<or> \<not> reliable E \<and>
      (\<exists>r. t = snd (run_state (enterDegraded E r) u))))"
    by blast
qed

lemma keeps_list [keep_intros]:
  "keeps E a \<Longrightarrow> (\<And>x xs. keeps E (b x xs)) \<Longrightarrow> keeps E (case v of [] \<Rightarrow> a | x # xs \<Rightarrow> b x xs)"
  by (cases v) auto

lemma keeps_outcome [keep_intros]:
  "keeps E a \<Longrightarrow> keeps E b \<Longrightarrow> keeps E c \<Longrightarrow>
   keeps E (case v of InGrace \<Rightarrow> a | Exhausted \<Rightarrow> b | Scheduled \<Rightarrow> c)"
  by (cases v) auto

lemma keeps_poll_until [keep_intros]:
  "(\<And>b. keeps E (step b)) \<Longrightarrow> keeps E (poll_until fuel step b)"
  by (induction fuel arbitrary: b) (auto intro!: kp.g_return kp.g_seq kp.g_sum)

section \<open>State store\<close>

lemma keeps_initializeWorkloadDefaults [keep_intros]: "keeps E (initializeWorkloadDefaults E a)"
  unfolding initializeWorkloadDefaults_def by (rule keep_rules keep_intros)+

lemma keeps_writeReconciliationTelemetry [keep_intros]: "keeps E (writeReconciliationTelemetry E a b c d e)"
  unfolding writeReconciliationTelemetry_def by (rule keep_rules keep_intros)+

lemma keeps_writeEventTelemetry [keep_intros]: "keeps E (writeEventTelemetry E a)"
  unfolding writeEventTelemetry_def by (rule keep_rules keep_intros)+

lemma keeps_writeAssignment [keep_intros]: "keeps E (writeAssignment E a b c)"
  unfolding writeAssignment_def by (rule keep_rules keep_intros)+

lemma keeps_writeReconciliationRecord [keep_intros]: "keeps E (writeReconciliationRecord E a b c d)"
  unfolding writeReconciliationRecord_def by (rule keep_rules keep_intros)+

lemma keeps_emitEvent [keep_intros]: "keeps E (emitEvent E a b c d e)"
  unfolding emitEvent_def by (rule keep_rules keep_intros)+

lemma keeps_writeDriftRecord [keep_intros]: "keeps E (writeDriftRecord E a)"
  unfolding writeDriftRecord_def by (rule keep_rules keep_intros)+

lemma keeps_clearDriftRecord [keep_intros]: "keeps E (clearDriftRecord E a b c)"
  unfolding clearDriftRecord_def by (rule keep_rules keep_intros)+

lemma keeps_ListSchedulerEvents [keep_intros]: "keeps E (ListSchedulerEvents E a)"
  unfolding ListSchedulerEvents_def by (rule keep_rules keep_intros)+

section \<open>Managed storage\<close>

lemma keeps_getManagedVolumeRecord [keep_intros]: "keeps E (getManagedVolumeRecord E a)"
  unfolding getManagedVolumeRecord_def by (rule keep_rules keep_intros)+

lemma keeps_saveManagedVolumeRecord [keep_intros]: "keeps E (saveManagedVolumeRecord E a)"
  unfolding saveManagedVolumeRecord_def by (rule keep_rules keep_intros)+

lemma keeps_deleteManagedVolumeRecord [keep_intros]: "keeps E (deleteManagedVolumeRecord E a)"
  unfolding deleteManagedVolumeRecord_def by (rule keep_rules keep_intros)+

lemma keeps_listManagedVolumeRecords [keep_intros]: "keeps E (listManagedVolumeRecords E)"
  unfolding listManagedVolumeRecords_def by (rule keep_rules keep_intros)+

lemma keeps_saveVolumeAttachmentRecord [keep_intros]: "keeps E (saveVolumeAttachmentRecord E a)"
  unfolding saveVolumeAttachmentRecord_def by (rule keep_rules keep_intros)+

lemma keeps_deleteVolumeAttachmentRecord [keep_intros]: "keeps E (deleteVolumeAttachmentRecord E a)"
  unfolding deleteVolumeAttachmentRecord_def by (rule keep_rules keep_intros)+

lemma keeps_listVolumeAttachmentsByWorkload [keep_intros]: "keeps E (listVolumeAttachmentsByWorkload E a)"
  unfolding listVolumeAttachmentsByWorkload_def by (rule keep_rules keep_intros)+

lemma keeps_detachAttachment [keep_intros]: "keeps E (detachAttachment E a b c d e)"
  unfolding detachAttachment_def by (rule keep_rules keep_intros)+

lemma keeps_releaseRequired [keep_intros]: "keeps E (releaseRequired E a b c)"
  unfolding releaseRequired_def by (rule keep_rules keep_intros)+

lemma keeps_attachRequired [keep_intros]: "keeps E (attachRequired E a b c d e f)"
  unfolding attachRequired_def by (rule keep_rules keep_intros)+

lemma keeps_syncRequired [keep_intros]: "keeps E (syncRequired E a b c d e)"
  unfolding syncRequired_def by (rule keep_rules keep_intros)+

lemma keeps_releaseStale [keep_intros]: "keeps E (releaseStale E a b c d e)"
  unfolding releaseStale_def by (rule keep_rules keep_intros)+

lemma keeps_syncWorkloadManagedStorage [keep_intros]: "keeps E (syncWorkloadManagedStorage E a)"
  unfolding syncWorkloadManagedStorage_def by (rule keep_rules keep_intros)+

lemma keeps_cleanupVolume [keep_intros]: "keeps E (cleanupVolume E a b c)"
  unfolding cleanupVolume_def by (rule keep_rules keep_intros)+

lemma keeps_cleanupManagedStorageForWorkload [keep_intros]: "keeps E (cleanupManagedStorageForWorkload E a)"
  unfolding cleanupManagedStorageForWorkload_def by (rule keep_rules keep_intros)+

lemma keeps_saveWorkload [keep_intros]: "keeps E (saveWorkload E a)"
  unfolding saveWorkload_def by (rule keep_rules keep_intros)+

section \<open>Placement\<close>

lemma keeps_considerNode [keep_intros]: "keeps E (considerNode E a b c d)"
  unfolding considerNode_def by (rule keep_rules keep_intros)+

lemma keeps_selectNodeForWorkload [keep_intros]: "keeps E (selectNodeForWorkload E a)"
  unfolding selectNodeForWorkload_def by (rule keep_rules keep_intros)+

section \<open>Nodes\<close>

lemma keeps_UpdateCoreDNS [keep_intros]: "keeps E (UpdateCoreDNS E a)"
  unfolding UpdateCoreDNS_def by (rule keep_rules keep_intros)+

lemma keeps_RegisterSchedulerInCoreDNS [keep_intros]: "keeps E (RegisterSchedulerInCoreDNS E a b)"
  unfolding RegisterSchedulerInCoreDNS_def by (rule keep_rules keep_intros)+

lemma keeps_RegisterSchedulerSelfInCoreDNS [keep_intros]: "keeps E (RegisterSchedulerSelfInCoreDNS E a)"
  unfolding RegisterSchedulerSelfInCoreDNS_def by (rule keep_rules keep_intros)+

lemma keeps_RegisterNode [keep_intros]: "keeps E (RegisterNode E a)"
  unfolding RegisterNode_def by (rule keep_rules keep_intros)+

lemma keeps_GetNodes [keep_intros]: "keeps E (GetNodes E)"
  unfolding GetNodes_def by (rule keep_rules keep_intros)+

lemma keeps_GetNodeByID [keep_intros]: "keeps E (GetNodeByID E a)"
  unfolding GetNodeByID_def by (rule keep_rules keep_intros)+

lemma keeps_DeleteNode [keep_intros]: "keeps E (DeleteNode E a)"
  unfolding DeleteNode_def by (rule keep_rules keep_intros)+

lemma keeps_loadNodeForUpdate [keep_intros]: "keeps E (loadNodeForUpdate E a)"
  unfolding loadNodeForUpdate_def by (rule keep_rules keep_intros)+

lemma keeps_UpdateNodeHeartbeat [keep_intros]: "keeps E (UpdateNodeHeartbeat E a b c d)"
  unfolding UpdateNodeHeartbeat_def by (rule keep_rules keep_intros)+

lemma keeps_MarkNodeWorkloadTypeUnsupported [keep_intros]: "keeps E (MarkNodeWorkloadTypeUnsupported E a b c)"
  unfolding MarkNodeWorkloadTypeUnsupported_def by (rule keep_rules keep_intros)+

lemma keeps_markNodeNotReady [keep_intros]: "keeps E (markNodeNotReady E a b c)"
  unfolding markNodeNotReady_def by (rule keep_rules keep_intros)+

lemma keeps_MarkNodeNotReady [keep_intros]: "keeps E (MarkNodeNotReady E a b)"
  unfolding MarkNodeNotReady_def by (rule keep_rules keep_intros)+

lemma keeps_MonitorNodes_tick [keep_intros]: "keeps E (MonitorNodes_tick E)"
  unfolding MonitorNodes_tick_def by (rule keep_rules keep_intros)+

section \<open>Agents\<close>

lemma keeps_loadClientTLSConfig [keep_intros]: "keeps E (loadClientTLSConfig E)"
  unfolding loadClientTLSConfig_def by (rule keep_rules keep_intros)+

lemma keeps_newAgentClient [keep_intros]: "keeps E (newAgentClient E a)"
  unfolding newAgentClient_def by (rule keep_rules keep_intros)+

lemma keeps_applyWorkloadOnNode [keep_intros]: "keeps E (applyWorkloadOnNode E a b)"
  unfolding applyWorkloadOnNode_def by (rule keep_rules keep_intros)+

lemma keeps_getWorkloadStatusFromNode [keep_intros]: "keeps E (getWorkloadStatusFromNode E a b)"
  unfolding getWorkloadStatusFromNode_def by (rule keep_rules keep_intros)+

lemma keeps_listWorkloadsFromNode [keep_intros]: "keeps E (listWorkloadsFromNode E a)"
  unfolding listWorkloadsFromNode_def by (rule keep_rules keep_intros)+

lemma keeps_getWorkloadActionsFromNode [keep_intros]: "keeps E (getWorkloadActionsFromNode E a b c)"
  unfolding getWorkloadActionsFromNode_def by (rule keep_rules keep_intros)+

lemma keeps_deleteWorkloadFromNode [keep_intros]: "keeps E (deleteWorkloadFromNode E a b)"
  unfolding deleteWorkloadFromNode_def by (rule keep_rules keep_intros)+

lemma keeps_wait_deadline [keep_intros]: "keeps E (wait_deadline E a b c d)"
  unfolding wait_deadline_def by (rule keep_rules keep_intros)+

lemma keeps_wait_step [keep_intros]: "keeps E (wait_step E a b c d)"
  unfolding wait_step_def by (rule keep_rules keep_intros)+

lemma keeps_waitForWorkloadTerminalStatus [keep_intros]: "keeps E (waitForWorkloadTerminalStatus a E b c d)"
  unfolding waitForWorkloadTerminalStatus_def by (rule keep_rules keep_intros)+

section \<open>Workload documents\<close>

lemma keeps_GetWorkloads [keep_intros]: "keeps E (GetWorkloads E)"
  unfolding GetWorkloads_def by (rule keep_rules keep_intros)+

lemma keeps_GetWorkloadByID [keep_intros]: "keeps E (GetWorkloadByID E a)"
  unfolding GetWorkloadByID_def by (rule keep_rules keep_intros)+

lemma keeps_GetWorkloadsByNode [keep_intros]: "keeps E (GetWorkloadsByNode E a)"
  unfolding GetWorkloadsByNode_def by (rule keep_rules keep_intros)+

lemma keeps_RefreshStateMetrics [keep_intros]: "keeps E (RefreshStateMetrics E)"
  unfolding RefreshStateMetrics_def by (rule keep_rules keep_intros)+

lemma keeps_loadWorkloadForUpdate [keep_intros]: "keeps E (loadWorkloadForUpdate E a)"
  unfolding loadWorkloadForUpdate_def by (rule keep_rules keep_intros)+

lemma keeps_UpdateWorkloadStatus [keep_intros]: "keeps E (UpdateWorkloadStatus E a b)"
  unfolding UpdateWorkloadStatus_def by (rule keep_rules keep_intros)+

lemma keeps_UpdateWorkloadLogs [keep_intros]: "keeps E (UpdateWorkloadLogs E a b)"
  unfolding UpdateWorkloadLogs_def by (rule keep_rules keep_intros)+

lemma keeps_UpdateWorkloadMetadata [keep_intros]: "keeps E (UpdateWorkloadMetadata E a b)"
  unfolding UpdateWorkloadMetadata_def by (rule keep_rules keep_intros)+

lemma keeps_UpdateWorkloadRuntimeDetails [keep_intros]: "keeps E (UpdateWorkloadRuntimeDetails E a b c)"
  unfolding UpdateWorkloadRuntimeDetails_def by (rule keep_rules keep_intros)+

section \<open>Retries\<close>

lemma keeps_emitRetryEvent [keep_intros]: "keeps E (emitRetryEvent E a b c d)"
  unfolding emitRetryEvent_def by (rule keep_rules keep_intros)+

lemma keeps_UpdateWorkloadRetryOnFailure [keep_intros]: "keeps E (UpdateWorkloadRetryOnFailure E a b)"
  unfolding UpdateWorkloadRetryOnFailure_def by (rule keep_rules keep_intros)+

lemma keeps_TriggerWorkloadRetry [keep_intros]: "keeps E (TriggerWorkloadRetry E a)"
  unfolding TriggerWorkloadRetry_def by (rule keep_rules keep_intros)+

section \<open>Life cycle\<close>

lemma keeps_CreateWorkload [keep_intros]: "keeps E (CreateWorkload E a)"
  unfolding CreateWorkload_def by (rule keep_rules keep_intros)+

lemma keeps_UpdateWorkloadSpec [keep_intros]: "keeps E (UpdateWorkloadSpec E a b)"
  unfolding UpdateWorkloadSpec_def by (rule keep_rules keep_intros)+

lemma keeps_MarkWorkloadDeleted [keep_intros]: "keeps E (MarkWorkloadDeleted E a)"
  unfolding MarkWorkloadDeleted_def by (rule keep_rules keep_intros)+

lemma keeps_assignWorkload [keep_intros]: "keeps E (assignWorkload E a b c)"
  unfolding assignWorkload_def by (rule keep_rules keep_intros)+

lemma keeps_EnsureWorkloadAssigned [keep_intros]: "keeps E (EnsureWorkloadAssigned E a)"
  unfolding EnsureWorkloadAssigned_def by (rule keep_rules keep_intros)+

lemma keeps_ScheduleWorkload [keep_intros]: "keeps E (ScheduleWorkload E a)"
  unfolding ScheduleWorkload_def by (rule keep_rules keep_intros)+

lemma keeps_delete_step [keep_intros]: "keeps E (delete_step E a b c d)"
  unfolding delete_step_def by (rule keep_rules keep_intros)+

lemma keeps_deleteOnNode [keep_intros]: "keeps E (deleteOnNode E a b)"
  unfolding deleteOnNode_def by (rule keep_rules keep_intros)+

lemma keeps_removeWorkloadState [keep_intros]: "keeps E (removeWorkloadState E a)"
  unfolding removeWorkloadState_def by (rule keep_rules keep_intros)+

lemma keeps_DeleteWorkload [keep_intros]: "keeps E (DeleteWorkload E a)"
  unfolding DeleteWorkload_def by (rule keep_rules keep_intros)+

section \<open>Reconciliation\<close>

lemma keeps_nextReapplyAttempt [keep_intros]: "keeps E (nextReapplyAttempt E a)"
  unfolding nextReapplyAttempt_def by (rule keep_rules keep_intros)+

lemma keeps_reapplyStillGuarded [keep_intros]: "keeps E (reapplyStillGuarded E a)"
  unfolding reapplyStillGuarded_def Let_def by (rule keep_rules keep_intros)+

lemma keeps_getActualWorkloadState [keep_intros]: "keeps E (getActualWorkloadState E a)"
  unfolding getActualWorkloadState_def by (rule keep_rules keep_intros)+

lemma keeps_resetReapplyBackoff [keep_intros]: "keeps E (resetReapplyBackoff E a)"
  unfolding resetReapplyBackoff_def by (rule keep_rules keep_intros)+

lemma keeps_applyDesiredState [keep_intros]: "keeps E (applyDesiredState E a b c)"
  unfolding applyDesiredState_def by (rule keep_rules keep_intros)+

lemma keeps_deleteDesiredWorkload [keep_intros]: "keeps E (deleteDesiredWorkload E a)"
  unfolding deleteDesiredWorkload_def by (rule keep_rules keep_intros)+

lemma keeps_haltReapply [keep_intros]: "keeps E (haltReapply E a b)"
  unfolding haltReapply_def by (rule keep_rules keep_intros)+

lemma keeps_performReconciliation [keep_intros]: "keeps E (performReconciliation E a b)"
  unfolding performReconciliation_def by (rule keep_rules keep_intros)+

lemma keeps_handleRuntimeUnavailable [keep_intros]: "keeps E (handleRuntimeUnavailable E a b)"
  unfolding handleRuntimeUnavailable_def by (rule keep_rules keep_intros)+

lemma keeps_handleUnavailableAssignedNode [keep_intros]: "keeps E (handleUnavailableAssignedNode E a)"
  unfolding handleUnavailableAssignedNode_def by (rule keep_rules keep_intros)+

lemma keeps_updateWorkloadReconciliationStatus [keep_intros]: "keeps E (updateWorkloadReconciliationStatus E a b)"
  unfolding updateWorkloadReconciliationStatus_def by (rule keep_rules keep_intros)+

lemma keeps_concludeReconciliation [keep_intros]: "keeps E (concludeReconciliation E a b c d)"
  unfolding concludeReconciliation_def by (rule keep_rules keep_intros)+

lemma keeps_reconcileFinalizeDelete [keep_intros]: "keeps E (reconcileFinalizeDelete E a b)"
  unfolding reconcileFinalizeDelete_def by (rule keep_rules keep_intros)+

lemma keeps_reconcileFailover [keep_intros]: "keeps E (reconcileFailover E a b c)"
  unfolding reconcileFailover_def by (rule keep_rules keep_intros)+

lemma keeps_reconcileInvestigate [keep_intros]: "keeps E (reconcileInvestigate E a b c)"
  unfolding reconcileInvestigate_def by (rule keep_rules keep_intros)+

lemma keeps_reconcileAct [keep_intros]: "keeps E (reconcileAct E a b c)"
  unfolding reconcileAct_def by (rule keep_rules keep_intros)+

lemma keeps_reconcileObserve [keep_intros]: "keeps E (reconcileObserve E a b)"
  unfolding reconcileObserve_def by (rule keep_rules keep_intros)+

lemma keeps_retryDue [keep_intros]: "keeps E (retryDue E a)"
  unfolding retryDue_def by (rule keep_rules keep_intros)+

lemma keeps_reconcileAssigned [keep_intros]: "keeps E (reconcileAssigned E a b)"
  unfolding reconcileAssigned_def by (rule keep_rules keep_intros)+

lemma keeps_ReconcileWorkload [keep_intros]: "keeps E (ReconcileWorkload E a)"
  unfolding ReconcileWorkload_def by (rule keep_rules keep_intros)+

lemma keeps_ReconcileAllWorkloads [keep_intros]: "keeps E (ReconcileAllWorkloads E)"
  unfolding ReconcileAllWorkloads_def by (rule keep_rules keep_intros)+

lemma keeps_ReconciliationLoop_tick [keep_intros]: "keeps E (ReconciliationLoop_tick E)"
  unfolding ReconciliationLoop_tick_def by (rule keep_rules keep_intros)+

lemma keeps_statsStep [keep_intros]: "keeps E (statsStep E a b)"
  unfolding statsStep_def by (rule keep_rules keep_intros)+

lemma keeps_GetReconciliationStats [keep_intros]: "keeps E (GetReconciliationStats E)"
  unfolding GetReconciliationStats_def by (rule keep_rules keep_intros)+

section \<open>Drift detection and monitoring\<close>

lemma keeps_driftProbeEligible [keep_intros]: "keeps E (driftProbeEligible E a)"
  unfolding driftProbeEligible_def by (rule keep_rules keep_intros)+

lemma keeps_isNodeLikelyUnavailable [keep_intros]: "keeps E (isNodeLikelyUnavailable E a)"
  unfolding isNodeLikelyUnavailable_def by (rule keep_rules keep_intros)+

lemma keeps_markDrift [keep_intros]: "keeps E (markDrift E a)"
  unfolding markDrift_def by (rule keep_rules keep_intros)+

lemma keeps_remediateStateMismatch [keep_intros]: "keeps E (remediateStateMismatch E a b)"
  unfolding remediateStateMismatch_def by (rule keep_rules keep_intros)+

lemma keeps_remediateRevisionMismatch [keep_intros]: "keeps E (remediateRevisionMismatch E a b)"
  unfolding remediateRevisionMismatch_def by (rule keep_rules keep_intros)+

lemma keeps_remediateMissingOnAgent [keep_intros]: "keeps E (remediateMissingOnAgent E a)"
  unfolding remediateMissingOnAgent_def by (rule keep_rules keep_intros)+

lemma keeps_deleteOrphanFromNode [keep_intros]: "keeps E (deleteOrphanFromNode E a b)"
  unfolding deleteOrphanFromNode_def by (rule keep_rules keep_intros)+

lemma keeps_adoptOrphanedWorkload [keep_intros]: "keeps E (adoptOrphanedWorkload E a b c d e)"
  unfolding adoptOrphanedWorkload_def by (rule keep_rules keep_intros)+

lemma keeps_adoptAs [keep_intros]: "keeps E (adoptAs E a b c d e f)"
  unfolding adoptAs_def by (rule keep_rules keep_intros)+

lemma keeps_deleteAs [keep_intros]: "keeps E (deleteAs E a b c d)"
  unfolding deleteAs_def by (rule keep_rules keep_intros)+

lemma keeps_remediateKnownOrphan [keep_intros]: "keeps E (remediateKnownOrphan E a b c d e)"
  unfolding remediateKnownOrphan_def by (rule keep_rules keep_intros)+

lemma keeps_remediateOrphanOnAgent [keep_intros]: "keeps E (remediateOrphanOnAgent E a b c d)"
  unfolding remediateOrphanOnAgent_def by (rule keep_rules keep_intros)+

lemma keeps_compareReported [keep_intros]: "keeps E (compareReported E a b c d)"
  unfolding compareReported_def by (rule keep_rules keep_intros)+

lemma keeps_compareExpected [keep_intros]: "keeps E (compareExpected E a b c d)"
  unfolding compareExpected_def by (rule keep_rules keep_intros)+

lemma keeps_compareNodeDrift [keep_intros]: "keeps E (compareNodeDrift E a b c d)"
  unfolding compareNodeDrift_def by (rule keep_rules keep_intros)+

lemma keeps_probeNode [keep_intros]: "keeps E (probeNode E a b c)"
  unfolding probeNode_def by (rule keep_rules keep_intros)+

lemma keeps_detectDriftOnce [keep_intros]: "keeps E (detectDriftOnce E)"
  unfolding detectDriftOnce_def by (rule keep_rules keep_intros)+

lemma keeps_syncWorkloadStatus [keep_intros]: "keeps E (syncWorkloadStatus E a)"
  unfolding syncWorkloadStatus_def by (rule keep_rules keep_intros)+

lemma keeps_MonitorWorkloads_tick [keep_intros]: "keeps E (MonitorWorkloads_tick E)"
  unfolding MonitorWorkloads_tick_def by (rule keep_rules keep_intros)+

section \<open>The control API\<close>

lemma keeps_reported [keep_intros]:
  "keeps E (applyReported E ws)" "keeps E (applyUsage E u)"
  unfolding applyReported_def applyUsage_def by (rule keep_rules keep_intros)+

lemma keeps_apiRegisterNode [keep_intros]: "keeps E (apiRegisterNode E q)"
  unfolding apiRegisterNode_def by (rule keep_rules keep_intros)+

lemma keeps_Heartbeat [keep_intros]: "keeps E (Heartbeat E q)"
  unfolding Heartbeat_def by (rule keep_rules keep_intros)+

lemma keeps_reconcileNow [keep_intros]: "keeps E (reconcileNow E w)"
  unfolding reconcileNow_def by (rule keep_rules keep_intros)+

lemma keeps_ApplyWorkload [keep_intros]: "keeps E (ApplyWorkload vmOf E q)"
  unfolding ApplyWorkload_def by (rule keep_rules keep_intros)+

lemma keeps_decisions [keep_intros]: "keeps E (rejected E r)" "keeps E (accepted E i l r a)"
  unfolding rejected_def accepted_def by (rule keep_rules keep_intros)+

lemma keeps_suggestDesired [keep_intros]: "keeps E (suggestDesired E i l d)"
  unfolding suggestDesired_def by (rule keep_rules keep_intros)+

lemma keeps_action [keep_intros]:
  "keeps E a \<Longrightarrow> keeps E b \<Longrightarrow> keeps E c \<Longrightarrow> keeps E d \<Longrightarrow> keeps E e \<Longrightarrow>
   keeps E (case v of AA_UNSPECIFIED \<Rightarrow> a | AA_SET_DESIRED_STATE \<Rightarrow> b | AA_RETRY_WORKLOAD \<Rightarrow> c
     | AA_DELETE_WORKLOAD \<Rightarrow> d | AA_SCALE_REPLICAS \<Rightarrow> e)"
  by (cases v) simp_all

lemma keeps_SubmitAutomationSuggestion [keep_intros]: "keeps E (SubmitAutomationSuggestion E q)"
  unfolding SubmitAutomationSuggestion_def by (rule keep_rules keep_intros)+

lemma keeps_simple_calls [keep_intros]:
  "keeps E (apiDeleteWorkload E i)" "keeps E (RetryWorkload E i)" "keeps E (ListNodes E st)" "keeps E (GetNode E i)"
  "keeps E (ListWorkloads E i st)" "keeps E (GetWorkload E i)" "keeps E (GetClusterSummary E)"
  unfolding apiDeleteWorkload_def RetryWorkload_def ListNodes_def GetNode_def ListWorkloads_def GetWorkload_def
    GetClusterSummary_def
  by (rule keep_rules keep_intros)+

lemma keeps_serve [keep_intros]: "keeps E (serve E q)"
  by (cases q) (simp_all only: serve.simps dropResult_def, (rule keep_rules keep_intros)+)

end
