(* ===== verification/Effects.thy ===== *)
theory Effects
  imports Availability Demo
begin

text \<open>
  What operations achieve. An operation that ends with the scheduler still live has had
  every one of its writes accepted and every one of its reads answered, so its effect on
  the store is a function of the documents it found and the times and identifiers it drew.
  \<open>achieves z view c m Q\<close>: run with the configuration of \<open>z\<close> on the store content \<open>c\<close>, the
  program \<open>m\<close> either leaves the scheduler frozen, or started live, keeps the configuration
  and ends with a result and a content that satisfy \<open>Q\<close>.
  The rules compute the condition backwards through a program.
\<close>

named_theorems achieve_intros \<open>what each operation achieves\<close>

type_synonym content = "string \<Rightarrow> payload option"

definition achieves ::
  "'w sched \<Rightarrow> ('w \<Rightarrow> content) \<Rightarrow> content \<Rightarrow> ('w, 'a) op \<Rightarrow> ('a \<Rightarrow> content \<Rightarrow> bool) \<Rightarrow> bool" where
  "achieves z view c m Q = (\<forall>s. same_setup z s \<longrightarrow> view (sc_world s) = c \<longrightarrow> writable (snd (run_state m s)) \<longrightarrow>
     writable s \<and> same_setup z (snd (run_state m s)) \<and>
     Q (fst (run_state m s)) (view (sc_world (snd (run_state m s)))))"

lemma achievesI:
  "(\<And>s x t. run_state m s = (x, t) \<Longrightarrow> same_setup z s \<Longrightarrow> view (sc_world s) = c \<Longrightarrow> writable t \<Longrightarrow>
     writable s \<and> same_setup z t \<and> Q x (view (sc_world t))) \<Longrightarrow> achieves z view c m Q"
  unfolding achieves_def by (metis prod.collapse)

lemma achieves_run:
  "achieves z view c m Q \<Longrightarrow> run_state m s = (x, t) \<Longrightarrow> same_setup z s \<Longrightarrow> view (sc_world s) = c \<Longrightarrow> writable t \<Longrightarrow>
   writable s \<and> same_setup z t \<and> Q x (view (sc_world t))"
  by (force simp: achieves_def)

lemma achievesD:
  "achieves s view (view (sc_world s)) m Q \<Longrightarrow> run_state m s = (x, t) \<Longrightarrow> writable t \<Longrightarrow>
   writable s \<and> Q x (view (sc_world t))"
  by (force simp: achieves_def)

lemma achieves_weaken:
  "achieves z view c m Q \<Longrightarrow> (\<And>x c'. Q x c' \<Longrightarrow> P x c') \<Longrightarrow> achieves z view c m P"
  by (force simp: achieves_def)

text \<open>For an operation that keeps the mode and the configuration only the result is left to show.\<close>

lemma achieves_keeps:
  assumes "keeps E m"
    and "\<And>s x t. run_state m s = (x, t) \<Longrightarrow> same_setup z s \<Longrightarrow> view (sc_world s) = c \<Longrightarrow> writable s \<Longrightarrow> writable t \<Longrightarrow>
      Q x (view (sc_world t))"
  shows "achieves z view c m Q"
proof (rule achievesI)
  fix s x t assume run: "run_state m s = (x, t)" "same_setup z s" "view (sc_world s) = c" "writable t"
  have "mode_kept E s t" by (rule keepsD [OF assms(1) run(1)])
  with run assms(2) [OF run(1-3)] same_setup_trans [of z s t]
  show "writable s \<and> same_setup z t \<and> Q x (view (sc_world t))" by (simp add: mode_kept_def)
qed

lemma achieves_return: "Q x c \<Longrightarrow> achieves z view c (ret x) Q"
  by (simp add: achieves_def)

lemma achieves_bind:
  assumes f: "\<And>x. keeps E (f x)" and m: "achieves z view c m (\<lambda>x c'. achieves z view c' (f x) Q)"
  shows "achieves z view c (State_Monad.bind m f) Q"
proof (rule achievesI)
  fix s y u
  assume run: "run_state (State_Monad.bind m f) s = (y, u)" "same_setup z s" "view (sc_world s) = c" "writable u"
  obtain x t where r1: "run_state m s = (x, t)" by fastforce
  with run(1) have r2: "run_state (f x) t = (y, u)" by simp
  have "writable t" using keepsD [OF f r2] run(4) by (simp add: mode_kept_def)
  from achieves_run [OF m r1 run(2,3) this]
  have t: "writable s" "same_setup z t" "achieves z view (view (sc_world t)) (f x) Q" by auto
  from achieves_run [OF t(3) r2 t(2) refl run(4)] t(1)
  show "writable s \<and> same_setup z u \<and> Q y (view (sc_world u))" by simp
qed

lemma achieves_let: "achieves z view c (f v) Q \<Longrightarrow> achieves z view c (let x = v in f x) Q"
  by simp

lemma achieves_if:
  "(b \<Longrightarrow> achieves z view c m Q) \<Longrightarrow> (\<not> b \<Longrightarrow> achieves z view c n Q) \<Longrightarrow> achieves z view c (if b then m else n) Q"
  by simp

lemma achieves_doif:
  "(b \<Longrightarrow> achieves z view c m (\<lambda>_. Q ())) \<Longrightarrow> (\<not> b \<Longrightarrow> Q () c) \<Longrightarrow> achieves z view c (doif b m) Q"
  by (auto simp: achieves_def)

lemma achieves_prod:
  "(\<And>x y. p = (x, y) \<Longrightarrow> achieves z view c (f x y) Q) \<Longrightarrow> achieves z view c (case p of (x, y) \<Rightarrow> f x y) Q"
  by (cases p) simp

lemma achieves_option:
  "(v = None \<Longrightarrow> achieves z view c m Q) \<Longrightarrow> (\<And>x. v = Some x \<Longrightarrow> achieves z view c (f x) Q) \<Longrightarrow>
   achieves z view c (case v of None \<Rightarrow> m | Some x \<Rightarrow> f x) Q"
  by (cases v) simp_all

lemma achieves_sum:
  "(\<And>e. v = Inl e \<Longrightarrow> achieves z view c (g e) Q) \<Longrightarrow> (\<And>x. v = Inr x \<Longrightarrow> achieves z view c (f x) Q) \<Longrightarrow>
   achieves z view c (case v of Inl e \<Rightarrow> g e | Inr x \<Rightarrow> f x) Q"
  by (cases v) simp_all

lemma achieves_control:
  "Q ModeNormal c \<Longrightarrow> achieves z view c currentMode Q"
  "P True c \<Longrightarrow> achieves z view c isWritable P"
  "R None c \<Longrightarrow> achieves z view c requireWritable R"
  by (auto simp: achieves_def writable_def)

lemma achieves_gets: "(\<And>x. Q x c) \<Longrightarrow> achieves z view c (gets f) Q"
  by (simp add: achieves_def)

lemma achieves_setup:
  "Q1 (sc_cfg z) c \<Longrightarrow> achieves z view c (gets sc_cfg) Q1"
  "Q2 (sc_domain z) c \<Longrightarrow> achieves z view c (gets sc_domain) Q2"
  "Q2 (sc_agentsDomain z) c \<Longrightarrow> achieves z view c (gets sc_agentsDomain) Q2"
  "Q2 (sc_schedulerShard z) c \<Longrightarrow> achieves z view c (gets sc_schedulerShard) Q2"
  "Q3 (sc_redis z) c \<Longrightarrow> achieves z view c (gets sc_redis) Q3"
  by (auto simp: achieves_def same_setup_def)

lemma achieves_caches:
  "Q () c \<Longrightarrow> achieves z view c (cacheNode n) Q"
  "Q () c \<Longrightarrow> achieves z view c (cacheWorkload w) Q"
  "Q () c \<Longrightarrow> achieves z view c (cacheAssignment a) Q"
  "Q () c \<Longrightarrow> achieves z view c (removeCachedWorkload i) Q"
  "Q () c \<Longrightarrow> achieves z view c (setCacheWorkloads ws) Q"
  "Q () c \<Longrightarrow> achieves z view c (setCacheNodes ns) Q"
  by (auto simp: achieves_def writable_def cacheNode_def cacheWorkload_def cacheAssignment_def
      removeCachedWorkload_def setCacheWorkloads_def setCacheNodes_def)

lemma achieves_call:
  "(\<And>w. view (snd (f w)) = view w) \<Longrightarrow> (\<And>x. Q x c) \<Longrightarrow> achieves z view c (call f) Q"
  by (auto simp: achieves_def writable_def)

context etcd_client
begin

lemma achieves_world:
  "(\<And>t. Q t c) \<Longrightarrow> achieves z view c (now E) Q"
  "(\<And>u. P u c) \<Longrightarrow> achieves z view c (call (newUUID E)) P"
  by (rule achieves_call; simp)+

lemma achieves_sleep: "Q () c \<Longrightarrow> achieves z view c (sleep E d) Q"
  by (auto simp: achieves_def writable_def)

lemma achieves_put: "Q None (c(k \<mapsto> v)) \<Longrightarrow> achieves z view c (RetryableEtcdPut E k v) Q"
proof (rule achieves_keeps [OF keeps_put])
  fix s x t assume run: "run_state (RetryableEtcdPut E k v) s = (x, t)"
    and "Q None (c(k \<mapsto> v))" "view (sc_world s) = c" "writable t"
  with retry_put_ok [of k v s t] retry_put_err [of k v s _ t]
  show "Q x (view (sc_world t))" by (cases x) auto
qed

lemma achieves_delete: "Q None (c(k := None)) \<Longrightarrow> achieves z view c (RetryableEtcdDelete E k) Q"
proof (rule achieves_keeps [OF keeps_delete])
  fix s x t assume run: "run_state (RetryableEtcdDelete E k) s = (x, t)"
    and "Q None (c(k := None))" "view (sc_world s) = c" "writable t"
  with retry_del_ok [of k s t] retry_del_err [of k s _ t]
  show "Q x (view (sc_world t))" by (cases x) auto
qed

lemma achieves_get: "Q (Inr (c k)) c \<Longrightarrow> achieves z view c (RetryableEtcdGet E k) Q"
proof (rule achieves_keeps [OF keeps_get])
  fix s x t assume run: "run_state (RetryableEtcdGet E k) s = (x, t)"
    and "Q (Inr (c k)) c" "view (sc_world s) = c" "writable t"
  with retry_get_ok [of k s _ t] retry_get_err [of k s _ t] retry_get_content [of k s]
  show "Q x (view (sc_world t))" by (cases x) auto
qed

lemma achieves_range:
  assumes "\<And>kvs. distinct (map fst kvs) \<Longrightarrow>
      (\<And>k v. (k, v) \<in> set kvs \<longleftrightarrow> HasPrefix k p \<and> c k = Some v) \<Longrightarrow> Q (Inr kvs) c"
  shows "achieves z view c (RetryableEtcdGetPrefix E p) Q"
proof (rule achieves_keeps [OF keeps_range])
  fix s x t assume "run_state (RetryableEtcdGetPrefix E p) s = (x, t)" "view (sc_world s) = c" "writable t"
  with retry_range_ok [of p s _ t] retry_range_err [of p s _ t] retry_range_content [of p s] assms
  show "Q x (view (sc_world t))" by (cases x) auto
qed

lemmas achieve_rules = achieves_return achieves_bind [where E = E] achieves_let achieves_doif achieves_prod
  achieves_control achieves_caches achieves_world achieves_sleep achieves_put achieves_delete
  achieves_get achieves_range

end

section \<open>Workload documents\<close>

lemma keys_apart [simp]:
  "workloadSpecKey i \<noteq> workloadStatusKey j" "workloadSpecKey i \<noteq> workloadKey j" "workloadSpecKey i \<noteq> retryKey j"
  "workloadSpecKey i \<noteq> assignmentKey j" "workloadSpecKey i \<noteq> reconciliationKey j" "workloadSpecKey i \<noteq> eventKey j"
  "workloadSpecKey i \<noteq> managedVolumeKey j" "workloadSpecKey i \<noteq> nodeKey j"
  "workloadStatusKey i \<noteq> workloadSpecKey j" "workloadStatusKey i \<noteq> workloadKey j" "workloadStatusKey i \<noteq> retryKey j"
  "workloadStatusKey i \<noteq> assignmentKey j" "workloadStatusKey i \<noteq> reconciliationKey j" "workloadStatusKey i \<noteq> eventKey j"
  "workloadStatusKey i \<noteq> managedVolumeKey j" "workloadStatusKey i \<noteq> nodeKey j"
  "workloadKey i \<noteq> workloadSpecKey j" "workloadKey i \<noteq> workloadStatusKey j" "workloadKey i \<noteq> retryKey j"
  "workloadKey i \<noteq> assignmentKey j" "workloadKey i \<noteq> reconciliationKey j" "workloadKey i \<noteq> eventKey j"
  "workloadKey i \<noteq> managedVolumeKey j" "workloadKey i \<noteq> nodeKey j"
  "retryKey i \<noteq> workloadSpecKey j" "retryKey i \<noteq> workloadStatusKey j" "retryKey i \<noteq> workloadKey j"
  "retryKey i \<noteq> assignmentKey j" "retryKey i \<noteq> reconciliationKey j" "retryKey i \<noteq> eventKey j"
  "retryKey i \<noteq> managedVolumeKey j" "retryKey i \<noteq> nodeKey j"
  "assignmentKey i \<noteq> workloadSpecKey j" "assignmentKey i \<noteq> workloadStatusKey j" "assignmentKey i \<noteq> workloadKey j"
  "assignmentKey i \<noteq> retryKey j" "assignmentKey i \<noteq> reconciliationKey j" "assignmentKey i \<noteq> eventKey j"
  "assignmentKey i \<noteq> managedVolumeKey j" "assignmentKey i \<noteq> nodeKey j"
  "reconciliationKey i \<noteq> workloadSpecKey j" "reconciliationKey i \<noteq> workloadStatusKey j" "reconciliationKey i \<noteq> workloadKey j"
  "reconciliationKey i \<noteq> retryKey j" "reconciliationKey i \<noteq> assignmentKey j" "reconciliationKey i \<noteq> eventKey j"
  "reconciliationKey i \<noteq> managedVolumeKey j" "reconciliationKey i \<noteq> nodeKey j"
  "eventKey i \<noteq> workloadSpecKey j" "eventKey i \<noteq> workloadStatusKey j" "eventKey i \<noteq> workloadKey j"
  "eventKey i \<noteq> retryKey j" "eventKey i \<noteq> assignmentKey j" "eventKey i \<noteq> reconciliationKey j"
  "eventKey i \<noteq> managedVolumeKey j" "eventKey i \<noteq> nodeKey j"
  "managedVolumeKey i \<noteq> workloadSpecKey j" "managedVolumeKey i \<noteq> workloadStatusKey j" "managedVolumeKey i \<noteq> workloadKey j"
  "managedVolumeKey i \<noteq> retryKey j" "managedVolumeKey i \<noteq> assignmentKey j" "managedVolumeKey i \<noteq> reconciliationKey j"
  "managedVolumeKey i \<noteq> eventKey j" "managedVolumeKey i \<noteq> nodeKey j"
  "nodeKey i \<noteq> workloadSpecKey j" "nodeKey i \<noteq> workloadStatusKey j" "nodeKey i \<noteq> workloadKey j"
  "nodeKey i \<noteq> retryKey j" "nodeKey i \<noteq> assignmentKey j" "nodeKey i \<noteq> reconciliationKey j"
  "nodeKey i \<noteq> eventKey j" "nodeKey i \<noteq> managedVolumeKey j"
  by (simp_all add: key_defs prefix_defs)

text \<open>
  The store as a repository of workloads: what a live scheduler answers when it is asked
  for an identifier, as a function of the store's content.
\<close>

definition loaded :: "content \<Rightarrow> string \<Rightarrow> workload result" where
  "loaded c i =
     (case c (workloadSpecKey i) of
        None \<Rightarrow>
          (case c (workloadKey i) of
             Some v \<Rightarrow> (case unmarshalWorkload v of
                 Inl e \<Rightarrow> Inl (wrapv (''failed to unmarshal legacy workload '' @ i @ '': '') e)
               | Inr w \<Rightarrow> Inr w)
           | None \<Rightarrow> Inl (errorf (''workload '' @ i @ '' not found'')))
      | Some v \<Rightarrow>
          (case unmarshalSpec v of
             Inl e \<Rightarrow> Inl (wrapv (''failed to unmarshal workload spec '' @ i @ '': '') e)
           | Inr p \<Rightarrow> Inr (case c (workloadStatusKey i) of
                 None \<Rightarrow> workloadFromSpec p
               | Some sv \<Rightarrow> (case unmarshalStatus sv of
                     Inl _ \<Rightarrow> workloadFromSpec p
                   | Inr st \<Rightarrow> if wt_ID st \<noteq> [] then withStatus st (workloadFromSpec p) else workloadFromSpec p))))"

definition repo :: "content \<Rightarrow> string \<Rightarrow> workload option" where
  "repo c i = (case loaded c i of Inl _ \<Rightarrow> None | Inr w \<Rightarrow> Some w)"

definition saved :: "workload \<Rightarrow> content \<Rightarrow> content" where
  "saved w c = c(workloadSpecKey (w_ID w) \<mapsto> PSpec (workloadSpecFromWorkload w),
     workloadStatusKey (w_ID w) \<mapsto> marshalStatus (workloadStatusFromWorkload w),
     retryKey (w_ID w) \<mapsto> PRetry (w_Retry w))"

lemma loaded_cong:
  assumes "c' (workloadSpecKey i) = c (workloadSpecKey i)" "c' (workloadStatusKey i) = c (workloadStatusKey i)"
    "c' (workloadKey i) = c (workloadKey i)"
  shows "loaded c' i = loaded c i"
  unfolding loaded_def assms ..

lemma saved_keys:
  "saved w c (workloadSpecKey i) = (if i = w_ID w then Some (PSpec (workloadSpecFromWorkload w)) else c (workloadSpecKey i))"
  "saved w c (workloadStatusKey i) =
     (if i = w_ID w then Some (PStatus ((workloadStatusFromWorkload w)\<lparr>wt_Metadata := json_meta (w_Metadata w)\<rparr>))
      else c (workloadStatusKey i))"
  "saved w c (workloadKey i) = c (workloadKey i)"
  by (simp_all add: saved_def marshalStatus_def workloadStatusFromWorkload_def)

lemma loaded_saved:
  assumes "w_ID w \<noteq> []"
  shows "loaded (saved w c) i = (if i = w_ID w then Inr (stored_view w) else loaded c i)"
proof (cases "i = w_ID w")
  case True
  have "wt_ID ((workloadStatusFromWorkload w)\<lparr>wt_Metadata := json_meta (w_Metadata w)\<rparr>) \<noteq> []"
    using assms by (simp add: workloadStatusFromWorkload_def)
  then show ?thesis
    unfolding loaded_def saved_keys by (simp only: True simp_thms if_True option.case sum.case unmarshalSpec.simps
        unmarshalStatus.simps load_of_projections not_False_eq_True)
next
  case False
  then have "loaded (saved w c) i = loaded c i" by (intro loaded_cong) (simp_all add: saved_keys)
  with False show ?thesis by simp
qed

lemma repo_saved: "w_ID w \<noteq> [] \<Longrightarrow> repo (saved w c) = (repo c)(w_ID w \<mapsto> stored_view w)"
  by (rule ext) (simp add: repo_def loaded_saved)

context etcd_client
begin

lemma achieves_GetWorkloadByID:
  assumes "Q (loaded c i) c"
  shows "achieves z view c (GetWorkloadByID E i) Q"
proof (cases "c (workloadSpecKey i)")
  case None
  show ?thesis
    unfolding GetWorkloadByID_def
    by (simp only: sum.case option.case None
        | rule achieve_rules achieves_option achieves_sum keep_rules keep_intros
        | (use assms in \<open>simp add: loaded_def None\<close>; fail))+
next
  case (Some v)
  show ?thesis
    unfolding GetWorkloadByID_def
    by (simp only: sum.case option.case Some
        | rule achieve_rules achieves_sum keep_rules keep_intros
        | (use assms in \<open>simp add: loaded_def Some split: option.splits sum.splits\<close>; fail))+
qed

text \<open>Saving a workload without managed volumes writes exactly its three documents.\<close>

lemma achieves_saveWorkload:
  assumes "\<not> shouldSyncManagedStorage w" and "Q None (saved w c)"
  shows "achieves z view c (saveWorkload E w) Q"
  unfolding saveWorkload_def
  by (simp only: mark_plain [OF assms(1)] assms(1) Let_def simp_thms if_False)
    (rule achieve_rules keep_rules keep_intros assms(2) [unfolded saved_def] | simp only: option.case)+

section \<open>Records and events\<close>

text \<open>An operation of which only the mode is known.\<close>

lemma achieves_any: "keeps E m \<Longrightarrow> (\<And>x c'. Q x c') \<Longrightarrow> achieves z view c m Q"
  by (rule achieves_keeps) auto

lemma achieves_redis:
  "(\<And>x. Q x c) \<Longrightarrow> achieves z view c (call (redisSet E k v d)) Q"
  "(\<And>x. Q x c) \<Longrightarrow> achieves z view c (call (redisPushTrim E k v n d)) Q"
  by (rule achieves_call; simp)+

lemma achieves_emitEvent:
  assumes "\<And>c'. (\<And>k. k \<notin> event_keys \<Longrightarrow> c' k = c k) \<Longrightarrow> Q () c'"
  shows "achieves z view c (emitEvent E ty i n r d) Q"
proof -
  have same: "Q () c" by (rule assms) simp
  have put: "Q () (c(eventKey u \<mapsto> v))" for u v by (rule assms) auto
  show ?thesis
    unfolding emitEvent_def writeEventTelemetry_def
    by (rule achieve_rules achieves_if achieves_gets achieves_redis keep_rules keep_intros same put | simp only: )+
qed

lemma achieves_writeAssignment:
  assumes "\<And>t. Q None (c(assignmentKey i \<mapsto>
      PAssignment \<lparr>ar_WorkloadID = i, ar_NodeID = n, ar_Reason = r, ar_CreatedAt = t\<rparr>))"
  shows "achieves z view c (writeAssignment E i n r) Q"
  unfolding writeAssignment_def
  by (simp only: option.case | rule achieve_rules keep_rules keep_intros assms)+

lemma achieves_writeReconciliationRecord:
  assumes "\<And>c'. (\<And>k. k \<noteq> reconciliationKey i \<Longrightarrow> c' k = c k) \<Longrightarrow> Q () c'"
  shows "achieves z view c (writeReconciliationRecord E i a b r) Q"
proof -
  have same: "Q () c" by (rule assms) simp
  have put: "Q () (c(reconciliationKey i \<mapsto> v))" for v by (rule assms) auto
  show ?thesis
    unfolding writeReconciliationRecord_def writeReconciliationTelemetry_def
    by (rule achieve_rules achieves_if achieves_option achieves_gets achieves_redis keep_rules keep_intros same put)+
qed

end

section \<open>A store that always answers\<close>

text \<open>
  The in-memory world with an etcd that never fails: a scheduler that starts live there
  stays live, so what an operation achieves it does achieve.
\<close>

definition heal :: "mem \<Rightarrow> mem" where
  "heal w = w\<lparr>m_etcd_down := 0\<rparr>"

definition calmEnv :: "mem env" where
  "calmEnv = memEnv\<lparr>etcdPut := \<lambda>k v w. mem_put k v (heal w), etcdGet := \<lambda>k w. mem_get k (heal w),
     etcdGetPrefix := \<lambda>p w. mem_get_prefix p (heal w), etcdDelete := \<lambda>k w. mem_delete k (heal w)\<rparr>"

lemma reliable_calm: "reliable calmEnv"
  by (simp add: reliable_def calmEnv_def mem_defs heal_def)

interpretation calmetcd: etcd_client calmEnv mem_view
proof unfold_locales
  show "etcdGetPrefix calmEnv p w = (Inr kvs, w') \<Longrightarrow>
    distinct (map fst kvs) \<and> (\<forall>k v. (k, v) \<in> set kvs \<longleftrightarrow> HasPrefix k p \<and> mem_view w k = Some v)"
    for p w kvs w'
    using mget_filter_prefix [of _ _ p "m_store w"]
    by (auto simp: calmEnv_def heal_def mem_defs mem_view_def distinct_map_filter distinct_clearjunk simp del: set_filter
        split: if_splits)
qed (auto simp: calmEnv_def heal_def mem_defs mem_view_def fun_eq_iff map_simps Let_def split: if_splits option.splits)

interpretation calmclock: wall_clock calmEnv m_clock
  by unfold_locales (auto simp: calmEnv_def heal_def mem_defs split: option.splits)

lemma calm_live: "keeps calmEnv m \<Longrightarrow> run_state m s = (x, t) \<Longrightarrow> writable s \<Longrightarrow> writable t"
  by (auto dest: keepsD simp: mode_kept_def reliable_calm)

lemma demo_live [simp]: "writable (demo_sched w)" "sc_world (demo_sched w) = w"
  by (simp_all add: writable_def demo_sched_def)

end
