(* ===== verification/System.thy ===== *)
theory System
  imports Availability Demo
begin

text \<open>
  The whole scheduler as a transition system: requests of clients, ticks of the background
  loops and of the mode supervisor, in any order, with the outside world moving in between.
  The invariant and the freeze guarantee of every single operation become properties of all
  runs.
\<close>

section \<open>Steps\<close>

text \<open>
  The entry points of the process: the remote calls of the control API and the operations
  they are made of, one tick of each
  loop that \<open>StartMonitoring\<close> and \<open>StartReconciliation\<close> start, and the supervisor of \<open>mode.go\<close>.
\<close>

datatype command =
    RegisterNodeCmd node
  | DeleteNodeCmd string
  | HeartbeatCmd string string rat int
  | CreateCmd workload
  | UpdateSpecCmd string workload
  | MarkDeletedCmd string
  | RetryCmd string
  | ScheduleCmd workload
  | DeleteCmd string
  | StatusCmd string string
  | LogsCmd string string
  | MetadataCmd string "string gomap"
  | RuntimeCmd string "workload_reason option" "workload_usage option"
  | ReadCmd string
  | ListCmd
  | ReconcileTick
  | DriftTick
  | MonitorTick
  | NodesTick
  | ApiCmd api_request
  | Supervise

definition ignore :: "('w, 'a) op \<Rightarrow> ('w, unit) op" where
  "ignore m = do { _ \<leftarrow> m; ret () }"

fun perform :: "'w env \<Rightarrow> command \<Rightarrow> ('w, unit) op" where
  "perform E (RegisterNodeCmd n) = ignore (RegisterNode E n)"
| "perform E (DeleteNodeCmd i) = ignore (DeleteNode E i)"
| "perform E (HeartbeatCmd i st cpu memory) = ignore (UpdateNodeHeartbeat E i st cpu memory)"
| "perform E (CreateCmd w) = ignore (CreateWorkload E w)"
| "perform E (UpdateSpecCmd i u) = ignore (UpdateWorkloadSpec E i u)"
| "perform E (MarkDeletedCmd i) = ignore (MarkWorkloadDeleted E i)"
| "perform E (RetryCmd i) = ignore (TriggerWorkloadRetry E i)"
| "perform E (ScheduleCmd w) = ignore (ScheduleWorkload E w)"
| "perform E (DeleteCmd i) = ignore (DeleteWorkload E i)"
| "perform E (StatusCmd i st) = ignore (UpdateWorkloadStatus E i st)"
| "perform E (LogsCmd i t) = ignore (UpdateWorkloadLogs E i t)"
| "perform E (MetadataCmd i m) = ignore (UpdateWorkloadMetadata E i m)"
| "perform E (RuntimeCmd i r u) = ignore (UpdateWorkloadRuntimeDetails E i r u)"
| "perform E (ReadCmd i) = ignore (GetWorkloadByID E i)"
| "perform E ListCmd = do { _ \<leftarrow> GetNodes E; ignore (GetWorkloads E) }"
| "perform E ReconcileTick = ignore (ReconciliationLoop_tick E)"
| "perform E DriftTick = ignore (detectDriftOnce E)"
| "perform E MonitorTick = ignore (MonitorWorkloads_tick E)"
| "perform E NodesTick = ignore (MonitorNodes_tick E)"
| "perform E (ApiCmd q) = serve E q"
| "perform E Supervise = evaluateMode E"

inductive step :: "'w env \<Rightarrow> ('w \<Rightarrow> string \<Rightarrow> payload option) \<Rightarrow> 'w sched \<Rightarrow> command option \<Rightarrow> 'w sched \<Rightarrow> bool"
  for E view where
  act: "step E view s (Some c) (snd (run_state (perform E c) s))"
| world: "store_ok (view w) \<Longrightarrow> step E view s None (s\<lparr>sc_world := w\<rparr>)"

inductive_cases step_SomeE: "step E view s (Some c) t"
inductive_cases step_NoneE: "step E view s None t"

inductive reachable :: "'w env \<Rightarrow> ('w \<Rightarrow> string \<Rightarrow> payload option) \<Rightarrow> 'w sched \<Rightarrow> bool"
  for E view where
  start: "NewScheduler E cfg redisUp w = (Inr s, w') \<Longrightarrow> store_ok (view w) \<Longrightarrow> reachable E view s"
| move: "reachable E view s \<Longrightarrow> step E view s c t \<Longrightarrow> reachable E view t"

section \<open>The mode supervisor\<close>

text \<open>
  The supervisor as an automaton over the operating modes: what it observes of etcd in one
  evaluation decides the next mode.
\<close>

datatype observation = Unreachable | ProbeFailed | StateEmpty | StateIntact

fun supervise :: "OperatingMode \<Rightarrow> observation \<Rightarrow> OperatingMode" where
  "supervise m Unreachable = ModeDegraded"
| "supervise ModeNormal ob = ModeNormal"
| "supervise m ProbeFailed = ModeDegraded"
| "supervise m StateEmpty = ModeRecovery"
| "supervise m StateIntact = ModeNormal"

definition observe :: "'w env \<Rightarrow> 'w \<Rightarrow> observation" where
  "observe E w =
     (case etcdGet E ''/health'' w of
        (Inl _, _) \<Rightarrow> Unreachable
      | (Inr _, w1) \<Rightarrow>
          (case etcdGetPrefix E nodesPrefix w1 of
             (Inl _, _) \<Rightarrow> ProbeFailed
           | (Inr (_ # _), _) \<Rightarrow> StateIntact
           | (Inr [], w2) \<Rightarrow>
               (case etcdGetPrefix E workloadsPrefix w2 of
                  (Inl _, _) \<Rightarrow> ProbeFailed
                | (Inr (_ # _), _) \<Rightarrow> StateIntact
                | (Inr [], w3) \<Rightarrow>
                    (case etcdGetPrefix E assignmentsPrefix w3 of
                       (Inl _, _) \<Rightarrow> ProbeFailed
                     | (Inr (_ # _), _) \<Rightarrow> StateIntact
                     | (Inr [], _) \<Rightarrow> StateEmpty))))"

lemma enterRecovery_mode [simp]: "sc_mode (snd (run_state (enterRecovery E r) s)) = ModeRecovery"
  by (simp add: enterRecovery_def)

lemma enterNormal_mode [simp]: "sc_mode (snd (run_state (enterNormal E r) s)) = ModeNormal"
  by (simp add: enterNormal_def)

lemma evaluateMode_mode:
  "sc_mode (snd (run_state (evaluateMode E) s)) = supervise (sc_mode s) (observe E (sc_world s))"
  by (cases "sc_mode s")
    (auto simp: evaluateMode_def pingEtcd_def etcdHasState_def observe_def case_prod_beta
      split: sum.splits list.splits prod.splits option.splits)

section \<open>Guarantees of one step\<close>

context etcd_client
begin

lemma safe_ignore: "safe view K X m (\<lambda>_. True) \<Longrightarrow> safe view K X (ignore m) (\<lambda>_. True)"
  unfolding ignore_def by (rule fp.g_seq) (auto intro: fp.g_return)

lemma safe_perform:
  assumes "c \<noteq> Supervise"
  shows "safe view UNIV {} (perform E c) (\<lambda>_. True)"
proof (cases c)
  case (CreateCmd w)
  show ?thesis unfolding CreateCmd perform.simps by (rule safe_ignore safe_CreateWorkload subset_UNIV)+
next
  case (ScheduleCmd w)
  show ?thesis unfolding ScheduleCmd perform.simps by (rule safe_ignore safe_ScheduleWorkload subset_UNIV UNIV_I)+
next
  case (ReadCmd i)
  show ?thesis unfolding ReadCmd perform.simps by (rule safe_ignore safe_GetWorkloadByID [THEN ensures_any])+
next
  case ListCmd
  show ?thesis unfolding ListCmd perform.simps by (rule fp.g_seq safe_ignore op_intros)+
next
  case (ApiCmd q)
  show ?thesis unfolding ApiCmd perform.simps by (rule safe_serve)
next
  case Supervise
  with assms show ?thesis by simp
qed (simp_all only: perform.simps, (rule safe_ignore op_intros subset_UNIV UNIV_I)+)

lemma view_hasState:
  "view (sc_world (snd (run_state (hasState_loop E ps) s))) = view (sc_world s) \<and>
   same_control s (snd (run_state (hasState_loop E ps) s))"
proof (induction ps arbitrary: s)
  case (Cons p ps)
  show ?case
    using Cons.IH [of "s\<lparr>sc_world := snd (etcdGetPrefix E p (sc_world s))\<rparr>"]
    by (auto simp: case_prod_beta split: sum.splits intro: same_control_trans [rotated])
qed simp

lemma inv_world: "view w = view (sc_world s) \<Longrightarrow> sched_inv view s \<Longrightarrow> sched_inv view (s\<lparr>sc_world := w\<rparr>)"
  by (simp add: sched_inv_world)

lemma mode_changes:
  assumes "sched_inv view s"
  shows "sched_inv view (snd (run_state (enterNormal E r) s))"
    and "sched_inv view (snd (run_state (enterRecovery E r) s))"
    and "sched_inv view (snd (run_state (enterDegraded E r) s))"
    and "view (sc_world (snd (run_state (enterNormal E r) s))) = view (sc_world s)"
    and "view (sc_world (snd (run_state (enterRecovery E r) s))) = view (sc_world s)"
    and "view (sc_world (snd (run_state (enterDegraded E r) s))) = view (sc_world s)"
  using assms
  by (auto simp: sched_inv_def enterNormal_def enterRecovery_def enterDegraded_def mode_ok_def cache_ok_def
      split: option.splits)

lemma evaluateMode_safe:
  assumes "sched_inv view s"
  shows "sched_inv view (snd (run_state (evaluateMode E) s)) \<and>
    view (sc_world (snd (run_state (evaluateMode E) s))) = view (sc_world s)"
proof -
  let ?p = "snd (run_state (pingEtcd E) s)"
  have p: "sched_inv view ?p" "view (sc_world ?p) = view (sc_world s)"
    using assms by (auto simp: pingEtcd_def inv_world split: sum.splits)
  let ?h = "snd (run_state (etcdHasState E) ?p)"
  have h: "sched_inv view ?h" "view (sc_world ?h) = view (sc_world s)"
    using view_hasState [of "[nodesPrefix, workloadsPrefix, assignmentsPrefix]" ?p] inv_control [of ?p ?h] p
    by (auto simp: etcdHasState_def)
  show ?thesis
    unfolding evaluateMode_def run_bind_proj
    using p h mode_changes [OF p(1)] mode_changes [OF h(1)]
    by (auto simp: run_bind_proj simp del: run_state_bind split: option.splits sum.splits bool.splits)
qed

lemma inv_step:
  assumes "step E view s c t" "sched_inv view s"
  shows "sched_inv view t"
  using assms
proof (cases rule: step.cases)
  case (act d)
  show ?thesis
  proof (cases "d = Supervise")
    case True
    with act assms(2) show ?thesis using evaluateMode_safe [of s] by simp
  next
    case False
    from ensuresD(1) [OF safe_perform [OF False] assms(2)] act show ?thesis by simp
  qed
next
  case (world w)
  with assms(2) show ?thesis by (simp add: sched_inv_def mode_ok_def cache_ok_def)
qed

lemma inv_start:
  assumes "NewScheduler E cfg redisUp w = (Inr s, w')" "store_ok (view w)"
  shows "sched_inv view s"
  using assms view_get [of "''/health''" w]
  by (auto simp: NewScheduler_def sched_inv_def mode_ok_def cache_ok_def case_prod_beta split: sum.splits prod.splits)

lemma reachable_sched_inv: "reachable E view s \<Longrightarrow> sched_inv view s"
  by (induction rule: reachable.induct) (auto intro: inv_start inv_step)

end

lemma keeps_perform:
  assumes "c \<noteq> Supervise"
  shows "keeps E (perform E c)"
  using assms by (cases c) (auto simp: ignore_def intro!: kp.g_seq keep_intros kp.g_return)

end
