(* ===== verification/WorkloadSpec.thy ===== *)
theory WorkloadSpec
  imports Effects System
begin

text \<open>
  What the workload operations promise: a saved workload can be read back, updates act on
  the repository of workloads like updates of a map, creation stores the workload the request
  describes, and deletion removes exactly the documents of one workload.
\<close>

section \<open>Round trip\<close>

lemma live_start: "keeps E m \<Longrightarrow> run_state m s = (x, t) \<Longrightarrow> writable t \<Longrightarrow> writable s"
  by (auto dest: keepsD simp: mode_kept_def)

text \<open>
  C20: A workload that was saved is read back. When saving a workload without managed volumes
  succeeds and the scheduler is live after reading it again, the read returns the workload
  with its metadata as JSON renders them and without the three fields the projections drop:
  creation time, managed volumes and usage.
\<close>

theorem save_then_load:
  assumes etcd: "etcd_client E view" and w: "w_ID w \<noteq> []" "\<not> shouldSyncManagedStorage w"
    and save: "run_state (saveWorkload E w) s = (r, t)"
    and load: "run_state (GetWorkloadByID E (w_ID w)) t = (x, u)" and live: "writable u"
  shows "r = None \<and> x = Inr (stored_view w)"
proof -
  have t: "writable t" by (rule live_start [OF keeps_GetWorkloadByID load live])
  have "achieves s view (view (sc_world s)) (saveWorkload E w) (\<lambda>x c. x = None \<and> c = saved w (view (sc_world s)))"
    by (rule etcd_client.achieves_saveWorkload [OF etcd w(2)]) simp
  from achievesD [OF this save t] have r: "r = None" "view (sc_world t) = saved w (view (sc_world s))" by simp_all
  have "achieves t view (view (sc_world t)) (GetWorkloadByID E (w_ID w)) (\<lambda>x c. x = loaded (view (sc_world t)) (w_ID w))"
    by (rule etcd_client.achieves_GetWorkloadByID [OF etcd]) simp
  from achievesD [OF this load live] have "x = loaded (view (sc_world t)) (w_ID w)" by simp
  with r loaded_saved [OF w(1)] show ?thesis by simp
qed

theorem save_then_load_witness:
  "\<exists>t u. run_state (saveWorkload memEnv demo_workload) (demo_sched demo_nodes) = (None, t) \<and>
     run_state (GetWorkloadByID memEnv ''w1'') t = (Inr (stored_view demo_workload), u)"
proof -
  obtain r t where save: "run_state (saveWorkload memEnv demo_workload) (demo_sched demo_nodes) = (r, t)" by fastforce
  obtain x u where load: "run_state (GetWorkloadByID memEnv (w_ID demo_workload)) t = (x, u)" by fastforce
  have "writable (snd (run_state (GetWorkloadByID memEnv (w_ID demo_workload))
      (snd (run_state (saveWorkload memEnv demo_workload) (demo_sched demo_nodes)))))" by code_simp
  with save load have "writable u" by simp
  moreover have "w_ID demo_workload \<noteq> []" "\<not> shouldSyncManagedStorage demo_workload" "w_ID demo_workload = ''w1''"
    by code_simp+
  ultimately show ?thesis
    using save_then_load [OF memetcd.etcd_client_axioms _ _ save load] save load by metis
qed

section \<open>Updates as updates of a map\<close>

text \<open>The change a status update makes to a workload, at the time \<open>t\<close>.\<close>

definition status_change :: "string \<Rightarrow> time \<Rightarrow> workload \<Rightarrow> workload" where
  "status_change st t w =
     (let w1 = w\<lparr>w_Status := st, w_StatusInfo := (w_StatusInfo w)\<lparr>si_ActualState := st, si_LastUpdated := t\<rparr>\<rparr>
      in if EqualFold st ''failed'' then set_meta ''last_action'' (MStr ''Failed'') w1 else w1)"

definition has_status :: "string \<Rightarrow> workload \<Rightarrow> bool" where
  "has_status st w = (EqualFold (w_Status w) st \<and> EqualFold (si_ActualState (w_StatusInfo w)) st)"

lemma status_change_id [simp]: "w_ID (status_change st t w) = w_ID w"
  by (simp add: status_change_def Let_def)

lemma shouldSync_meta:
  "w_ManagedVolumes w' = w_ManagedVolumes w \<Longrightarrow> w_VM w' = w_VM w \<Longrightarrow>
   mget (w_Metadata w') managedStorageStateKey = mget (w_Metadata w) managedStorageStateKey \<Longrightarrow>
   shouldSyncManagedStorage w' = shouldSyncManagedStorage w"
  by (simp add: shouldSyncManagedStorage_def workloadManagedVolumeSpecs_def managedStorageStateEnabled_def
      metadataStringValue_def)

lemma status_change_sync [simp]: "shouldSyncManagedStorage (status_change st t w) = shouldSyncManagedStorage w"
  by (rule shouldSync_meta) (simp_all add: status_change_def Let_def managedStorageStateKey_def)

context etcd_client
begin

lemma achieves_load: "Q (loaded c i) c \<Longrightarrow> achieves z view c (loadWorkloadForUpdate E i) Q"
  unfolding loadWorkloadForUpdate_def
  by (simp only: option.case | rule achieve_rules achieves_GetWorkloadByID keep_rules keep_intros | assumption)+

lemma achieves_UpdateWorkloadStatus:
  assumes w: "loaded c i = Inr w" "\<not> shouldSyncManagedStorage w"
    and same: "has_status st w \<Longrightarrow> Q None c"
    and new: "\<And>t. \<not> has_status st w \<Longrightarrow> Q None (saved (status_change st t w) c)"
  shows "achieves z view c (UpdateWorkloadStatus E i st) Q"
proof (cases "has_status st w")
  case True
  show ?thesis
    unfolding UpdateWorkloadStatus_def
    by (simp only: sum.case w(1) True [unfolded has_status_def] simp_thms if_True
        | rule achieve_rules achieves_load keep_rules keep_intros same [OF True])+
next
  case False
  have q: "Q (map_option f None) (saved (status_change st t w) c)" for f t using new [OF False] by simp
  show ?thesis
    unfolding UpdateWorkloadStatus_def Let_def
    by ((rule achieve_rules achieves_load keep_rules keep_intros)+,
        simp only: sum.case w(1) False [unfolded has_status_def] if_False,
        (rule achieve_rules keep_rules keep_intros)+,
        simp only: status_change_def [unfolded Let_def, symmetric],
        (rule achieves_saveWorkload achieves_return q | simp add: w(2))+)
qed

end

lemma loaded_id:
  assumes "store_ok c" "loaded c i = Inr w"
  shows "w_ID w = i"
proof (cases "c (workloadSpecKey i)")
  case None
  with assms(2) obtain v where v: "c (workloadKey i) = Some v" "unmarshalWorkload v = Inr w"
    by (auto simp: loaded_def split: option.splits sum.splits)
  have "entry_ok (workloadKey i) v" using assms(1) v(1) unfolding store_ok_def by blast
  moreover have "v = PWorkload w" using v(2) by (cases v) auto
  ultimately show ?thesis by (simp add: entry_ok_def legacyK.under)
next
  case (Some v)
  with assms(2) obtain p where p: "v = PSpec p" "w_ID w = ws_ID p"
    by (cases v) (auto simp: loaded_def workloadFromSpec_def withStatus_def split: option.splits sum.splits if_splits)
  have "entry_ok (workloadSpecKey i) v" using assms(1) Some unfolding store_ok_def by blast
  with p show ?thesis by simp
qed

lemma repo_id: "store_ok c \<Longrightarrow> repo c i = Some w \<Longrightarrow> w_ID w = i"
  by (auto simp: repo_def loaded_id split: sum.splits)

text \<open>
  A status update is the update of one entry of a map. On a live scheduler it succeeds,
  and the repository of workloads is unchanged when the workload already has the status, and
  otherwise differs in the one workload, which gets the status, the observed state and the
  current time.
\<close>

theorem update_status_refines:
  assumes etcd: "etcd_client E view" and inv: "sched_inv view s"
    and w: "repo (view (sc_world s)) i = Some w" "i \<noteq> []" "\<not> shouldSyncManagedStorage w"
    and run: "run_state (UpdateWorkloadStatus E i st) s = (r, t)" and live: "writable t"
  shows "r = None \<and> (\<exists>\<tau>. repo (view (sc_world t)) =
    (if has_status st w then repo (view (sc_world s))
     else (repo (view (sc_world s)))(i \<mapsto> stored_view (status_change st \<tau> w))))"
proof -
  let ?c = "view (sc_world s)"
  have l: "loaded ?c i = Inr w" using w(1) by (auto simp: repo_def split: sum.splits)
  have id: "w_ID w = i" using loaded_id [OF _ l] inv by (simp add: sched_inv_def)
  have "achieves s view ?c (UpdateWorkloadStatus E i st) (\<lambda>r c. r = None \<and>
      (\<exists>\<tau>. repo c = (if has_status st w then repo ?c else (repo ?c)(i \<mapsto> stored_view (status_change st \<tau> w)))))"
    using repo_saved [of "status_change st _ w" ?c] id w(2)
    by (intro etcd_client.achieves_UpdateWorkloadStatus [OF etcd l w(3)]) auto
  from achievesD [OF this run live] show ?thesis by simp
qed

theorem update_status_refines_witness:
  "\<exists>t \<tau>. run_state (UpdateWorkloadStatus memEnv ''w1'' ''Failed'') (demo_sched demo_cluster) = (None, t) \<and>
     repo (mem_view (sc_world t)) =
       (repo (mem_view demo_cluster))(''w1'' \<mapsto> stored_view (status_change ''Failed'' \<tau> demo_workload))"
proof -
  let ?s = "demo_sched demo_cluster"
  obtain r t where run: "run_state (UpdateWorkloadStatus memEnv ''w1'' ''Failed'') ?s = (r, t)" by fastforce
  have "writable (snd (run_state (UpdateWorkloadStatus memEnv ''w1'' ''Failed'') ?s))" by code_simp
  with run have live: "writable t" by simp
  have "sc_world ?s = demo_cluster" "\<not> has_status ''Failed'' demo_workload"
    "\<not> shouldSyncManagedStorage demo_workload" "''w1'' \<noteq> []" by code_simp+
  moreover have "repo (mem_view (sc_world ?s)) ''w1'' = Some demo_workload" by code_simp
  ultimately show ?thesis
    using update_status_refines [OF memetcd.etcd_client_axioms demo_inv _ _ _ run live] run by (auto split: if_splits)
qed

section \<open>Creation\<close>

lemma loaded_events:
  assumes "\<And>k. k \<notin> event_keys \<Longrightarrow> c' k = c k"
  shows "loaded c' = loaded c" "repo c' = repo c"
proof -
  show "loaded c' = loaded c"
    by (rule ext, rule loaded_cong; rule assms; simp add: event_keys_def key_defs prefix_defs)
  then show "repo c' = repo c" by (simp add: repo_def fun_eq_iff)
qed

text \<open>
  The workload a request becomes, spelled out field by field. A revision, a creation time, a
  positive retry limit and a creation stamp of the client are kept, the desired state is one of three
  words, whatever status the client sent is replaced, and every field that is not named stays as it
  was requested. \<open>t\<close> and \<open>t'\<close> are the two readings of the clock.
\<close>

definition as_created :: "'w env \<Rightarrow> time \<Rightarrow> time \<Rightarrow> workload \<Rightarrow> workload" where
  "as_created E t t' w0 = w0
     \<lparr> w_RevisionID := (if TrimSpace (w_RevisionID w0) = []
         then revHash E (w0\<lparr>w_Status := [], w_CreatedAt := 0, w_Logs := [], w_Metadata := []\<rparr>) else w_RevisionID w0),
       w_Status := ''Pending'',
       w_DesiredState :=
         (if ToLower (TrimSpace (w_DesiredState w0)) \<in> {''stop'', ''stopped''} then ''Stopped''
          else if ToLower (TrimSpace (w_DesiredState w0)) \<in> {''delete'', ''deleted''} then ''Deleted'' else ''Running''),
       w_CreatedAt := (if w_CreatedAt w0 = 0 then t else w_CreatedAt w0),
       w_Metadata := mput ''last_action'' (MStr ''Created'')
         (if mget (w_Metadata w0) ''created_at'' \<noteq> None then w_Metadata w0
          else mput ''created_at'' (MStr (formatRFC3339 (if w_CreatedAt w0 = 0 then t else w_CreatedAt w0))) (w_Metadata w0)),
       w_Retry := (if 0 < rt_MaxAttempts (w_Retry w0) then w_Retry w0
          else \<lparr>rt_Attempts = 0, rt_MaxAttempts = 5, rt_NextRetryAt = 0\<rparr>),
       w_StatusInfo := (w_StatusInfo w0)\<lparr>si_ActualState := ''Pending'', si_LastUpdated := t'\<rparr> \<rparr>"

lemma mput_twice [simp]: "mput k v (mput k u m) = mput k v m"
  by (simp add: mput_def update_last)

text \<open>A conditional change of one field is a change of that field.\<close>

lemma if_field:
  fixes w :: workload
  shows "(if b then w\<lparr>w_RevisionID := x1\<rparr> else w) = w\<lparr>w_RevisionID := if b then x1 else w_RevisionID w\<rparr>"
    "(if b then w\<lparr>w_DesiredState := x2\<rparr> else w) = w\<lparr>w_DesiredState := if b then x2 else w_DesiredState w\<rparr>"
    "(if b then w\<lparr>w_Status := x3\<rparr> else w) = w\<lparr>w_Status := if b then x3 else w_Status w\<rparr>"
    "(if b then w\<lparr>w_Retry := x4\<rparr> else w) = w\<lparr>w_Retry := if b then x4 else w_Retry w\<rparr>"
    "(if b then w\<lparr>w_Metadata := x5\<rparr> else w) = w\<lparr>w_Metadata := if b then x5 else w_Metadata w\<rparr>"
    "(if b then w\<lparr>w_StatusInfo := x6\<rparr> else w) = w\<lparr>w_StatusInfo := if b then x6 else w_StatusInfo w\<rparr>"
  by simp_all

definition defaulted :: "time \<Rightarrow> time \<Rightarrow> workload \<Rightarrow> workload" where
  "defaulted c t w = w
     \<lparr> w_DesiredState := normalizeDesiredStateString (w_DesiredState w),
       w_Status := (if w_Status w = [] then ''Pending'' else w_Status w),
       w_CreatedAt := c,
       w_Retry := (if rt_MaxAttempts (w_Retry w) \<le> 0 then defaultRetryState else w_Retry w),
       w_Metadata := (let m = (if mget (w_Metadata w) ''created_at'' = None
           then mput ''created_at'' (MStr (formatRFC3339 c)) (w_Metadata w) else w_Metadata w)
         in if mget m ''last_action'' = None then mput ''last_action'' (MStr ''Created'') m else m),
       w_StatusInfo := (if si_ActualState (w_StatusInfo w) = []
         then (w_StatusInfo w)\<lparr>si_LastUpdated := t, si_ActualState := (if w_Status w = [] then ''Pending'' else w_Status w)\<rparr>
         else (w_StatusInfo w)\<lparr>si_LastUpdated := t\<rparr>) \<rparr>"

lemma defaults_run:
  assumes "run_state (initializeWorkloadDefaults E w) s = (w1, s')"
  shows "\<exists>u u'. w1 = defaulted (if w_CreatedAt w = 0 then fst (timeNow E u) else w_CreatedAt w) (fst (timeNow E u')) w"
proof -
  have n: "normalizeDesiredStateString (if d = [] then ''Running'' else d) = normalizeDesiredStateString d" for d
  proof (cases "d = []")
    case True
    then show ?thesis by (simp only: refl if_True) code_simp
  qed simp
  let ?u = "sc_world s"
  let ?u' = "if w_CreatedAt w = 0 then snd (timeNow E ?u) else ?u"
  have "w1 = defaulted (if w_CreatedAt w = 0 then fst (timeNow E ?u) else w_CreatedAt w) (fst (timeNow E ?u')) w"
  proof (cases "w_CreatedAt w = 0")
    case True
    with assms show ?thesis
      by (simp add: initializeWorkloadDefaults_def Let_def IsZero_def if_field defaulted_def n cong: if_cong split del: if_split)
  next
    case False
    with assms show ?thesis
      by (simp add: initializeWorkloadDefaults_def Let_def IsZero_def if_field defaulted_def n cong: if_cong split del: if_split)
  qed
  then show ?thesis by blast
qed

text \<open>What the operation saves is that workload.\<close>

lemma as_created_eq:
  assumes run: "run_state (initializeWorkloadDefaults E (ensureWorkloadRevision E w0)) s = (w1, s')"
  shows "\<exists>u u'. set_meta ''last_action'' (MStr ''Created'')
      (w1\<lparr>w_Status := ''Pending'', w_StatusInfo := (w_StatusInfo w1)\<lparr>si_ActualState := ''Pending''\<rparr>\<rparr>) =
    as_created E (fst (timeNow E u)) (fst (timeNow E u')) w0"
proof -
  obtain r where r: "ensureWorkloadRevision E w0 = w0\<lparr>w_RevisionID := r\<rparr>"
      "r = (if TrimSpace (w_RevisionID w0) = []
        then revHash E (w0\<lparr>w_Status := [], w_CreatedAt := 0, w_Logs := [], w_Metadata := []\<rparr>) else w_RevisionID w0)"
    by (cases w0) (simp add: ensureWorkloadRevision_def)
  from defaults_run [OF run, unfolded r(1)] obtain u u' where
    "w1 = defaulted (if w_CreatedAt w0 = 0 then fst (timeNow E u) else w_CreatedAt w0) (fst (timeNow E u')) (w0\<lparr>w_RevisionID := r\<rparr>)"
    by (auto cong: if_cong)
  then have "set_meta ''last_action'' (MStr ''Created'')
      (w1\<lparr>w_Status := ''Pending'', w_StatusInfo := (w_StatusInfo w1)\<lparr>si_ActualState := ''Pending''\<rparr>\<rparr>) =
    as_created E (fst (timeNow E u)) (fst (timeNow E u')) w0"
    unfolding as_created_def r(2) [symmetric] defaulted_def
    by (cases w0) (simp add: normalizeDesiredStateString_def defaultRetryState_def Let_def)
  then show ?thesis by blast
qed

context etcd_client
begin

lemma achieves_defaults:
  assumes "\<And>w1 s s'. run_state (initializeWorkloadDefaults E w) s = (w1, s') \<Longrightarrow> Q w1 c"
  shows "achieves z view c (initializeWorkloadDefaults E w) Q"
proof -
  have "achieves z view c (initializeWorkloadDefaults E w) (\<lambda>_ c'. c' = c)"
    unfolding initializeWorkloadDefaults_def
    by (rule achieve_rules achieves_if keep_rules keep_intros refl)+
  note kept = this
  show ?thesis
  proof (rule achievesI)
    fix s x t
    assume run: "run_state (initializeWorkloadDefaults E w) s = (x, t)" "same_setup z s" "view (sc_world s) = c" "writable t"
    from achieves_run [OF kept run] assms [OF run(1)] show "writable s \<and> same_setup z t \<and> Q x (view (sc_world t))" by simp
  qed
qed

lemma achieves_CreateWorkload:
  assumes id: "TrimSpace (w_ID w0) \<noteq> []" and plain: "\<not> shouldSyncManagedStorage w0"
    and Q: "\<And>u u' w c'. w = as_created E (fst (timeNow E u)) (fst (timeNow E u')) w0 \<Longrightarrow>
      repo c' = (repo c)(w_ID w0 \<mapsto> stored_view w) \<Longrightarrow> Q (Inr w) c'"
  shows "achieves z view c (CreateWorkload E w0) Q"
proof -
  let ?w = "\<lambda>w1. set_meta ''last_action'' (MStr ''Created'')
      (w1\<lparr>w_Status := ''Pending'', w_StatusInfo := (w_StatusInfo w1)\<lparr>si_ActualState := ''Pending''\<rparr>\<rparr>)"
  let ?init = "initializeWorkloadDefaults E (ensureWorkloadRevision E (w0\<lparr>w_ID := w_ID w0\<rparr>))"
  have eq: "\<exists>u u'. ?w w1 = as_created E (fst (timeNow E u)) (fst (timeNow E u')) w0"
    if "run_state ?init s = (w1, s')" for w1 s s'
    by (rule as_created_eq [where s = s and s' = s']) (use that in simp)
  have sync: "\<not> shouldSyncManagedStorage (?w w1)" if run: "run_state ?init s = (w1, s')" for w1 s s'
  proof -
    from eq [OF run] obtain t t' where w: "?w w1 = as_created E t t' w0" by blast
    have "shouldSyncManagedStorage (as_created E t t' w0) = shouldSyncManagedStorage w0"
      by (rule shouldSync_meta) (simp_all add: as_created_def managedStorageStateKey_def)
    with plain w show ?thesis by simp
  qed
  have q: "Q (Inr (?w w1)) c'"
    if run: "run_state ?init s = (w1, s')" and c': "\<And>k. k \<notin> event_keys \<Longrightarrow> c' k = saved (?w w1) c k" for w1 s s' c'
  proof -
    from eq [OF run] obtain u u' where w: "?w w1 = as_created E (fst (timeNow E u)) (fst (timeNow E u')) w0" by blast
    then have "w_ID (?w w1) = w_ID w0" by (simp add: as_created_def)
    moreover from this id have "w_ID (?w w1) \<noteq> []" by auto
    ultimately have "repo c' = (repo c)(w_ID w0 \<mapsto> stored_view (?w w1))"
      using c' loaded_events(2) [of c' "saved (?w w1) c"] repo_saved [of "?w w1" c] by simp
    with w show ?thesis by (rule Q)
  qed
  show ?thesis
    unfolding CreateWorkload_def Let_def
    by (simp only: option.case id if_False mark_plain [OF sync]
        | rule achieve_rules achieves_defaults achieves_saveWorkload achieves_emitEvent keep_rules keep_intros sync q
        | assumption)+
qed

end

text \<open>
  C6: Creating a workload under a given identifier stores what was requested. When the scheduler is
  live at the end, the call returns the requested workload with exactly these changes: the
  revision is computed unless the client gave one, the desired state is Stopped or Deleted when
  the client asked for that in any spelling and Running otherwise, the status and the observed
  state are Pending, a retry limit that is not positive is replaced by the default of five, the
  metadata record the creation and the time stamps are readings of the clock. The image, the environment
  and all other fields are those of the request, and the repository differs from the one
  before in exactly that workload.
\<close>

theorem create_workload:
  assumes etcd: "etcd_client E view" and w0: "TrimSpace (w_ID w0) \<noteq> []" "\<not> shouldSyncManagedStorage w0"
    and run: "run_state (CreateWorkload E w0) s = (r, t)" and live: "writable t"
  shows "\<exists>u u' w. r = Inr w \<and> w = as_created E (fst (timeNow E u)) (fst (timeNow E u')) w0 \<and>
    repo (view (sc_world t)) = (repo (view (sc_world s)))(w_ID w0 \<mapsto> stored_view w)"
proof -
  have "achieves s view (view (sc_world s)) (CreateWorkload E w0) (\<lambda>r c. \<exists>u u' w. r = Inr w \<and>
      w = as_created E (fst (timeNow E u)) (fst (timeNow E u')) w0 \<and>
      repo c = (repo (view (sc_world s)))(w_ID w0 \<mapsto> stored_view w))"
    by (rule etcd_client.achieves_CreateWorkload [OF etcd w0]) blast
  from achievesD [OF this run live] show ?thesis by simp
qed

theorem create_workload_witness:
  "\<exists>t w. run_state (CreateWorkload calmEnv (demo_workload\<lparr>w_DesiredState := '' STOP'', w_Retry := zero_retry\<rparr>))
       (demo_sched demo_nodes) = (Inr w, t) \<and>
     w_ID w = ''w1'' \<and> w_Image w = ''nginx'' \<and> w_RevisionID w = ''r1'' \<and> w_DesiredState w = ''Stopped'' \<and>
     w_Status w = ''Pending'' \<and> w_Retry w = \<lparr>rt_Attempts = 0, rt_MaxAttempts = 5, rt_NextRetryAt = 0\<rparr> \<and>
     mget (w_Metadata w) ''last_action'' = Some (MStr ''Created'') \<and>
     repo (mem_view (sc_world t)) ''w1'' = Some (stored_view w)"
proof -
  let ?w = "demo_workload\<lparr>w_DesiredState := '' STOP'', w_Retry := zero_retry\<rparr>"
  obtain r t where run: "run_state (CreateWorkload calmEnv ?w) (demo_sched demo_nodes) = (r, t)" by fastforce
  have live: "writable t" by (rule calm_live [OF keeps_CreateWorkload run demo_live(1)])
  have w: "TrimSpace (w_ID ?w) \<noteq> []" "\<not> shouldSyncManagedStorage ?w" by code_simp+
  have v: "ToLower (TrimSpace '' STOP'') = ''stop''" "TrimSpace ''r1'' = ''r1''" by code_simp+
  from create_workload [OF calmetcd.etcd_client_axioms w run live] run show ?thesis
    by (auto simp: as_created_def demo_workload_def zero_retry_def v)
qed

section \<open>Deletion\<close>

context etcd_client
begin

lemma achieves_for_each:
  assumes "\<And>x c. achieves z view c (f x) (\<lambda>_. (=) (g x c))"
    and "\<And>x. keeps E (f x)" and "Q () (fold g xs c)"
  shows "achieves z view c (for_each xs f) Q"
  using assms(3)
proof (induction xs arbitrary: c)
  case (Cons x xs)
  have "achieves z view c (f x) (\<lambda>_ c'. achieves z view c' (for_each xs f) Q)"
    by (rule achieves_weaken [OF assms(1)]) (use Cons in auto)
  then show ?case unfolding for_each.simps by (intro achieves_bind [where E = E]) (rule keep_rules keep_intros assms(2))+
qed (simp add: achieves_return)

lemma achieves_removeWorkloadState:
  assumes "\<And>c'. (\<And>k. k \<notin> event_keys \<Longrightarrow> c' k = (if k \<in> removed_keys i then None else c k)) \<Longrightarrow> Q None c'"
  shows "achieves z view c (removeWorkloadState E i) Q"
proof -
  let ?ks = "[workloadStatusKey i, workloadKey i, assignmentKey i, retryKey i, reconciliationKey i]"
  let ?c = "fold (\<lambda>k c. c(k := None)) ?ks (c(workloadSpecKey i := None))"
  have q: "Q None c'" if "\<And>k. k \<notin> event_keys \<Longrightarrow> c' k = ?c k" for c'
    using that by (intro assms) (auto simp: removed_keys_def)
  have del: "achieves z view c (RetryableEtcdDelete E k) (\<lambda>_. (=) (c(k := None)))" for k c
    by (rule achieves_delete) simp
  show ?thesis
    unfolding removeWorkloadState_def
    by (simp only: option.case
        | rule achieve_rules achieves_emitEvent achieves_for_each [OF del] q keep_rules keep_intros
        | assumption)+
qed

lemma achieves_DeleteWorkload:
  assumes "\<And>c'. (\<forall>k \<in> removed_keys i. c' k = None) \<Longrightarrow> Q None c'" "\<And>e c'. Q (Some e) c'"
  shows "achieves z view c (DeleteWorkload E i) Q"
proof -
  have apart: "k \<in> removed_keys i \<Longrightarrow> k \<notin> event_keys" for k
    by (auto simp: removed_keys_def event_keys_def key_defs prefix_defs)
  have r: "achieves z view c (removeWorkloadState E i) Q" for c
    by (rule achieves_removeWorkloadState, rule assms(1)) (use apart in auto)
  show ?thesis
    unfolding DeleteWorkload_def
    by (simp only: option.case
        | rule r achieves_control(3) achieves_return achieves_bind [where E = E] achieves_option achieves_sum
            achieves_any assms(2) keep_rules keep_intros)+
qed

end

text \<open>An operation that writes none of the documents of another workload leaves it readable as it was.\<close>

lemma loaded_outside:
  assumes "safe view K X m P" "sched_inv view s" "run_state m s = (x, t)"
    and "workloadSpecKey j \<notin> K" "workloadStatusKey j \<notin> K" "workloadKey j \<notin> K"
  shows "loaded (view (sc_world t)) j = loaded (view (sc_world s)) j"
  using ensuresD(2) [OF assms(1,2)] assms(3-6) by (intro loaded_cong) (auto simp: footprint_def)

lemma other_removed:
  "j \<noteq> i \<Longrightarrow> {workloadSpecKey j, workloadStatusKey j, workloadKey j} \<inter>
     (removed_keys i \<union> storage_keys \<union> event_keys) = {}"
  by (auto simp: removed_keys_def storage_keys_def event_keys_def key_defs prefix_defs)

text \<open>The cluster with a second workload \<open>w2\<close>, which is like \<open>w1\<close>.\<close>

definition demo_pair :: mem where
  "demo_pair = demo_cluster\<lparr>m_store := m_store demo_cluster @
     [(workloadSpecKey ''w2'', PSpec (workloadSpecFromWorkload (demo_workload\<lparr>w_ID := ''w2''\<rparr>))),
      (workloadStatusKey ''w2'', marshalStatus (workloadStatusFromWorkload (demo_workload\<lparr>w_ID := ''w2''\<rparr>)))]\<rparr>"

lemma pair_inv: "sched_inv mem_view (demo_sched demo_pair)"
proof -
  have "\<forall>(k, v) \<in> set (m_store demo_pair). entry_ok k v" by code_simp
  then show ?thesis
    by (auto simp: sched_inv_def mode_ok_def cache_ok_def demo_sched_def mem_view_def intro!: store_ok_list)
qed

lemma pair_loaded:
  "loaded (mem_view demo_pair) ''w2'' = Inr (demo_workload\<lparr>w_ID := ''w2''\<rparr>)"
  by code_simp

text \<open>
  C4: Deleting a workload removes all of it and nothing else. When the deletion reports
  success and the scheduler is live afterwards, none of the six documents of the workload is
  left, a read no longer finds it, and every other workload reads as before.
\<close>

theorem delete_workload:
  assumes etcd: "etcd_client E view" and inv: "sched_inv view s"
    and run: "run_state (DeleteWorkload E i) s = (None, t)" and live: "writable t"
  shows "(\<forall>k \<in> {workloadSpecKey i, workloadStatusKey i, workloadKey i, assignmentKey i, retryKey i, reconciliationKey i}.
      view (sc_world t) k = None) \<and>
    loaded (view (sc_world t)) i = Inl (errorf (''workload '' @ i @ '' not found'')) \<and>
    (\<forall>j. j \<noteq> i \<longrightarrow> loaded (view (sc_world t)) j = loaded (view (sc_world s)) j)"
proof -
  let ?K = "removed_keys i \<union> storage_keys \<union> event_keys"
  have "achieves s view (view (sc_world s)) (DeleteWorkload E i) (\<lambda>r c. r = None \<longrightarrow> (\<forall>k \<in> removed_keys i. c k = None))"
    by (rule etcd_client.achieves_DeleteWorkload [OF etcd]) simp_all
  from achievesD [OF this run live] have gone: "\<forall>k \<in> removed_keys i. view (sc_world t) k = None" by simp
  then have "loaded (view (sc_world t)) i = Inl (errorf (''workload '' @ i @ '' not found''))"
    by (simp add: loaded_def removed_keys_def)
  moreover have "loaded (view (sc_world t)) j = loaded (view (sc_world s)) j" if "j \<noteq> i" for j
  proof (rule loaded_outside [OF _ inv run])
    show "safe view ?K {} (DeleteWorkload E i) (\<lambda>_. True)"
      by (rule etcd_client.safe_DeleteWorkload [OF etcd]) auto
  qed (use other_removed [OF that] in auto)
  ultimately show ?thesis using gone by (simp add: removed_keys_def)
qed

theorem delete_workload_witness:
  "\<exists>t. run_state (DeleteWorkload memEnv ''w1'') (demo_sched demo_pair) = (None, t) \<and>
     loaded (mem_view (sc_world t)) ''w1'' = Inl (errorf ''workload w1 not found'') \<and>
     loaded (mem_view (sc_world t)) ''w2'' = Inr (demo_workload\<lparr>w_ID := ''w2''\<rparr>)"
proof -
  obtain r t where run: "run_state (DeleteWorkload memEnv ''w1'') (demo_sched demo_pair) = (r, t)" by fastforce
  have "fst (run_state (DeleteWorkload memEnv ''w1'') (demo_sched demo_pair)) = None \<and>
    writable (snd (run_state (DeleteWorkload memEnv ''w1'') (demo_sched demo_pair)))" by code_simp
  with run have "r = None" "writable t" by auto
  with delete_workload [OF memetcd.etcd_client_axioms pair_inv, of "''w1''" t] run
  show ?thesis by (simp add: pair_loaded)
qed

end
