(* ===== verification/Isolation.thy ===== *)
theory Isolation
  imports WorkloadSpec
begin

text \<open>
  Isolation: a request changes no workload but those it names. The footprint of every operation is
  bounded by the documents of the workloads it is about, also for the remote calls and for
  workloads the client names in the body of a request.
\<close>

section \<open>What a request names\<close>

text \<open>The workloads a heartbeat reports on.\<close>

definition reported_ids :: "heartbeat_request \<Rightarrow> string set" where
  "reported_ids q = rs_WorkloadId ` set (hb_WorkloadStatuses q) \<union> (\<lambda>u. TrimSpace (us_WorkloadId u)) ` set (hb_WorkloadUsage q)"

fun api_concerns :: "api_request \<Rightarrow> string set" where
  "api_concerns (ApiHeartbeat q) = (case q of None \<Rightarrow> {} | Some h \<Rightarrow> reported_ids h)"
| "api_concerns (ApiApply vmOf q) = (case q of None \<Rightarrow> {} | Some a \<Rightarrow> {qa_WorkloadId a})"
| "api_concerns (ApiDelete i) = {i}"
| "api_concerns (ApiRetry i) = {i}"
| "api_concerns (ApiSuggest q) = (case q of None \<Rightarrow> {} | Some g \<Rightarrow> {TrimSpace (sg_TargetWorkload g)})"
| "api_concerns (ApiRegister q) = {}"
| "api_concerns (ApiListNodes st) = {}"
| "api_concerns (ApiGetNode i) = {}"
| "api_concerns (ApiListWorkloads i st) = {}"
| "api_concerns (ApiGetWorkload i) = {}"
| "api_concerns ApiSummary = {}"

text \<open>
  A workload that is created or scheduled without an identifier gets a fresh one from outside, which
  can be any; the loops over all workloads and the supervisor are about all of them.
\<close>

fun concerns :: "command \<Rightarrow> string set" where
  "concerns (CreateCmd w) = (if TrimSpace (w_ID w) = [] then UNIV else {w_ID w})"
| "concerns (ScheduleCmd w) = (if w_ID w = [] then UNIV else {w_ID w})"
| "concerns (UpdateSpecCmd i u) = {i}"
| "concerns (MarkDeletedCmd i) = {i}"
| "concerns (RetryCmd i) = {i}"
| "concerns (DeleteCmd i) = {i}"
| "concerns (StatusCmd i st) = {i}"
| "concerns (LogsCmd i t) = {i}"
| "concerns (MetadataCmd i m) = {i}"
| "concerns (RuntimeCmd i r u) = {i}"
| "concerns (ApiCmd q) = api_concerns q"
| "concerns (RegisterNodeCmd n) = {}"
| "concerns (DeleteNodeCmd i) = {}"
| "concerns (HeartbeatCmd i st cpu memory) = {}"
| "concerns (ReadCmd i) = {}"
| "concerns ListCmd = {}"
| "concerns NodesTick = {}"
| "concerns ReconcileTick = UNIV"
| "concerns DriftTick = UNIV"
| "concerns MonitorTick = UNIV"
| "concerns Supervise = UNIV"

section \<open>Footprints\<close>

text \<open>All keys but those a read of the workload \<open>j\<close> looks at.\<close>

definition others :: "string \<Rightarrow> string set" where
  "others j = - {workloadSpecKey j, workloadStatusKey j, workloadKey j}"

lemma others_families:
  "storage_keys \<subseteq> others j" "event_keys \<subseteq> others j" "node_keys \<subseteq> others j" "dns_keys \<subseteq> others j"
  by (auto simp: others_def family_defs key_defs prefix_defs)

lemma others_reconcile: "i \<noteq> j \<Longrightarrow> reconcile_keys i \<subseteq> others j"
  by (auto simp: others_def reconcile_keys_def removed_keys_def family_defs key_defs prefix_defs)

lemma others_own: "i \<noteq> j \<Longrightarrow> own_keys i \<subseteq> others j" "i \<noteq> j \<Longrightarrow> removed_keys i \<subseteq> others j"
  using reconcile_keysD(1,2) [OF others_reconcile] by auto

lemma controlApply_id: "controlApplyToModel vmOf q = Inr w \<Longrightarrow> w_ID w = qa_WorkloadId q"
  by (auto simp: controlApplyToModel_def apiBase_def apiContainer_def apiCompose_def Let_def
      split: option.splits if_splits api_body.splits)

context etcd_client
begin

lemma safe_given_id: "\<not> b \<Longrightarrow> safe view K X (if b then call (newUUID E) else ret j) (\<lambda>i. i = j)"
  by (simp add: fp.g_return)

lemma safe_Create_given:
  assumes "TrimSpace (w_ID w) \<noteq> []" "own_keys (w_ID w) \<subseteq> K" "storage_keys \<subseteq> K" "event_keys \<subseteq> K"
  shows "safe view K X (CreateWorkload E w) (\<lambda>x. \<forall>v. x = Inr v \<longrightarrow> w_ID v = w_ID w)"
  unfolding CreateWorkload_def
  by (rule fp.g_bind [OF safe_defaults] fp.g_bind [OF safe_given_id] fp.g_rules op_intros assms TrueI
      | (use assms in \<open>simp; fail\<close>))+

lemma safe_Schedule_given:
  assumes id: "w_ID w \<noteq> []" and K: "reconcile_keys (w_ID w) \<subseteq> K"
  shows "safe view K X (ScheduleWorkload E w) (\<lambda>_. True)"
proof -
  note k = reconcile_keysD [OF K]
  have a: "assignmentKey (w_ID w) \<in> K" "reconciliationKey (w_ID w) \<in> K" using k(1) by (auto simp: removed_keys_def)
  show ?thesis
    unfolding ScheduleWorkload_def
    by (rule fp.g_bind [OF safe_defaults] fp.g_bind [OF safe_given_id] fp.g_bind [OF safe_assignWorkload]
        fp.g_rules op_intros k a TrueI | (use id k a in \<open>simp; fail\<close>))+
qed

lemma safe_Update_given:
  assumes "own_keys i \<subseteq> K" "storage_keys \<subseteq> K" "event_keys \<subseteq> K"
  shows "safe view K X (UpdateWorkloadSpec E i u) (\<lambda>x. \<forall>v. x = Inr v \<longrightarrow> w_ID v = i)"
  unfolding UpdateWorkloadSpec_def
  by (rule fp.g_bind [OF safe_loadWorkload] fp.g_rules op_intros assms TrueI
      | (use assms in \<open>auto simp: Let_def dest!: update_idD\<close>; fail))+

lemma safe_reconcile_given:
  "reconcile_keys (w_ID w) \<subseteq> K \<Longrightarrow> safe view K X (reconcileNow E w) (\<lambda>_. True)"
  unfolding reconcileNow_def by (rule fp.g_rules op_intros TrueI | assumption)+

lemma safe_Apply_given:
  assumes K: "reconcile_keys (qa_WorkloadId q) \<subseteq> K"
  shows "safe view K X (ApplyWorkload vmOf E (Some q)) (\<lambda>_. True)"
proof -
  note k = reconcile_keysD [OF K]
  note update = safe_Update_given [OF k(2-4)]
  have persist: "safe view K X (case known of Inr _ \<Rightarrow> UpdateWorkloadSpec E (w_ID w) w | Inl _ \<Rightarrow> CreateWorkload E w)
      (\<lambda>x. \<forall>v. x = Inr v \<longrightarrow> w_ID v = qa_WorkloadId q)"
    if "controlApplyToModel vmOf q = Inr w" "TrimSpace (qa_WorkloadId q) \<noteq> []" for w :: workload and known :: "workload result"
    using controlApply_id [OF that(1)] update [of X w] safe_Create_given [of w K X] k that(2)
    by (auto split: sum.split)
  show ?thesis
    unfolding ApplyWorkload_def option.case
    by (rule fp.g_bind [OF update] fp.g_bind [OF persist] fp.g_rules safe_reconcile_given op_intros TrueI
        | assumption | (use K in \<open>simp; fail\<close>))+
qed

lemma safe_decided:
  assumes "own_keys i \<subseteq> K" "storage_keys \<subseteq> K"
  shows "safe view K X (rejected E r) (\<lambda>_. True)" "safe view K X (accepted E i l r a) (\<lambda>_. True)"
  unfolding rejected_def accepted_def by (rule fp.g_rules op_intros assms TrueI)+

lemma safe_Suggest_given:
  assumes K: "reconcile_keys (TrimSpace (sg_TargetWorkload g)) \<subseteq> K"
  shows "safe view K X (SubmitAutomationSuggestion E (Some g)) (\<lambda>_. True)"
proof -
  note k = reconcile_keysD [OF K]
  note d = safe_decided [OF k(2,3)]
  have desired: "safe view K X (suggestDesired E (TrimSpace (sg_TargetWorkload g)) l st) (\<lambda>_. True)" for l st
    unfolding suggestDesired_def
    by (rule fp.g_bind [OF safe_Update_given [OF k(2-4)]] fp.g_rules op_intros d TrueI | (use K in \<open>simp; fail\<close>))+
  show ?thesis
    unfolding SubmitAutomationSuggestion_def option.case Let_def
    by (rule safe_action desired d fp.g_rules op_intros k TrueI)+
qed

lemma safe_Heartbeat_given:
  assumes ids: "\<And>i. i \<in> reported_ids q \<Longrightarrow> own_keys i \<subseteq> K" and K: "storage_keys \<subseteq> K" "node_keys \<subseteq> K"
  shows "safe view K X (Heartbeat E (Some q)) (\<lambda>_. True)"
proof -
  have r: "safe view K X (applyReported E ws) (\<lambda>_. True)" if "ws \<in> set (hb_WorkloadStatuses q)" for ws
  proof -
    have own: "own_keys (rs_WorkloadId ws) \<subseteq> K" using ids that by (auto simp: reported_ids_def)
    show ?thesis unfolding applyReported_def by (rule fp.g_rules op_intros own K TrueI)+
  qed
  have u: "safe view K X (applyUsage E u) (\<lambda>_. True)" if "u \<in> set (hb_WorkloadUsage q)" for u
  proof -
    have own: "own_keys (TrimSpace (us_WorkloadId u)) \<subseteq> K" using ids that by (auto simp: reported_ids_def)
    show ?thesis unfolding applyUsage_def Let_def by (rule fp.g_rules op_intros own K TrueI)+
  qed
  show ?thesis
    unfolding Heartbeat_def option.case by (rule r u fp.g_rules op_intros K TrueI | assumption)+
qed

lemma safe_serve_given:
  assumes j: "j \<notin> api_concerns q"
  shows "safe view (others j) X (serve E q) (\<lambda>_. True)"
proof (cases q)
  case (ApiRegister r)
  show ?thesis
    unfolding ApiRegister serve.simps apiRegisterNode_def
    by (rule safe_dropResult fp.g_rules op_intros others_families TrueI)+
next
  case (ApiHeartbeat r)
  show ?thesis
  proof (cases r)
    case None
    show ?thesis unfolding ApiHeartbeat None serve.simps Heartbeat_def option.case
      by (rule safe_dropResult fp.g_rules TrueI)+
  next
    case (Some h)
    with j ApiHeartbeat have "\<And>i. i \<in> reported_ids h \<Longrightarrow> own_keys i \<subseteq> others j" by (auto intro!: others_own(1))
    with ApiHeartbeat Some show ?thesis
      by (simp only: serve.simps) (rule safe_dropResult safe_Heartbeat_given others_families | assumption)+
  qed
next
  case (ApiApply vmOf r)
  show ?thesis
  proof (cases r)
    case None
    show ?thesis unfolding ApiApply None serve.simps ApplyWorkload_def option.case
      by (rule safe_dropResult fp.g_rules op_intros TrueI)+
  next
    case (Some a)
    with j ApiApply have "reconcile_keys (qa_WorkloadId a) \<subseteq> others j" by (auto intro!: others_reconcile)
    with ApiApply Some show ?thesis by (simp only: serve.simps) (rule safe_dropResult safe_Apply_given | assumption)+
  qed
next
  case (ApiSuggest r)
  show ?thesis
  proof (cases r)
    case None
    show ?thesis unfolding ApiSuggest None serve.simps SubmitAutomationSuggestion_def rejected_def option.case
      by (rule safe_dropResult fp.g_rules op_intros TrueI)+
  next
    case (Some g)
    with j ApiSuggest have "reconcile_keys (TrimSpace (sg_TargetWorkload g)) \<subseteq> others j" by (auto intro!: others_reconcile)
    with ApiSuggest Some show ?thesis by (simp only: serve.simps) (rule safe_dropResult safe_Suggest_given | assumption)+
  qed
next
  case (ApiDelete i)
  with j have own: "own_keys i \<subseteq> others j" by (auto intro!: others_own(1))
  show ?thesis
    unfolding ApiDelete serve.simps apiDeleteWorkload_def
    by (rule safe_dropResult fp.g_rules op_intros others_families own TrueI)+
next
  case (ApiRetry i)
  with j have own: "own_keys i \<subseteq> others j" by (auto intro!: others_own(1))
  show ?thesis
    unfolding ApiRetry serve.simps RetryWorkload_def
    by (rule safe_dropResult fp.g_rules op_intros others_families own TrueI)+
qed (simp_all only: serve.simps; rule safe_dropResult; rule op_intros)+

lemma safe_perform_given:
  assumes j: "j \<notin> concerns c"
  shows "safe view (others j) X (perform E c) (\<lambda>_. True)"
proof (cases c)
  case (CreateCmd w)
  with j have "TrimSpace (w_ID w) \<noteq> []" "own_keys (w_ID w) \<subseteq> others j" by (auto intro!: others_own(1) split: if_splits)
  then show ?thesis
    unfolding CreateCmd perform.simps
    by (intro safe_ignore safe_Create_given [THEN ensures_any] others_families)
next
  case (ScheduleCmd w)
  with j have "w_ID w \<noteq> []" "reconcile_keys (w_ID w) \<subseteq> others j" by (auto intro!: others_reconcile split: if_splits)
  then show ?thesis unfolding ScheduleCmd perform.simps by (intro safe_ignore safe_Schedule_given)
next
  case (ReadCmd i)
  show ?thesis unfolding ReadCmd perform.simps by (rule safe_ignore safe_GetWorkloadByID [THEN ensures_any])+
next
  case ListCmd
  show ?thesis unfolding ListCmd perform.simps by (rule fp.g_seq safe_ignore op_intros)+
next
  case (ApiCmd q)
  show ?thesis unfolding ApiCmd perform.simps by (rule safe_serve_given) (use j ApiCmd in simp)
qed (use j in \<open>simp_all only: perform.simps concerns.simps UNIV_I not_True_eq_False\<close>;
    (elim notE; fail)?; rule safe_ignore op_intros others_families others_own; (auto; fail)?)+

end

section \<open>Requests\<close>

text \<open>
  C18: Requests about different workloads do not interfere. Whatever a request does, in whatever mode
  and whether it succeeds or not, every workload it does not name reads afterwards as it did before.
  This covers the operations of the scheduler and the remote calls alike: creation and
  scheduling name the identifier the client gave, applying, deleting, retrying and suggesting name
  their workload, a heartbeat names the workloads it reports on, and requests about nodes and reads
  name none. Nothing is claimed of a creation that leaves the choice of the identifier to
  the scheduler, of the loops over all workloads and of the supervisor.
\<close>

theorem requests_isolated:
  assumes "etcd_client E view" and "sched_inv view s" and "j \<notin> concerns c"
    and "run_state (perform E c) s = (x, t)"
  shows "loaded (view (sc_world t)) j = loaded (view (sc_world s)) j"
  by (rule loaded_outside [OF etcd_client.safe_perform_given [OF assms(1,3)] assms(2,4)]) (simp_all add: others_def)

theorem requests_isolated_witness:
  "loaded (mem_view (sc_world (snd (run_state (perform memEnv (DeleteCmd ''w1'')) (demo_sched demo_pair))))) ''w2''
     = Inr (demo_workload\<lparr>w_ID := ''w2''\<rparr>) \<and>
   loaded (mem_view (sc_world (snd (run_state (perform memEnv (CreateCmd demo_workload)) (demo_sched demo_pair))))) ''w2''
     = Inr (demo_workload\<lparr>w_ID := ''w2''\<rparr>) \<and>
   loaded (mem_view (sc_world (snd (run_state (perform memEnv (ApiCmd (ApiApply (\<lambda>_. None)
       (Some \<lparr>qa_WorkloadId = ''w1'', qa_RevisionId = [], qa_DesiredState = ''stopped'', qa_Spec = None\<rparr>))))
       (demo_sched demo_pair))))) ''w2''
     = Inr (demo_workload\<lparr>w_ID := ''w2''\<rparr>)"
proof -
  have "w_ID demo_workload = ''w1''" "TrimSpace ''w1'' = ''w1''" by code_simp+
  moreover have "loaded (mem_view (sc_world (snd (run_state (perform memEnv c) (demo_sched demo_pair))))) ''w2''
      = Inr (demo_workload\<lparr>w_ID := ''w2''\<rparr>)" if "concerns c = {''w1''}" for c
  proof -
    have "''w2'' \<notin> concerns c" using that by simp
    from requests_isolated [OF memetcd.etcd_client_axioms pair_inv this prod.collapse [symmetric]]
    show ?thesis by (simp add: pair_loaded del: perform.simps)
  qed
  ultimately show ?thesis by (simp del: perform.simps)
qed

text \<open>
  A reconciliation of one workload leaves every other workload as it was, whatever the
  agents answer.
\<close>

theorem reconcile_isolated:
  assumes "etcd_client E view" and "sched_inv view s" and "j \<noteq> w_ID w"
    and "run_state (ReconcileWorkload E w) s = (x, t)"
  shows "loaded (view (sc_world t)) j = loaded (view (sc_world s)) j"
  using assms(3) others_reconcile [of "w_ID w" j]
  by (intro loaded_outside [OF etcd_client.safe_ReconcileWorkload [OF assms(1), of w "others j"] assms(2,4)])
    (auto simp: others_def)

end
