(* ===== verification/ListingSpec.thy ===== *)
theory ListingSpec
  imports WorkloadSpec
begin

text \<open>
  The two ways to read workloads. \<open>GetWorkloads\<close> joins two range reads, \<open>GetWorkloadByID\<close> reads
  single keys; both are shown to agree.
\<close>

section \<open>Joining two ranges\<close>

lemma decoded_Cons: "decoded f ((k, v) # kvs) = (case f v of Inl _ \<Rightarrow> [] | Inr x \<Rightarrow> [(k, x)]) @ decoded f kvs"
  by (simp add: decoded_def)

lemma unmarshal_eq: "unmarshalSpec v = Inr p \<longleftrightarrow> v = PSpec p" "unmarshalStatus v = Inr q \<longleftrightarrow> v = PStatus q"
  by (cases v; simp)+

lemma decoded_iff:
  "(k, p) \<in> set (decoded unmarshalSpec kvs) \<longleftrightarrow> (k, PSpec p) \<in> set kvs"
  "(k, q) \<in> set (decoded unmarshalStatus kvs) \<longleftrightarrow> (k, PStatus q) \<in> set kvs"
  by (simp_all add: in_decoded unmarshal_eq)

lemma decoded_keys: "fst ` set (decoded f kvs) \<subseteq> fst ` set kvs"
proof (induction kvs)
  case (Cons kv kvs)
  then show ?case by (cases kv) (auto simp: decoded_Cons split: sum.splits)
qed (simp add: decoded_def)

lemma decoded_distinct: "distinct (map fst kvs) \<Longrightarrow> distinct (map fst (decoded f kvs))"
proof (induction kvs)
  case (Cons kv kvs)
  obtain k v where kv: "kv = (k, v)" by (cases kv)
  with Cons.prems decoded_keys [of f kvs] have "k \<notin> fst ` set (decoded f kvs)" by auto
  with Cons kv show ?case by (cases "f v") (simp_all add: decoded_Cons)
qed (simp add: decoded_def)

lemma distinct_by_key:
  assumes "distinct (map fst xs)" and "\<And>k x. (k, x) \<in> set xs \<Longrightarrow> k = key (f x)"
  shows "distinct (map (f \<circ> snd) xs)"
proof -
  have "map fst xs = map key (map (f \<circ> snd) xs)" using assms(2) by auto
  with assms(1) have "distinct (map key (map (f \<circ> snd) xs))" by simp
  then show ?thesis by (simp only: distinct_map)
qed

lemma index_absent:
  "i \<notin> (f \<circ> snd) ` set xs \<Longrightarrow> mget (fold (\<lambda>(_, x). mput (f x) x) xs m) i = mget m i"
  by (induction xs arbitrary: m) (auto simp: map_simps)

lemma index_present:
  "distinct (map (f \<circ> snd) xs) \<Longrightarrow> (k, x) \<in> set xs \<Longrightarrow> mget (fold (\<lambda>(_, x). mput (f x) x) xs m) (f x) = Some x"
proof (induction xs arbitrary: m)
  case (Cons y ys)
  show ?case
  proof (cases "y = (k, x)")
    case True
    with Cons.prems(1) show ?thesis by (simp add: index_absent map_simps)
  next
    case False
    with Cons show ?thesis by (auto simp: case_prod_beta)
  qed
qed simp

lemma workloadSpecKey_inj [simp]: "workloadSpecKey i = workloadSpecKey j \<longleftrightarrow> i = j"
  by (simp add: workloadSpecKey_def)

lemma workloadStatusKey_inj [simp]: "workloadStatusKey i = workloadStatusKey j \<longleftrightarrow> i = j"
  by (simp add: workloadStatusKey_def)

text \<open>A range read of the store: every entry under the prefix, once.\<close>

definition range_of :: "content \<Rightarrow> string \<Rightarrow> (string \<times> payload) list \<Rightarrow> bool" where
  "range_of c p kvs = (distinct (map fst kvs) \<and> (\<forall>k v. (k, v) \<in> set kvs \<longleftrightarrow> HasPrefix k p \<and> c k = Some v))"

lemma spec_entry:
  assumes "store_ok c" and "range_of c workloadSpecPrefix kvs"
  shows "(k, PSpec p) \<in> set kvs \<longleftrightarrow> k = workloadSpecKey (ws_ID p) \<and> c k = Some (PSpec p)"
proof -
  have "HasPrefix (workloadSpecKey i) workloadSpecPrefix" for i by (simp add: workloadSpecKey_def)
  moreover have "k = workloadSpecKey (ws_ID p)" if "HasPrefix k workloadSpecPrefix" "c k = Some (PSpec p)"
  proof -
    from assms(1) that(2) have "entry_ok k (PSpec p)" by (simp add: store_ok_def)
    with that(1) show ?thesis by (simp add: entry_ok_def)
  qed
  ultimately show ?thesis using assms(2) by (auto simp: range_of_def)
qed

lemma status_entry:
  assumes "store_ok c" and "range_of c workloadStatusPrefix kvs"
  shows "(k, PStatus q) \<in> set kvs \<longleftrightarrow> k = workloadStatusKey (wt_ID q) \<and> c k = Some (PStatus q)"
proof -
  have "HasPrefix (workloadStatusKey i) workloadStatusPrefix" for i by (simp add: workloadStatusKey_def)
  moreover have "k = workloadStatusKey (wt_ID q)" if "HasPrefix k workloadStatusPrefix" "c k = Some (PStatus q)"
  proof -
    from assms(1) that(2) have "entry_ok k (PStatus q)" by (simp add: store_ok_def)
    with that(1) show ?thesis by (simp add: entry_ok_def)
  qed
  ultimately show ?thesis using assms(2) by (auto simp: range_of_def)
qed

lemma status_index:
  assumes "store_ok c" and "range_of c workloadStatusPrefix kvs"
  shows "mget (statusMapOf kvs) i = Some q \<longleftrightarrow> c (workloadStatusKey i) = Some (PStatus q)"
proof -
  let ?d = "decoded unmarshalStatus kvs"
  have d: "(k, q) \<in> set ?d \<longleftrightarrow> k = workloadStatusKey (wt_ID q) \<and> c k = Some (PStatus q)" for k q
    using status_entry [OF assms] by (simp add: decoded_iff)
  have "distinct (map fst ?d)" using assms(2) by (intro decoded_distinct) (simp add: range_of_def)
  then have dist: "distinct (map (wt_ID \<circ> snd) ?d)"
    using d by (intro distinct_by_key [where key = workloadStatusKey]) blast+
  have present: "mget (statusMapOf kvs) (wt_ID q) = Some q" if "(k, q) \<in> set ?d" for k q
    unfolding statusMapOf_def by (rule index_present [OF dist that])
  have absent: "mget (statusMapOf kvs) i = None" if "i \<notin> (wt_ID \<circ> snd) ` set ?d"
    using index_absent [OF that, of "[]"] by (simp add: statusMapOf_def)
  have own: "wt_ID q = i" if "c (workloadStatusKey i) = Some (PStatus q)" for q
  proof -
    from assms(1) that have "entry_ok (workloadStatusKey i) (PStatus q)" unfolding store_ok_def by blast
    then show ?thesis by simp
  qed
  show ?thesis
  proof
    assume "c (workloadStatusKey i) = Some (PStatus q)"
    with own d present show "mget (statusMapOf kvs) i = Some q" by metis
  next
    assume m: "mget (statusMapOf kvs) i = Some q"
    with absent have "i \<in> (wt_ID \<circ> snd) ` set ?d" by (metis option.distinct(1))
    then obtain k q' where "(k, q') \<in> set ?d" "wt_ID q' = i" by auto
    with present d m show "c (workloadStatusKey i) = Some (PStatus q)" by fastforce
  qed
qed

text \<open>The list that the join produces, entry by entry.\<close>

lemma listed_by_id:
  assumes ok: "store_ok c" and specs: "range_of c workloadSpecPrefix kvs" and statuses: "range_of c workloadStatusPrefix sts"
  defines "ws \<equiv> map (workloadOfSpec (statusMapOf sts)) (map snd (decoded unmarshalSpec kvs))"
  shows "distinct (map w_ID ws)"
    and "i \<noteq> [] \<Longrightarrow> c (workloadSpecKey i) \<noteq> None \<Longrightarrow> w \<in> set ws \<and> w_ID w = i \<longleftrightarrow> loaded c i = Inr w"
proof -
  let ?d = "decoded unmarshalSpec kvs"
  have d: "(k, p) \<in> set ?d \<longleftrightarrow> k = workloadSpecKey (ws_ID p) \<and> c k = Some (PSpec p)" for k p
    using spec_entry [OF ok specs] by (simp add: decoded_iff)
  have id: "w_ID (workloadOfSpec m p) = ws_ID p" for m p
    by (simp add: workloadOfSpec_def workloadFromSpec_def withStatus_def Let_def split: option.splits)
  have "distinct (map fst ?d)" using specs by (intro decoded_distinct) (simp add: range_of_def)
  then have "distinct (map (ws_ID \<circ> snd) ?d)"
    using d by (intro distinct_by_key [where key = workloadSpecKey]) blast+
  then show "distinct (map w_ID ws)" by (simp add: ws_def id comp_def)
  assume i: "i \<noteq> []" and "c (workloadSpecKey i) \<noteq> None"
  then obtain v where v: "c (workloadSpecKey i) = Some v" by blast
  with ok have "entry_ok (workloadSpecKey i) v" unfolding store_ok_def by blast
  then obtain p where p: "v = PSpec p" "ws_ID p = i"
    by (cases v) (simp_all add: entry_ok_def workloadSpecKey_def)
  have "w \<in> set ws \<and> w_ID w = i \<longleftrightarrow> w = workloadOfSpec (statusMapOf sts) p"
  proof -
    have "q = p" if "(k, q) \<in> set ?d" "ws_ID q = i" for k q using that d v p by auto
    moreover have "(workloadSpecKey i, p) \<in> set ?d" using d v p by simp
    ultimately show ?thesis using p(2) by (force simp: ws_def id)
  qed
  moreover have "loaded c i = Inr (workloadOfSpec (statusMapOf sts) p)"
  proof (cases "c (workloadStatusKey i)")
    case None
    with status_index [OF ok statuses, of i] have "mget (statusMapOf sts) i = None"
      by (cases "mget (statusMapOf sts) i") auto
    with None v p id [of "statusMapOf sts" p] show ?thesis
      by (simp add: loaded_def workloadOfSpec_def workloadFromSpec_def)
  next
    case (Some sv)
    with ok have "entry_ok (workloadStatusKey i) sv" unfolding store_ok_def by blast
    then obtain q where q: "sv = PStatus q" "wt_ID q = i"
      by (cases sv) (simp_all add: entry_ok_def workloadStatusKey_def)
    with status_index [OF ok statuses, of i q] Some have "mget (statusMapOf sts) i = Some q" by simp
    with Some v p q i show ?thesis
      by (simp add: loaded_def workloadOfSpec_def workloadFromSpec_def)
  qed
  ultimately show "w \<in> set ws \<and> w_ID w = i \<longleftrightarrow> loaded c i = Inr w" by auto
qed

context etcd_client
begin

lemma achieves_GetWorkloads:
  assumes "\<And>kvs sts. range_of c workloadSpecPrefix kvs \<Longrightarrow> range_of c workloadStatusPrefix sts \<Longrightarrow>
    Q (Inr (map (workloadOfSpec (statusMapOf sts)) (map snd (decoded unmarshalSpec kvs)))) c"
  shows "achieves z view c (GetWorkloads E) Q"
  unfolding GetWorkloads_def
  by (simp only: sum.case simp_thms if_False if_True Let_def
      | rule achieve_rules keep_rules keep_intros
      | (rule assms; simp add: range_of_def; fail))+

end

text \<open>
  C19: The two ways to read workloads agree. When a live scheduler lists all workloads and then
  asks for one of them by its identifier, the answer is the workload of the list with that
  identifier; the list has one workload for every stored specification and no identifier
  twice.
\<close>

theorem listing_agrees_with_lookup:
  assumes etcd: "etcd_client E view" and inv: "sched_inv view s"
    and listing: "run_state (GetWorkloads E) s = (r, t)"
    and lookup: "run_state (GetWorkloadByID E i) t = (x, u)" and live: "writable u"
    and i: "i \<noteq> []" "view (sc_world s) (workloadSpecKey i) \<noteq> None"
  shows "\<exists>ws. r = Inr ws \<and> distinct (map w_ID ws) \<and> (\<forall>w. x = Inr w \<longleftrightarrow> w \<in> set ws \<and> w_ID w = i) \<and> (\<exists>w. x = Inr w)"
proof -
  let ?c = "view (sc_world s)"
  have t: "writable t" by (rule live_start [OF keeps_GetWorkloadByID lookup live])
  from inv have ok: "store_ok ?c" by (simp add: sched_inv_def)
  have "achieves s view ?c (GetWorkloads E) (\<lambda>r c. c = ?c \<and> (\<exists>ws. r = Inr ws \<and> distinct (map w_ID ws) \<and>
      (\<forall>w. w \<in> set ws \<and> w_ID w = i \<longleftrightarrow> loaded ?c i = Inr w)))"
  proof (rule etcd_client.achieves_GetWorkloads [OF etcd], intro conjI exI)
    fix kvs sts assume "range_of ?c workloadSpecPrefix kvs" "range_of ?c workloadStatusPrefix sts"
    note l = listed_by_id [OF ok this]
    show "distinct (map w_ID (map (workloadOfSpec (statusMapOf sts)) (map snd (decoded unmarshalSpec kvs))))" by (rule l(1))
    show "\<forall>w. w \<in> set (map (workloadOfSpec (statusMapOf sts)) (map snd (decoded unmarshalSpec kvs))) \<and> w_ID w = i \<longleftrightarrow>
        loaded ?c i = Inr w" by (intro allI l(2) i)
  qed (rule refl)+
  from achievesD [OF this listing t] obtain ws where ws: "view (sc_world t) = ?c" "r = Inr ws" "distinct (map w_ID ws)"
      "\<forall>w. w \<in> set ws \<and> w_ID w = i \<longleftrightarrow> loaded ?c i = Inr w" by auto
  have "achieves t view (view (sc_world t)) (GetWorkloadByID E i) (\<lambda>x c. x = loaded (view (sc_world t)) i)"
    by (rule etcd_client.achieves_GetWorkloadByID [OF etcd]) simp
  from achievesD [OF this lookup live] ws(1) have x: "x = loaded ?c i" by simp
  from i(2) obtain v where v: "?c (workloadSpecKey i) = Some v" by blast
  with ok have "entry_ok (workloadSpecKey i) v" unfolding store_ok_def by blast
  then obtain p where "v = PSpec p" by (cases v) (simp_all add: entry_ok_def workloadSpecKey_def)
  with v have "\<exists>w. loaded ?c i = Inr w" by (simp add: loaded_def)
  with ws x show ?thesis by blast
qed

theorem listing_agrees_with_lookup_witness:
  "\<exists>ws t w u. run_state (GetWorkloads calmEnv) (demo_sched demo_cluster) = (Inr ws, t) \<and>
     run_state (GetWorkloadByID calmEnv ''w1'') t = (Inr w, u) \<and> w \<in> set ws"
proof -
  obtain r t where l: "run_state (GetWorkloads calmEnv) (demo_sched demo_cluster) = (r, t)" by fastforce
  obtain x u where g: "run_state (GetWorkloadByID calmEnv ''w1'') t = (x, u)" by fastforce
  have live: "writable u"
    by (rule calm_live [OF keeps_GetWorkloadByID g calm_live [OF keeps_GetWorkloads l demo_live(1)]])
  have "mem_view (sc_world (demo_sched demo_cluster)) (workloadSpecKey ''w1'') \<noteq> None"
    by code_simp
  from listing_agrees_with_lookup [OF calmetcd.etcd_client_axioms demo_inv l g live _ this] l g show ?thesis by auto
qed

end
