(* ===== verification/RetrySpec.thy ===== *)
theory RetrySpec
  imports WorkloadSpec
begin

text \<open>
  What the retry machinery of \<open>workload_control.go\<close> promises: the backoff as a function of
  the attempt, the retry budget as an invariant, exhaustion after a bounded number of
  failures, and what a failure and a manual retry do to the stored workload.
\<close>

section \<open>Backoff\<close>

lemma doubled_power: "doubled n b = b * 2 ^ n"
  by (induction n b rule: doubled.induct) (simp_all add: mult.assoc mult.left_commute)

lemma doubled_exact:
  assumes "n \<le> 30"
  shows "sint (doubled n (word_of_int (5 * Second))) = 5 * Second * 2 ^ n"
proof -
  have "(2::int) ^ n \<le> 2 ^ 30" using assms by (intro power_increasing) simp_all
  then have "5 * Second * 2 ^ n < 2 ^ 63" by (simp add: Second_def nsec_def)
  moreover have "doubled n (word_of_int (5 * Second)) = word_of_int (5 * Second * 2 ^ n)"
    by (simp add: doubled_power word_of_int_power_hom [symmetric])
  moreover have "0 \<le> 5 * Second * (2::int) ^ n" by (simp add: Second_def nsec_def)
  ultimately show ?thesis by (simp only: sint_sbintrunc') (simp add: signed_take_bit_int_eq_self)
qed

text \<open>
  C22: The retry backoff is none for the first two attempts and then doubles from five seconds
  up to two minutes. The 64-bit computation agrees with exact arithmetic for every attempt
  up to the 33rd, and within that range the delay is never negative, never more than two
  minutes and never shorter than the one before. The limit is tight: one attempt later the
  doubling has left the signed 64-bit range and the delay is negative.
\<close>

theorem retry_backoff:
  assumes "a \<le> 33"
  shows "retryBackoff a = (if a < 3 then 0 else min (2 * Minute) (5 * Second * 2 ^ (nat a - 3))) \<and>
    0 \<le> retryBackoff a \<and> retryBackoff a \<le> 2 * Minute \<and> (\<forall>b \<le> a. retryBackoff b \<le> retryBackoff a) \<and>
    retryBackoff 34 < 0"
proof -
  have eq: "retryBackoff x = (if x < 3 then 0 else min (2 * Minute) (5 * Second * 2 ^ (nat x - 3)))" if "x \<le> 33" for x
  proof (cases "x < 3")
    case False
    have n: "nat (x - 2 - 1) = nat x - 3" using False by simp
    have "sint (doubled (nat (x - 2 - 1)) (word_of_int (5 * Second))) = 5 * Second * 2 ^ (nat x - 3)"
      unfolding n by (rule doubled_exact) (use that in simp)
    with False show ?thesis by (simp add: retryBackoff_def minAttemptsBeforeBackoff_def Let_def min_def)
  qed (simp add: retryBackoff_def minAttemptsBeforeBackoff_def Let_def)
  have mono: "retryBackoff b \<le> retryBackoff a" if "b \<le> a" for b
  proof (cases "b < 3")
    case False
    then have "5 * Second * (2::int) ^ (nat b - 3) \<le> 5 * Second * 2 ^ (nat a - 3)"
      using that by (intro mult_left_mono power_increasing) (simp_all add: Second_def nsec_def)
    with False that assms show ?thesis by (simp only: eq) (simp add: min_def)
  qed (use assms that in \<open>simp add: eq Second_def Minute_def nsec_def\<close>)
  have "retryBackoff 34 < 0" by code_simp
  with eq [OF assms] mono show ?thesis by (simp add: Second_def Minute_def nsec_def)
qed

theorem retry_backoff_witness:
  "retryBackoff 5 = 20 * Second \<and> retryBackoff 33 = 2 * Minute"
  using retry_backoff [of 5] retry_backoff [of 33] by (simp add: Second_def Minute_def nsec_def)

section \<open>The retry budget\<close>

definition budget :: "workload \<Rightarrow> int" where
  "budget w = (if rt_MaxAttempts (w_Retry w) \<le> 0 then 5 else rt_MaxAttempts (w_Retry w))"

definition retryable :: "workload \<Rightarrow> bool" where
  "retryable w = (0 \<le> rt_Attempts (w_Retry w) \<and> rt_Attempts (w_Retry w) < budget w)"

lemma withMaxAttempts_sel [simp]:
  "rt_MaxAttempts (w_Retry (withMaxAttempts w)) = budget w" "rt_Attempts (w_Retry (withMaxAttempts w)) = rt_Attempts (w_Retry w)"
  "w_Metadata (withMaxAttempts w) = w_Metadata w"
  by (simp_all add: withMaxAttempts_def budget_def)

lemma applyFailureReason_sel [simp]:
  "w_Retry (applyFailureReason w r) = w_Retry w" "w_Status (applyFailureReason w r) = w_Status w"
  "si_ActualState (w_StatusInfo (applyFailureReason w r)) = si_ActualState (w_StatusInfo w)"
  "k \<notin> {''scheduler_last_error'', ''last_error''} \<Longrightarrow> mget (w_Metadata (applyFailureReason w r)) k = mget (w_Metadata w) k"
  by (simp_all add: applyFailureReason_def Let_def)

lemma budget_pos: "0 < budget w"
  by (simp add: budget_def)

lemma retryStep_budget:
  assumes "retryStep t reason w = (oc, g, w')"
  shows "budget w' = budget w \<and> rt_MaxAttempts (w_Retry w') = budget w"
  using assms budget_pos [of w] by (auto simp: retryStep_def Let_def budget_def [of w'] split: if_splits option.splits)

text \<open>
  The retry budget is an invariant. A failure of a workload with retries left either uses
  the last one, and then the workload is Failed with its attempts at the limit and is never
  due again, or leaves it with retries left, waiting as RetryPending, with no attempt lost,
  and due exactly from the end of the backoff on.
\<close>

theorem retry_budget:
  assumes "retryable w" and "retryStep t reason w = (oc, g, w')" and "t + retryBackoff (rt_Attempts (w_Retry w')) \<noteq> 0"
  shows "if oc = Exhausted
    then rt_Attempts (w_Retry w') = budget w \<and> w_Status w' = ''Failed'' \<and> (\<forall>t'. \<not> dueForRetry t' w')
    else retryable w' \<and> w_Status w' = ''RetryPending'' \<and> rt_Attempts (w_Retry w) \<le> rt_Attempts (w_Retry w') \<and>
      (\<forall>t'. dueForRetry t' w' \<longleftrightarrow> t + retryBackoff (rt_Attempts (w_Retry w')) \<le> t')"
proof -
  note b = retryStep_budget [OF assms(2)] budget_pos [of w]
  have n: "0 \<le> rt_Attempts (w_Retry w)" "rt_Attempts (w_Retry w) < budget w" using assms(1) by (simp_all add: retryable_def)
  show ?thesis
    using assms(2,3) b n
    by (auto simp: retryStep_def Let_def retryable_def dueForRetry_def IsZero_def split: if_splits option.splits)
qed

theorem retry_budget_witness:
  "w_Status (snd (snd (retryStep demo_now ''boom'' demo_workload))) = ''RetryPending'' \<and>
   retryable (snd (snd (retryStep demo_now ''boom'' demo_workload)))"
proof -
  let ?r = "retryStep demo_now ''boom'' demo_workload"
  have h: "retryable demo_workload" "demo_now + retryBackoff (rt_Attempts (w_Retry (snd (snd ?r)))) \<noteq> 0" "fst ?r \<noteq> Exhausted"
    by code_simp+
  have "?r = (fst ?r, fst (snd ?r), snd (snd ?r))" by simp
  from retry_budget [OF h(1) this h(2)] h(3) show ?thesis by simp
qed

section \<open>Exhaustion\<close>

text \<open>The outcomes of a sequence of failures of one workload.\<close>

fun outcomes :: "(time \<times> string) list \<Rightarrow> workload \<Rightarrow> retry_outcome list" where
  "outcomes [] w = []"
| "outcomes ((t, r) # fs) w = (case retryStep t r w of (oc, _, w') \<Rightarrow> oc # outcomes fs w')"

lemma retryStep_after_grace:
  assumes "metadataTimestamp (w_Metadata w) workloadFailureObservedAtKey = Some t0"
    and "t0 + defaultFailureGracePeriod \<le> t"
  obtains w' where "rt_Attempts (w_Retry w) + 1 < budget w" "retryStep t r w = (Scheduled, t0 + defaultFailureGracePeriod, w')"
      "budget w' = budget w" "rt_Attempts (w_Retry w') = rt_Attempts (w_Retry w) + 1"
      "metadataTimestamp (w_Metadata w') workloadFailureObservedAtKey = Some t0"
  | w' where "budget w \<le> rt_Attempts (w_Retry w) + 1" "retryStep t r w = (Exhausted, t0 + defaultFailureGracePeriod, w')"
proof (cases "budget w \<le> rt_Attempts (w_Retry w) + 1")
  case True
  with assms that(2) show thesis by (fastforce simp: retryStep_def Let_def)
next
  case False
  obtain oc g w' where r: "retryStep t r w = (oc, g, w')" by (metis prod.collapse)
  from False assms r retryStep_budget [OF r] that(1) [of w'] show thesis
    by (auto simp: retryStep_def Let_def metadataTimestamp_def meta_key_defs)
qed

text \<open>
  C8: A workload that keeps failing is given up on. Once its grace period is over, a workload
  with \<open>d\<close> retries left goes through \<open>d - 1\<close> scheduled retries and then fails for good,
  whatever the failures are.
\<close>

theorem failures_exhaust:
  assumes "metadataTimestamp (w_Metadata w) workloadFailureObservedAtKey = Some t0"
    and "\<forall>(t, r) \<in> set fs. t0 + defaultFailureGracePeriod \<le> t"
    and "int (length fs) = budget w - rt_Attempts (w_Retry w)" and "fs \<noteq> []"
  shows "outcomes fs w = replicate (length fs - 1) Scheduled @ [Exhausted]"
  using assms
proof (induction fs arbitrary: w)
  case (Cons f fs)
  obtain t r where f: "f = (t, r)" by force
  with Cons.prems have "t0 + defaultFailureGracePeriod \<le> t" by simp
  with Cons.prems(1) show ?case
  proof (cases rule: retryStep_after_grace [of w t0 t r])
    case (1 w')
    with Cons.prems have "fs \<noteq> []" by auto
    moreover from this have "outcomes fs w' = replicate (length fs - 1) Scheduled @ [Exhausted]"
      using 1 Cons.prems by (intro Cons.IH) auto
    ultimately show ?thesis using 1(2) f by (cases fs) simp_all
  next
    case (2 w')
    have "fs = []" using 2(1) Cons.prems(3) by (cases fs) auto
    with 2(2) f show ?thesis by simp
  qed
qed simp

theorem failures_exhaust_witness:
  "outcomes (replicate 5 (demo_now + 10 * Minute, ''boom''))
     (set_meta workloadFailureObservedAtKey (MStr (formatRFC3339 demo_now)) demo_workload)
   = [Scheduled, Scheduled, Scheduled, Scheduled, Exhausted]"
proof -
  let ?w = "set_meta workloadFailureObservedAtKey (MStr (formatRFC3339 demo_now)) demo_workload"
  have "metadataTimestamp (w_Metadata ?w) workloadFailureObservedAtKey = Some demo_now"
    "budget ?w - rt_Attempts (w_Retry ?w) = 5" "demo_now + defaultFailureGracePeriod \<le> demo_now + 10 * Minute"
    by code_simp+
  with failures_exhaust [of ?w demo_now "replicate 5 (demo_now + 10 * Minute, ''boom'')"] show ?thesis
    by (simp add: numeral_eq_Suc)
qed

section \<open>What is stored\<close>

lemma applyFailureReason_frame [simp]:
  "w_ManagedVolumes (applyFailureReason w r) = w_ManagedVolumes w" "w_VM (applyFailureReason w r) = w_VM w"
  by (simp_all add: applyFailureReason_def Let_def)

lemma retryStep_sync:
  assumes "retryStep t r w = (oc, g, w')"
  shows "shouldSyncManagedStorage w' = shouldSyncManagedStorage w"
proof (rule shouldSync_meta)
  show "w_ManagedVolumes w' = w_ManagedVolumes w" "w_VM w' = w_VM w"
    using assms by (auto simp: retryStep_def withMaxAttempts_def Let_def split: if_splits option.splits)
  show "mget (w_Metadata w') managedStorageStateKey = mget (w_Metadata w) managedStorageStateKey"
    using assms by (auto simp: retryStep_def Let_def meta_key_defs mget_mdels split: if_splits option.splits)
qed

lemma retriggered_sync: "shouldSyncManagedStorage (retriggered t w) = shouldSyncManagedStorage w"
  by (rule shouldSync_meta)
    (simp_all add: retriggered_def clearReapplyMetadata_def withMaxAttempts_def Let_def meta_key_defs mget_mdels)

context etcd_client
begin

lemma achieves_emitRetryEvent:
  "(\<And>c'. (\<And>k. k \<notin> event_keys \<Longrightarrow> c' k = c k) \<Longrightarrow> Q () c') \<Longrightarrow> achieves z view c (emitRetryEvent E oc g r w) Q"
  unfolding emitRetryEvent_def Let_def by (cases oc) (simp_all add: achieves_emitEvent)

lemma achieves_retry:
  assumes w: "loaded c i = Inr w" "\<not> shouldSyncManagedStorage w" "w_ID w \<noteq> []"
    and Q: "\<And>t c'. repo c' = (repo c)(w_ID w \<mapsto> stored_view (snd (snd (retryStep t r w)))) \<Longrightarrow> Q None c'"
  shows "achieves z view c (UpdateWorkloadRetryOnFailure E i r) Q"
proof -
  have q: "Q None (saved w' c')"
    if "retryStep t r w = (oc, g, w')" "\<And>k. k \<notin> event_keys \<Longrightarrow> c' k = c k" for t oc g w' c'
    using that(1) retryStep_id [OF that(1)] w(3) repo_saved [of w' c'] loaded_events(2) [of c' c, OF that(2)]
    by (intro Q [of _ t]) simp
  have n: "\<not> shouldSyncManagedStorage w'" if "retryStep t r w = (oc, g, w')" for t oc g w'
    using retryStep_sync [OF that] w(2) by simp
  show ?thesis
    unfolding UpdateWorkloadRetryOnFailure_def
    by (simp only: sum.case w(1)
        | rule achieve_rules achieves_load achieves_emitRetryEvent achieves_saveWorkload keep_rules keep_intros n q
        | assumption)+
qed

lemma achieves_trigger:
  assumes w: "loaded c i = Inr w" "\<not> shouldSyncManagedStorage w" "w_ID w \<noteq> []"
    and Q: "\<And>t c'. repo c' = (repo c)(w_ID w \<mapsto> stored_view (retriggered t w)) \<Longrightarrow> Q (Inr (retriggered t w)) c'"
  shows "achieves z view c (TriggerWorkloadRetry E i) Q"
proof -
  have q: "Q (Inr (retriggered t w)) c'" if "\<And>k. k \<notin> event_keys \<Longrightarrow> c' k = saved (retriggered t w) c k" for t c'
    using w(3) repo_saved [of "retriggered t w" c] loaded_events(2) [of c' "saved (retriggered t w) c", OF that]
    by (intro Q) simp
  have n: "\<not> shouldSyncManagedStorage (retriggered t w)" for t using retriggered_sync w(2) by simp
  show ?thesis
    unfolding TriggerWorkloadRetry_def Let_def
    by (simp only: sum.case option.case w(1) mark_plain [OF n]
        | rule achieve_rules achieves_load achieves_emitEvent achieves_saveWorkload keep_rules keep_intros n q
        | assumption)+
qed

end

text \<open>
  C21: Recording a failure moves the stored workload by one step of the retry state machine at
  the current time, and changes no other workload.
\<close>

theorem failure_refines_retry_step:
  assumes etcd: "etcd_client E view" and inv: "sched_inv view s"
    and w: "repo (view (sc_world s)) i = Some w" "i \<noteq> []" "\<not> shouldSyncManagedStorage w"
    and run: "run_state (UpdateWorkloadRetryOnFailure E i reason) s = (r, t)" and live: "writable t"
  shows "r = None \<and> (\<exists>\<tau>. repo (view (sc_world t)) =
    (repo (view (sc_world s)))(i \<mapsto> stored_view (snd (snd (retryStep \<tau> reason w)))))"
proof -
  let ?c = "view (sc_world s)"
  have l: "loaded ?c i = Inr w" using w(1) by (auto simp: repo_def split: sum.splits)
  have id: "w_ID w = i" using loaded_id [OF _ l] inv by (simp add: sched_inv_def)
  have "achieves s view ?c (UpdateWorkloadRetryOnFailure E i reason) (\<lambda>r c. r = None \<and>
      (\<exists>\<tau>. repo c = (repo ?c)(i \<mapsto> stored_view (snd (snd (retryStep \<tau> reason w))))))"
    using id w(2) by (intro etcd_client.achieves_retry [OF etcd l w(3)]) auto
  from achievesD [OF this run live] show ?thesis by simp
qed

lemma demo_stored:
  "repo (mem_view (sc_world (demo_sched demo_cluster))) ''w1'' = Some demo_workload"
  "\<not> shouldSyncManagedStorage demo_workload" "''w1'' \<noteq> []"
  by code_simp+

theorem failure_refines_retry_step_witness:
  "\<exists>t \<tau>. run_state (UpdateWorkloadRetryOnFailure calmEnv ''w1'' ''boom'') (demo_sched demo_cluster) = (None, t) \<and>
     repo (mem_view (sc_world t)) ''w1'' = Some (stored_view (snd (snd (retryStep \<tau> ''boom'' demo_workload))))"
proof -
  obtain r t where run: "run_state (UpdateWorkloadRetryOnFailure calmEnv ''w1'' ''boom'') (demo_sched demo_cluster) = (r, t)"
    by fastforce
  have "writable t" by (rule calm_live [OF keeps_UpdateWorkloadRetryOnFailure run demo_live(1)])
  from failure_refines_retry_step [OF calmetcd.etcd_client_axioms demo_inv demo_stored(1,3,2) run this] run
  show ?thesis by auto
qed

text \<open>
  A manual retry gives a workload its full budget back. On a live scheduler it succeeds
  and the stored workload then has no failed attempts, no terminal failure marks and no
  pending reapply backoff, and it is due at once.
\<close>

theorem manual_retry_resets:
  assumes etcd: "etcd_client E view" and inv: "sched_inv view s"
    and w: "repo (view (sc_world s)) i = Some w" "i \<noteq> []" "\<not> shouldSyncManagedStorage w"
    and run: "run_state (TriggerWorkloadRetry E i) s = (r, t)" and live: "writable t"
  shows "\<exists>w' \<tau>. repo (view (sc_world t)) = (repo (view (sc_world s)))(i \<mapsto> w') \<and> retryable w' \<and>
    rt_Attempts (w_Retry w') = 0 \<and> (\<tau> \<noteq> 0 \<longrightarrow> (\<forall>t' \<ge> \<tau>. dueForRetry t' w')) \<and>
    (\<forall>k \<in> {terminalRetryMetadataKey, terminalRetryReasonMetadataKey, terminalFailureReasonMetadataKey,
       workloadReapplyAttemptsKey, workloadReapplyNextAtKey}. mget (w_Metadata w') k = None)"
proof -
  let ?c = "view (sc_world s)"
  have l: "loaded ?c i = Inr w" using w(1) by (auto simp: repo_def split: sum.splits)
  have id: "w_ID w = i" using loaded_id [OF _ l] inv by (simp add: sched_inv_def)
  have "achieves s view ?c (TriggerWorkloadRetry E i) (\<lambda>r c. \<exists>\<tau>. repo c = (repo ?c)(i \<mapsto> stored_view (retriggered \<tau> w)))"
    using id w(2) by (intro etcd_client.achieves_trigger [OF etcd l w(3)]) auto
  from achievesD [OF this run live] obtain \<tau> where
    r: "repo (view (sc_world t)) = (repo ?c)(i \<mapsto> stored_view (retriggered \<tau> w))" by blast
  have a: "w_Retry (stored_view (retriggered \<tau> w)) = (w_Retry (withMaxAttempts w))\<lparr>rt_NextRetryAt := \<tau>, rt_Attempts := 0\<rparr>"
    by (simp add: stored_view_def retriggered_def clearReapplyMetadata_def Let_def)
  then have "retryable (stored_view (retriggered \<tau> w))" "rt_Attempts (w_Retry (stored_view (retriggered \<tau> w))) = 0"
    "\<tau> \<noteq> 0 \<longrightarrow> (\<forall>t' \<ge> \<tau>. dueForRetry t' (stored_view (retriggered \<tau> w)))"
    using budget_pos [of w] by (simp_all add: retryable_def budget_def [of "stored_view _"] dueForRetry_def IsZero_def)
  moreover have "\<forall>k \<in> {terminalRetryMetadataKey, terminalRetryReasonMetadataKey, terminalFailureReasonMetadataKey,
       workloadReapplyAttemptsKey, workloadReapplyNextAtKey}. mget (w_Metadata (stored_view (retriggered \<tau> w))) k = None"
    by (simp add: stored_view_def retriggered_def clearReapplyMetadata_def Let_def mget_json_meta mget_mdels meta_key_defs)
  ultimately show ?thesis using r by blast
qed

theorem manual_retry_resets_witness:
  "\<exists>w. repo (mem_view (sc_world (snd (run_state (TriggerWorkloadRetry calmEnv ''w1'') (demo_sched demo_cluster))))) ''w1'' = Some w \<and>
     retryable w"
proof -
  obtain r t where run: "run_state (TriggerWorkloadRetry calmEnv ''w1'') (demo_sched demo_cluster) = (r, t)" by fastforce
  have "writable t" by (rule calm_live [OF keeps_TriggerWorkloadRetry run demo_live(1)])
  from manual_retry_resets [OF calmetcd.etcd_client_axioms demo_inv demo_stored(1,3,2) run this] run
  show ?thesis by auto
qed

end
