(* ===== verification/NodeSpec.thy ===== *)
theory NodeSpec
  imports WorkloadSpec
begin

text \<open>
  What the operations on nodes promise: registration and removal with their service
  discovery records, heartbeats, capability updates, and the key layout of CoreDNS.
\<close>

section \<open>Service discovery keys\<close>

lemma set_Join: "w \<in> set ws \<Longrightarrow> set w \<subseteq> set (Join sep ws)"
  by (induction sep ws rule: Join.induct) auto

text \<open>
  Reversing a domain into a CoreDNS path loses nothing: for a domain without slashes the
  path determines the domain, by reversing it again with the separators exchanged.
\<close>

theorem reverse_domain_round_trip:
  assumes "CHR ''/'' \<notin> set d"
  shows "Join ''.'' (rev (Split (CHR ''/'') (reverseDomain d))) = d"
proof -
  have "CHR ''/'' \<notin> set w" if "w \<in> set (Split (CHR ''.'') d)" for w
    using set_Join [OF that, of "''.''"] assms by (auto simp: Join_Split)
  then have "Split (CHR ''/'') (reverseDomain d) = rev (Split (CHR ''.'') d)"
    unfolding reverseDomain_def by (intro Split_Join) auto
  then show ?thesis by (simp add: Join_Split)
qed

theorem reverse_domain_round_trip_witness:
  "reverseDomain ''agents.persys.cloud'' = ''cloud/persys/agents'' \<and>
   Join ''.'' (rev (Split (CHR ''/'') (reverseDomain ''agents.persys.cloud''))) = ''agents.persys.cloud''"
  using reverse_domain_round_trip [of "''agents.persys.cloud''"] by code_simp

section \<open>Registration and removal\<close>

definition registrable :: "node \<Rightarrow> bool" where
  "registrable n = (n_NodeID n \<noteq> [] \<and> n_IPAddress n \<noteq> [] \<and> n_AgentPort n \<noteq> 0 \<and> n_TotalCPU n > 0 \<and> n_TotalMemory n > 0)"

text \<open>The service discovery record of a node, under the shard of the scheduler.\<close>

definition dns_record :: "'w sched \<Rightarrow> string \<Rightarrow> string" where
  "dns_record z i = dnsNodeKey (sc_agentsDomain z)
     (if TrimSpace (sc_schedulerShard z) = [] then ''genesis'' else TrimSpace (sc_schedulerShard z)) i"

lemma node_keys_apart [simp]:
  "nodeKey i \<noteq> nodeStatusKey i" "nodeStatusKey i \<noteq> nodeKey i" "nodeKey i \<noteq> dnsNodeKey a sh j"
  "nodeStatusKey i \<noteq> dnsNodeKey a sh j" "dnsNodeKey a sh j \<noteq> nodeKey i" "dnsNodeKey a sh j \<noteq> nodeStatusKey i"
  by (simp_all add: nodeKey_def nodeStatusKey_def dnsNodeKey_def)

context etcd_client
begin

lemma achieves_UpdateCoreDNS:
  assumes "n_NodeID n \<noteq> []" "n_IPAddress n \<noteq> []"
    and "Q None (c(dns_record z (n_NodeID n) \<mapsto> PDnsA (n_IPAddress n) 300))"
  shows "achieves z view c (UpdateCoreDNS E n) Q"
proof -
  have "\<not> (n_NodeID n = [] \<or> n_IPAddress n = [])" using assms by simp
  then show ?thesis
    unfolding UpdateCoreDNS_def
    by (simp only: if_False)
      (rule achieve_rules achieves_setup keep_rules keep_intros assms(3) [unfolded dns_record_def])+
qed

lemma achieves_RegisterNode:
  assumes "registrable n"
    and Q: "\<And>t1 t2 n'. n' = registered_node (sc_domain z) (sc_schedulerShard z) t1 t2 n \<Longrightarrow>
      Q None (c(nodeKey (n_NodeID n) \<mapsto> PNode n', nodeStatusKey (n_NodeID n) \<mapsto> PText (n_Status n'),
        dns_record z (n_NodeID n) \<mapsto> PDnsA (n_IPAddress n) 300))"
  shows "achieves z view c (RegisterNode E n) Q"
proof -
  have ok: "\<not> (n_NodeID n = [] \<or> n_IPAddress n = [] \<or> n_AgentPort n = 0)" "\<not> (n_TotalCPU n \<le> 0 \<or> n_TotalMemory n \<le> 0)"
    "n_NodeID (registered_node a b t1 t2 n) \<noteq> []" "n_IPAddress (registered_node a b t1 t2 n) \<noteq> []" for a b t1 t2
    using assms(1) by (simp_all add: registrable_def)
  note q = Q [OF refl]
  show ?thesis
    unfolding RegisterNode_def Let_def
    by (simp only: option.case ok(1,2) if_False
        | rule achieve_rules achieves_setup achieves_UpdateCoreDNS ok(3,4) keep_rules keep_intros
        | (simp only: registered_node_sel, rule q))+
qed

lemma achieves_DeleteNode:
  assumes "Q None (c(nodeKey i := None, nodeStatusKey i := None, dnsNodeKey (sc_agentsDomain z)
      (if TrimSpace (sc_schedulerShard z) = [] then ''default'' else TrimSpace (sc_schedulerShard z)) i := None))"
  shows "achieves z view c (DeleteNode E i) Q"
  unfolding DeleteNode_def Let_def
  by (simp only: option.case | rule achieve_rules achieves_setup keep_rules keep_intros assms)+

end

text \<open>
  C23: Registration writes a node completely or not at all. A node description that lacks its
  identifier, address, port or resources is refused without a write. Any other is stored, on
  a scheduler that is live at the end, with its document, its status and its service discovery
  record, and nothing else in etcd changes.
\<close>

theorem register_node:
  assumes etcd: "etcd_client E view" and run: "run_state (RegisterNode E n) s = (r, t)" and live: "writable t"
  shows "if registrable n
    then r = None \<and> (\<exists>t1 t2 n'. n' = registered_node (sc_domain s) (sc_schedulerShard s) t1 t2 n \<and>
      view (sc_world t) = (view (sc_world s))(nodeKey (n_NodeID n) \<mapsto> PNode n',
        nodeStatusKey (n_NodeID n) \<mapsto> PText (n_Status n'), dns_record s (n_NodeID n) \<mapsto> PDnsA (n_IPAddress n) 300))
    else r \<noteq> None \<and> view (sc_world t) = view (sc_world s)"
proof (cases "registrable n")
  case True
  have "achieves s view (view (sc_world s)) (RegisterNode E n) (\<lambda>r c. r = None \<and>
      (\<exists>t1 t2 n'. n' = registered_node (sc_domain s) (sc_schedulerShard s) t1 t2 n \<and>
      c = (view (sc_world s))(nodeKey (n_NodeID n) \<mapsto> PNode n',
        nodeStatusKey (n_NodeID n) \<mapsto> PText (n_Status n'), dns_record s (n_NodeID n) \<mapsto> PDnsA (n_IPAddress n) 300)))"
    by (rule etcd_client.achieves_RegisterNode [OF etcd True]) blast
  from achievesD [OF this run live] True show ?thesis by simp
next
  case False
  with run show ?thesis by (auto simp: RegisterNode_def registrable_def split: if_splits)
qed

theorem register_node_witness:
  "\<exists>t. run_state (RegisterNode calmEnv (demo_node ''c'' 100)) (demo_sched demo_nodes) = (None, t) \<and>
     mem_view (sc_world t) (nodeKey ''c'') \<noteq> None"
proof -
  obtain r t where run: "run_state (RegisterNode calmEnv (demo_node ''c'' 100)) (demo_sched demo_nodes) = (r, t)" by fastforce
  have live: "writable t" by (rule calm_live [OF keeps_RegisterNode run demo_live(1)])
  have "registrable (demo_node ''c'' 100)" "n_NodeID (demo_node ''c'' 100) = ''c''" by code_simp+
  with register_node [OF calmetcd.etcd_client_axioms run live] run show ?thesis by (auto simp: dns_record_def)
qed

text \<open>
  Registration followed by removal leaves no trace. When a scheduler with a shard name
  registers a node and removes it again, and is live at the end, etcd holds none of the three
  records of the node and is otherwise as before.
\<close>

theorem register_delete_round_trip:
  assumes etcd: "etcd_client E view" and shard: "TrimSpace (sc_schedulerShard s) \<noteq> []" and n: "registrable n"
    and reg: "run_state (RegisterNode E n) s = (r, t)" and del: "run_state (DeleteNode E (n_NodeID n)) t = (q, u)"
    and live: "writable u"
  shows "r = None \<and> q = None \<and> view (sc_world u) = (view (sc_world s))(nodeKey (n_NodeID n) := None,
    nodeStatusKey (n_NodeID n) := None, dns_record s (n_NodeID n) := None)"
proof -
  have t: "writable t" by (rule live_start [OF keeps_DeleteNode del live])
  have kept: "same_setup s t" using keepsD [OF keeps_RegisterNode reg] by (simp add: mode_kept_def)
  have "achieves s view (view (sc_world s)) (RegisterNode E n) (\<lambda>r c. r = None \<and>
      (\<forall>k. k \<notin> {nodeKey (n_NodeID n), nodeStatusKey (n_NodeID n), dns_record s (n_NodeID n)} \<longrightarrow> c k = view (sc_world s) k))"
    by (rule etcd_client.achieves_RegisterNode [OF etcd n]) simp
  from achievesD [OF this reg t] have r: "r = None"
    "\<And>k. k \<notin> {nodeKey (n_NodeID n), nodeStatusKey (n_NodeID n), dns_record s (n_NodeID n)} \<Longrightarrow>
      view (sc_world t) k = view (sc_world s) k" by simp_all
  have "achieves t view (view (sc_world t)) (DeleteNode E (n_NodeID n)) (\<lambda>q c. q = None \<and>
      c = (view (sc_world t))(nodeKey (n_NodeID n) := None, nodeStatusKey (n_NodeID n) := None,
        dns_record s (n_NodeID n) := None))"
    by (rule etcd_client.achieves_DeleteNode [OF etcd]) (use shard kept in \<open>simp add: dns_record_def same_setup_def\<close>)
  from achievesD [OF this del live] r show ?thesis by (auto simp: fun_eq_iff)
qed

theorem register_delete_round_trip_witness:
  "\<exists>t u. run_state (RegisterNode calmEnv (demo_node ''c'' 100)) (demo_sched demo_nodes) = (None, t) \<and>
     run_state (DeleteNode calmEnv ''c'') t = (None, u) \<and> mem_view (sc_world u) (nodeKey ''c'') = None"
proof -
  obtain r t where reg: "run_state (RegisterNode calmEnv (demo_node ''c'' 100)) (demo_sched demo_nodes) = (r, t)" by fastforce
  obtain q u where del: "run_state (DeleteNode calmEnv (n_NodeID (demo_node ''c'' 100))) t = (q, u)" by fastforce
  have live: "writable u"
    by (rule calm_live [OF keeps_DeleteNode del calm_live [OF keeps_RegisterNode reg demo_live(1)]])
  have "registrable (demo_node ''c'' 100)" "n_NodeID (demo_node ''c'' 100) = ''c''"
    "TrimSpace (sc_schedulerShard (demo_sched demo_nodes)) \<noteq> []" by code_simp+
  with register_delete_round_trip [OF calmetcd.etcd_client_axioms _ _ reg del live] reg del show ?thesis by auto
qed

text \<open>With a blank shard name the two operations disagree on the key of the record.\<close>

lemma blank_shard_keys_differ:
  "TrimSpace (sc_schedulerShard z) = [] \<Longrightarrow> dns_record z i \<noteq> dnsNodeKey (sc_agentsDomain z) ''default'' i"
  by (simp add: dns_record_def dnsNodeKey_def)

end
