(* ===== verification/ApiSpec.thy ===== *)
theory ApiSpec
  imports PlacementSpec NodeSpec RetrySpec
begin

text \<open>
  What the control API promises: how requests travel through the data model to the agents,
  what a registration and a heartbeat store, and what a frozen scheduler answers.
\<close>

section \<open>From a request to the agent\<close>

lemma int32_id: "- (2 ^ 31) \<le> i \<Longrightarrow> i < 2 ^ 31 \<Longrightarrow> int32 i = i"
  by (simp add: int32_def sint_sbintrunc' signed_take_bit_int_eq_self)

lemma digit_val_symbols: "digit_val c = None" if "c \<in> {CHR '':'', CHR ''/'', CHR ''-''}"
  using that by (auto simp: digit_val_def)

lemma itoa_symbols: "c \<in> {CHR '':'', CHR ''/''} \<Longrightarrow> c \<notin> set (itoa i)"
  using nat_text_digits digit_val_symbols by (fastforce simp: itoa_def split: if_splits)

lemma TrimSpace_symbol: "CHR '':'' \<in> set s \<Longrightarrow> TrimSpace s \<noteq> []"
proof -
  have "\<not> isSpace (CHR '':'')" by code_simp
  then show "CHR '':'' \<in> set s \<Longrightarrow> TrimSpace s \<noteq> []" by (auto simp: TrimSpace_eq_Nil)
qed

definition port_ok :: "api_port \<Rightarrow> bool" where
  "port_ok p = (- (2 ^ 31) \<le> qp_HostPort p \<and> qp_HostPort p < 2 ^ 31 \<and> - (2 ^ 31) \<le> qp_ContainerPort p \<and>
     qp_ContainerPort p < 2 ^ 31 \<and> CHR '':'' \<notin> set (qp_Protocol p))"

definition volume_ok :: "api_volume \<Rightarrow> bool" where
  "volume_ok v = (CHR '':'' \<notin> set (qv_HostPath v) \<and> CHR '':'' \<notin> set (qv_ContainerPath v))"

definition agent_port :: "api_port \<Rightarrow> port_mapping" where
  "agent_port p = \<lparr>pm_HostPort = qp_HostPort p, pm_ContainerPort = qp_ContainerPort p,
     pm_Protocol = (if qp_Protocol p = [] then ''tcp'' else ToLower (qp_Protocol p))\<rparr>"

definition agent_volume :: "api_volume \<Rightarrow> volume_mount" where
  "agent_volume v = \<lparr>vmt_HostPath = qv_HostPath v, vmt_ContainerPath = qv_ContainerPath v, vmt_ReadOnly = qv_ReadOnly v\<rparr>"

lemma parse_port_text:
  assumes "port_ok p"
  shows "parsePortMapping (port_text p) = Inr (agent_port p)"
proof -
  let ?proto = "if qp_Protocol p = [] then ''tcp'' else qp_Protocol p"
  let ?spec = "itoa (qp_ContainerPort p) @ CHR ''/'' # ?proto"
  have shape: "port_text p = itoa (qp_HostPort p) @ CHR '':'' # ?spec" by (simp add: port_text_def)
  have "CHR '':'' \<notin> set ?spec" using assms itoa_symbols by (auto simp: port_ok_def)
  then have split: "Split (CHR '':'') (port_text p) = [itoa (qp_HostPort p), ?spec]"
    using itoa_symbols [of "CHR '':''"] unfolding shape by (simp add: Split_append Split_word)
  have parts: "takeWhile (\<lambda>c. c \<noteq> CHR ''/'') (itoa (qp_ContainerPort p) @ CHR ''/'' # x) = itoa (qp_ContainerPort p)"
    "dropWhile (\<lambda>c. c \<noteq> CHR ''/'') (itoa (qp_ContainerPort p) @ CHR ''/'' # x) = CHR ''/'' # x" for x
    using itoa_symbols [of "CHR ''/''" "qp_ContainerPort p"] by (auto simp: takeWhile_append dropWhile_append)
  have "TrimSpace (port_text p) \<noteq> []" by (rule TrimSpace_symbol) (simp add: shape)
  moreover have "Atoi (itoa (qp_HostPort p)) = Some (qp_HostPort p)"
    "Atoi (itoa (qp_ContainerPort p)) = Some (qp_ContainerPort p)"
    using assms by (auto intro!: Atoi_itoa simp: port_ok_def)
  moreover have "ToLower ''tcp'' = ''tcp''" by code_simp
  ultimately show ?thesis
    using assms int32_id by (simp add: parsePortMapping_def split parts agent_port_def port_ok_def Let_def)
qed

lemma parse_volume_text:
  assumes "volume_ok v"
  shows "parseVolumeMount (volume_text v) = Inr (agent_volume v)"
proof -
  have "TrimSpace (volume_text v) \<noteq> []" by (rule TrimSpace_symbol) (simp add: volume_text_def)
  moreover have "Split (CHR '':'') (volume_text v) =
      qv_HostPath v # qv_ContainerPath v # (if qv_ReadOnly v then [''ro''] else [])"
    using assms by (simp add: volume_text_def volume_ok_def Split_append Split_word)
  ultimately show ?thesis by (simp add: parseVolumeMount_def agent_volume_def)
qed

lemma mapM_result_map: "(\<And>x. x \<in> set xs \<Longrightarrow> f (g x) = Inr (h x)) \<Longrightarrow> mapM_result f (map g xs) = Inr (map h xs)"
  by (induction xs) simp_all

lemma ensureWorkloadRevision_frame [simp]:
  "w_Ports (ensureWorkloadRevision E w) = w_Ports w" "w_Volumes (ensureWorkloadRevision E w) = w_Volumes w"
  "w_Type (ensureWorkloadRevision E w) = w_Type w" "w_ComposeYAML (ensureWorkloadRevision E w) = w_ComposeYAML w"
  "w_Compose (ensureWorkloadRevision E w) = w_Compose w" "w_Image (ensureWorkloadRevision E w) = w_Image w"
  "w_EnvVars (ensureWorkloadRevision E w) = w_EnvVars w" "w_CommandList (ensureWorkloadRevision E w) = w_CommandList w"
  by (simp_all add: ensureWorkloadRevision_def)

text \<open>
  C24: A container request arrives at the agent as it was sent. For a well-formed request with a
  container specification, the workload it is translated to, with ports and volumes as text,
  is translated again into an agent request that has the identifier, the image, the
  environment, and exactly the ports and volumes of the original.
\<close>

theorem container_request_reaches_agent:
  assumes "qa_Spec q = Some sp" and "ToLower (qs_Type sp) = ''container''" and "qs_Body sp = ContainerBody cs"
    and "\<forall>p \<in> set (qc_Ports cs). port_ok p" and "\<forall>v \<in> set (qc_Volumes cs). volume_ok v"
  shows "\<exists>w req r. controlApplyToModel vmOf q = Inr w \<and> buildApplyWorkloadRequest E w = Inr req \<and>
    aq_Id req = qa_WorkloadId q \<and> aq_Type req = WT_CONTAINER \<and> aq_Spec req = ContainerSpec r \<and>
    cs_Image r = qc_Image cs \<and> cs_Env r = qc_Env cs \<and> cs_Ports r = map agent_port (qc_Ports cs) \<and>
    cs_Volumes r = map agent_volume (qc_Volumes cs)"
proof -
  let ?w = "apiContainer cs (apiBase q sp)"
  let ?v = "ensureWorkloadRevision E ?w"
  have w: "controlApplyToModel vmOf q = Inr ?w" using assms(1-3) by (simp add: controlApplyToModel_def)
  have "ToLower (TrimSpace (qs_Type sp)) = TrimSpace ''container''"
    using assms(2) TrimSpace_ToLower [of "qs_Type sp"] by simp
  moreover have "TrimSpace ''container'' = ''container''" "ToLower ''container'' = ''container''" by code_simp+
  ultimately have ty: "ToLower (TrimSpace (w_Type ?v)) = ''container''" by (simp add: apiContainer_def apiBase_def)
  have "mapM_result parsePortMapping (w_Ports ?v) = Inr (map agent_port (qc_Ports cs))"
    using assms(4) by (auto simp: apiContainer_def intro!: mapM_result_map parse_port_text)
  moreover have "mapM_result parseVolumeMount (w_Volumes ?v) = Inr (map agent_volume (qc_Volumes cs))"
    using assms(5) by (auto simp: apiContainer_def intro!: mapM_result_map parse_volume_text)
  ultimately obtain r where r: "containerSpecOf ?v = Inr r" "cs_Ports r = map agent_port (qc_Ports cs)"
    "cs_Volumes r = map agent_volume (qc_Volumes cs)" "cs_Image r = qc_Image cs" "cs_Env r = qc_Env cs"
    by (simp add: containerSpecOf_def apiContainer_def)
  have "w_ID ?v = qa_WorkloadId q" by (simp add: apiContainer_def apiBase_def)
  with w r ty show ?thesis by (simp add: buildApplyWorkloadRequest_def Let_def)
qed

definition demo_request :: api_apply where
  "demo_request = \<lparr>qa_WorkloadId = ''w9'', qa_RevisionId = [], qa_DesiredState = ''running'', qa_Spec = Some
     \<lparr>qs_Type = ''Container'', qs_Resources = None, qs_Metadata = [], qs_Body = ContainerBody
       \<lparr>qc_Image = ''nginx'', qc_Command = [], qc_Env = [], qc_Ports = [\<lparr>qp_HostPort = 80, qp_ContainerPort = 8080, qp_Protocol = []\<rparr>],
        qc_Volumes = [\<lparr>qv_HostPath = ''/a'', qv_ContainerPath = ''/b'', qv_ReadOnly = True\<rparr>], qc_RestartPolicy = [],
        qc_ManagedVolumes = []\<rparr>\<rparr>\<rparr>"

theorem container_request_reaches_agent_witness:
  "\<exists>w req r. controlApplyToModel (\<lambda>_. None) demo_request = Inr w \<and> buildApplyWorkloadRequest memEnv w = Inr req \<and>
     aq_Spec req = ContainerSpec r \<and> cs_Ports r = [\<lparr>pm_HostPort = 80, pm_ContainerPort = 8080, pm_Protocol = ''tcp''\<rparr>]"
proof -
  have "ToLower ''Container'' = ''container''" by code_simp
  with container_request_reaches_agent [of demo_request "the (qa_Spec demo_request)"
      "case qs_Body (the (qa_Spec demo_request)) of ContainerBody c \<Rightarrow> c" "\<lambda>_. None" memEnv]
  show ?thesis by (auto simp: demo_request_def port_ok_def volume_ok_def agent_port_def)
qed

text \<open>
  A compose request that names a git source is accepted and can never be applied: it is
  translated to a workload without compose text, and the translation of every such workload
  into an agent request fails.
\<close>

theorem git_compose_never_applied:
  assumes "qa_Spec q = Some sp" and "ToLower (qs_Type sp) = ''compose''" and "qs_Body sp = ComposeBody cp"
    and "EqualFold (qo_SourceType cp) ''git''"
  shows "\<exists>w. controlApplyToModel vmOf q = Inr w \<and>
    buildApplyWorkloadRequest E w = Inl (errorf ''compose_yaml is required for compose workloads'')"
proof -
  let ?w = "apiCompose cp (apiBase q sp)"
  have "TrimSpace ''compose'' = ''compose''" "ToLower ''compose'' = ''compose''" by code_simp+
  then have "buildApplyWorkloadRequest E ?w = Inl (errorf ''compose_yaml is required for compose workloads'')"
    using assms(4) by (simp add: buildApplyWorkloadRequest_def apiCompose_def apiBase_def zero_workload_def Let_def)
  moreover have "controlApplyToModel vmOf q = Inr ?w" using assms(1-3) by (simp add: controlApplyToModel_def)
  ultimately show ?thesis by blast
qed

definition demo_git :: api_apply where
  "demo_git = \<lparr>qa_WorkloadId = ''w9'', qa_RevisionId = [], qa_DesiredState = [], qa_Spec = Some
     \<lparr>qs_Type = ''compose'', qs_Resources = None, qs_Metadata = [], qs_Body = ComposeBody
       \<lparr>qo_SourceType = ''git'', qo_InlineYaml = [], qo_GitRepo = ''r'', qo_GitRef = ''main'', qo_Env = []\<rparr>\<rparr>\<rparr>"

theorem git_compose_never_applied_witness:
  "\<exists>w. controlApplyToModel (\<lambda>_. None) demo_git = Inr w \<and>
     buildApplyWorkloadRequest memEnv w = Inl (errorf ''compose_yaml is required for compose workloads'')"
proof -
  have "ToLower ''compose'' = ''compose''" by code_simp
  then show ?thesis
    by (intro git_compose_never_applied [of _ "the (qa_Spec demo_git)"
        "case qs_Body (the (qa_Spec demo_git)) of ComposeBody c \<Rightarrow> c"]) (simp_all add: demo_git_def)
qed

section \<open>Usage and reasons on the wire\<close>

text \<open>
  Usage figures survive the wire. A usage record with trimmed texts and a workload
  identifier, sent as a message and read back, is the same record, whatever defaults the
  receiver fills in.
\<close>

lemma usage_round_trip:
  assumes "TrimSpace (wu_WorkloadID u) = wu_WorkloadID u" and "wu_WorkloadID u \<noteq> []"
    and "TrimSpace (wu_Type u) = wu_Type u" and "wu_Type u \<noteq> []" and "TrimSpace (wu_Source u) = wu_Source u"
  shows "usageFromProto (usageToProto (Some u) i ty) i' ty' = Some u"
proof -
  have "(case timestampPtr t of Some x \<Rightarrow> x | None \<Rightarrow> 0) = t" for t by (simp add: timestampPtr_def IsZero_def)
  with assms show ?thesis by (simp add: usageFromProto_def usageToProto_def Let_def)
qed

section \<open>Registration and heartbeats\<close>

lemma addCanonical_facts:
  assumes "distinct out" "[] \<notin> set out" "set out \<subseteq> range (\<lambda>t. f (ToLower (TrimSpace t)))"
  shows "distinct (addCanonical f t out) \<and> [] \<notin> set (addCanonical f t out) \<and> set out \<subseteq> set (addCanonical f t out) \<and>
    set (addCanonical f t out) \<subseteq> range (\<lambda>t. f (ToLower (TrimSpace t)))"
  using assms by (auto simp: addCanonical_def Let_def)

lemma fold_addCanonical:
  assumes "distinct out" "[] \<notin> set out" "set out \<subseteq> range (\<lambda>t. f (ToLower (TrimSpace t)))"
  shows "distinct (fold (addCanonical f) ts out) \<and> [] \<notin> set (fold (addCanonical f) ts out) \<and>
    set out \<subseteq> set (fold (addCanonical f) ts out) \<and>
    set (fold (addCanonical f) ts out) \<subseteq> range (\<lambda>t. f (ToLower (TrimSpace t)))"
  using assms
proof (induction ts arbitrary: out)
  case (Cons t ts)
  from addCanonical_facts [OF Cons.prems, of t] Cons.IH [of "addCanonical f t out"] show ?case by auto
qed auto

lemma normalized_drivers:
  "distinct (normalizeSupportedStorageDrivers ds)" "''local'' \<in> set (normalizeSupportedStorageDrivers ds)"
  "d \<in> set (normalizeSupportedStorageDrivers ds) \<Longrightarrow> canonicalStorageDriver d = d \<and> d \<noteq> []"
proof -
  have "''local'' = apiStorageDriver (ToLower (TrimSpace ''local''))" by (simp add: apiStorageDriver_def)
  then have "''local'' \<in> range (\<lambda>t. apiStorageDriver (ToLower (TrimSpace t)))" by (rule range_eqI)
  then have f: "distinct (normalizeSupportedStorageDrivers ds) \<and> [] \<notin> set (normalizeSupportedStorageDrivers ds) \<and>
      ''local'' \<in> set (normalizeSupportedStorageDrivers ds) \<and>
      set (normalizeSupportedStorageDrivers ds) \<subseteq> range (\<lambda>t. apiStorageDriver (ToLower (TrimSpace t)))"
    using fold_addCanonical [of "[''local'']" apiStorageDriver ds] by (simp add: normalizeSupportedStorageDrivers_def)
  then show "distinct (normalizeSupportedStorageDrivers ds)" "''local'' \<in> set (normalizeSupportedStorageDrivers ds)" by auto
  have canon: "canonicalStorageDriver (apiStorageDriver (ToLower (TrimSpace t))) = apiStorageDriver (ToLower (TrimSpace t))"
    if "apiStorageDriver (ToLower (TrimSpace t)) \<noteq> []" for t
    using that lower_trim_idem [of t] by (auto simp: canonicalStorageDriver_def apiStorageDriver_def Let_def split: if_splits)
  assume d: "d \<in> set (normalizeSupportedStorageDrivers ds)"
  with f have "d \<in> range (\<lambda>t. apiStorageDriver (ToLower (TrimSpace t)))" "d \<noteq> []" by (meson subsetD)+
  then obtain t where "d = apiStorageDriver (ToLower (TrimSpace t))" "d \<noteq> []" by (elim rangeE)
  with canon show "canonicalStorageDriver d = d \<and> d \<noteq> []" by simp
qed

lemma normalized_types:
  "distinct (normalizeSupportedWorkloadTypes ts)"
  "ty \<in> set (normalizeSupportedWorkloadTypes ts) \<Longrightarrow> canonicalWorkloadType ty = ty \<and> ty \<noteq> []"
proof -
  have f: "distinct (normalizeSupportedWorkloadTypes ts) \<and> [] \<notin> set (normalizeSupportedWorkloadTypes ts) \<and>
      set (normalizeSupportedWorkloadTypes ts) \<subseteq> range (\<lambda>t. apiWorkloadType (ToLower (TrimSpace t)))"
    using fold_addCanonical [of "[]" apiWorkloadType ts] by (simp add: normalizeSupportedWorkloadTypes_def)
  then show "distinct (normalizeSupportedWorkloadTypes ts)" by auto
  have canon: "canonicalWorkloadType (apiWorkloadType (ToLower (TrimSpace t))) = apiWorkloadType (ToLower (TrimSpace t))" for t
    using lower_trim_idem [of t] by (simp add: canonicalWorkloadType_def apiWorkloadType_def Let_def)
  assume "ty \<in> set (normalizeSupportedWorkloadTypes ts)"
  with f have "ty \<in> range (\<lambda>t. apiWorkloadType (ToLower (TrimSpace t)))" "ty \<noteq> []" by (meson subsetD)+
  then obtain t where "ty = apiWorkloadType (ToLower (TrimSpace t))" "ty \<noteq> []" by (elim rangeE)
  with canon show "canonicalWorkloadType ty = ty \<and> ty \<noteq> []" by simp
qed

text \<open>A node document as the placement expects it.\<close>

definition well_registered :: "node \<Rightarrow> bool" where
  "well_registered n = (n_Status n = ''Ready'' \<and> n_TotalCPU n > 0 \<and> n_TotalMemory n > 0 \<and> n_AgentPort n \<noteq> 0 \<and>
     ''local'' \<in> set (n_SupportedStorageDrivers n) \<and> distinct (n_SupportedStorageDrivers n) \<and>
     (\<forall>d \<in> set (n_SupportedStorageDrivers n). canonicalStorageDriver d = d) \<and> distinct (n_SupportedWorkloadTypes n) \<and>
     (\<forall>ty \<in> set (n_SupportedWorkloadTypes n). canonicalWorkloadType ty = ty))"

lemma registeredAs_facts:
  assumes "registeredAs q = Inr n" "registrable n"
  shows "n_NodeID n = rn_NodeId q \<and> well_registered (registered_node d sh t1 t2 n)"
proof -
  obtain ds ts where n: "n_NodeID n = rn_NodeId q" "n_Status n = ''Ready''"
    "n_SupportedStorageDrivers n = normalizeSupportedStorageDrivers ds"
    "n_SupportedWorkloadTypes n = normalizeSupportedWorkloadTypes ts"
    using assms(1) by (auto simp: registeredAs_def Let_def split: if_splits sum.splits prod.splits)
  with assms(2) normalized_drivers [where ds = ds] normalized_types [where ts = ts] show ?thesis
    by (auto simp: well_registered_def registered_node_def registrable_def)
qed

context etcd_client
begin

lemma achieves_apiRegisterNode:
  assumes "\<And>n t1 t2 c' resp. registeredAs q = Inr n \<Longrightarrow> registrable n \<Longrightarrow>
      c' (nodeKey (n_NodeID n)) = Some (PNode (registered_node (sc_domain z) (sc_schedulerShard z) t1 t2 n)) \<Longrightarrow>
      Q (Inr resp) c'"
    and "\<And>e c'. Q (Inl e) c'" and "\<And>resp c'. \<not> rr_Accepted resp \<Longrightarrow> Q (Inr resp) c'"
  shows "achieves z view c (apiRegisterNode E (Some q)) Q"
proof -
  have reg: "achieves z view c (RegisterNode E n) P"
    if "registrable n \<Longrightarrow> (\<And>c' t1 t2. c' (nodeKey (n_NodeID n)) =
          Some (PNode (registered_node (sc_domain z) (sc_schedulerShard z) t1 t2 n)) \<Longrightarrow> P None c')"
      and "\<And>e c'. P (Some e) c'" for n P
  proof (cases "registrable n")
    case True
    show ?thesis by (rule achieves_RegisterNode [OF True], rule that(1) [OF True]) (simp add: dns_record_def)
  next
    case False
    have "\<And>s. \<exists>e. fst (run_state (RegisterNode E n) s) = Some e"
      using False by (auto simp: RegisterNode_def registrable_def)
    then show ?thesis by (intro achieves_keeps [OF keeps_RegisterNode]) (metis fst_conv that(2))
  qed
  have no: "\<not> rr_Accepted \<lparr>rr_Accepted = False, rr_Reason = a, rr_HeartbeatIntervalSeconds = b, rr_LeaseExpiresAt = d\<rparr>"
    for a b d by simp
  show ?thesis
    unfolding apiRegisterNode_def option.case
    by (rule achieves_if achieve_rules achieves_sum reg keep_rules keep_intros assms(2) assms(3) [OF no]
        | (simp only: option.case simp_thms; fail) | simp only: option.case
        | (erule assms(1); assumption))+
qed

end

text \<open>
  C32: An accepted registration is on record. When the API answers a registration with
  accepted and the scheduler is live, etcd holds a node document under the identifier of the
  request that is ready, has positive resources and a port, supports local storage, and
  names its workload types and storage drivers canonically and without duplicates.
\<close>

theorem accepted_registration_stored:
  assumes etcd: "etcd_client E view" and run: "run_state (apiRegisterNode E (Some q)) s = (Inr resp, t)"
    and ok: "rr_Accepted resp" and live: "writable t"
  shows "\<exists>n. view (sc_world t) (nodeKey (rn_NodeId q)) = Some (PNode n) \<and> n_NodeID n = rn_NodeId q \<and> well_registered n"
proof -
  let ?P = "\<lambda>c. \<exists>n. c (nodeKey (rn_NodeId q)) = Some (PNode n) \<and> n_NodeID n = rn_NodeId q \<and> well_registered n"
  have "achieves s view (view (sc_world s)) (apiRegisterNode E (Some q))
      (\<lambda>r c. \<forall>x. r = Inr x \<longrightarrow> rr_Accepted x \<longrightarrow> ?P c)"
  proof (rule etcd_client.achieves_apiRegisterNode [OF etcd], goal_cases)
    case (1 n t1 t2 c' resp)
    with registeredAs_facts [OF 1(1,2), of "sc_domain s" "sc_schedulerShard s" t1 t2] show ?case by auto
  qed simp_all
  from achievesD [OF this run live] ok show ?thesis by blast
qed

definition demo_registration :: register_request where
  "demo_registration = \<lparr>rn_NodeId = ''c'', rn_GrpcEndpoint = ''[10.0.0.9]:7070'', rn_Labels = [], rn_Timestamp = None,
     rn_Capabilities = Some \<lparr>nc_CpuTotalMillicores = 4000, nc_MemoryTotalMb = 512,
       nc_SupportedWorkloadTypes = [''Docker-Container'', ''container''], nc_SupportedStorageDrivers = [''CEPH_RBD'']\<rparr>\<rparr>"

theorem accepted_registration_stored_witness:
  "\<exists>n. mem_view (sc_world (snd (run_state (apiRegisterNode memEnv (Some demo_registration)) (demo_sched demo_nodes)))) (nodeKey ''c'')
     = Some (PNode n) \<and> well_registered n"
proof -
  let ?r = "run_state (apiRegisterNode memEnv (Some demo_registration)) (demo_sched demo_nodes)"
  have "\<not> isl (fst ?r)" "rr_Accepted (projr (fst ?r))" "writable (snd ?r)" "rn_NodeId demo_registration = ''c''"
    by code_simp+
  moreover from this have "?r = (Inr (projr (fst ?r)), snd ?r)" by (simp add: prod_eq_iff)
  ultimately show ?thesis
    using accepted_registration_stored [OF memetcd.etcd_client_axioms, of demo_registration "demo_sched demo_nodes"] by metis
qed

text \<open>
  The free resources a heartbeat records are sane. For a node and a usage report within
  the ranges of their types, the recorded free memory is the total minus the used memory,
  the recorded free CPU is the total minus the used CPU in millicores, neither is negative,
  and neither exceeds the total.
\<close>

theorem heartbeat_free_bounds:
  assumes "0 < n_TotalMemory n" "n_TotalMemory n < 2 ^ 63" "0 \<le> nu_MemoryUsedMb u" "nu_MemoryUsedMb u < 2 ^ 63"
    and "1 \<le> n_TotalCPU n * 1000" "n_TotalCPU n * 1000 < 2 ^ 63" "0 \<le> nu_CpuUsedMillicores u" "nu_CpuUsedMillicores u < 2 ^ 63"
  shows "freeMemory n (Some u) = max 0 (n_TotalMemory n - nu_MemoryUsedMb u) \<and>
    0 \<le> freeMemory n (Some u) \<and> freeMemory n (Some u) \<le> n_TotalMemory n \<and>
    freeCPU n (Some u) * 1000 = of_int (max 0 (\<lfloor>n_TotalCPU n * 1000\<rfloor> - nu_CpuUsedMillicores u)) \<and>
    0 \<le> freeCPU n (Some u) \<and> freeCPU n (Some u) \<le> n_TotalCPU n"
proof -
  have wrap: "wrap64 i = i" if "- (2 ^ 63) \<le> i" "i < 2 ^ 63" for i using that by (simp add: wrap64_def)
  let ?c = "n_TotalCPU n * 1000"
  have fl: "1 \<le> \<lfloor>?c\<rfloor>" "\<lfloor>?c\<rfloor> < 2 ^ 63" "of_int \<lfloor>?c\<rfloor> \<le> ?c"
    using assms(5,6) by (simp_all add: le_floor_iff floor_less_iff)
  then have t: "truncate64 ?c = \<lfloor>?c\<rfloor>" "0 < truncate64 ?c" using assms(5) by (simp_all add: truncate64_def)
  have m: "freeMemory n (Some u) = max 0 (n_TotalMemory n - nu_MemoryUsedMb u)"
    using assms(1-4) by (simp add: freeMemory_def wrap)
  have c: "freeCPU n (Some u) = of_int (max 0 (\<lfloor>?c\<rfloor> - nu_CpuUsedMillicores u)) / 1000"
  proof -
    have "wrap64 (\<lfloor>?c\<rfloor> - nu_CpuUsedMillicores u) = \<lfloor>?c\<rfloor> - nu_CpuUsedMillicores u"
      by (rule wrap) (use fl(1,2) assms(7,8) in linarith)+
    with t show ?thesis by (simp add: freeCPU_def Let_def)
  qed
  have "max 0 (\<lfloor>?c\<rfloor> - nu_CpuUsedMillicores u) \<le> \<lfloor>?c\<rfloor>" using fl assms(7) by simp
  then have "(of_int (max 0 (\<lfloor>?c\<rfloor> - nu_CpuUsedMillicores u)) :: rat) \<le> ?c" using fl(3) by linarith
  then have "freeCPU n (Some u) \<le> n_TotalCPU n" unfolding c by (simp add: divide_le_eq)
  with m c assms(1,3) show ?thesis by simp
qed

theorem heartbeat_free_bounds_witness:
  "freeMemory (demo_node ''a'' 200) (Some \<lparr>nu_CpuUsedMillicores = 500, nu_MemoryUsedMb = 2000\<rparr>) = 0 \<and>
   freeCPU (demo_node ''a'' 200) (Some \<lparr>nu_CpuUsedMillicores = 500, nu_MemoryUsedMb = 2000\<rparr>) * 1000 = 7500"
  using heartbeat_free_bounds [of "demo_node ''a'' 200" "\<lparr>nu_CpuUsedMillicores = 500, nu_MemoryUsedMb = 2000\<rparr>"]
  by (simp add: demo_node_def)

section \<open>A frozen scheduler\<close>

text \<open>
  C25: A frozen scheduler refuses politely. In degraded or recovery mode every remote call that
  would change state is answered without an error: apply, delete, retry, suggestions and
  registrations are refused, a heartbeat is acknowledged with the order to drain the node;
  and none of them changes a document of etcd.
\<close>

theorem frozen_api:
  assumes etcd: "etcd_client E view" and inv: "sched_inv view s" and frozen: "\<not> writable s"
  shows "fst (run_state (ApplyWorkload vmOf E q) s) =
      Inr (runtimeFailure ''scheduler degraded/recovery mode; control plane frozen'') \<and>
    fst (run_state (apiDeleteWorkload E i) s) = Inr (False, ''scheduler degraded/recovery mode; control plane frozen'') \<and>
    fst (run_state (RetryWorkload E i) s) = Inr False \<and>
    (\<exists>x. fst (run_state (SubmitAutomationSuggestion E g) s) = Inr x \<and> \<not> sr_Accepted x) \<and>
    (TrimSpace (rn_NodeId r) \<noteq> [] \<longrightarrow> (\<exists>x. fst (run_state (apiRegisterNode E (Some r)) s) = Inr x \<and> \<not> rr_Accepted x)) \<and>
    (TrimSpace (hb_NodeId h) \<noteq> [] \<longrightarrow> (\<exists>x. fst (run_state (Heartbeat E (Some h)) s) = Inr x \<and> hr_Acknowledged x \<and> hr_DrainNode x)) \<and>
    (\<forall>req. view (sc_world (snd (run_state (serve E req) s))) = view (sc_world s))"
proof -
  have "view (sc_world (snd (run_state (serve E req) s))) = view (sc_world s)" for req
    using ensuresD(2) [OF etcd_client.safe_serve [OF etcd, of "{}" req] inv] frozen
    by (simp add: footprint_def fun_eq_iff)
  with frozen show ?thesis
    by (simp add: ApplyWorkload_def apiDeleteWorkload_def RetryWorkload_def SubmitAutomationSuggestion_def rejected_def
        apiRegisterNode_def Heartbeat_def)
qed

theorem frozen_api_witness:
  "fst (run_state (RetryWorkload memEnv ''w1'') (demo_sched demo_cluster\<lparr>sc_mode := ModeRecovery,
     sc_frozen := Some (snapshot [] 0 (demo_sched demo_cluster))\<rparr>)) = Inr False"
proof -
  let ?s = "demo_sched demo_cluster\<lparr>sc_mode := ModeRecovery, sc_frozen := Some (snapshot [] 0 (demo_sched demo_cluster))\<rparr>"
  have "sched_inv mem_view ?s" using demo_inv by (simp add: sched_inv_def mode_ok_def cache_ok_def)
  moreover have "\<not> writable ?s" by (simp add: writable_def)
  ultimately show ?thesis using frozen_api [OF memetcd.etcd_client_axioms] by blast
qed

section \<open>The cluster summary\<close>

lemma count32_exact:
  assumes "length xs < 2 ^ 31"
  shows "count32 P xs = int (length (filter P xs))"
proof -
  have "length (filter P xs) < 2 ^ 31" using assms by (rule le_less_trans [OF length_filter_le])
  then show ?thesis unfolding count32_def by (intro int32_id) simp_all
qed

lemma length_partition: "length (filter P xs) + length (filter (\<lambda>x. \<not> P x) xs) = length xs"
  by (induction xs) simp_all

lemma length_filter_disjoint:
  "(\<And>x. x \<in> set xs \<Longrightarrow> \<not> (P x \<and> Q x)) \<Longrightarrow> length (filter P xs) + length (filter Q xs) = length (filter (\<lambda>x. P x \<or> Q x) xs)"
  by (induction xs) auto

text \<open>
  The numbers of the cluster summary add up: for fewer than \<open>2 ^ 31\<close> nodes and workloads
  the ready and the other nodes make up all nodes, the running, pending and failed workloads
  are disjoint parts of all workloads, and no counter has wrapped.
\<close>

theorem summary_adds_up:
  assumes "length nodes < 2 ^ 31" and "length workloads < 2 ^ 31"
  shows "let m = summarize nodes workloads t in
    sm_TotalNodes m = int (length nodes) \<and> sm_ReadyNodes m + sm_NotReadyNodes m = sm_TotalNodes m \<and>
    0 \<le> sm_ReadyNodes m \<and> sm_TotalWorkloads m = int (length workloads) \<and>
    sm_RunningWorkloads m + sm_PendingWorkloads m + sm_FailedWorkloads m \<le> sm_TotalWorkloads m \<and>
    0 \<le> sm_DeletedWorkloads m \<and> sm_DeletedWorkloads m \<le> sm_TotalWorkloads m"
proof -
  let ?st = "\<lambda>w. ToLower (TrimSpace (w_Status w))"
  let ?r = "\<lambda>w. ?st w = ''running''" let ?p = "\<lambda>w. ?st w = ''pending'' \<or> ?st w = ''unknown'' \<or> ?st w = ''updating''"
  let ?f = "\<lambda>w. ?st w = ''failed''"
  have "length (filter ?r workloads) + length (filter ?p workloads) = length (filter (\<lambda>w. ?r w \<or> ?p w) workloads)"
    by (rule length_filter_disjoint) auto
  moreover have "length (filter (\<lambda>w. ?r w \<or> ?p w) workloads) + length (filter ?f workloads)
      = length (filter (\<lambda>w. (?r w \<or> ?p w) \<or> ?f w) workloads)" by (rule length_filter_disjoint) auto
  moreover have "length (filter (\<lambda>w. (?r w \<or> ?p w) \<or> ?f w) workloads) \<le> length workloads" by (rule length_filter_le)
  ultimately have parts: "length (filter ?r workloads) + length (filter ?p workloads) + length (filter ?f workloads) \<le> length workloads"
    by linarith
  have "int32 (int (length nodes)) = int (length nodes)" "int32 (int (length workloads)) = int (length workloads)"
    using assms by (simp_all add: int32_id)
  with assms parts show ?thesis
    unfolding summarize_def Let_def
    by (simp add: count32_exact [OF assms(1)] count32_exact [OF assms(2)] length_partition flip: of_nat_add)
qed

theorem summary_adds_up_witness:
  "sm_ReadyNodes (summarize [demo_node ''a'' 1, demo_node ''b'' 2] [demo_workload] 0) +
   sm_NotReadyNodes (summarize [demo_node ''a'' 1, demo_node ''b'' 2] [demo_workload] 0) = 2"
  using summary_adds_up [of "[demo_node ''a'' 1, demo_node ''b'' 2]" "[demo_workload]" 0] by (simp add: Let_def)

end
