(* ===== verification/PollSpec.thy ===== *)
theory PollSpec
  imports WorkloadSpec
begin

text \<open>
  The polling loops end. The clock never goes back and a sleep moves it forward, so a loop
  that gives up at a deadline runs at most once per poll interval; the fuel of the model
  covers that many rounds.
\<close>

section \<open>Operations and the clock\<close>

definition later :: "('w \<Rightarrow> time) \<Rightarrow> 'w sched \<Rightarrow> 'w sched \<Rightarrow> bool" where
  "later clk s t = (clk (sc_world s) \<le> clk (sc_world t) \<and> sc_cfg t = sc_cfg s)"

interpretation ck: guarantee "\<lambda>_. True" "later clk" for clk
  by unfold_locales (auto simp: later_def)

lemma laterI: "(\<And>s. later clk s (snd (run_state m s))) \<Longrightarrow> ensures (\<lambda>_. True) (later clk) m (\<lambda>_. True)"
  by (simp add: ensures_def)

context wall_clock
begin

lemma later_call: "(\<And>w. clk w \<le> clk (snd (f w))) \<Longrightarrow> ensures (\<lambda>_. True) (later clk) (call f) (\<lambda>_. True)"
  by (rule laterI) (simp add: later_def)

lemma now_later: "ensures (\<lambda>_. True) (later clk) (now E) (\<lambda>_. True)"
  by (rule later_call) (metis now_reads prod.collapse)

lemma later_client: "ensures (\<lambda>_. True) (later clk) (newAgentClient E n) (\<lambda>_. True)"
  unfolding newAgentClient_def loadClientTLSConfig_def
  by (rule ck.g_rules later_call clk_dial clk_tls TrueI)+

lemma later_status: "ensures (\<lambda>_. True) (later clk) (getWorkloadStatusFromNode E n i) (\<lambda>_. True)"
  unfolding getWorkloadStatusFromNode_def
  by (rule ck.g_rules later_client later_call clk_status TrueI)+

lemma laterD: "ensures (\<lambda>_. True) (later clk) m (\<lambda>_. True) \<Longrightarrow> run_state m s = (x, t) \<Longrightarrow> later clk s t"
  using ensuresD(2) [of "\<lambda>_. True" "later clk" m "\<lambda>_. True" s] by simp

end

section \<open>Rounds\<close>

text \<open>
  \<open>finishes m\<close>: the round ends the loop. \<open>advances clk dl m\<close>: a round that goes on started
  before the deadline and takes at least a poll interval.
\<close>

definition finishes :: "('w, 'a + 'b) op \<Rightarrow> bool" where
  "finishes m = (\<forall>s. isl (fst (run_state m s)))"

definition advances :: "('w \<Rightarrow> time) \<Rightarrow> time \<Rightarrow> ('w, 'a + 'b) op \<Rightarrow> bool" where
  "advances clk dl m = (\<forall>s b t. run_state m s = (Inr b, t) \<longrightarrow> clk (sc_world s) \<le> dl \<and>
     clk (sc_world s) + agentPollInterval (sc_cfg s) \<le> clk (sc_world t) \<and> sc_cfg t = sc_cfg s)"

lemma finishes_rules:
  "finishes (ret (Inl a))" "(\<And>x. finishes (f x)) \<Longrightarrow> finishes (State_Monad.bind m f)"
  "(\<And>e. finishes (g e)) \<Longrightarrow> (\<And>x. finishes (h x)) \<Longrightarrow> finishes (case v of Inl e \<Rightarrow> g e | Inr x \<Rightarrow> h x)"
  by (auto simp: finishes_def split: sum.splits prod.splits)

lemma advances_finishes: "finishes m \<Longrightarrow> advances clk dl m"
  unfolding finishes_def advances_def by (metis fst_conv sum.disc(2))

lemma advances_if: "(b \<Longrightarrow> advances clk dl m) \<Longrightarrow> (\<not> b \<Longrightarrow> advances clk dl n) \<Longrightarrow> advances clk dl (if b then m else n)"
  by simp

lemma advances_option:
  "advances clk dl m \<Longrightarrow> (\<And>x. advances clk dl (f x)) \<Longrightarrow> advances clk dl (case v of None \<Rightarrow> m | Some x \<Rightarrow> f x)"
  by (cases v) simp_all

lemma advances_sum:
  "(\<And>e. advances clk dl (g e)) \<Longrightarrow> (\<And>x. advances clk dl (f x)) \<Longrightarrow> advances clk dl (case v of Inl e \<Rightarrow> g e | Inr x \<Rightarrow> f x)"
  by (cases v) simp_all

context wall_clock
begin

lemma advances_bind:
  assumes m: "ensures (\<lambda>_. True) (later clk) m (\<lambda>_. True)" and f: "\<And>x. advances clk dl (f x)"
  shows "advances clk dl (State_Monad.bind m f)"
  unfolding advances_def
proof (intro allI impI)
  fix s b u assume run: "run_state (State_Monad.bind m f) s = (Inr b, u)"
  obtain x t where r: "run_state m s = (x, t)" by fastforce
  with run have "run_state (f x) t = (Inr b, u)" by simp
  with f laterD [OF m r] show "clk (sc_world s) \<le> dl \<and>
      clk (sc_world s) + agentPollInterval (sc_cfg s) \<le> clk (sc_world u) \<and> sc_cfg u = sc_cfg s"
    unfolding advances_def later_def by fastforce
qed

lemma advances_deadline:
  assumes "finishes m"
  shows "advances clk dl (do { t \<leftarrow> now E; if t > dl then m
    else do { cfg \<leftarrow> gets sc_cfg; _ \<leftarrow> sleep E (agentPollInterval cfg); ret (Inr b) } })"
  unfolding advances_def
proof (intro allI impI)
  fix s u :: "'w sched" and b'
  let ?t = "fst (timeNow E (sc_world s))" let ?w = "snd (timeNow E (sc_world s))"
  have now: "?t = clk ?w" "clk (sc_world s) \<le> clk ?w" using now_reads [of "sc_world s" ?t ?w] by simp_all
  assume run: "run_state (do { t \<leftarrow> now E; if t > dl then m
    else do { cfg \<leftarrow> gets sc_cfg; _ \<leftarrow> sleep E (agentPollInterval cfg); ret (Inr b) } }) s = (Inr b', u)"
  have "\<not> ?t > dl" 
  proof
    assume "?t > dl"
    with run have "run_state m (s\<lparr>sc_world := ?w\<rparr>) = (Inr b', u)" by simp
    with assms show False unfolding finishes_def by (metis fst_conv sum.disc(2))
  qed
  with run have "u = s\<lparr>sc_world := sleepFor E (agentPollInterval (sc_cfg s)) ?w\<rparr>" by simp
  moreover have "clk ?w + agentPollInterval (sc_cfg s) \<le> clk (sleepFor E (agentPollInterval (sc_cfg s)) ?w)"
    by (rule sleep_advances) (simp add: agentPollInterval_def Second_def nsec_def)
  ultimately show "clk (sc_world s) \<le> dl \<and>
      clk (sc_world s) + agentPollInterval (sc_cfg s) \<le> clk (sc_world u) \<and> sc_cfg u = sc_cfg s"
    using now \<open>\<not> ?t > dl\<close> by simp
qed

lemma wait_advances: "advances clk dl (wait_step E n i dl missing)"
proof -
  have d: "advances clk dl (wait_deadline E n i dl b)" for b
    unfolding wait_deadline_def by (rule advances_deadline) (rule finishes_rules)+
  have m: "ensures (\<lambda>_. True) (later clk) (if IsZero missing then now E else ret missing) (\<lambda>_. True)"
    by (rule ck.g_rules now_later TrueI)+
  show ?thesis
    unfolding wait_step_def
    by (rule advances_bind [OF later_status] advances_bind [OF m] advances_bind [OF now_later] advances_if advances_sum
        advances_option d advances_finishes [OF finishes_rules(1)])+
qed

lemma delete_advances: "advances clk dl (delete_step E n i dl u)"
  unfolding delete_step_def
  by (rule advances_bind [OF later_status] advances_if advances_deadline advances_finishes finishes_rules)+

lemma poll_ends:
  fixes round :: "'b \<Rightarrow> ('w, 'a + 'b) op"
  assumes adv: "\<And>b. advances clk dl (round b)"
    and fuel: "if dl < clk (sc_world s) then 0 < fuel
      else nat ((dl - clk (sc_world s)) div agentPollInterval (sc_cfg s)) + 2 \<le> fuel"
  shows "\<exists>a t. run_state (poll_until fuel round b) s = (Some a, t)"
  using fuel
proof (induction fuel arbitrary: s b)
  case 0
  then show ?case by (simp split: if_splits)
next
  case (Suc fuel)
  let ?d = "agentPollInterval (sc_cfg s)"
  have d: "0 < ?d" by (simp add: agentPollInterval_def Second_def nsec_def)
  obtain r t where run: "run_state (round b) s = (r, t)" by fastforce
  show ?case
  proof (cases r)
    case (Inl a)
    with run show ?thesis by simp
  next
    case (Inr b')
    with adv [of b] run have t: "clk (sc_world s) \<le> dl" "clk (sc_world s) + ?d \<le> clk (sc_world t)" "sc_cfg t = sc_cfg s"
      unfolding advances_def by auto
    have "if dl < clk (sc_world t) then 0 < fuel
      else nat ((dl - clk (sc_world t)) div agentPollInterval (sc_cfg t)) + 2 \<le> fuel"
    proof (cases "dl < clk (sc_world t)")
      case True
      with Suc.prems t(1) show ?thesis by simp
    next
      case False
      have "(dl - clk (sc_world t)) div ?d \<le> (dl - clk (sc_world s) - ?d) div ?d"
        using t(2) d by (intro zdiv_mono1) auto
      also have "\<dots> = (dl - clk (sc_world s)) div ?d - 1" using d div_add_self2 [of ?d "dl - clk (sc_world s) - ?d"] by simp
      finally have "(dl - clk (sc_world t)) div ?d + 1 \<le> (dl - clk (sc_world s)) div ?d" by simp
      moreover have "0 \<le> (dl - clk (sc_world t)) div ?d" using False d by (simp add: pos_imp_zdiv_nonneg_iff)
      ultimately show ?thesis using Suc.prems t(1,3) False by simp
    qed
    from Suc.IH [OF this] run Inr show ?thesis by simp
  qed
qed

end

text \<open>
  Waiting for a workload to settle ends. With fuel for one round per poll interval of the
  timeout and two more, the wait loop returns, whatever the agent answers.
\<close>

theorem wait_terminates:
  assumes "wall_clock E clk" and "0 \<le> timeout" and "nat (timeout div agentPollInterval (sc_cfg s)) + 2 \<le> fuel"
  shows "\<exists>r t. run_state (waitForWorkloadTerminalStatus fuel E n w timeout) s = (Some r, t)"
proof -
  let ?t = "fst (timeNow E (sc_world s))" let ?s = "s\<lparr>sc_world := snd (timeNow E (sc_world s))\<rparr>"
  have "?t = clk (sc_world ?s)" using wall_clock.now_reads [OF assms(1), of "sc_world s" ?t "sc_world ?s"] by simp
  then have "\<exists>r t. run_state (poll_until fuel (wait_step E n (w_ID w) (?t + timeout)) 0) ?s = (Some r, t)"
    using assms(2,3) by (intro wall_clock.poll_ends [OF assms(1) wall_clock.wait_advances [OF assms(1)]]) simp
  then show ?thesis by (simp add: waitForWorkloadTerminalStatus_def)
qed

theorem wait_terminates_witness:
  "\<exists>r t. run_state (waitForWorkloadTerminalStatus 12 memEnv (demo_node ''a'' 1) demo_workload (10 * Second)) (demo_sched demo_nodes)
     = (Some r, t)"
proof (rule wait_terminates [OF memclock.wall_clock_axioms])
  show "nat (10 * Second div agentPollInterval (sc_cfg (demo_sched demo_nodes))) + 2 \<le> 12" by code_simp
qed (simp add: Second_def nsec_def)

text \<open>
  Waiting for a deletion ends. From a state of the deletion with the deadline set, the
  loop that waits until the agent no longer knows the workload ends within \<open>deletePolls\<close>
  rounds, so the fuel of the model is never used up.
\<close>

theorem delete_poll_terminates:
  assumes "wall_clock E clk"
  shows "\<exists>t. run_state (poll_until (deletePolls (sc_cfg s))
    (delete_step E n i (clk (sc_world s) + deleteTimeout (sc_cfg s))) ()) s = (Some (), t)"
proof -
  have "0 \<le> deleteTimeout (sc_cfg s)" by (simp add: deleteTimeout_def Second_def nsec_def)
  then have "\<exists>a t. run_state (poll_until (deletePolls (sc_cfg s))
    (delete_step E n i (clk (sc_world s) + deleteTimeout (sc_cfg s))) ()) s = (Some a, t)"
    by (intro wall_clock.poll_ends [OF assms wall_clock.delete_advances [OF assms]]) (simp add: deletePolls_def)
  then show ?thesis by simp
qed

theorem delete_poll_terminates_witness:
  "\<exists>t. run_state (poll_until (deletePolls demo_cfg)
     (delete_step memEnv (demo_node ''a'' 1) ''w1'' (m_clock demo_cluster + deleteTimeout demo_cfg)) ()) (demo_sched demo_cluster) = (Some (), t)"
  using delete_poll_terminates [OF memclock.wall_clock_axioms, of "demo_sched demo_cluster" "demo_node ''a'' 1" "''w1''"]
  by (simp add: demo_sched_def)

end
