(* ===== verification/Json.thy ===== *)
theory Json
  imports GoStrings GoTime
begin

text \<open>
  The part of \<open>encoding/json\<close> that the services use on text from their clients: the syntax of
  JSON values as \<open>json.Unmarshal\<close> checks it, and the decoding of an object into a struct of
  strings, \<open>float64\<close>s and \<open>int32\<close>s. A member whose name matches no field is skipped, names are
  compared without regard to case, \<open>null\<close> leaves a field alone, a later member overrides an
  earlier one, and a value of another type is an error. Text is a list of bytes; the
  replacement of malformed UTF-8 and the nesting limit of ten thousand are left out.
\<close>

section \<open>Syntax\<close>

datatype json =
  JNull
| JBool bool
| JNumber string
| JString string
| JArray "json list"
| JObject "(string \<times> json) list"

definition isJsonSpace :: "char \<Rightarrow> bool" where
  "isJsonSpace c = (of_char c \<in> {32, 9, 10, 13 :: nat})"

definition skip_ws :: "string \<Rightarrow> string" where
  "skip_ws s = dropWhile isJsonSpace s"

definition hex_val :: "char \<Rightarrow> nat option" where
  "hex_val c =
     (let n = of_char c :: nat
      in if 48 \<le> n \<and> n \<le> 57 then Some (n - 48)
         else if 97 \<le> n \<and> n \<le> 102 then Some (n - 87)
         else if 65 \<le> n \<and> n \<le> 70 then Some (n - 55) else None)"

fun hex_digits :: "nat \<Rightarrow> nat \<Rightarrow> string \<Rightarrow> (nat \<times> string) option" where
  "hex_digits 0 acc s = Some (acc, s)"
| "hex_digits (Suc n) acc s =
     (case s of
        [] \<Rightarrow> None
      | c # r \<Rightarrow> (case hex_val c of None \<Rightarrow> None | Some d \<Rightarrow> hex_digits n (16 * acc + d) r))"

definition utf8 :: "nat \<Rightarrow> string" where
  "utf8 n =
     (if n < 128 then [char_of n]
      else if n < 2048 then [char_of (192 + n div 64), char_of (128 + n mod 64)]
      else if n < 65536 then
        [char_of (224 + n div 4096), char_of (128 + n div 64 mod 64), char_of (128 + n mod 64)]
      else [char_of (240 + n div 262144), char_of (128 + n div 4096 mod 64),
            char_of (128 + n div 64 mod 64), char_of (128 + n mod 64)])"

text \<open>The code unit after \<open>\u\<close>, joined with a following one when they form a surrogate pair.\<close>

definition unicode_escape :: "string \<Rightarrow> (string \<times> string) option" where
  "unicode_escape s =
     (case hex_digits 4 0 s of
        None \<Rightarrow> None
      | Some (n, r) \<Rightarrow>
          if 55296 \<le> n \<and> n < 57344 then
            (case (if take 2 r = [CHR 0x5C, CHR ''u''] then hex_digits 4 0 (drop 2 r) else None) of
               Some (m, r') \<Rightarrow>
                 if n < 56320 \<and> 56320 \<le> m \<and> m < 57344
                 then Some (utf8 (65536 + (n - 55296) * 1024 + (m - 56320)), r') else Some (utf8 65533, r)
             | None \<Rightarrow> Some (utf8 65533, r))
          else Some (utf8 n, r))"

definition simple_escape :: "char \<Rightarrow> char option" where
  "simple_escape e =
     (let n = of_char e :: nat
      in if n = 34 \<or> n = 92 \<or> n = 47 then Some e
         else if n = 98 then Some (CHR 0x08) else if n = 102 then Some (CHR 0x0C)
         else if n = 110 then Some (CHR 0x0A) else if n = 114 then Some (CHR 0x0D)
         else if n = 116 then Some (CHR 0x09) else None)"

definition after :: "string \<Rightarrow> (string \<times> string) option \<Rightarrow> (string \<times> string) option" where
  "after x r = map_option (\<lambda>(t, s). (x @ t, s)) r"

text \<open>The rest of a string literal after its opening quote; the fuel is the length of the text.\<close>

fun json_string :: "nat \<Rightarrow> string \<Rightarrow> (string \<times> string) option" where
  "json_string 0 s = None"
| "json_string (Suc n) s =
     (case s of
        [] \<Rightarrow> None
      | c # r \<Rightarrow>
          if of_char c = (34 :: nat) then Some ([], r)
          else if of_char c < (32 :: nat) then None
          else if of_char c = (92 :: nat) then
            (case r of
               [] \<Rightarrow> None
             | e # r' \<Rightarrow>
                 if e = CHR ''u'' then
                   (case unicode_escape r' of None \<Rightarrow> None | Some (x, r2) \<Rightarrow> after x (json_string n r2))
                 else (case simple_escape e of None \<Rightarrow> None | Some x \<Rightarrow> after [x] (json_string n r')))
          else after [c] (json_string n r))"

definition is_digit :: "char \<Rightarrow> bool" where
  "is_digit c = (digit_val c \<noteq> None)"

text \<open>A number literal, cut off the front of the text: sign, integer, fraction, exponent.\<close>

definition int_part :: "string \<Rightarrow> (string \<times> string) option" where
  "int_part s =
     (let d = takeWhile is_digit s
      in if d = [] then None
         else if hd d = CHR ''0'' then Some (''0'', drop 1 s)
         else Some (d, drop (length d) s))"

definition frac_part :: "string \<Rightarrow> (string \<times> string) option" where
  "frac_part s =
     (if take 1 s = ''.'' then
        (let d = takeWhile is_digit (drop 1 s)
         in if d = [] then None else Some (CHR ''.'' # d, drop (Suc (length d)) s))
      else Some ([], s))"

definition exp_part :: "string \<Rightarrow> (string \<times> string) option" where
  "exp_part s =
     (if take 1 s = ''e'' \<or> take 1 s = ''E'' then
        (let r = drop 1 s; sg = (if take 1 r = ''+'' \<or> take 1 r = ''-'' then take 1 r else []);
             d = takeWhile is_digit (drop (length sg) r)
         in if d = [] then None else Some (take 1 s @ sg @ d, drop (length sg + length d) r))
      else Some ([], s))"

definition json_number :: "string \<Rightarrow> (string \<times> string) option" where
  "json_number s =
     (let sg = (if take 1 s = ''-'' then ''-'' else [])
      in case int_part (drop (length sg) s) of None \<Rightarrow> None | Some (i, r1) \<Rightarrow>
         (case frac_part r1 of None \<Rightarrow> None | Some (f, r2) \<Rightarrow>
         (case exp_part r2 of None \<Rightarrow> None | Some (e, r3) \<Rightarrow> Some (sg @ i @ f @ e, r3))))"

definition json_literal :: "string \<Rightarrow> (json \<times> string) option" where
  "json_literal s =
     (if take 4 s = ''null'' then Some (JNull, drop 4 s)
      else if take 4 s = ''true'' then Some (JBool True, drop 4 s)
      else if take 5 s = ''false'' then Some (JBool False, drop 5 s)
      else map_option (\<lambda>(t, r). (JNumber t, r)) (json_number s))"

text \<open>Values; the fuel bounds the number of values in the text.\<close>

fun json_value :: "nat \<Rightarrow> string \<Rightarrow> (json \<times> string) option"
and json_elements :: "nat \<Rightarrow> string \<Rightarrow> (json list \<times> string) option"
and json_members :: "nat \<Rightarrow> string \<Rightarrow> ((string \<times> json) list \<times> string) option" where
  "json_value 0 s = None"
| "json_value (Suc n) s0 =
     (let s = skip_ws s0
      in if take 1 s = [CHR 0x22] then
           map_option (\<lambda>(t, r). (JString t, r)) (json_string (length s) (drop 1 s))
         else if take 1 s = ''['' then
           (if take 1 (skip_ws (drop 1 s)) = '']'' then Some (JArray [], drop 1 (skip_ws (drop 1 s)))
            else map_option (\<lambda>(xs, r). (JArray xs, r)) (json_elements n (drop 1 s)))
         else if take 1 s = ''{'' then
           (if take 1 (skip_ws (drop 1 s)) = ''}'' then Some (JObject [], drop 1 (skip_ws (drop 1 s)))
            else map_option (\<lambda>(xs, r). (JObject xs, r)) (json_members n (drop 1 s)))
         else json_literal s)"
| "json_elements 0 s = None"
| "json_elements (Suc n) s =
     (case json_value n s of
        None \<Rightarrow> None
      | Some (v, r) \<Rightarrow>
          if take 1 (skip_ws r) = '']'' then Some ([v], drop 1 (skip_ws r))
          else if take 1 (skip_ws r) = '','' then
            map_option (\<lambda>(vs, r'). (v # vs, r')) (json_elements n (drop 1 (skip_ws r)))
          else None)"
| "json_members 0 s = None"
| "json_members (Suc n) s =
     (if take 1 (skip_ws s) = [CHR 0x22] then
        (case json_string (length s) (drop 1 (skip_ws s)) of
           None \<Rightarrow> None
         | Some (k, r0) \<Rightarrow>
             if take 1 (skip_ws r0) = '':'' then
               (case json_value n (drop 1 (skip_ws r0)) of
                  None \<Rightarrow> None
                | Some (v, r) \<Rightarrow>
                    if take 1 (skip_ws r) = ''}'' then Some ([(k, v)], drop 1 (skip_ws r))
                    else if take 1 (skip_ws r) = '','' then
                      map_option (\<lambda>(ms, r'). ((k, v) # ms, r')) (json_members n (drop 1 (skip_ws r)))
                    else None)
             else None)
      else None)"

text \<open>
  What a parser leaves over is shorter than its text, so every level of nesting and every
  member costs a character: fuel of twice the length is enough, and more does not change
  the result.
\<close>

lemma skip_ws_length: "length (skip_ws s) \<le> length s"
  by (simp add: skip_ws_def length_dropWhile_le)

lemma hex_digits_length: "hex_digits n a s = Some (m, r) \<Longrightarrow> length r \<le> length s"
  by (induction n a s rule: hex_digits.induct) (auto split: list.splits option.splits intro: le_SucI)

lemma unicode_escape_length:
  assumes "unicode_escape s = Some (x, r)"
  shows "length r \<le> length s"
proof -
  from assms obtain n r1 where h: "hex_digits 4 0 s = Some (n, r1)"
    by (auto simp: unicode_escape_def split: option.splits)
  note l = hex_digits_length [OF h]
  have "length r2 \<le> length s" if "hex_digits 4 0 (drop 2 r1) = Some (m, r2)" for m r2
    using hex_digits_length [OF that] l by simp
  with assms h l show ?thesis by (auto simp: unicode_escape_def split: if_splits option.splits)
qed

lemma json_string_length: "json_string n s = Some (t, r) \<Longrightarrow> length r < length s"
proof (induction n arbitrary: s t)
  case (Suc n)
  have "length r < length u" if "after x (json_string n u) = Some (t, r)" for x u
    using that Suc.IH by (auto simp: after_def)
  with Suc.prems show ?case
    by (fastforce split: list.splits if_splits option.splits dest: unicode_escape_length)
qed simp

lemma json_string_fuel: "length s < n \<Longrightarrow> json_string (Suc n) s = json_string n s"
proof (induction n arbitrary: s)
  case (Suc n)
  have IH: "json_string (Suc n) u = json_string n u" if "length u < length s" for u
    using Suc.IH [of u] Suc.prems that by simp
  show ?case
  proof (cases s)
    case (Cons c r)
    have "json_string (Suc n) u = json_string n u" if "unicode_escape e = Some (x, u)" "r = d # e" for x u d e
      using unicode_escape_length [OF that(1)] that(2) Cons by (intro IH) simp
    moreover have "json_string (Suc n) r = json_string n r" using Cons by (intro IH) simp
    moreover have "json_string (Suc n) e = json_string n e" if "r = d # e" for d e using Cons that by (intro IH) simp
    ultimately show ?thesis
      unfolding Cons json_string.simps(2) [of "Suc n"] json_string.simps(2) [of n "c # r"]
      by (auto simp del: json_string.simps split: list.splits option.splits)
  qed simp
qed simp

lemma number_part_length:
  "int_part s = Some (x, r) \<Longrightarrow> length r < length s" "frac_part s = Some (x, r) \<Longrightarrow> length r \<le> length s"
  "exp_part s = Some (x, r) \<Longrightarrow> length r \<le> length s"
proof -
  show "length r < length s" if "int_part s = Some (x, r)"
    using that by (cases s) (auto simp: int_part_def Let_def split: if_splits)
qed (auto simp: frac_part_def exp_part_def Let_def split: if_splits)

lemma json_number_length: "json_number s = Some (x, r) \<Longrightarrow> length r < length s"
  by (fastforce simp: json_number_def Let_def split: option.splits if_splits dest: number_part_length)

lemma json_literal_length: "json_literal s = Some (v, r) \<Longrightarrow> length r < length s"
  by (cases s) (auto simp: json_literal_def split: if_splits dest: json_number_length)

lemma drop1_skip_ws: "take 1 (skip_ws s) = [c] \<Longrightarrow> length (drop 1 (skip_ws s)) < length s"
  using skip_ws_length [of s] by (cases "skip_ws s") auto

lemma drop1_less: "length s \<le> m \<Longrightarrow> take 1 (skip_ws s) = [c] \<Longrightarrow> length (drop 1 (skip_ws s)) < m"
  using drop1_skip_ws [of s c] by linarith

lemma json_length_all:
  "(\<forall>s v r. json_value n s = Some (v, r) \<longrightarrow> length r < length s) \<and>
   (\<forall>s vs r. json_elements n s = Some (vs, r) \<longrightarrow> length r < length s) \<and>
   (\<forall>s ms r. json_members n s = Some (ms, r) \<longrightarrow> length r < length s)"
proof (induction n)
  case (Suc n)
  then have V: "\<And>s v r. json_value n s = Some (v, r) \<Longrightarrow> length r < length s"
    and E: "\<And>s vs r. json_elements n s = Some (vs, r) \<Longrightarrow> length r < length s"
    and M: "\<And>s ms r. json_members n s = Some (ms, r) \<Longrightarrow> length r < length s" by blast+
  have val: "length r < length s" if v: "json_value (Suc n) s = Some (v, r)" for s v r
  proof -
    let ?s = "skip_ws s"
    have d: "length (drop 1 ?s) \<le> length s" using skip_ws_length [of s] by simp
    consider "take 1 ?s = [CHR 0x22]" | "take 1 ?s = ''[''" | "take 1 ?s = ''{''" | "json_literal ?s = Some (v, r)"
      using v by (auto simp: Let_def split: if_splits)
    then show ?thesis
    proof cases
      case 1
      with v show ?thesis using json_string_length d by (fastforce simp: Let_def)
    next
      case 2
      with v show ?thesis using E d drop1_less [of "drop 1 ?s"] by (fastforce simp: Let_def split: if_splits)
    next
      case 3
      with v show ?thesis using M d drop1_less [of "drop 1 ?s"] by (fastforce simp: Let_def split: if_splits)
    next
      case 4
      from json_literal_length [OF this] skip_ws_length [of s] show ?thesis by linarith
    qed
  qed
  have elements: "length r < length s" if e: "json_elements (Suc n) s = Some (vs, r)" for s vs r
  proof -
    from e obtain v r1 where r1: "json_value n s = Some (v, r1)" by (auto split: option.splits)
    have l: "length r1 < length s" using V [OF r1] .
    have "length u < length s" if "json_elements n (drop 1 (skip_ws r1)) = Some (ws, u)" for ws u
      using E [OF that] l skip_ws_length [of r1] by simp
    with e r1 l skip_ws_length [of r1] show ?thesis by (fastforce split: if_splits)
  qed
  have members: "length r < length s" if m: "json_members (Suc n) s = Some (ms, r)" for s ms r
  proof -
    from m obtain k r0 v r1 where
      r: "json_string (length s) (drop 1 (skip_ws s)) = Some (k, r0)" "json_value n (drop 1 (skip_ws r0)) = Some (v, r1)"
      by (auto split: option.splits if_splits)
    have l: "length r1 < length s"
      using V [OF r(2)] json_string_length [OF r(1)] skip_ws_length [of r0] skip_ws_length [of s] by simp
    have "length u < length s" if "json_members n (drop 1 (skip_ws r1)) = Some (ws, u)" for ws u
      using M [OF that] l skip_ws_length [of r1] by simp
    with m r l skip_ws_length [of r1] show ?thesis by (fastforce split: if_splits)
  qed
  from val elements members show ?case by blast
qed simp

lemmas json_value_length = json_length_all [THEN conjunct1, rule_format]

lemma json_fuel_all:
  "(\<forall>s. 2 * length s + 1 \<le> n \<longrightarrow> json_value (Suc n) s = json_value n s) \<and>
   (\<forall>s. 2 * length s + 2 \<le> n \<longrightarrow> json_elements (Suc n) s = json_elements n s) \<and>
   (\<forall>s. 2 * length s + 2 \<le> n \<longrightarrow> json_members (Suc n) s = json_members n s)"
proof (induction n)
  case (Suc n)
  then have V: "\<And>s. 2 * length s + 1 \<le> n \<Longrightarrow> json_value (Suc n) s = json_value n s"
    and E: "\<And>s. 2 * length s + 2 \<le> n \<Longrightarrow> json_elements (Suc n) s = json_elements n s"
    and M: "\<And>s. 2 * length s + 2 \<le> n \<Longrightarrow> json_members (Suc n) s = json_members n s" by blast+
  have val: "json_value (Suc (Suc n)) s = json_value (Suc n) s" if "2 * length s + 1 \<le> Suc n" for s
  proof -
    have "2 * length (drop 1 (skip_ws s)) + 2 \<le> n" if "take 1 (skip_ws s) = [c]" for c
      using drop1_skip_ws [OF that] \<open>2 * length s + 1 \<le> Suc n\<close> by linarith
    then show ?thesis
      unfolding json_value.simps(2) [of "Suc n"] json_value.simps(2) [of n] Let_def
      by (simp add: E M del: json_elements.simps json_members.simps)
  qed
  have elements: "json_elements (Suc (Suc n)) s = json_elements (Suc n) s" if s: "2 * length s + 2 \<le> Suc n" for s
  proof -
    have "json_elements (Suc n) (drop 1 (skip_ws r)) = json_elements n (drop 1 (skip_ws r))"
      if "json_value n s = Some (v, r)" "take 1 (skip_ws r) = [c]" for v r c
      using json_value_length [OF that(1)] drop1_skip_ws [OF that(2)] s by (intro E) linarith
    with V [of s] s show ?thesis
      unfolding json_elements.simps(2) [of "Suc n"] json_elements.simps(2) [of n]
      by (auto simp del: json_elements.simps json_value.simps split: option.splits)
  qed
  have members: "json_members (Suc (Suc n)) s = json_members (Suc n) s" if s: "2 * length s + 2 \<le> Suc n" for s
  proof (cases "take 1 (skip_ws s) = [CHR 0x22]")
    case True
    note l0 = drop1_skip_ws [OF True]
    have v: "json_value (Suc n) (drop 1 (skip_ws r0)) = json_value n (drop 1 (skip_ws r0))"
      if "json_string (length s) (drop 1 (skip_ws s)) = Some (k, r0)" for k r0
      using json_string_length [OF that] skip_ws_length [of r0] l0 s by (intro V) simp
    have "json_members (Suc n) (drop 1 (skip_ws r)) = json_members n (drop 1 (skip_ws r))"
      if "json_string (length s) (drop 1 (skip_ws s)) = Some (k, r0)"
        "json_value n (drop 1 (skip_ws r0)) = Some (v, r)" for k r0 v r
      using json_string_length [OF that(1)] json_value_length [OF that(2)] skip_ws_length [of r] skip_ws_length [of r0] l0 s
      by (intro M) simp
    with v show ?thesis
      unfolding json_members.simps(2) [of "Suc n"] json_members.simps(2) [of n]
      by (auto simp del: json_members.simps json_value.simps split: option.splits)
  qed simp
  from val elements members show ?case by blast
qed simp

lemma json_value_fuel:
  assumes "m \<le> n" and "2 * length s + 1 \<le> m"
  shows "json_value n s = json_value m s"
  using assms(1)
proof (induction n rule: dec_induct)
  case (step n)
  with assms(2) json_fuel_all [of n] show ?case by (metis (no_types, lifting) le_trans)
qed simp

definition json_parse :: "string \<Rightarrow> json option" where
  "json_parse s =
     (case json_value (2 * length s + 2) s of
        Some (v, r) \<Rightarrow> if skip_ws r = [] then Some v else None
      | None \<Rightarrow> None)"

section \<open>Decoding into structs\<close>

definition json_struct :: "json \<Rightarrow> (string \<times> json) list option" where
  "json_struct v = (case v of JObject ms \<Rightarrow> Some ms | JNull \<Rightarrow> Some [] | _ \<Rightarrow> None)"

text \<open>A decoder reads one value into a field; \<open>decode_field\<close> runs it over the members of an object.\<close>

fun decode_field :: "(json \<Rightarrow> 'a \<Rightarrow> 'a option) \<Rightarrow> string \<Rightarrow> (string \<times> json) list \<Rightarrow> 'a \<Rightarrow> 'a option" where
  "decode_field d name [] x = Some x"
| "decode_field d name ((k, v) # ms) x =
     (if EqualFold k name then (case d v x of None \<Rightarrow> None | Some y \<Rightarrow> decode_field d name ms y)
      else decode_field d name ms x)"

fun string_decoder :: "json \<Rightarrow> string \<Rightarrow> string option" where
  "string_decoder (JString t) x = Some t"
| "string_decoder JNull x = Some x"
| "string_decoder _ x = None"

definition exponent_of :: "string \<Rightarrow> int" where
  "exponent_of e =
     (let r = drop 1 e; d = (if take 1 r = ''+'' \<or> take 1 r = ''-'' then drop 1 r else r);
          n = (case digits_val 0 d of Some k \<Rightarrow> int k | None \<Rightarrow> 0)
      in if take 1 r = ''-'' then - n else n)"

text \<open>The number a literal denotes, and the largest magnitude that does not round to infinity.\<close>

definition number_value :: "string \<Rightarrow> rat" where
  "number_value t =
     (let neg = take 1 t = ''-''; u = (if neg then drop 1 t else t);
          i = takeWhile is_digit u; r1 = drop (length i) u;
          f = (if take 1 r1 = ''.'' then takeWhile is_digit (drop 1 r1) else []);
          e = (if take 1 r1 = ''.'' then drop (Suc (length f)) r1 else r1);
          m = (case digits_val 0 (i @ f) of Some n \<Rightarrow> int n | None \<Rightarrow> 0);
          x = exponent_of e - int (length f);
          a = (if 0 \<le> x then rat_of_int (m * 10 ^ nat x) else rat_of_int m / rat_of_int (10 ^ nat (- x)))
      in if neg then - a else a)"

fun float_decoder :: "json \<Rightarrow> rat \<Rightarrow> rat option" where
  "float_decoder (JNumber t) x =
     (let a = number_value t in if \<bar>a\<bar> < 2 ^ 1024 - 2 ^ 970 then Some a else None)"
| "float_decoder JNull x = Some x"
| "float_decoder _ x = None"

fun int32_decoder :: "json \<Rightarrow> int \<Rightarrow> int option" where
  "int32_decoder (JNumber t) x =
     (case Atoi t of
        Some i \<Rightarrow> if - (2 ^ 31) \<le> i \<and> i < 2 ^ 31 then Some i else None
      | None \<Rightarrow> None)"
| "int32_decoder JNull x = Some x"
| "int32_decoder _ x = None"

end
