(* ===== verification/AutomationStore.thy ===== *)
theory AutomationStore
  imports ControlApi Json
begin

text \<open>
  The automation service's data (\<open>persys-automation/internal\<close>): the messages of its API, the
  records of \<open>store/store.go\<close>, the interface \<open>PolicyStore\<close> between the engine and its storage,
  and the in-memory implementation \<open>MemoryStore\<close>, which is proved to honour the interface.
\<close>

section \<open>Data\<close>

datatype policy_type = PT_UNSPECIFIED | PT_SCALE | PT_SCHEDULE | PT_OFFLOAD | PT_DRIFT | PT_REDEPLOY

record policy =
  pl_Id :: string
  pl_Name :: string
  pl_TargetWorkload :: string
  pl_Type :: policy_type
  pl_ConditionExpression :: string
  pl_ActionExpression :: string
  pl_Enabled :: bool
  pl_CreatedAt :: time
  pl_UpdatedAt :: time

record create_policy =
  cp_Name :: string
  cp_TargetWorkload :: string
  cp_Type :: policy_type
  cp_ConditionExpression :: string
  cp_ActionExpression :: string

record evaluation_result =
  er_PolicyId :: string
  er_Matched :: bool
  er_Dispatched :: bool
  er_Reason :: string

record audit_entry =
  au_ID :: string
  au_PolicyID :: string
  au_PolicyName :: string
  au_TargetWorkload :: string
  au_Matched :: bool
  au_Dispatched :: bool
  au_Reason :: string
  au_OldState :: string
  au_NewState :: string
  au_Timestamp :: time

record queued_suggestion =
  qs_ID :: string
  qs_PolicyID :: string
  qs_PolicyName :: string
  qs_TargetWorkload :: string
  qs_ActionType :: string
  qs_DesiredState :: string
  qs_DesiredReplicas :: int
  qs_ReplicaDelta :: int
  qs_Reason :: string
  qs_Attempts :: int
  qs_LastError :: string
  qs_CreatedAt :: time
  qs_UpdatedAt :: time

record automation_suggestion =
  as_SuggestionID :: string
  as_PolicyID :: string
  as_PolicyName :: string
  as_TargetWorkload :: string
  as_ActionType :: automation_action
  as_DesiredState :: string
  as_DesiredReplicas :: int
  as_ReplicaDelta :: int
  as_Reason :: string

definition ErrPolicyNotFound :: goerr where
  "ErrPolicyNotFound = errorf ''policy not found''"

section \<open>The in-memory store\<close>

record mem_store =
  ms_policies :: "policy gomap"
  ms_audit :: "audit_entry list"
  ms_queue :: "queued_suggestion list"

definition NewMemoryStore :: mem_store where
  "NewMemoryStore = \<lparr>ms_policies = [], ms_audit = [], ms_queue = []\<rparr>"

text \<open>
  The fresh identifier of \<open>uuid.NewString\<close> and the time of \<open>time.Now\<close> are arguments. Copies
  made by \<open>clonePolicy\<close> are the values themselves.
\<close>

definition storeCreatePolicy :: "string \<Rightarrow> time \<Rightarrow> create_policy \<Rightarrow> mem_store \<Rightarrow> policy result \<times> mem_store" where
  "storeCreatePolicy i t req st =
     (let p = \<lparr>pl_Id = i, pl_Name = cp_Name req, pl_TargetWorkload = cp_TargetWorkload req,
               pl_Type = cp_Type req, pl_ConditionExpression = cp_ConditionExpression req,
               pl_ActionExpression = cp_ActionExpression req, pl_Enabled = True,
               pl_CreatedAt = t, pl_UpdatedAt = t\<rparr>
      in (Inr p, st\<lparr>ms_policies := mput i p (ms_policies st)\<rparr>))"

definition storeListPolicies :: "bool \<Rightarrow> mem_store \<Rightarrow> policy list result" where
  "storeListPolicies includeDisabled st =
     Inr (sort_key pl_CreatedAt
       (filter (\<lambda>p. includeDisabled \<or> pl_Enabled p) (map snd (ms_policies st))))"

definition storeGetPolicy :: "string \<Rightarrow> mem_store \<Rightarrow> policy result" where
  "storeGetPolicy i st =
     (case mget (ms_policies st) i of None \<Rightarrow> Inl ErrPolicyNotFound | Some p \<Rightarrow> Inr p)"

definition storeSetPolicyEnabled :: "time \<Rightarrow> string \<Rightarrow> bool \<Rightarrow> mem_store \<Rightarrow> policy result \<times> mem_store" where
  "storeSetPolicyEnabled t i enabled st =
     (case mget (ms_policies st) i of
        None \<Rightarrow> (Inl ErrPolicyNotFound, st)
      | Some p \<Rightarrow>
          (let p' = p\<lparr>pl_Enabled := enabled, pl_UpdatedAt := t\<rparr>
           in (Inr p', st\<lparr>ms_policies := mput i p' (ms_policies st)\<rparr>)))"

definition storeAppendAudit :: "string \<Rightarrow> time \<Rightarrow> audit_entry \<Rightarrow> mem_store \<Rightarrow> goerr option \<times> mem_store" where
  "storeAppendAudit i t entry st =
     (let a = ms_audit st @ [entry\<lparr>au_ID := i, au_Timestamp := t\<rparr>]
      in (None, st\<lparr>ms_audit := (if length a > 5000 then drop (length a - 5000) a else a)\<rparr>))"

definition storeListAudit :: "nat \<Rightarrow> mem_store \<Rightarrow> audit_entry list result" where
  "storeListAudit limit0 st =
     (let n = length (ms_audit st);
          limit = (if limit0 = 0 \<or> limit0 > n then n else limit0)
      in Inr (rev (drop (n - limit) (ms_audit st))))"

definition storeEnqueueSuggestion ::
  "string \<Rightarrow> time \<Rightarrow> queued_suggestion \<Rightarrow> mem_store \<Rightarrow> goerr option \<times> mem_store" where
  "storeEnqueueSuggestion i t item st =
     (None, st\<lparr>ms_queue := ms_queue st @ [item\<lparr>qs_ID := i, qs_CreatedAt := t, qs_UpdatedAt := t\<rparr>]\<rparr>)"

definition storeClaimQueuedSuggestions :: "int \<Rightarrow> mem_store \<Rightarrow> queued_suggestion list result" where
  "storeClaimQueuedSuggestions limit0 st =
     (let n = int (length (ms_queue st)); limit = (if limit0 \<le> 0 \<or> limit0 > n then n else limit0)
      in Inr (take (nat limit) (ms_queue st)))"

text \<open>The first entry with the identifier is removed, or its failure recorded.\<close>

definition failed_again :: "time \<Rightarrow> string \<Rightarrow> queued_suggestion \<Rightarrow> queued_suggestion" where
  "failed_again t reason q =
     q\<lparr>qs_Attempts := qs_Attempts q + 1, qs_LastError := reason, qs_UpdatedAt := t\<rparr>"

fun mark_queue ::
  "time \<Rightarrow> string \<Rightarrow> bool \<Rightarrow> string \<Rightarrow> queued_suggestion list \<Rightarrow> queued_suggestion list" where
  "mark_queue t i success reason [] = []"
| "mark_queue t i success reason (q # qs) =
     (if qs_ID q = i then (if success then qs else failed_again t reason q # qs)
      else q # mark_queue t i success reason qs)"

definition storeMarkQueuedSuggestionResult ::
  "time \<Rightarrow> string \<Rightarrow> bool \<Rightarrow> string \<Rightarrow> mem_store \<Rightarrow> goerr option \<times> mem_store" where
  "storeMarkQueuedSuggestionResult t i success reason st =
     (None, st\<lparr>ms_queue := mark_queue t i success reason (ms_queue st)\<rparr>)"

section \<open>The interfaces of the engine\<close>

text \<open>
  What the engine is given: the clock, fresh identifiers, Prometheus, the connection to the
  scheduler, the latest pipeline status (when a collector is configured), the cron library
  with the next instant after a given one, and the wording of decoding errors.
\<close>

record 'x outside =
  ou_Now :: "'x \<Rightarrow> time \<times> 'x"
  ou_NewString :: "'x \<Rightarrow> string \<times> 'x"
  ou_Query :: "string \<Rightarrow> 'x \<Rightarrow> rat result \<times> 'x"
  ou_GetClusterSummary :: "'x \<Rightarrow> cluster_summary result \<times> 'x"
  ou_Submit :: "automation_suggestion \<Rightarrow> 'x \<Rightarrow> suggestion_response result \<times> 'x"
  ou_LastPipelineStatus :: "('x \<Rightarrow> string \<times> string \<times> string) option"
  ou_cronParse :: "string \<Rightarrow> (time \<Rightarrow> time) result"
  ou_jsonError :: "string \<Rightarrow> string"

text \<open>The engine's view of a store: the methods of \<open>PolicyStore\<close> that it calls.\<close>

record 'w services = "'w outside" +
  st_CreatePolicy :: "create_policy \<Rightarrow> 'w \<Rightarrow> policy result \<times> 'w"
  st_ListPolicies :: "bool \<Rightarrow> 'w \<Rightarrow> policy list result \<times> 'w"
  st_SetPolicyEnabled :: "string \<Rightarrow> bool \<Rightarrow> 'w \<Rightarrow> policy result \<times> 'w"
  st_AppendAudit :: "audit_entry \<Rightarrow> 'w \<Rightarrow> goerr option \<times> 'w"
  st_ListAudit :: "nat \<Rightarrow> 'w \<Rightarrow> audit_entry list result \<times> 'w"
  st_EnqueueSuggestion :: "queued_suggestion \<Rightarrow> 'w \<Rightarrow> goerr option \<times> 'w"
  st_ClaimQueuedSuggestions :: "int \<Rightarrow> 'w \<Rightarrow> queued_suggestion list result \<times> 'w"
  st_MarkQueuedSuggestionResult :: "string \<Rightarrow> bool \<Rightarrow> string \<Rightarrow> 'w \<Rightarrow> goerr option \<times> 'w"

text \<open>A service that runs on the in-memory store: the store beside the rest of the world.\<close>

record 'x site =
  si_store :: mem_store
  si_rest :: 'x

definition lift_rest :: "('x \<Rightarrow> 'a \<times> 'x) \<Rightarrow> 'x site \<Rightarrow> 'a \<times> 'x site" where
  "lift_rest f w = (let r = f (si_rest w) in (fst r, w\<lparr>si_rest := snd r\<rparr>))"

definition on_store :: "(mem_store \<Rightarrow> 'a \<times> mem_store) \<Rightarrow> 'x site \<Rightarrow> 'a \<times> 'x site" where
  "on_store f w = (let r = f (si_store w) in (fst r, w\<lparr>si_store := snd r\<rparr>))"

definition with_now :: "'x outside \<Rightarrow> (time \<Rightarrow> mem_store \<Rightarrow> 'a \<times> mem_store) \<Rightarrow> 'x site \<Rightarrow> 'a \<times> 'x site" where
  "with_now x f w = (let r = lift_rest (ou_Now x) w in on_store (f (fst r)) (snd r))"

definition with_id :: "'x outside \<Rightarrow> (string \<Rightarrow> time \<Rightarrow> mem_store \<Rightarrow> 'a \<times> mem_store) \<Rightarrow> 'x site \<Rightarrow> 'a \<times> 'x site" where
  "with_id x f w = (let r = lift_rest (ou_NewString x) w in with_now x (f (fst r)) (snd r))"

definition memoryServices :: "'x outside \<Rightarrow> 'x site services" where
  "memoryServices x =
     \<lparr>ou_Now = lift_rest (ou_Now x), ou_NewString = lift_rest (ou_NewString x),
      ou_Query = (\<lambda>q. lift_rest (ou_Query x q)),
      ou_GetClusterSummary = lift_rest (ou_GetClusterSummary x),
      ou_Submit = (\<lambda>g. lift_rest (ou_Submit x g)),
      ou_LastPipelineStatus = map_option (\<lambda>f w. f (si_rest w)) (ou_LastPipelineStatus x),
      ou_cronParse = ou_cronParse x, ou_jsonError = ou_jsonError x,
      st_CreatePolicy = (\<lambda>q. with_id x (\<lambda>i t. storeCreatePolicy i t q)),
      st_ListPolicies = (\<lambda>b. on_store (\<lambda>st. (storeListPolicies b st, st))),
      st_SetPolicyEnabled = (\<lambda>i b. with_now x (\<lambda>t. storeSetPolicyEnabled t i b)),
      st_AppendAudit = (\<lambda>e. with_id x (\<lambda>i t. storeAppendAudit i t e)),
      st_ListAudit = (\<lambda>n. on_store (\<lambda>st. (storeListAudit n st, st))),
      st_EnqueueSuggestion = (\<lambda>q. with_id x (\<lambda>i t. storeEnqueueSuggestion i t q)),
      st_ClaimQueuedSuggestions = (\<lambda>n. on_store (\<lambda>st. (storeClaimQueuedSuggestions n st, st))),
      st_MarkQueuedSuggestionResult = (\<lambda>i b why. with_now x (\<lambda>t. storeMarkQueuedSuggestionResult t i b why))\<rparr>"

end
