(* ===== verification/Automation.thy ===== *)
theory Automation
  imports AutomationStore
begin

text \<open>
  The automation service: \<open>engine/engine.go\<close> with the decoding of policies, the evaluation of
  conditions, the dispatch of actions to the scheduler and the replay of suggestions that
  could not be delivered; one round of \<open>engine/runner.go\<close>; the handlers of
  \<open>engine/grpc_service.go\<close>.
\<close>

section \<open>State\<close>

record 'w engine =
  en_lastTrigger :: "time gomap"
  en_world :: 'w

type_synonym ('w, 'a) aop = "('w engine, 'a) state"

definition invoke :: "('w \<Rightarrow> 'a \<times> 'w) \<Rightarrow> ('w, 'a) aop" where
  "invoke f = State (\<lambda>s. (fst (f (en_world s)), s\<lparr>en_world := snd (f (en_world s))\<rparr>))"

lemma run_invoke [simp, run_simps]:
  "run_state (invoke f) s = (fst (f (en_world s)), s\<lparr>en_world := snd (f (en_world s))\<rparr>)"
  by (simp add: invoke_def)

section \<open>Conditions and actions\<close>

record metric_condition =
  mc_Query :: string
  mc_Operator :: string
  mc_Threshold :: rat

record cluster_condition =
  cc_Field :: string
  cc_Operator :: string
  cc_Threshold :: rat

record pipeline_condition =
  pc_Repository :: string
  pc_Status :: string

record policy_action =
  ac_Type :: string
  ac_DesiredState :: string
  ac_DesiredReplicas :: int
  ac_ReplicaDelta :: int

definition decode_object :: "string \<Rightarrow> (string \<times> json) list option" where
  "decode_object txt = Option.bind (json_parse txt) json_struct"

definition string_field :: "string \<Rightarrow> (string \<times> json) list \<Rightarrow> string option" where
  "string_field name ms = decode_field string_decoder name ms []"

definition float_field :: "string \<Rightarrow> (string \<times> json) list \<Rightarrow> rat option" where
  "float_field name ms = decode_field float_decoder name ms 0"

definition int32_field :: "string \<Rightarrow> (string \<times> json) list \<Rightarrow> int option" where
  "int32_field name ms = decode_field int32_decoder name ms 0"

definition decode_mode :: "string \<Rightarrow> string option" where
  "decode_mode txt = do { ms \<leftarrow> decode_object txt; string_field ''mode'' ms }"

definition decode_metric :: "string \<Rightarrow> metric_condition option" where
  "decode_metric txt = do {
     ms \<leftarrow> decode_object txt;
     _ \<leftarrow> string_field ''mode'' ms;
     q \<leftarrow> string_field ''query'' ms;
     p \<leftarrow> string_field ''operator'' ms;
     h \<leftarrow> float_field ''threshold'' ms;
     Some \<lparr>mc_Query = q, mc_Operator = p, mc_Threshold = h\<rparr> }"

definition decode_cluster :: "string \<Rightarrow> cluster_condition option" where
  "decode_cluster txt = do {
     ms \<leftarrow> decode_object txt;
     _ \<leftarrow> string_field ''mode'' ms;
     f \<leftarrow> string_field ''field'' ms;
     p \<leftarrow> string_field ''operator'' ms;
     h \<leftarrow> float_field ''threshold'' ms;
     Some \<lparr>cc_Field = f, cc_Operator = p, cc_Threshold = h\<rparr> }"

definition decode_schedule :: "string \<Rightarrow> string option" where
  "decode_schedule txt = do {
     ms \<leftarrow> decode_object txt;
     _ \<leftarrow> string_field ''mode'' ms;
     string_field ''expression'' ms }"

definition decode_pipeline :: "string \<Rightarrow> pipeline_condition option" where
  "decode_pipeline txt = do {
     ms \<leftarrow> decode_object txt;
     _ \<leftarrow> string_field ''mode'' ms;
     r \<leftarrow> string_field ''repository'' ms;
     x \<leftarrow> string_field ''status'' ms;
     Some \<lparr>pc_Repository = r, pc_Status = x\<rparr> }"

definition decode_action :: "string \<Rightarrow> policy_action option" where
  "decode_action txt = do {
     ms \<leftarrow> decode_object txt;
     t \<leftarrow> string_field ''type'' ms;
     d \<leftarrow> string_field ''desired_state'' ms;
     n \<leftarrow> int32_field ''desired_replicas'' ms;
     k \<leftarrow> int32_field ''replica_delta'' ms;
     Some \<lparr>ac_Type = t, ac_DesiredState = d, ac_DesiredReplicas = n, ac_ReplicaDelta = k\<rparr> }"

definition actionTypeFromString :: "string \<Rightarrow> automation_action" where
  "actionTypeFromString v =
     (let t = TrimSpace v
      in if t = action_text AA_SET_DESIRED_STATE then AA_SET_DESIRED_STATE
         else if t = action_text AA_RETRY_WORKLOAD then AA_RETRY_WORKLOAD
         else if t = action_text AA_DELETE_WORKLOAD then AA_DELETE_WORKLOAD
         else if t = action_text AA_SCALE_REPLICAS then AA_SCALE_REPLICAS
         else AA_UNSPECIFIED)"

definition compare_values :: "rat \<Rightarrow> string \<Rightarrow> rat \<Rightarrow> bool" where
  "compare_values value p threshold =
     (let t = TrimSpace p
      in if t = ''>'' then value > threshold
         else if t = ''>='' then value \<ge> threshold
         else if t = ''<'' then value < threshold
         else if t = ''<='' then value \<le> threshold
         else if t = ''=='' then value = threshold
         else False)"

definition clusterField :: "cluster_summary \<Rightarrow> string \<Rightarrow> int option" where
  "clusterField s f =
     (let t = TrimSpace f
      in if t = ''total_nodes'' then Some (sm_TotalNodes s)
         else if t = ''ready_nodes'' then Some (sm_ReadyNodes s)
         else if t = ''not_ready_nodes'' then Some (sm_NotReadyNodes s)
         else if t = ''total_workloads'' then Some (sm_TotalWorkloads s)
         else if t = ''running_workloads'' then Some (sm_RunningWorkloads s)
         else if t = ''pending_workloads'' then Some (sm_PendingWorkloads s)
         else if t = ''failed_workloads'' then Some (sm_FailedWorkloads s)
         else if t = ''deleted_workloads'' then Some (sm_DeletedWorkloads s)
         else None)"

text \<open>The two functions on \<open>lastTrigger\<close>.\<close>

definition alreadyTriggered :: "string \<Rightarrow> time \<Rightarrow> ('w, bool) aop" where
  "alreadyTriggered policyID t =
     gets (\<lambda>s. case mget (en_lastTrigger s) policyID of None \<Rightarrow> False | Some fired \<Rightarrow> fired = t)"

definition markTriggered :: "string \<Rightarrow> time \<Rightarrow> ('w, unit) aop" where
  "markTriggered policyID t = modify (\<lambda>s. s\<lparr>en_lastTrigger := mput policyID t (en_lastTrigger s)\<rparr>)"

section \<open>Evaluation of a policy\<close>

type_synonym verdict = "bool \<times> string"

definition evalMetric :: "'w services \<Rightarrow> string \<Rightarrow> ('w, verdict) aop" where
  "evalMetric A txt =
     (case decode_metric txt of
        None \<Rightarrow> ret (False, ''invalid promql condition: '' @ ou_jsonError A txt)
      | Some c \<Rightarrow> do {
          r \<leftarrow> invoke (ou_Query A (mc_Query c));
          (case r of
             Inl e \<Rightarrow> ret (False, ''prometheus query failed: '' @ err_msg e)
           | Inr value \<Rightarrow>
               (let shown = fmt_fixed 3 value @ '' '' @ mc_Operator c @ '' '' @ fmt_fixed 3 (mc_Threshold c)
                in if compare_values value (mc_Operator c) (mc_Threshold c)
                   then ret (True, ''condition matched: '' @ shown)
                   else ret (False, ''condition not matched: '' @ shown))) })"

definition evalCluster :: "'w services \<Rightarrow> string \<Rightarrow> ('w, verdict) aop" where
  "evalCluster A txt =
     (case decode_cluster txt of
        None \<Rightarrow> ret (False, ''invalid cluster condition: '' @ ou_jsonError A txt)
      | Some c \<Rightarrow> do {
          r \<leftarrow> invoke (ou_GetClusterSummary A);
          (case r of
             Inl e \<Rightarrow> ret (False, ''scheduler summary failed: '' @ err_msg e)
           | Inr summary \<Rightarrow>
               (case clusterField summary (cc_Field c) of
                  None \<Rightarrow> ret (False, ''unknown cluster_summary field '' @ fmt_q (cc_Field c))
                | Some v \<Rightarrow>
                    (let value = of_int v; shown = cc_Field c @ ''='' @ fmt_fixed 3 value
                     in if compare_values value (cc_Operator c) (cc_Threshold c)
                        then ret (True, ''condition matched: '' @ shown)
                        else ret (False, ''condition not matched: '' @ shown)))) })"

text \<open>
  The instant of the schedule is looked up and marked in one step; the engine takes its lock once for
  each, so the model is that of evaluations that do not overlap.
\<close>

definition evalCron :: "'w services \<Rightarrow> policy \<Rightarrow> string \<Rightarrow> ('w, verdict) aop" where
  "evalCron A p txt =
     (case decode_schedule txt of
        None \<Rightarrow> ret (False, ''invalid cron condition: '' @ ou_jsonError A txt)
      | Some expression \<Rightarrow>
          (case ou_cronParse A expression of
             Inl e \<Rightarrow> ret (False, ''invalid cron expression: '' @ err_msg e)
           | Inr schedule \<Rightarrow> do {
               t \<leftarrow> invoke (ou_Now A);
               (let due = schedule (t - Minute)
                in if due > t then ret (False, ''cron not due'')
                   else do {
                     again \<leftarrow> alreadyTriggered (pl_Id p) due;
                     if again then ret (False, ''cron already triggered'')
                     else do { _ \<leftarrow> markTriggered (pl_Id p) due; ret (True, ''cron schedule due'') } }) }))"

definition evalPipeline :: "'w services \<Rightarrow> string \<Rightarrow> ('w, verdict) aop" where
  "evalPipeline A txt =
     (case ou_LastPipelineStatus A of
        None \<Rightarrow> ret (False, ''pipeline status collector not configured'')
      | Some reader \<Rightarrow>
          (case decode_pipeline txt of
             None \<Rightarrow> ret (False, ''invalid pipeline condition: '' @ ou_jsonError A txt)
           | Some c \<Rightarrow> do {
               r \<leftarrow> gets (\<lambda>s. reader (en_world s));
               (case r of (repo, status, msg) \<Rightarrow>
                  if EqualFold (TrimSpace repo) (TrimSpace (pc_Repository c)) \<and>
                     EqualFold (TrimSpace status) (TrimSpace (pc_Status c))
                  then ret (True, ''pipeline status matched repo='' @ repo @ '' status='' @ status)
                  else ret (False, ''pipeline status not matched latest_repo='' @ repo @ '' latest_status='' @
                         status @ '' msg='' @ msg)) }))"

definition evaluateCondition :: "'w services \<Rightarrow> policy \<Rightarrow> ('w, verdict) aop" where
  "evaluateCondition A p =
     (let txt = pl_ConditionExpression p
      in case decode_mode txt of
           None \<Rightarrow> ret (False, ''invalid condition_expression JSON: '' @ ou_jsonError A txt)
         | Some mode0 \<Rightarrow>
             (let m = ToLower (TrimSpace mode0)
              in if m = ''promql'' then evalMetric A txt
                 else if m = ''cluster_summary'' then evalCluster A txt
                 else if m = ''cron'' then evalCron A p txt
                 else if m = ''pipeline_status'' then evalPipeline A txt
                 else ret (False, ''unsupported condition mode '' @ fmt_q mode0)))"

section \<open>Dispatch\<close>

definition buildSuggestionFromAction :: "policy \<Rightarrow> policy_action \<Rightarrow> automation_suggestion result" where
  "buildSuggestionFromAction p action =
     (let target = TrimSpace (pl_TargetWorkload p);
          g = \<lparr>as_SuggestionID = [], as_PolicyID = pl_Id p, as_PolicyName = pl_Name p,
               as_TargetWorkload = target, as_ActionType = AA_UNSPECIFIED, as_DesiredState = [],
               as_DesiredReplicas = 0, as_ReplicaDelta = 0,
               as_Reason = ''policy='' @ pl_Name p @ '' condition/action matched''\<rparr>;
          ty = ToLower (TrimSpace (ac_Type action)); desired = TrimSpace (ac_DesiredState action)
      in if target = [] then Inl (errorf ''target_workload is empty'')
         else if ty = ''set_desired_state'' then
           (if desired = [] then Inl (errorf ''desired_state required'')
            else Inr (g\<lparr>as_ActionType := AA_SET_DESIRED_STATE, as_DesiredState := desired\<rparr>))
         else if ty = ''retry_workload'' then Inr (g\<lparr>as_ActionType := AA_RETRY_WORKLOAD\<rparr>)
         else if ty = ''delete_workload'' then Inr (g\<lparr>as_ActionType := AA_DELETE_WORKLOAD\<rparr>)
         else if ty = ''scale_replicas'' then
           Inr (g\<lparr>as_ActionType := AA_SCALE_REPLICAS, as_DesiredReplicas := ac_DesiredReplicas action,
                  as_ReplicaDelta := ac_ReplicaDelta action\<rparr>)
         else Inl (errorf (''unsupported action type '' @ fmt_q (ac_Type action))))"

text \<open>The queue entry for a suggestion that could not be delivered, and the suggestion read back from one.\<close>

definition queuedOf :: "policy \<Rightarrow> automation_suggestion \<Rightarrow> queued_suggestion" where
  "queuedOf p g =
     \<lparr>qs_ID = [], qs_PolicyID = pl_Id p, qs_PolicyName = pl_Name p,
      qs_TargetWorkload = TrimSpace (pl_TargetWorkload p), qs_ActionType = action_text (as_ActionType g),
      qs_DesiredState = as_DesiredState g, qs_DesiredReplicas = as_DesiredReplicas g,
      qs_ReplicaDelta = as_ReplicaDelta g, qs_Reason = as_Reason g, qs_Attempts = 0,
      qs_LastError = [], qs_CreatedAt = 0, qs_UpdatedAt = 0\<rparr>"

definition suggestionOf :: "queued_suggestion \<Rightarrow> automation_suggestion" where
  "suggestionOf q =
     \<lparr>as_SuggestionID = qs_ID q, as_PolicyID = qs_PolicyID q, as_PolicyName = qs_PolicyName q,
      as_TargetWorkload = qs_TargetWorkload q, as_ActionType = actionTypeFromString (qs_ActionType q),
      as_DesiredState = qs_DesiredState q, as_DesiredReplicas = qs_DesiredReplicas q,
      as_ReplicaDelta = qs_ReplicaDelta q, as_Reason = qs_Reason q\<rparr>"

definition submitOrQueue :: "'w services \<Rightarrow> policy \<Rightarrow> automation_suggestion \<Rightarrow> ('w, verdict) aop" where
  "submitOrQueue A p g = do {
     r \<leftarrow> invoke (ou_Submit A g);
     (case r of
        Inl e \<Rightarrow> do {
          queueErr \<leftarrow> invoke (st_EnqueueSuggestion A (queuedOf p g));
          (case queueErr of
             Some e' \<Rightarrow> ret (False, ''scheduler suggestion failed: '' @ err_msg e @
                          ''; queue enqueue failed: '' @ err_msg e')
           | None \<Rightarrow> ret (False, ''scheduler unavailable; suggestion queued for retry: '' @ err_msg e)) }
      | Inr resp \<Rightarrow>
          if sr_Accepted resp
          then ret (True, ''scheduler accepted suggestion: '' @ TrimSpace (sr_AppliedAction resp))
          else ret (False, ''scheduler rejected suggestion: '' @ TrimSpace (sr_Reason resp))) }"

definition dispatchAction :: "'w services \<Rightarrow> policy \<Rightarrow> ('w, verdict) aop" where
  "dispatchAction A p =
     (case decode_action (pl_ActionExpression p) of
        None \<Rightarrow> ret (False, ''invalid action_expression JSON: '' @ ou_jsonError A (pl_ActionExpression p))
      | Some action \<Rightarrow>
          if TrimSpace (pl_TargetWorkload p) = [] then ret (False, ''target_workload is empty'')
          else (case buildSuggestionFromAction p action of
                  Inl e \<Rightarrow> ret (False, err_msg e)
                | Inr g \<Rightarrow> submitOrQueue A p g))"

definition auditOf :: "policy \<Rightarrow> bool \<Rightarrow> bool \<Rightarrow> string \<Rightarrow> audit_entry" where
  "auditOf p matched dispatched reason =
     \<lparr>au_ID = [], au_PolicyID = pl_Id p, au_PolicyName = pl_Name p,
      au_TargetWorkload = pl_TargetWorkload p, au_Matched = matched, au_Dispatched = dispatched,
      au_Reason = reason, au_OldState = [], au_NewState = [], au_Timestamp = 0\<rparr>"

definition record_audit :: "'w services \<Rightarrow> policy \<Rightarrow> bool \<Rightarrow> bool \<Rightarrow> string \<Rightarrow> ('w, evaluation_result) aop" where
  "record_audit A p matched dispatched reason = do {
     e \<leftarrow> invoke (st_AppendAudit A (auditOf p matched dispatched reason));
     ret \<lparr>er_PolicyId = pl_Id p, er_Matched = matched, er_Dispatched = dispatched,
          er_Reason = (case e of None \<Rightarrow> reason | Some x \<Rightarrow> reason @ ''; audit_write_failed='' @ err_msg x)\<rparr> }"

definition evaluateSingle :: "'w services \<Rightarrow> policy \<Rightarrow> ('w, evaluation_result) aop" where
  "evaluateSingle A p = do {
     c \<leftarrow> evaluateCondition A p;
     if \<not> fst c then record_audit A p False False (snd c)
     else do {
       d \<leftarrow> dispatchAction A p;
       record_audit A p True (fst d) (snd d) } }"

definition disabledResult :: "policy \<Rightarrow> evaluation_result" where
  "disabledResult p =
     \<lparr>er_PolicyId = pl_Id p, er_Matched = False, er_Dispatched = False, er_Reason = ''policy disabled''\<rparr>"

definition evaluateNext ::
  "'w services \<Rightarrow> string \<Rightarrow> policy \<Rightarrow> evaluation_result list \<Rightarrow> ('w, evaluation_result list) aop" where
  "evaluateNext A policyID p results =
     (if policyID \<noteq> [] \<and> pl_Id p \<noteq> policyID then ret results
      else if \<not> pl_Enabled p then ret (results @ [disabledResult p])
      else do { r \<leftarrow> evaluateSingle A p; ret (results @ [r]) })"

definition EvaluatePolicies :: "'w services \<Rightarrow> string \<Rightarrow> ('w, evaluation_result list) aop" where
  "EvaluatePolicies A policyID = do {
     r \<leftarrow> invoke (st_ListPolicies A True);
     (case r of
        Inl e \<Rightarrow> ret [\<lparr>er_PolicyId = [], er_Matched = False, er_Dispatched = False,
                     er_Reason = ''failed to load policies: '' @ err_msg e\<rparr>]
      | Inr policies \<Rightarrow> fold_st (evaluateNext A policyID) policies []) }"

section \<open>Replay and the periodic round\<close>

definition replayOne :: "'w services \<Rightarrow> queued_suggestion \<Rightarrow> ('w, unit) aop" where
  "replayOne A item = do {
     r \<leftarrow> invoke (ou_Submit A (suggestionOf item));
     _ \<leftarrow> (case r of
             Inl e \<Rightarrow> invoke (st_MarkQueuedSuggestionResult A (qs_ID item) False (err_msg e))
           | Inr resp \<Rightarrow>
               if sr_Accepted resp then invoke (st_MarkQueuedSuggestionResult A (qs_ID item) True ''accepted'')
               else invoke (st_MarkQueuedSuggestionResult A (qs_ID item) False (''rejected: '' @ sr_Reason resp)));
     ret () }"

definition ReplayQueuedSuggestions :: "'w services \<Rightarrow> int \<Rightarrow> ('w, unit) aop" where
  "ReplayQueuedSuggestions A limit = do {
     r \<leftarrow> invoke (st_ClaimQueuedSuggestions A limit);
     (case r of Inl e \<Rightarrow> ret () | Inr items \<Rightarrow> for_each items (replayOne A)) }"

definition evaluationTick :: "'w services \<Rightarrow> ('w, evaluation_result list) aop" where
  "evaluationTick A = do {
     results \<leftarrow> EvaluatePolicies A [];
     _ \<leftarrow> ReplayQueuedSuggestions A 50;
     ret results }"

section \<open>Handlers\<close>

definition internal :: "'a result \<Rightarrow> 'a result" where
  "internal r =
     (case r of Inl e \<Rightarrow> Inl (rpcError (if e = ErrPolicyNotFound then ''NotFound'' else ''Internal'') (err_msg e)) | Inr x \<Rightarrow> Inr x)"

definition grpcCreatePolicy :: "'w services \<Rightarrow> create_policy \<Rightarrow> ('w, policy result) aop" where
  "grpcCreatePolicy A req =
     (if TrimSpace (cp_Name req) = [] then ret (Inl (rpcError ''InvalidArgument'' ''name is required''))
      else if TrimSpace (cp_ConditionExpression req) = [] then
        ret (Inl (rpcError ''InvalidArgument'' ''condition_expression is required''))
      else if TrimSpace (cp_ActionExpression req) = [] then
        ret (Inl (rpcError ''InvalidArgument'' ''action_expression is required''))
      else if cp_Type req = PT_UNSPECIFIED then
        ret (Inl (rpcError ''InvalidArgument'' ''policy type is required''))
      else do {
        r \<leftarrow> invoke (st_CreatePolicy A req);
        ret (case r of Inl e \<Rightarrow> Inl (rpcError ''Internal'' (err_msg e)) | Inr p \<Rightarrow> Inr p) })"

definition grpcListPolicies :: "'w services \<Rightarrow> bool \<Rightarrow> ('w, policy list result) aop" where
  "grpcListPolicies A includeDisabled = do {
     r \<leftarrow> invoke (st_ListPolicies A includeDisabled);
     ret (case r of Inl e \<Rightarrow> Inl (rpcError ''Internal'' (err_msg e)) | Inr ps \<Rightarrow> Inr ps) }"

definition EnablePolicy :: "'w services \<Rightarrow> string \<Rightarrow> ('w, policy result) aop" where
  "EnablePolicy A policyId = do { r \<leftarrow> invoke (st_SetPolicyEnabled A policyId True); ret (internal r) }"

definition DisablePolicy :: "'w services \<Rightarrow> string \<Rightarrow> ('w, policy result) aop" where
  "DisablePolicy A policyId = do { r \<leftarrow> invoke (st_SetPolicyEnabled A policyId False); ret (internal r) }"

definition EvaluateNow :: "'w services \<Rightarrow> string \<Rightarrow> ('w, evaluation_result list) aop" where
  "EvaluateNow A policyId = EvaluatePolicies A (TrimSpace policyId)"

definition ListAuditLog :: "'w services \<Rightarrow> nat \<Rightarrow> ('w, audit_entry list result) aop" where
  "ListAuditLog A limit = do {
     r \<leftarrow> invoke (st_ListAudit A limit);
     ret (case r of Inl e \<Rightarrow> Inl (rpcError ''Internal'' (err_msg e)) | Inr es \<Rightarrow> Inr es) }"

section \<open>Beside the scheduler\<close>

text \<open>
  \<open>scheduler/client.go\<close>: the suggestion as a message; the fields that the scheduler never reads
  are not part of the message model. \<open>peers\<close> are the remaining parties: a transport that
  may lose a call, Prometheus, the pipeline collector, the cron library and the wording of
  decoding errors.
\<close>

record 'w peers =
  pe_lost :: "'w sched \<Rightarrow> goerr option"
  pe_Query :: "string \<Rightarrow> 'w sched \<Rightarrow> rat result"
  pe_LastPipelineStatus :: "('w sched \<Rightarrow> string \<times> string \<times> string) option"
  pe_cronParse :: "string \<Rightarrow> (time \<Rightarrow> time) result"
  pe_jsonError :: "string \<Rightarrow> string"

definition toControl :: "automation_suggestion \<Rightarrow> suggestion" where
  "toControl g =
     \<lparr>sg_PolicyId = as_PolicyID g, sg_PolicyName = as_PolicyName g, sg_TargetWorkload = as_TargetWorkload g,
      sg_ActionType = as_ActionType g, sg_DesiredState = as_DesiredState g\<rparr>"

definition remote :: "'w peers \<Rightarrow> ('w, 'a result) op \<Rightarrow> ('w, 'a result) op" where
  "remote P m = do {
     e \<leftarrow> gets (pe_lost P);
     (case e of Some x \<Rightarrow> ret (Inl x) | None \<Rightarrow> m) }"

definition clientSubmit :: "'w env \<Rightarrow> 'w peers \<Rightarrow> automation_suggestion \<Rightarrow> ('w, suggestion_response result) op" where
  "clientSubmit E P g = remote P (SubmitAutomationSuggestion E (Some (toControl g)))"

definition clientSummary :: "'w env \<Rightarrow> 'w peers \<Rightarrow> ('w, cluster_summary result) op" where
  "clientSummary E P = remote P (GetClusterSummary E)"

definition schedulerOutside :: "'w env \<Rightarrow> 'w peers \<Rightarrow> 'w sched outside" where
  "schedulerOutside E P =
     \<lparr>ou_Now = run_state (now E), ou_NewString = run_state (call (newUUID E)),
      ou_Query = (\<lambda>q s. (pe_Query P q s, s)),
      ou_GetClusterSummary = run_state (clientSummary E P),
      ou_Submit = (\<lambda>g. run_state (clientSubmit E P g)),
      ou_LastPipelineStatus = pe_LastPipelineStatus P,
      ou_cronParse = pe_cronParse P, ou_jsonError = pe_jsonError P\<rparr>"

abbreviation siteServices :: "'w env \<Rightarrow> 'w peers \<Rightarrow> 'w sched site services" where
  "siteServices E P \<equiv> memoryServices (schedulerOutside E P)"

end
