(* ===== verification/AutomationSpec.thy ===== *)
theory AutomationSpec
  imports Automation ApiSpec
begin

text \<open>
  What the automation service promises: the contract of its store and what the engine makes
  of it (the audit trail, the queue of undelivered suggestions), cron policies, and the
  service beside the scheduler it steers.
\<close>

section \<open>The contract of the store\<close>

text \<open>
  The engine relies on three things: nothing but the store's own methods changes the audit
  log and the queue; an audit entry is appended with a fresh stamp to a log that may forget
  its oldest entries; and the queue hands out a prefix in order, takes new entries at its
  end, and removes or updates the entry that a result is reported for.
\<close>

locale policy_store =
  fixes A :: "'w services"
    and audit :: "'w \<Rightarrow> audit_entry list"
    and retain :: "audit_entry list \<Rightarrow> audit_entry list"
    and queue :: "'w \<Rightarrow> queued_suggestion list"
  assumes retain_retain: "retain (retain xs @ ys) = retain (xs @ ys)"
    and audit_now: "audit (snd (ou_Now A w)) = audit w"
    and audit_query: "audit (snd (ou_Query A q w)) = audit w"
    and audit_summary: "audit (snd (ou_GetClusterSummary A w)) = audit w"
    and audit_submit: "audit (snd (ou_Submit A g w)) = audit w"
    and audit_list: "audit (snd (st_ListPolicies A b w)) = audit w"
    and audit_enqueue: "audit (snd (st_EnqueueSuggestion A x w)) = audit w"
    and audit_append: "\<exists>i t. st_AppendAudit A e w = (None, snd (st_AppendAudit A e w)) \<and>
      audit (snd (st_AppendAudit A e w)) = retain (audit w @ [e\<lparr>au_ID := i, au_Timestamp := t\<rparr>])"
    and queue_submit: "queue (snd (ou_Submit A g w)) = queue w"
    and queue_claim: "queue (snd (st_ClaimQueuedSuggestions A n w)) = queue w"
    and claim_prefix: "fst (st_ClaimQueuedSuggestions A n w) =
      Inr (if n \<le> 0 then queue w else take (nat n) (queue w))"
    and mark_result: "\<exists>t. queue (snd (st_MarkQueuedSuggestionResult A i b why w)) = mark_queue t i b why (queue w)"
    and enqueue_last: "\<exists>i t. st_EnqueueSuggestion A x w = (None, snd (st_EnqueueSuggestion A x w)) \<and>
      queue (snd (st_EnqueueSuggestion A x w)) = queue w @ [x\<lparr>qs_ID := i, qs_CreatedAt := t, qs_UpdatedAt := t\<rparr>]"

definition keep5000 :: "audit_entry list \<Rightarrow> audit_entry list" where
  "keep5000 a = drop (length a - 5000) a"

lemma keep5000_append: "keep5000 (keep5000 xs @ ys) = keep5000 (xs @ ys)"
proof (cases "length xs \<le> 5000")
  case False
  then have "length xs + length ys - (length xs - 5000 + 5000) + (length xs - 5000) = length xs + length ys - 5000"
    by simp
  with False show ?thesis by (simp add: keep5000_def)
qed (simp add: keep5000_def)

lemma keep5000_simps [simp]: "length xs \<le> 5000 \<Longrightarrow> keep5000 xs = xs" "length (keep5000 xs) \<le> 5000"
  by (auto simp: keep5000_def)

lemma append_audit_keeps: "ms_audit (snd (storeAppendAudit i t e st)) =
    keep5000 (ms_audit st @ [e\<lparr>au_ID := i, au_Timestamp := t\<rparr>])"
  by (simp add: storeAppendAudit_def keep5000_def Let_def)

lemmas site_defs = memoryServices_def lift_rest_def on_store_def with_now_def with_id_def

text \<open>The in-memory store honours the contract, on every outside world.\<close>

interpretation memstore: policy_store "memoryServices x"
  "\<lambda>w. ms_audit (si_store w)" keep5000 "\<lambda>w. ms_queue (si_store w)" for x
proof (unfold_locales, goal_cases)
  case (8 e w)
  have "fst (storeAppendAudit i t e st) = None" for i t st by (simp add: storeAppendAudit_def Let_def)
  then show ?case
    by (intro exI [of _ "fst (ou_NewString x (si_rest w))"]
        exI [of _ "fst (ou_Now x (snd (ou_NewString x (si_rest w))))"])
      (simp add: site_defs append_audit_keeps Let_def)
qed (auto simp: site_defs storeEnqueueSuggestion_def storeMarkQueuedSuggestionResult_def
    storeClaimQueuedSuggestions_def keep5000_append Let_def)

section \<open>A small automation site\<close>

definition demo_policy :: policy where
  "demo_policy = \<lparr>pl_Id = ''p1'', pl_Name = ''nightly'', pl_TargetWorkload = ''w1'', pl_Type = PT_SCHEDULE,
     pl_ConditionExpression = ''{\"mode\":\"cron\",\"expression\":\"* * * * *\"}'',
     pl_ActionExpression = ''{ \"type\" : \"scale_replicas\", \"desired_replicas\": 3 }'',
     pl_Enabled = True, pl_CreatedAt = 0, pl_UpdatedAt = 0\<rparr>"

definition every_minute :: "time \<Rightarrow> time" where
  "every_minute t = (t div Minute + 1) * Minute"

definition demo_peers :: "goerr option \<Rightarrow> mem peers" where
  "demo_peers lost = \<lparr>pe_lost = (\<lambda>_. lost), pe_Query = (\<lambda>_ _. Inr 0), pe_LastPipelineStatus = None,
     pe_cronParse = (\<lambda>_. Inr every_minute), pe_jsonError = (\<lambda>_. ''invalid'')\<rparr>"

definition demo_store :: mem_store where
  "demo_store = NewMemoryStore\<lparr>ms_policies := [(''p1'', demo_policy)]\<rparr>"

definition frozen_demo :: "mem sched" where
  "frozen_demo = demo_sched demo_cluster\<lparr>sc_mode := ModeRecovery, sc_frozen := Some (snapshot [] 0 (demo_sched demo_cluster))\<rparr>"

definition demo_engine :: "mem sched \<Rightarrow> mem sched site engine" where
  "demo_engine x = \<lparr>en_lastTrigger = [], en_world = \<lparr>si_store = demo_store, si_rest = x\<rparr>\<rparr>"

lemma demo_decodes:
  "decode_mode (pl_ConditionExpression demo_policy) = Some ''cron''"
  "decode_schedule (pl_ConditionExpression demo_policy) = Some ''* * * * *''"
  "decode_action (pl_ActionExpression demo_policy) =
     Some \<lparr>ac_Type = ''scale_replicas'', ac_DesiredState = [], ac_DesiredReplicas = 3, ac_ReplicaDelta = 0\<rparr>"
  by code_simp+

definition demo_suggestion :: automation_suggestion where
  "demo_suggestion = \<lparr>as_SuggestionID = [], as_PolicyID = ''p1'', as_PolicyName = ''nightly'', as_TargetWorkload = ''w1'',
     as_ActionType = AA_SCALE_REPLICAS, as_DesiredState = [], as_DesiredReplicas = 3, as_ReplicaDelta = 0,
     as_Reason = ''policy=nightly condition/action matched''\<rparr>"

lemma demo_builds: "buildSuggestionFromAction demo_policy
    \<lparr>ac_Type = ''scale_replicas'', ac_DesiredState = [], ac_DesiredReplicas = 3, ac_ReplicaDelta = 0\<rparr> = Inr demo_suggestion"
  by code_simp

definition demo_entry :: "nat \<Rightarrow> queued_suggestion" where
  "demo_entry n = (queuedOf demo_policy demo_suggestion)\<lparr>qs_ID := replicate n CHR ''x''\<rparr>"

definition queue_engine :: "nat \<Rightarrow> mem sched site engine" where
  "queue_engine n = (demo_engine frozen_demo)\<lparr>en_world :=
     \<lparr>si_store = demo_store\<lparr>ms_queue := map demo_entry [0..<n]\<rparr>, si_rest = frozen_demo\<rparr>\<rparr>"

lemma every_minute_due: "every_minute (t - Minute) \<le> t"
  by (simp add: every_minute_def Minute_def nsec_def)

lemma every_minute_mono: "mono every_minute"
  by (auto simp: mono_def every_minute_def Minute_def nsec_def intro: zdiv_mono1)

lemma demo_entry_simps [simp]:
  "qs_ID (demo_entry n) = replicate n CHR ''x''" "qs_ActionType (demo_entry n) = action_text AA_SCALE_REPLICAS"
  "qs_Attempts (demo_entry n) = 0"
  by (simp_all add: demo_entry_def queuedOf_def demo_suggestion_def)

lemma lost_submit: "fst (ou_Submit (siteServices memEnv (demo_peers (Some e))) g w) = Inl e"
  by (simp add: memoryServices_def schedulerOutside_def clientSubmit_def remote_def demo_peers_def lift_rest_def Let_def)

lemma frozen_demo_inv: "sched_inv mem_view frozen_demo" "\<not> writable frozen_demo"
  using demo_inv by (simp_all add: frozen_demo_def sched_inv_def mode_ok_def cache_ok_def writable_def)

section \<open>The audit trail\<close>

text \<open>Programs that leave a part of the state alone.\<close>

interpretation same: guarantee "\<lambda>_. True" "\<lambda>s t. f t = f s" for f
  by unfold_locales auto

abbreviation leaves :: "('s \<Rightarrow> 'b) \<Rightarrow> ('s, 'a) state \<Rightarrow> bool" where
  "leaves f m \<equiv> ensures (\<lambda>_. True) (\<lambda>s t. f t = f s) m (\<lambda>_. True)"

lemma leaves_eq: "leaves f m \<Longrightarrow> f (snd (run_state m s)) = f s"
  by (simp add: ensures_def)

lemma leaves_invoke: "(\<And>w. g (snd (f w)) = g w) \<Longrightarrow> leaves (\<lambda>s. g (en_world s)) (invoke f)"
  by (simp add: ensures_def)

lemma leaves_triggers:
  "leaves (\<lambda>s. g (en_world s)) (alreadyTriggered i t)" "leaves (\<lambda>s. g (en_world s)) (markTriggered i t)"
  by (simp_all add: ensures_def alreadyTriggered_def markTriggered_def)

definition chosen :: "string \<Rightarrow> policy \<Rightarrow> bool" where
  "chosen policyID p = (policyID = [] \<or> pl_Id p = policyID)"

definition audited :: "policy \<times> evaluation_result \<Rightarrow> audit_entry \<Rightarrow> bool" where
  "audited pr a = (case pr of (p, r) \<Rightarrow>
     au_PolicyID a = pl_Id p \<and> au_PolicyName a = pl_Name p \<and> au_TargetWorkload a = pl_TargetWorkload p \<and>
     au_Matched a = er_Matched r \<and> au_Dispatched a = er_Dispatched r \<and> au_Reason a = er_Reason r)"

definition answers :: "policy \<Rightarrow> evaluation_result \<Rightarrow> bool" where
  "answers p r = (er_PolicyId r = pl_Id p \<and> (er_Dispatched r \<longrightarrow> er_Matched r) \<and>
     (\<not> pl_Enabled p \<longrightarrow> r = disabledResult p))"

context policy_store
begin

lemma audit_evaluateCondition: "leaves (\<lambda>s. audit (en_world s)) (evaluateCondition A p)"
  unfolding evaluateCondition_def evalMetric_def evalCluster_def evalCron_def evalPipeline_def
  by (rule same.g_rules leaves_triggers leaves_invoke audit_now audit_query audit_summary TrueI)+

lemma audit_dispatchAction: "leaves (\<lambda>s. audit (en_world s)) (dispatchAction A p)"
  unfolding dispatchAction_def submitOrQueue_def
  by (rule same.g_rules leaves_invoke audit_submit audit_enqueue TrueI)+

lemma audit_record:
  "\<exists>a. audited (p, fst (run_state (record_audit A p m d why) s)) a \<and>
     audit (en_world (snd (run_state (record_audit A p m d why) s))) = retain (audit (en_world s) @ [a])"
proof -
  from audit_append [of "auditOf p m d why" "en_world s"] obtain i t where
    ap: "st_AppendAudit A (auditOf p m d why) (en_world s) = (None, snd (st_AppendAudit A (auditOf p m d why) (en_world s)))"
      "audit (snd (st_AppendAudit A (auditOf p m d why) (en_world s))) =
        retain (audit (en_world s) @ [(auditOf p m d why)\<lparr>au_ID := i, au_Timestamp := t\<rparr>])" by blast
  from ap(1) have "fst (st_AppendAudit A (auditOf p m d why) (en_world s)) = None" by (metis fst_conv)
  with ap(2) show ?thesis
    by (intro exI [of _ "(auditOf p m d why)\<lparr>au_ID := i, au_Timestamp := t\<rparr>"])
      (simp add: record_audit_def audited_def auditOf_def)
qed

lemma answers_record: "(d \<longrightarrow> m) \<Longrightarrow> pl_Enabled p \<Longrightarrow> answers p (fst (run_state (record_audit A p m d why) s))"
  by (simp add: record_audit_def answers_def case_prod_beta)

lemma audit_evaluateSingle:
  assumes "pl_Enabled p"
  shows "\<exists>a. audited (p, fst (run_state (evaluateSingle A p) s)) a \<and>
     audit (en_world (snd (run_state (evaluateSingle A p) s))) = retain (audit (en_world s) @ [a]) \<and>
     answers p (fst (run_state (evaluateSingle A p) s))"
proof -
  let ?c = "run_state (evaluateCondition A p) s" let ?d = "run_state (dispatchAction A p) (snd ?c)"
  have eq: "audit (en_world (snd ?c)) = audit (en_world s)" "audit (en_world (snd ?d)) = audit (en_world s)"
    using leaves_eq [OF audit_evaluateCondition] leaves_eq [OF audit_dispatchAction] by metis+
  show ?thesis
  proof (cases "fst (fst ?c)")
    case True
    then have "run_state (evaluateSingle A p) s =
        run_state (record_audit A p True (fst (fst ?d)) (snd (fst ?d))) (snd ?d)"
      by (simp add: evaluateSingle_def case_prod_beta)
    with audit_record eq answers_record assms show ?thesis by metis
  next
    case False
    then have "run_state (evaluateSingle A p) s = run_state (record_audit A p False False (snd (fst ?c))) (snd ?c)"
      by (simp add: evaluateSingle_def case_prod_beta)
    with audit_record eq answers_record assms show ?thesis by metis
  qed
qed

lemma audit_fold:
  "\<exists>rs es. fst (run_state (fold_st (evaluateNext A i) ps acc) s) = acc @ rs \<and>
     list_all2 answers (filter (chosen i) ps) rs \<and>
     list_all2 audited (filter (pl_Enabled \<circ> fst) (zip (filter (chosen i) ps) rs)) es \<and>
     retain (audit (en_world (snd (run_state (fold_st (evaluateNext A i) ps acc) s)))) =
       retain (audit (en_world s) @ es)"
proof (induction ps arbitrary: acc s)
  case (Cons p ps)
  show ?case
  proof (cases "chosen i p \<and> pl_Enabled p")
    case True
    let ?r = "fst (run_state (evaluateSingle A p) s)" let ?t = "snd (run_state (evaluateSingle A p) s)"
    from True have run: "run_state (fold_st (evaluateNext A i) (p # ps) acc) s =
        run_state (fold_st (evaluateNext A i) ps (acc @ [?r])) ?t"
      by (auto simp: evaluateNext_def chosen_def case_prod_beta)
    from audit_evaluateSingle [of p s] True obtain a where
      a: "audited (p, ?r) a" "audit (en_world ?t) = retain (audit (en_world s) @ [a])" "answers p ?r" by blast
    from Cons.IH [of "acc @ [?r]" ?t] obtain rs es where
      ih: "fst (run_state (fold_st (evaluateNext A i) ps (acc @ [?r])) ?t) = (acc @ [?r]) @ rs"
        "list_all2 answers (filter (chosen i) ps) rs"
        "list_all2 audited (filter (pl_Enabled \<circ> fst) (zip (filter (chosen i) ps) rs)) es"
        "retain (audit (en_world (snd (run_state (fold_st (evaluateNext A i) ps (acc @ [?r])) ?t)))) =
          retain (audit (en_world ?t) @ es)" by blast
    show ?thesis
      by (rule exI [of _ "?r # rs"], rule exI [of _ "a # es"], unfold run)
        (use True a ih retain_retain [of "audit (en_world s) @ [a]" es] in \<open>simp add: comp_def\<close>)
  next
    case False
    then obtain extra where run: "run_state (fold_st (evaluateNext A i) (p # ps) acc) s =
        run_state (fold_st (evaluateNext A i) ps (acc @ extra)) s"
      and extra: "extra = (if chosen i p then [disabledResult p] else [])"
      by (auto simp: evaluateNext_def chosen_def)
    from Cons.IH [of "acc @ extra" s] obtain rs es where
      ih: "fst (run_state (fold_st (evaluateNext A i) ps (acc @ extra)) s) = (acc @ extra) @ rs"
        "list_all2 answers (filter (chosen i) ps) rs"
        "list_all2 audited (filter (pl_Enabled \<circ> fst) (zip (filter (chosen i) ps) rs)) es"
        "retain (audit (en_world (snd (run_state (fold_st (evaluateNext A i) ps (acc @ extra)) s)))) =
          retain (audit (en_world s) @ es)" by blast
    have "answers p (disabledResult p)" by (simp add: answers_def disabledResult_def)
    with False ih extra show ?thesis
      by (intro exI [of _ "extra @ rs"] exI [of _ es], unfold run) (auto simp: comp_def split: if_splits)
  qed
qed auto

end

lemma run_EvaluatePolicies_mem:
  "run_state (EvaluatePolicies (memoryServices x) i) s = run_state (fold_st (evaluateNext (memoryServices x) i)
     (projr (storeListPolicies True (si_store (en_world s)))) []) s"
  by (simp add: EvaluatePolicies_def site_defs storeListPolicies_def Let_def)

text \<open>
  Every evaluation leaves its trace. Evaluating the policies of an in-memory store, all or
  one, answers once for each chosen policy, in the order of creation, a disabled one as
  disabled, and never reports an action as dispatched whose condition did not match. The
  audit log grows by exactly one entry for each chosen enabled policy, with the policy's
  name and target and the very outcome that is reported, and forgets only what lies more
  than five thousand entries back.
\<close>

theorem evaluation_audited:
  shows "\<exists>es. list_all2 answers (filter (chosen i) (projr (storeListPolicies True (si_store (en_world s)))))
       (fst (run_state (EvaluatePolicies (memoryServices x) i) s)) \<and>
     list_all2 audited (filter (pl_Enabled \<circ> fst)
         (zip (filter (chosen i) (projr (storeListPolicies True (si_store (en_world s)))))
              (fst (run_state (EvaluatePolicies (memoryServices x) i) s)))) es \<and>
     keep5000 (ms_audit (si_store (en_world (snd (run_state (EvaluatePolicies (memoryServices x) i) s))))) =
       keep5000 (ms_audit (si_store (en_world s)) @ es)"
  using memstore.audit_fold [of x i "projr (storeListPolicies True (si_store (en_world s)))" "[]" s]
  unfolding run_EvaluatePolicies_mem by auto

section \<open>The queue of undelivered suggestions\<close>

lemma mark_at:
  assumes "qs_ID q \<notin> qs_ID ` set pre"
  shows "mark_queue t (qs_ID q) b why (pre @ q # suf) = pre @ (if b then suf else failed_again t why q # suf)"
  using assms by (induction pre) auto

lemma failed_again_sel [simp]:
  "qs_ID (failed_again t why q) = qs_ID q" "qs_Attempts (failed_again t why q) = qs_Attempts q + 1"
  "suggestionOf (failed_again t why q) = suggestionOf q" "qs_ActionType (failed_again t why q) = qs_ActionType q"
  by (simp_all add: failed_again_def suggestionOf_def)

text \<open>What the scheduler answered to the suggestions of a replay, one after the other.\<close>

definition delivered :: "suggestion_response result \<Rightarrow> bool" where
  "delivered r = (case r of Inr resp \<Rightarrow> sr_Accepted resp | Inl _ \<Rightarrow> False)"

fun replay_answers :: "'w services \<Rightarrow> queued_suggestion list \<Rightarrow> 'w engine \<Rightarrow> bool list" where
  "replay_answers A [] s = []"
| "replay_answers A (q # qs) s =
     delivered (fst (ou_Submit A (suggestionOf q) (en_world s))) # replay_answers A qs (snd (run_state (replayOne A q) s))"

definition undelivered :: "queued_suggestion list \<Rightarrow> bool list \<Rightarrow> queued_suggestion list" where
  "undelivered qs bs = map fst (filter (\<lambda>(q, b). \<not> b) (zip qs bs))"

lemma undelivered_simps [simp]:
  "undelivered [] bs = []" "undelivered (q # qs) (b # bs) = (if b then [] else [q]) @ undelivered qs bs"
  by (simp_all add: undelivered_def)

context policy_store
begin

lemma queue_replayOne:
  assumes "queue (en_world s) = pre @ q # suf" and "qs_ID q \<notin> qs_ID ` set pre"
  shows "\<exists>t why. queue (en_world (snd (run_state (replayOne A q) s))) =
    pre @ (if delivered (fst (ou_Submit A (suggestionOf q) (en_world s))) then suf else failed_again t why q # suf)"
proof -
  let ?w = "snd (ou_Submit A (suggestionOf q) (en_world s))"
  have m: "\<exists>t. queue (snd (st_MarkQueuedSuggestionResult A (qs_ID q) b why ?w)) =
      pre @ (if b then suf else failed_again t why q # suf)" for b why
    using mark_result [of "qs_ID q" b why ?w] by (simp add: queue_submit assms mark_at)
  show ?thesis
  proof (cases "fst (ou_Submit A (suggestionOf q) (en_world s))")
    case (Inl e)
    with m [of False "err_msg e"] show ?thesis by (auto simp: replayOne_def delivered_def)
  next
    case (Inr r)
    with m [of True "''accepted''"] m [of False "''rejected: '' @ sr_Reason r"] show ?thesis
      by (auto simp: replayOne_def delivered_def)
  qed
qed

lemma queue_replay_loop:
  assumes "queue (en_world s) = pre @ qs @ suf" and "distinct (map qs_ID (pre @ qs @ suf))"
  shows "\<exists>ks. queue (en_world (snd (run_state (for_each qs (replayOne A)) s))) = pre @ ks @ suf \<and>
     map suggestionOf ks = map suggestionOf (undelivered qs (replay_answers A qs s)) \<and>
     map qs_Attempts ks = map (\<lambda>q. qs_Attempts q + 1) (undelivered qs (replay_answers A qs s))"
  using assms
proof (induction qs arbitrary: pre s)
  case (Cons q qs)
  let ?b = "delivered (fst (ou_Submit A (suggestionOf q) (en_world s)))"
  let ?t = "snd (run_state (replayOne A q) s)"
  from Cons.prems queue_replayOne [of s pre q "qs @ suf"] obtain t why where
    q: "queue (en_world ?t) = pre @ (if ?b then qs @ suf else failed_again t why q # qs @ suf)" by auto
  define one where "one = (if ?b then [] else [failed_again t why q])"
  from q have "queue (en_world ?t) = (pre @ one) @ qs @ suf" by (simp add: one_def)
  moreover from Cons.prems(2) have "distinct (map qs_ID ((pre @ one) @ qs @ suf))" by (auto simp: one_def)
  ultimately obtain ks where
    "queue (en_world (snd (run_state (for_each qs (replayOne A)) ?t))) = (pre @ one) @ ks @ suf"
    "map suggestionOf ks = map suggestionOf (undelivered qs (replay_answers A qs ?t))"
    "map qs_Attempts ks = map (\<lambda>q. qs_Attempts q + 1) (undelivered qs (replay_answers A qs ?t))"
    using Cons.IH by blast
  then show ?case by (intro exI [of _ "one @ ks"]) (simp add: one_def case_prod_beta)
qed simp

end

lemma run_Replay_mem:
  assumes "0 < n"
  shows "run_state (ReplayQueuedSuggestions (memoryServices x) (int n)) s =
    run_state (for_each (take n (ms_queue (si_store (en_world s)))) (replayOne (memoryServices x))) s"
  using assms by (simp add: ReplayQueuedSuggestions_def site_defs storeClaimQueuedSuggestions_def Let_def)

lemma replay_mem:
  assumes "distinct (map qs_ID (ms_queue (si_store (en_world s))))" and "0 < n"
  shows "\<exists>ks. ms_queue (si_store (en_world (snd (run_state (ReplayQueuedSuggestions (memoryServices x) (int n)) s)))) =
       ks @ drop n (ms_queue (si_store (en_world s))) \<and>
     map suggestionOf ks = map suggestionOf (undelivered (take n (ms_queue (si_store (en_world s))))
       (replay_answers (memoryServices x) (take n (ms_queue (si_store (en_world s)))) s)) \<and>
     map qs_Attempts ks = map (\<lambda>q. qs_Attempts q + 1) (undelivered (take n (ms_queue (si_store (en_world s))))
       (replay_answers (memoryServices x) (take n (ms_queue (si_store (en_world s)))) s))"
  unfolding run_Replay_mem [OF assms(2)]
  using memstore.queue_replay_loop [of s "[]" "take n (ms_queue (si_store (en_world s)))"] assms(1) by simp

text \<open>
  C29: Undelivered suggestions are not lost. A replay offers the first suggestions of the
  queue to the scheduler, in their order. Those that the scheduler accepts leave the queue;
  the others stay in front with the same content and one more attempt, and the suggestions
  behind the limit stay as they are. Entries are told apart by their identifiers, so these
  must be distinct.
\<close>

theorem replay_keeps_undelivered:
  assumes "distinct (map qs_ID (ms_queue (si_store (en_world s))))" and "0 < n"
  shows "let A = memoryServices x; queue = ms_queue (si_store (en_world s)); head = take n queue;
      queue' = ms_queue (si_store (en_world (snd (run_state (ReplayQueuedSuggestions A (int n)) s))));
      left = undelivered head (replay_answers A head s)
    in map suggestionOf queue' = map suggestionOf (left @ drop n queue) \<and>
       map qs_Attempts queue' = map (\<lambda>q. qs_Attempts q + 1) left @ map qs_Attempts (drop n queue)"
  using replay_mem [OF assms, of x] by (auto simp: Let_def)

theorem replay_keeps_undelivered_witness:
  "map qs_Attempts (ms_queue (si_store (en_world (snd (run_state
     (ReplayQueuedSuggestions (siteServices memEnv (demo_peers (Some refused))) (int 50)) (queue_engine 1)))))) = [1]"
proof -
  have "distinct (map qs_ID (ms_queue (si_store (en_world (queue_engine 1)))))" by (simp add: queue_engine_def demo_engine_def)
  from replay_keeps_undelivered [OF this, of 50 "schedulerOutside memEnv (demo_peers (Some refused))"]
  show ?thesis
    by (simp add: Let_def queue_engine_def demo_engine_def delivered_def lost_submit)
qed

section \<open>Beside the scheduler\<close>

text \<open>What the scheduler's operations guarantee carries over to a service that calls them.\<close>

abbreviation site_inv :: "('w \<Rightarrow> string \<Rightarrow> payload option) \<Rightarrow> 'w sched site engine \<Rightarrow> bool" where
  "site_inv view s \<equiv> sched_inv view (si_rest (en_world s))"

abbreviation site_step ::
  "('w \<Rightarrow> string \<Rightarrow> payload option) \<Rightarrow> 'w sched site engine \<Rightarrow> 'w sched site engine \<Rightarrow> bool" where
  "site_step view s t \<equiv> footprint view UNIV {} (si_rest (en_world s)) (si_rest (en_world t))"

interpretation site: guarantee "site_inv view" "site_step view" for view
  by unfold_locales (simp_all add: fp.R_refl, metis fp.R_trans)

lemma site_rest:
  assumes "safe view UNIV {} m (\<lambda>_. True)"
  shows "ensures (site_inv view) (site_step view) (invoke (lift_rest (run_state m))) (\<lambda>_. True)"
  using assms by (auto simp: ensures_def lift_rest_def Let_def)

lemma site_local:
  assumes "\<And>w. si_rest (snd (f w)) = si_rest w"
  shows "ensures (site_inv view) (site_step view) (invoke f) (\<lambda>_. True)"
  using assms by (simp add: ensures_def fp.R_refl)

lemma site_with_now:
  assumes "ou_Now x = run_state m" and "safe view UNIV {} m (\<lambda>_. True)"
  shows "ensures (site_inv view) (site_step view) (invoke (with_now x f)) (\<lambda>_. True)"
  using assms by (auto simp: ensures_def with_now_def on_store_def lift_rest_def Let_def)

lemma site_with_id:
  assumes "ou_Now x = run_state m" and "safe view UNIV {} m (\<lambda>_. True)"
    and "ou_NewString x = run_state u" and "safe view UNIV {} u (\<lambda>_. True)"
  shows "ensures (site_inv view) (site_step view) (invoke (with_id x f)) (\<lambda>_. True)"
  using assms
  by (auto simp: ensures_def with_id_def with_now_def on_store_def lift_rest_def Let_def intro: fp.R_trans)

lemma site_triggers:
  "ensures (site_inv view) (site_step view) (alreadyTriggered i t) (\<lambda>_. True)"
  "ensures (site_inv view) (site_step view) (markTriggered i t) (\<lambda>_. True)"
  by (simp_all add: ensures_def alreadyTriggered_def markTriggered_def fp.R_refl)

context etcd_client
begin

lemma safe_client [op_intros]:
  "safe view UNIV X (clientSubmit E P g) (\<lambda>_. True)" "safe view UNIV X (clientSummary E P) (\<lambda>_. True)"
  unfolding clientSubmit_def clientSummary_def remote_def by (rule fp.g_rules op_intros TrueI)+

lemma site_calls:
  fixes P :: "'w peers"
  defines "A \<equiv> siteServices E P"
  shows "ensures (site_inv view) (site_step view) (invoke (ou_Now A)) (\<lambda>_. True)"
    "ensures (site_inv view) (site_step view) (invoke (ou_Query A q)) (\<lambda>_. True)"
    "ensures (site_inv view) (site_step view) (invoke (ou_GetClusterSummary A)) (\<lambda>_. True)"
    "ensures (site_inv view) (site_step view) (invoke (ou_Submit A g)) (\<lambda>_. True)"
    "ensures (site_inv view) (site_step view) (invoke (st_ListPolicies A b)) (\<lambda>_. True)"
    "ensures (site_inv view) (site_step view) (invoke (st_AppendAudit A e)) (\<lambda>_. True)"
    "ensures (site_inv view) (site_step view) (invoke (st_EnqueueSuggestion A x)) (\<lambda>_. True)"
    "ensures (site_inv view) (site_step view) (invoke (st_ClaimQueuedSuggestions A n)) (\<lambda>_. True)"
    "ensures (site_inv view) (site_step view) (invoke (st_MarkQueuedSuggestionResult A i c why)) (\<lambda>_. True)"
proof -
  have frame: "si_rest (snd (on_store f w)) = si_rest w" for f and w :: "'w sched site"
    by (simp add: on_store_def Let_def)
  note rules = safe_now safe_uuid safe_client
  show "ensures (site_inv view) (site_step view) (invoke (ou_Now A)) (\<lambda>_. True)"
    "ensures (site_inv view) (site_step view) (invoke (ou_GetClusterSummary A)) (\<lambda>_. True)"
    "ensures (site_inv view) (site_step view) (invoke (ou_Submit A g)) (\<lambda>_. True)"
    by (simp_all add: A_def memoryServices_def schedulerOutside_def site_rest rules)
  show "ensures (site_inv view) (site_step view) (invoke (ou_Query A q)) (\<lambda>_. True)"
    "ensures (site_inv view) (site_step view) (invoke (st_ListPolicies A b)) (\<lambda>_. True)"
    "ensures (site_inv view) (site_step view) (invoke (st_ClaimQueuedSuggestions A n)) (\<lambda>_. True)"
    by (rule site_local, simp add: A_def memoryServices_def schedulerOutside_def lift_rest_def on_store_def Let_def)+
  show "ensures (site_inv view) (site_step view) (invoke (st_AppendAudit A e)) (\<lambda>_. True)"
    "ensures (site_inv view) (site_step view) (invoke (st_EnqueueSuggestion A x)) (\<lambda>_. True)"
    unfolding A_def memoryServices_def
    by (simp_all, rule_tac [!] site_with_id) (simp add: schedulerOutside_def | rule rules)+
  show "ensures (site_inv view) (site_step view) (invoke (st_MarkQueuedSuggestionResult A i c why)) (\<lambda>_. True)"
    unfolding A_def memoryServices_def
    by (simp, rule site_with_now) (simp add: schedulerOutside_def | rule rules)+
qed

lemmas site_rules = site.g_rules site_calls site_triggers

lemma site_evaluateSingle:
  "ensures (site_inv view) (site_step view) (evaluateSingle (siteServices E P) p) (\<lambda>_. True)"
  unfolding evaluateSingle_def evaluateCondition_def evalMetric_def evalCluster_def evalCron_def evalPipeline_def
    dispatchAction_def submitOrQueue_def record_audit_def
  by (rule site_rules TrueI)+

lemma site_EvaluatePolicies:
  "ensures (site_inv view) (site_step view) (EvaluatePolicies (siteServices E P) i) (\<lambda>_. True)"
  unfolding EvaluatePolicies_def evaluateNext_def
  by (rule site_evaluateSingle site_rules site.g_fold_st TrueI)+

lemma site_Replay:
  "ensures (site_inv view) (site_step view) (ReplayQueuedSuggestions (siteServices E P) n) (\<lambda>_. True)"
  unfolding ReplayQueuedSuggestions_def replayOne_def by (rule site_rules TrueI)+

lemma site_evaluationTick:
  "ensures (site_inv view) (site_step view) (evaluationTick (siteServices E P)) (\<lambda>_. True)"
  unfolding evaluationTick_def by (rule site_EvaluatePolicies site_Replay site_rules TrueI)+

end

text \<open>
  C26: Automation is no way around the freeze. One round of the automation service, with any
  policies and any queue, against the scheduler itself, keeps the scheduler's state
  consistent; if the scheduler is degraded or recovering, the round changes no document of
  etcd and leaves the scheduler frozen.
\<close>

theorem automation_respects_freeze:
  assumes "etcd_client E view" and "sched_inv view (si_rest (en_world s))"
  shows "let t = snd (run_state (evaluationTick (siteServices E P)) s)
    in sched_inv view (si_rest (en_world t)) \<and>
       (\<not> writable (si_rest (en_world s)) \<longrightarrow> \<not> writable (si_rest (en_world t)) \<and>
          view (sc_world (si_rest (en_world t))) = view (sc_world (si_rest (en_world s))))"
  using ensuresD(1,2) [OF etcd_client.site_evaluationTick [OF assms(1)] assms(2), of P]
  by (auto simp: footprint_def fun_eq_iff Let_def)

theorem automation_respects_freeze_witness:
  "\<not> writable (si_rest (en_world (snd (run_state (evaluationTick (siteServices memEnv (demo_peers None))) (demo_engine frozen_demo)))))"
  using automation_respects_freeze [OF memetcd.etcd_client_axioms, of "demo_engine frozen_demo" "demo_peers None"]
    frozen_demo_inv by (simp add: demo_engine_def Let_def)

section \<open>A queue that never moves on\<close>

lemma delivered_lift: "fst (ou_Submit (memoryServices x) g w) = fst (ou_Submit x g (si_rest w))"
  by (simp add: memoryServices_def lift_rest_def Let_def)

lemma scale_never_delivered:
  assumes "as_ActionType g = AA_SCALE_REPLICAS"
  shows "\<not> delivered (fst (run_state (clientSubmit E P g) s))"
  using assms
  by (auto simp: delivered_def clientSubmit_def remote_def SubmitAutomationSuggestion_def toControl_def rejected_def
      Let_def case_prod_beta split: option.splits)

lemma scale_answers:
  assumes "\<And>q. q \<in> set qs \<Longrightarrow> as_ActionType (suggestionOf q) = AA_SCALE_REPLICAS"
  shows "replay_answers (siteServices E P) qs s = replicate (length qs) False"
  using assms
  by (induction qs arbitrary: s) (simp_all add: delivered_lift schedulerOutside_def scale_never_delivered)

lemma undelivered_all: "undelivered qs (replicate (length qs) False) = qs"
  by (induction qs) simp_all

text \<open>Replays, with anything happening to the scheduler in between.\<close>

fun replays :: "'w sched site services \<Rightarrow> ('w sched \<Rightarrow> 'w sched) list \<Rightarrow> 'w sched site engine \<Rightarrow> 'w sched site engine" where
  "replays A [] s = s"
| "replays A (f # fs) s =
     (let t = snd (run_state (ReplayQueuedSuggestions A 50) s)
      in replays A fs (t\<lparr>en_world := (en_world t)\<lparr>si_rest := f (si_rest (en_world t))\<rparr>\<rparr>))"

lemma stuck_replay:
  fixes E :: "'w env" and P :: "'w peers"
  assumes d: "distinct (map qs_ID (ms_queue (si_store (en_world s))))"
    and scale: "\<And>q. q \<in> set (take 50 (ms_queue (si_store (en_world s)))) \<Longrightarrow> as_ActionType (suggestionOf q) = AA_SCALE_REPLICAS"
  defines "t \<equiv> snd (run_state (ReplayQueuedSuggestions (siteServices E P) 50) s)"
  shows "map suggestionOf (take 50 (ms_queue (si_store (en_world t)))) =
      map suggestionOf (take 50 (ms_queue (si_store (en_world s))))"
    and "drop 50 (ms_queue (si_store (en_world t))) = drop 50 (ms_queue (si_store (en_world s)))"
proof -
  let ?q = "ms_queue (si_store (en_world s))"
  have "undelivered (take 50 ?q) (replay_answers (siteServices E P) (take 50 ?q) s) = take 50 ?q"
    by (subst scale_answers [OF scale]) (assumption, rule undelivered_all)
  with replay_mem [OF d, of 50 "schedulerOutside E P"] obtain ks where
    ks: "ms_queue (si_store (en_world t)) = ks @ drop 50 ?q" "map suggestionOf ks = map suggestionOf (take 50 ?q)"
    by (auto simp: t_def)
  from map_eq_imp_length_eq [OF ks(2)] have "length ks = min (length ?q) 50" by simp
  then have "length ks = 50 \<or> length ks < 50 \<and> drop 50 ?q = []" by auto
  with ks show "map suggestionOf (take 50 (ms_queue (si_store (en_world t)))) = map suggestionOf (take 50 ?q)"
    and "drop 50 (ms_queue (si_store (en_world t))) = drop 50 ?q" by auto
qed

lemma ids_of_suggestions: "map qs_ID qs = map as_SuggestionID (map suggestionOf qs)"
  by (simp add: suggestionOf_def)

lemma queue_ids_split:
  assumes "map suggestionOf (take n qs) = map suggestionOf (take n qs')" and "drop n qs = drop n qs'"
  shows "map qs_ID qs = map qs_ID qs'"
proof -
  have "map qs_ID (take n qs) = map qs_ID (take n qs')" using assms(1) by (simp add: ids_of_suggestions del: map_map)
  with assms(2) show ?thesis by (metis append_take_drop_id map_append)
qed

text \<open>
  Fifty suggestions that the scheduler never accepts block the in-memory queue for good.
  If the first fifty entries are requests to scale replicas, which the scheduler refuses in
  every state, then after any number of replays, whatever happens to the scheduler in
  between, the entries behind them are untouched: they have not been offered once.
\<close>

theorem scale_requests_block_queue:
  assumes "distinct (map qs_ID (ms_queue (si_store (en_world s))))"
    and "\<forall>q \<in> set (take 50 (ms_queue (si_store (en_world s)))). qs_ActionType q = action_text AA_SCALE_REPLICAS"
  shows "drop 50 (ms_queue (si_store (en_world (replays (siteServices E P) fs s)))) =
    drop 50 (ms_queue (si_store (en_world s)))"
proof -
  have "as_ActionType (suggestionOf q) = AA_SCALE_REPLICAS" if "qs_ActionType q = action_text AA_SCALE_REPLICAS" for q
    using that by (simp add: suggestionOf_def actionTypeFromString_def TrimSpace_def isSpace_def Let_def)
  then have "\<forall>g \<in> set (map suggestionOf (take 50 (ms_queue (si_store (en_world s))))). as_ActionType g = AA_SCALE_REPLICAS"
    using assms(2) by auto
  with assms(1) show ?thesis
  proof (induction fs arbitrary: s)
    case (Cons f fs)
    let ?t = "snd (run_state (ReplayQueuedSuggestions (siteServices E P) 50) s)"
    let ?u = "?t\<lparr>en_world := (en_world ?t)\<lparr>si_rest := f (si_rest (en_world ?t))\<rparr>\<rparr>"
    have scale: "as_ActionType (suggestionOf q) = AA_SCALE_REPLICAS"
      if "q \<in> set (take 50 (ms_queue (si_store (en_world s))))" for q using Cons.prems(2) that by auto
    note stuck = stuck_replay [OF Cons.prems(1) scale, of E P]
    from Cons.prems queue_ids_split [OF stuck] stuck
    have "drop 50 (ms_queue (si_store (en_world (replays (siteServices E P) fs ?u)))) =
        drop 50 (ms_queue (si_store (en_world ?u)))" by (intro Cons.IH) simp_all
    with stuck(2) show ?case by (simp add: Let_def)
  qed simp
qed

theorem scale_requests_block_queue_witness:
  "drop 50 (ms_queue (si_store (en_world (replays (siteServices memEnv (demo_peers None)) [id, id, id] (queue_engine 60))))) =
     drop 50 (ms_queue (si_store (en_world (queue_engine 60))))"
  by (rule scale_requests_block_queue)
    (auto simp: queue_engine_def demo_engine_def distinct_map inj_on_def replicate_eq_replicate comp_def
      simp del: action_text.simps dest!: in_set_takeD)

section \<open>Undelivered and refused suggestions\<close>

lemma actionTypeFromString_text [simp]: "actionTypeFromString (action_text t) = t"
  by (cases t) (simp_all add: actionTypeFromString_def TrimSpace_def isSpace_def Let_def)

lemma built_suggestion:
  assumes "buildSuggestionFromAction p a = Inr g"
  shows "as_PolicyID g = pl_Id p" "as_PolicyName g = pl_Name p" "as_TargetWorkload g = TrimSpace (pl_TargetWorkload p)"
    "TrimSpace (pl_TargetWorkload p) \<noteq> []"
  using assms by (auto simp: buildSuggestionFromAction_def Let_def split: if_splits)

lemma run_dispatch:
  assumes "decode_action (pl_ActionExpression p) = Some a" and "buildSuggestionFromAction p a = Inr g"
  shows "run_state (dispatchAction A p) s = run_state (submitOrQueue A p g) s"
  using assms built_suggestion [OF assms(2)] by (simp add: dispatchAction_def)

text \<open>
  What cannot be delivered is queued unchanged. If the call to the scheduler fails, the
  suggestion of a policy is appended to the queue, and the suggestion that a replay later
  reads from the entry is the one that failed, with the entry's identifier added.
\<close>

theorem queued_suggestion_round_trip:
  assumes "decode_action (pl_ActionExpression p) = Some a" and "buildSuggestionFromAction p a = Inr g"
    and "fst (ou_Submit x g (si_rest (en_world s))) = Inl e"
  shows "\<exists>q. ms_queue (si_store (en_world (snd (run_state (dispatchAction (memoryServices x) p) s)))) =
      ms_queue (si_store (en_world s)) @ [q] \<and>
    suggestionOf q = g\<lparr>as_SuggestionID := qs_ID q\<rparr> \<and> qs_Attempts q = 0 \<and>
    \<not> fst (fst (run_state (dispatchAction (memoryServices x) p) s))"
  unfolding run_dispatch [OF assms(1,2)]
  using assms(3) built_suggestion [OF assms(2)]
  by (simp add: submitOrQueue_def site_defs storeEnqueueSuggestion_def queuedOf_def suggestionOf_def Let_def)

theorem queued_suggestion_round_trip_witness:
  "\<not> fst (fst (run_state (dispatchAction (siteServices memEnv (demo_peers (Some refused))) demo_policy) (demo_engine frozen_demo)))"
proof -
  have "fst (ou_Submit (schedulerOutside memEnv (demo_peers (Some refused))) demo_suggestion
      (si_rest (en_world (demo_engine frozen_demo)))) = Inl refused"
    by (simp add: schedulerOutside_def clientSubmit_def remote_def demo_peers_def)
  from queued_suggestion_round_trip [OF demo_decodes(3) demo_builds this] show ?thesis by blast
qed

lemma record_audit_effect:
  "er_Matched (fst (run_state (record_audit A p m d why) s)) = m"
  "er_Dispatched (fst (run_state (record_audit A p m d why) s)) = d"
  "en_lastTrigger (snd (run_state (record_audit A p m d why) s)) = en_lastTrigger s"
  "ms_queue (si_store (en_world (snd (run_state (record_audit (memoryServices x) p m d why) s2)))) =
     ms_queue (si_store (en_world s2))"
  by (simp_all add: record_audit_def site_defs storeAppendAudit_def Let_def)

text \<open>
  C30: A suggestion that a frozen scheduler refuses is gone. While the scheduler is degraded or
  recovering it answers suggestions, so they count as rejected and are not queued. A cron
  policy that becomes due in that time is reported as matched and not dispatched, its
  instant is remembered as triggered, and the queue stays as it was: the action for that
  instant is never carried out.
\<close>

theorem frozen_cron_action_is_lost:
  assumes "decode_mode (pl_ConditionExpression p) = Some m" and "ToLower (TrimSpace m) = ''cron''"
    and "decode_schedule (pl_ConditionExpression p) = Some ex" and "pe_cronParse P ex = Inr sch"
    and "sch (fst (timeNow E (sc_world (si_rest (en_world s)))) - Minute) = due"
    and "due \<le> fst (timeNow E (sc_world (si_rest (en_world s))))"
    and "mget (en_lastTrigger s) (pl_Id p) \<noteq> Some due"
    and "decode_action (pl_ActionExpression p) = Some a" and "buildSuggestionFromAction p a = Inr g"
    and "\<forall>u. pe_lost P u = None" and "\<not> writable (si_rest (en_world s))"
  shows "let r = run_state (evaluateSingle (siteServices E P) p) s
    in er_Matched (fst r) \<and> \<not> er_Dispatched (fst r) \<and>
       ms_queue (si_store (en_world (snd r))) = ms_queue (si_store (en_world s)) \<and>
       mget (en_lastTrigger (snd r)) (pl_Id p) = Some due \<and>
       fst (fst (run_state (evaluateCondition (siteServices E P) p)
         (s\<lparr>en_lastTrigger := en_lastTrigger (snd r)\<rparr>))) = False"
proof -
  let ?A = "siteServices E P" let ?w = "en_world s"
  let ?n = "timeNow E (sc_world (si_rest ?w))"
  let ?w1 = "?w\<lparr>si_rest := (si_rest ?w)\<lparr>sc_world := snd ?n\<rparr>\<rparr>"
  have now: "ou_Now ?A w = (fst (timeNow E (sc_world (si_rest w))), w\<lparr>si_rest := (si_rest w)\<lparr>sc_world := snd (timeNow E (sc_world (si_rest w)))\<rparr>\<rparr>)" for w
    by (simp add: memoryServices_def schedulerOutside_def lift_rest_def Let_def)
  have cron: "ou_cronParse ?A ex = Inr sch" using assms(4) by (simp add: memoryServices_def schedulerOutside_def)
  have cond: "run_state (evaluateCondition ?A p) (u\<lparr>en_world := ?w\<rparr>) =
      (if mget (en_lastTrigger u) (pl_Id p) = Some due then ((False, ''cron already triggered''), u\<lparr>en_world := ?w1\<rparr>)
       else ((True, ''cron schedule due''), u\<lparr>en_lastTrigger := mput (pl_Id p) due (en_lastTrigger u), en_world := ?w1\<rparr>))" for u
    using assms(1-6) cron
    by (auto simp: evaluateCondition_def evalCron_def now alreadyTriggered_def markTriggered_def Let_def split: option.splits)
  from cond [of s] assms(7) have c: "run_state (evaluateCondition ?A p) s =
      ((True, ''cron schedule due''), s\<lparr>en_lastTrigger := mput (pl_Id p) due (en_lastTrigger s), en_world := ?w1\<rparr>)" by simp
  have sub: "\<exists>r w'. ou_Submit ?A g ?w1 = (Inr r, w') \<and> \<not> sr_Accepted r \<and> si_store w' = si_store ?w"
    using assms(10,11)
    by (simp add: memoryServices_def schedulerOutside_def clientSubmit_def remote_def SubmitAutomationSuggestion_def
        rejected_def lift_rest_def Let_def writable_def)
  then obtain r w' where sub: "ou_Submit ?A g ?w1 = (Inr r, w')" "\<not> sr_Accepted r" "si_store w' = si_store ?w" by blast
  let ?u = "s\<lparr>en_lastTrigger := mput (pl_Id p) due (en_lastTrigger s)\<rparr>"
  obtain why where d: "run_state (dispatchAction ?A p) (?u\<lparr>en_world := ?w1\<rparr>) = ((False, why), ?u\<lparr>en_world := w'\<rparr>)"
    unfolding run_dispatch [OF assms(8,9)] using sub by (simp add: submitOrQueue_def)
  have "run_state (evaluateSingle ?A p) s = run_state (record_audit ?A p True False why) (?u\<lparr>en_world := w'\<rparr>)"
    using c d by (simp add: evaluateSingle_def)
  with cond [of ?u] sub(3) show ?thesis by (simp add: record_audit_effect map_simps)
qed

theorem frozen_cron_action_is_lost_witness:
  "\<not> er_Dispatched (fst (run_state (evaluateSingle (siteServices memEnv (demo_peers None)) demo_policy) (demo_engine frozen_demo)))"
proof -
  have "pe_cronParse (demo_peers None) ''* * * * *'' = Inr every_minute" "\<forall>u. pe_lost (demo_peers None) u = None"
    by (simp_all add: demo_peers_def)
  moreover have "ToLower (TrimSpace ''cron'') = ''cron''" by code_simp
  moreover have "every_minute (fst (timeNow memEnv (sc_world (si_rest (en_world (demo_engine frozen_demo))))) - Minute)
      \<le> fst (timeNow memEnv (sc_world (si_rest (en_world (demo_engine frozen_demo)))))"
    by (rule every_minute_due)
  moreover have "\<not> writable (si_rest (en_world (demo_engine frozen_demo)))"
    using frozen_demo_inv by (simp add: demo_engine_def)
  moreover have "mget (en_lastTrigger (demo_engine frozen_demo)) (pl_Id demo_policy) \<noteq> Some d" for d
    by (simp add: demo_engine_def)
  ultimately show ?thesis
    using frozen_cron_action_is_lost [OF demo_decodes(1) _ demo_decodes(2) _ refl _ _ demo_decodes(3) demo_builds]
    unfolding Let_def by metis
qed

section \<open>Cron policies\<close>

text \<open>The instants for which a policy fires, evaluation by evaluation, with the world moving in between.\<close>

fun cron_log :: "'w services \<Rightarrow> policy \<Rightarrow> ('w \<Rightarrow> 'w) list \<Rightarrow> 'w engine \<Rightarrow> time list" where
  "cron_log A p [] s = []"
| "cron_log A p (f # fs) s =
     (let r = run_state (evaluateCondition A p) s
      in (if fst (fst r) then [the (mget (en_lastTrigger (snd r)) (pl_Id p))] else []) @
         cron_log A p fs ((snd r)\<lparr>en_world := f (en_world (snd r))\<rparr>))"

text \<open>
  C27: A cron policy fires at most once for every instant of its schedule. For a schedule whose
  next instant grows with the time it is asked for, and a clock that does not go back, the
  instants for which a policy fires in any sequence of evaluations, one after the other, are
  strictly increasing.
\<close>

theorem cron_fires_once:
  assumes "decode_mode (pl_ConditionExpression p) = Some m" and "ToLower (TrimSpace m) = ''cron''"
    and "decode_schedule (pl_ConditionExpression p) = Some ex" and "ou_cronParse A ex = Inr sch"
    and "mono sch" and "\<And>w. clk w \<le> fst (ou_Now A w) \<and> fst (ou_Now A w) \<le> clk (snd (ou_Now A w))"
    and "\<forall>f \<in> set fs. \<forall>w. clk w \<le> clk (f w)" and "mget (en_lastTrigger s) (pl_Id p) = None"
  shows "sorted_wrt (<) (cron_log A p fs s)"
proof -
  have main: "sorted_wrt (<) (cron_log A p fs s) \<and>
      (\<forall>d x. mget (en_lastTrigger s) (pl_Id p) = Some d \<longrightarrow> x \<in> set (cron_log A p fs s) \<longrightarrow> d < x)"
    if "\<forall>f \<in> set fs. \<forall>w. clk w \<le> clk (f w)"
      and "\<forall>d t. mget (en_lastTrigger s) (pl_Id p) = Some d \<longrightarrow> clk (en_world s) \<le> t \<longrightarrow> d \<le> sch (t - Minute)" for fs s
    using that
  proof (induction fs arbitrary: s)
    case (Cons f fs)
    let ?t = "fst (ou_Now A (en_world s))" let ?w = "snd (ou_Now A (en_world s))" let ?due = "sch (?t - Minute)"
    have clk: "clk (en_world s) \<le> ?t" "?t \<le> clk ?w" "clk ?w \<le> clk (f ?w)" using assms(6) Cons.prems(1) by auto
    have run: "run_state (evaluateCondition A p) s =
        (if ?due > ?t then ((False, ''cron not due''), s\<lparr>en_world := ?w\<rparr>)
         else if mget (en_lastTrigger s) (pl_Id p) = Some ?due then ((False, ''cron already triggered''), s\<lparr>en_world := ?w\<rparr>)
         else ((True, ''cron schedule due''), s\<lparr>en_world := ?w, en_lastTrigger := mput (pl_Id p) ?due (en_lastTrigger s)\<rparr>))"
      using assms(1-4)
      by (auto simp: evaluateCondition_def evalCron_def alreadyTriggered_def markTriggered_def Let_def split: option.splits)
    show ?case
    proof (cases "?due > ?t \<or> mget (en_lastTrigger s) (pl_Id p) = Some ?due")
      case True
      let ?u = "s\<lparr>en_world := f ?w\<rparr>"
      from True have "cron_log A p (f # fs) s = cron_log A p fs ?u" by (auto simp: run Let_def)
      moreover have "\<forall>d t. mget (en_lastTrigger ?u) (pl_Id p) = Some d \<longrightarrow> clk (en_world ?u) \<le> t \<longrightarrow> d \<le> sch (t - Minute)"
        using Cons.prems(2) clk by auto
      ultimately show ?thesis using Cons.IH [of ?u] Cons.prems(1) by simp
    next
      case False
      let ?u = "s\<lparr>en_lastTrigger := mput (pl_Id p) ?due (en_lastTrigger s), en_world := f ?w\<rparr>"
      from False have log: "cron_log A p (f # fs) s = ?due # cron_log A p fs ?u" by (auto simp: run map_simps Let_def)
      have "\<forall>d t. mget (en_lastTrigger ?u) (pl_Id p) = Some d \<longrightarrow> clk (en_world ?u) \<le> t \<longrightarrow> d \<le> sch (t - Minute)"
        using clk by (auto simp: map_simps intro!: monoD [OF assms(5)])
      with Cons.IH [of ?u] Cons.prems(1) have
        ih: "sorted_wrt (<) (cron_log A p fs ?u)" "\<forall>x \<in> set (cron_log A p fs ?u). ?due < x"
        by (auto simp: map_simps)
      have "d < ?due" if "mget (en_lastTrigger s) (pl_Id p) = Some d" for d
        using Cons.prems(2) that clk(1) False by fastforce
      with ih log show ?thesis by fastforce
    qed
  qed simp
  show ?thesis using main [OF assms(7)] assms(8) by simp
qed

theorem cron_fires_once_witness:
  "sorted_wrt (<) (cron_log (siteServices memEnv (demo_peers None)) demo_policy [id, id] (demo_engine frozen_demo))"
proof (rule cron_fires_once [where clk = "\<lambda>w. m_clock (sc_world (si_rest w))" and sch = every_minute])
  show "decode_mode (pl_ConditionExpression demo_policy) = Some ''cron''"
    "decode_schedule (pl_ConditionExpression demo_policy) = Some ''* * * * *''" by (rule demo_decodes)+
  show "ToLower (TrimSpace ''cron'') = ''cron''" by code_simp
  show "mono every_minute" by (rule every_minute_mono)
qed (auto simp: memoryServices_def schedulerOutside_def demo_peers_def demo_engine_def lift_rest_def mem_defs Let_def)

end
