(* ===== verification/LeaderElection.thy ===== *)
theory LeaderElection
  imports Prelude
begin

text \<open>
  Leader election between the replicas of the automation service: \<open>store/leader_elector.go\<close>
  over a session-level advisory lock of PostgreSQL, the channel of capacity one that reports
  the changes, and the goroutine of \<open>cmd/automation/main.go\<close> that starts and stops the
  evaluator. All replicas run against one database, interleaved in any order.
\<close>

section \<open>The code\<close>

text \<open>The database calls; a session is named by the process that opened it and a number.\<close>

type_synonym session = "nat \<times> nat"

record 'd database =
  db_Conn :: "nat \<Rightarrow> 'd \<Rightarrow> session result \<times> 'd"
  db_Ping :: "session \<Rightarrow> 'd \<Rightarrow> goerr option \<times> 'd"
  db_TryLock :: "session \<Rightarrow> 'd \<Rightarrow> bool result \<times> 'd"
  db_Unlock :: "session \<Rightarrow> 'd \<Rightarrow> 'd"
  db_Close :: "session \<Rightarrow> 'd \<Rightarrow> 'd"

record replica =
  el_conn :: "session option"
  el_isLeader :: bool
  el_updates :: "bool list"
  ev_running :: bool

definition NewPostgresLeaderElector :: replica where
  "NewPostgresLeaderElector = \<lparr>el_conn = None, el_isLeader = False, el_updates = [], ev_running = False\<rparr>"

text \<open>A send that gives up when the buffer of capacity one is full.\<close>

definition trySend :: "bool \<Rightarrow> bool list \<Rightarrow> bool list" where
  "trySend b updates = (if length updates < 1 then updates @ [b] else updates)"

definition revokeLeader :: "'d database \<Rightarrow> replica \<times> 'd \<Rightarrow> replica \<times> 'd" where
  "revokeLeader B s =
     (case s of (r, d) \<Rightarrow>
        (r\<lparr>el_conn := None, el_isLeader := False,
           el_updates := (if el_isLeader r then trySend False (el_updates r) else el_updates r)\<rparr>,
         case el_conn r of None \<Rightarrow> d | Some c \<Rightarrow> db_Close B c (db_Unlock B c d)))"

definition elector_acquire :: "'d database \<Rightarrow> nat \<Rightarrow> replica \<times> 'd \<Rightarrow> replica \<times> 'd" where
  "elector_acquire B me s =
     (case s of (r, d) \<Rightarrow>
        (case db_Conn B me d of
           (Inl e, d1) \<Rightarrow> (r, d1)
         | (Inr c, d1) \<Rightarrow>
             (case db_TryLock B c d1 of
                (Inl e, d2) \<Rightarrow> (r, db_Close B c d2)
              | (Inr acquired, d2) \<Rightarrow>
                  if \<not> acquired then (r, db_Close B c d2)
                  else (r\<lparr>el_conn := Some c, el_isLeader := True, el_updates := trySend True (el_updates r)\<rparr>, d2))))"

definition elector_step :: "'d database \<Rightarrow> nat \<Rightarrow> replica \<times> 'd \<Rightarrow> replica \<times> 'd" where
  "elector_step B me s =
     (case s of (r, d) \<Rightarrow>
        (case (el_isLeader r, el_conn r) of
           (True, Some c) \<Rightarrow>
             (case db_Ping B c d of
                (None, d1) \<Rightarrow> (r, d1)
              | (Some e, d1) \<Rightarrow> revokeLeader B (r, d1))
         | _ \<Rightarrow> elector_acquire B me (r, d)))"

text \<open>The consumer of the channel: \<open>startEvaluator\<close> and \<open>stopEvaluator\<close> are idempotent.\<close>

definition consume_update :: "replica \<Rightarrow> replica" where
  "consume_update r =
     (case el_updates r of [] \<Rightarrow> r | b # bs \<Rightarrow> r\<lparr>el_updates := bs, ev_running := b\<rparr>)"

section \<open>What PostgreSQL promises\<close>

text \<open>
  A session keeps the lock as long as it lives, unless its owner gives it up; a lock is
  granted only if no other living session holds it; a connection belongs to the process that
  asked for it; an answer to a ping shows that the session lives.
\<close>

definition keeps_lock :: "('d \<Rightarrow> session option) \<Rightarrow> ('d \<Rightarrow> session \<Rightarrow> bool) \<Rightarrow> session \<Rightarrow> 'd \<Rightarrow> 'd \<Rightarrow> bool" where
  "keeps_lock holder alive c d d' =
     (alive d' c \<longrightarrow> alive d c \<and> (holder d = Some c \<longrightarrow> holder d' = Some c))"

locale advisory_lock =
  fixes B :: "'d database"
    and holder :: "'d \<Rightarrow> session option"
    and alive :: "'d \<Rightarrow> session \<Rightarrow> bool"
  assumes conn_owner: "db_Conn B me d = (Inr c, d') \<Longrightarrow> fst c = me"
    and conn_keeps: "db_Conn B me d = (r, d') \<Longrightarrow> fst c \<noteq> me \<Longrightarrow> keeps_lock holder alive c d d'"
    and ping_keeps: "db_Ping B c0 d = (e, d') \<Longrightarrow> keeps_lock holder alive c d d'"
    and ping_alive: "db_Ping B c d = (None, d') \<Longrightarrow> alive d' c"
    and try_keeps: "db_TryLock B c0 d = (b, d') \<Longrightarrow> c \<noteq> c0 \<Longrightarrow> keeps_lock holder alive c d d'"
    and try_holds: "db_TryLock B c d = (Inr True, d') \<Longrightarrow> holder d' = Some c"
    and unlock_keeps: "c \<noteq> c0 \<Longrightarrow> keeps_lock holder alive c d (db_Unlock B c0 d)"
    and close_keeps: "c \<noteq> c0 \<Longrightarrow> keeps_lock holder alive c d (db_Close B c0 d)"

section \<open>All interleavings\<close>

text \<open>
  A replica takes a step of its elector, consumes a report, or shuts down; sessions may end at
  any time (\<open>lost\<close>), and nothing else takes the lock away.
\<close>

inductive election ::
  "'d database \<Rightarrow> ('d \<Rightarrow> session option) \<Rightarrow> ('d \<Rightarrow> session \<Rightarrow> bool) \<Rightarrow> 'd \<Rightarrow> (nat \<Rightarrow> replica) \<Rightarrow> 'd \<Rightarrow> bool"
  for B holder alive d0 where
  start: "election B holder alive d0 (\<lambda>_. NewPostgresLeaderElector) d0"
| tick: "election B holder alive d0 R d \<Longrightarrow> elector_step B i (R i, d) = (r, d') \<Longrightarrow>
    election B holder alive d0 (R(i := r)) d'"
| report: "election B holder alive d0 R d \<Longrightarrow> election B holder alive d0 (R(i := consume_update (R i))) d"
| shutdown: "election B holder alive d0 R d \<Longrightarrow> revokeLeader B (R i, d) = (r, d') \<Longrightarrow>
    election B holder alive d0 (R(i := r)) d'"
| lost: "election B holder alive d0 R d \<Longrightarrow> \<forall>c. keeps_lock holder alive c d d' \<Longrightarrow>
    election B holder alive d0 R d'"

definition lock_inv ::
  "('d \<Rightarrow> session option) \<Rightarrow> ('d \<Rightarrow> session \<Rightarrow> bool) \<Rightarrow> (nat \<Rightarrow> replica) \<Rightarrow> 'd \<Rightarrow> bool" where
  "lock_inv holder alive R d = (\<forall>i. el_isLeader (R i) = (el_conn (R i) \<noteq> None) \<and>
     (\<forall>c. el_conn (R i) = Some c \<longrightarrow> fst c = i \<and> (alive d c \<longrightarrow> holder d = Some c)))"

lemma lock_invD:
  assumes "lock_inv holder alive R d"
  shows "el_isLeader (R i) \<longleftrightarrow> el_conn (R i) \<noteq> None" and "el_conn (R i) = Some c \<Longrightarrow> fst c = i"
    and "el_conn (R i) = Some c \<Longrightarrow> alive d c \<Longrightarrow> holder d = Some c"
  using assms unfolding lock_inv_def by metis+

lemma lock_inv_update:
  assumes inv: "lock_inv holder alive R d"
    and others: "\<And>c. fst c \<noteq> i \<Longrightarrow> keeps_lock holder alive c d d'"
    and own: "el_isLeader r = (el_conn r \<noteq> None)"
      "\<And>c. el_conn r = Some c \<Longrightarrow> fst c = i \<and> (alive d' c \<longrightarrow> holder d' = Some c)"
  shows "lock_inv holder alive (R(i := r)) d'"
  unfolding lock_inv_def
proof (intro allI)
  fix j
  show "el_isLeader ((R(i := r)) j) = (el_conn ((R(i := r)) j) \<noteq> None) \<and>
      (\<forall>c. el_conn ((R(i := r)) j) = Some c \<longrightarrow> fst c = j \<and> (alive d' c \<longrightarrow> holder d' = Some c))"
  proof (cases "j = i")
    case False
    with inv others show ?thesis unfolding lock_inv_def keeps_lock_def by (metis fun_upd_other)
  qed (use own in auto)
qed

context advisory_lock
begin

lemma keeps_trans:
  "keeps_lock holder alive c d d1 \<Longrightarrow> keeps_lock holder alive c d1 d2 \<Longrightarrow> keeps_lock holder alive c d d2"
  by (auto simp: keeps_lock_def)

lemma revoke_keeps:
  assumes "revokeLeader B (r, d) = (r', d')" and "\<And>c0. el_conn r = Some c0 \<Longrightarrow> fst c0 = i" and "fst c \<noteq> i"
  shows "keeps_lock holder alive c d d'"
proof (cases "el_conn r")
  case None
  with assms(1) show ?thesis by (auto simp: revokeLeader_def keeps_lock_def)
next
  case (Some c0)
  with assms have "c \<noteq> c0" "d' = db_Close B c0 (db_Unlock B c0 d)" by (auto simp: revokeLeader_def)
  then show ?thesis using keeps_trans unlock_keeps close_keeps by metis
qed

lemma revoke_inv:
  assumes inv: "lock_inv holder alive R d" and run: "revokeLeader B (R i, d) = (r, d')"
  shows "lock_inv holder alive (R(i := r)) d'"
proof (rule lock_inv_update [OF inv])
  show "keeps_lock holder alive c d d'" if "fst c \<noteq> i" for c
    by (rule revoke_keeps [OF run lock_invD(2) [OF inv] that])
qed (use run in \<open>auto simp: revokeLeader_def\<close>)

lemma acquire_inv:
  assumes inv: "lock_inv holder alive R d" and run: "elector_acquire B i (R i, d) = (r, d')"
    and idle: "\<not> el_isLeader (R i)"
  shows "lock_inv holder alive (R(i := r)) d'"
proof -
  obtain x d1 where c: "db_Conn B i d = (x, d1)" by fastforce
  from lock_invD(1) [OF inv] idle have none: "el_conn (R i) = None" by blast
  show ?thesis
  proof (cases x)
    case (Inl e)
    with c run have "r = R i" "d' = d1" by (auto simp: elector_acquire_def)
    with conn_keeps [OF c] none idle show ?thesis by (intro lock_inv_update [OF inv]) auto
  next
    case (Inr c0)
    with conn_owner c have own: "fst c0 = i" by blast
    obtain y d2 where t: "db_TryLock B c0 d1 = (y, d2)" by fastforce
    have k: "keeps_lock holder alive c d d2" if "fst c \<noteq> i" for c
      using keeps_trans [OF conn_keeps [OF c that] try_keeps [OF t]] own that by auto
    show ?thesis
    proof (cases "y = Inr True")
      case True
      with c t Inr run have "r = (R i)\<lparr>el_conn := Some c0, el_isLeader := True, el_updates := trySend True (el_updates (R i))\<rparr>"
        "d' = d2" by (auto simp: elector_acquire_def)
      with k own try_holds [of c0 d1 d2] t True show ?thesis by (intro lock_inv_update [OF inv]) auto
    next
      case False
      with c t Inr run have "r = R i" "d' = db_Close B c0 d2" by (auto simp: elector_acquire_def split: sum.splits if_splits)
      moreover have "keeps_lock holder alive c d (db_Close B c0 d2)" if "fst c \<noteq> i" for c
        using keeps_trans [OF k [OF that] close_keeps [of c c0]] own that by blast
      ultimately show ?thesis using none idle by (intro lock_inv_update [OF inv]) auto
    qed
  qed
qed

lemma step_inv:
  assumes inv: "lock_inv holder alive R d" and run: "elector_step B i (R i, d) = (r, d')"
  shows "lock_inv holder alive (R(i := r)) d'"
proof (cases "el_isLeader (R i)")
  case False
  with run have "elector_acquire B i (R i, d) = (r, d')" by (auto simp: elector_step_def)
  with acquire_inv [OF inv _ False] show ?thesis .
next
  case True
  with lock_invD(1) [OF inv] obtain c where c: "el_conn (R i) = Some c" by blast
  obtain x d1 where p: "db_Ping B c d = (x, d1)" by fastforce
  have inv1: "lock_inv holder alive (R(i := R i)) d1"
    using ping_keeps [OF p] lock_invD [OF inv, of i]
    by (intro lock_inv_update [OF inv]) (auto simp: keeps_lock_def)
  show ?thesis
  proof (cases x)
    case None
    with True c p run have "r = R i" "d' = d1" by (auto simp: elector_step_def)
    with inv1 show ?thesis by simp
  next
    case (Some e)
    with True c p run have "revokeLeader B (R i, d1) = (r, d')" by (auto simp: elector_step_def)
    with revoke_inv [of R d1] inv1 show ?thesis by simp
  qed
qed

lemma election_inv: "election B holder alive d0 R d \<Longrightarrow> lock_inv holder alive R d"
proof (induction rule: election.induct)
  case (report R d i)
  note inv = lock_invD [OF report.IH, of i]
  have eq: "el_conn (consume_update (R i)) = el_conn (R i)" "el_isLeader (consume_update (R i)) = el_isLeader (R i)"
    by (auto simp: consume_update_def split: list.splits)
  show ?case
    by (rule lock_inv_update [OF report.IH], unfold eq) (simp add: keeps_lock_def, use inv in metis, use inv in metis)
next
  case (lost R d d')
  then show ?case unfolding lock_inv_def keeps_lock_def by metis
next
  case start
  then show ?case by (simp add: NewPostgresLeaderElector_def lock_inv_def)
qed (blast intro: step_inv revoke_inv)+

end

section \<open>An in-memory database\<close>

record pgdb =
  pg_lock :: "session option"
  pg_live :: "session list"
  pg_next :: nat

definition pg_fail :: goerr where
  "pg_fail = errorf ''driver: bad connection''"

definition pgDatabase :: "pgdb database" where
  "pgDatabase =
     \<lparr>db_Conn = (\<lambda>me d. (Inr (me, pg_next d), d\<lparr>pg_live := (me, pg_next d) # pg_live d, pg_next := Suc (pg_next d)\<rparr>)),
      db_Ping = (\<lambda>c d. (if c \<in> set (pg_live d) then None else Some pg_fail, d)),
      db_TryLock = (\<lambda>c d. if c \<notin> set (pg_live d) then (Inl pg_fail, d)
        else if pg_lock d = None \<or> pg_lock d = Some c then (Inr True, d\<lparr>pg_lock := Some c\<rparr>) else (Inr False, d)),
      db_Unlock = (\<lambda>c d. if pg_lock d = Some c then d\<lparr>pg_lock := None\<rparr> else d),
      db_Close = (\<lambda>c d. d)\<rparr>"

definition pg_empty :: pgdb where
  "pg_empty = \<lparr>pg_lock = None, pg_live = [], pg_next = 0\<rparr>"

text \<open>The server ends a session and releases its lock.\<close>

definition pg_kill :: "session \<Rightarrow> pgdb \<Rightarrow> pgdb" where
  "pg_kill c d = d\<lparr>pg_live := removeAll c (pg_live d), pg_lock := (if pg_lock d = Some c then None else pg_lock d)\<rparr>"

abbreviation pg_alive :: "pgdb \<Rightarrow> session \<Rightarrow> bool" where
  "pg_alive d c \<equiv> c \<in> set (pg_live d)"

interpretation pg: advisory_lock pgDatabase pg_lock pg_alive
  by unfold_locales (auto simp: pgDatabase_def keeps_lock_def split: if_splits)

lemma pg_kill_keeps: "keeps_lock pg_lock pg_alive c d (pg_kill x d)"
  by (auto simp: keeps_lock_def pg_kill_def)

section \<open>What the election guarantees\<close>

text \<open>
  C28: Two replicas never both hold a confirmed leadership. Whatever the interleaving of steps,
  reports, shut-downs and lost sessions, two replicas that both consider themselves leader
  and whose health checks both succeed are the same replica; and a leader whose session has
  ended gives its leadership up at its next step.
\<close>

theorem leaders_exclusive:
  assumes "advisory_lock B holder alive" and "election B holder alive d0 R d"
    and "el_isLeader (R i)" and "el_conn (R i) = Some c" and "el_isLeader (R j)" and "el_conn (R j) = Some c'"
  shows "(db_Ping B c d = (None, d) \<longrightarrow> db_Ping B c' d = (None, d) \<longrightarrow> i = j) \<and>
    (fst (db_Ping B c d) \<noteq> None \<longrightarrow> \<not> el_isLeader (fst (elector_step B i (R i, d))))"
proof -
  note inv = advisory_lock.election_inv [OF assms(1,2)]
  have "i = j" if "db_Ping B c d = (None, d)" "db_Ping B c' d = (None, d)"
    using lock_invD(2,3) [OF inv assms(4)] lock_invD(2,3) [OF inv assms(6)]
      advisory_lock.ping_alive [OF assms(1)] that by (metis option.inject)
  moreover have "\<not> el_isLeader (fst (elector_step B i (R i, d)))" if "fst (db_Ping B c d) \<noteq> None"
    using that assms(3,4) by (auto simp: elector_step_def revokeLeader_def split: prod.splits option.splits)
  ultimately show ?thesis by blast
qed

text \<open>Two replicas: the first becomes leader, loses its session before its report is read, and is succeeded.\<close>

definition pg_act :: "nat \<Rightarrow> (nat \<Rightarrow> replica) \<times> pgdb \<Rightarrow> (nat \<Rightarrow> replica) \<times> pgdb" where
  "pg_act i s = (let x = elector_step pgDatabase i (fst s i, snd s) in ((fst s)(i := fst x), snd x))"

definition pg_report :: "nat \<Rightarrow> (nat \<Rightarrow> replica) \<times> pgdb \<Rightarrow> (nat \<Rightarrow> replica) \<times> pgdb" where
  "pg_report i s = ((fst s)(i := consume_update (fst s i)), snd s)"

definition pg_end :: "session \<Rightarrow> (nat \<Rightarrow> replica) \<times> pgdb \<Rightarrow> (nat \<Rightarrow> replica) \<times> pgdb" where
  "pg_end c s = (fst s, pg_kill c (snd s))"

definition reached :: "(nat \<Rightarrow> replica) \<times> pgdb \<Rightarrow> bool" where
  "reached s = election pgDatabase pg_lock pg_alive pg_empty (fst s) (snd s)"

lemma reached_rules:
  "reached (\<lambda>_. NewPostgresLeaderElector, pg_empty)" "reached s \<Longrightarrow> reached (pg_act i s)"
  "reached s \<Longrightarrow> reached (pg_report i s)" "reached s \<Longrightarrow> reached (pg_end c s)"
  unfolding reached_def pg_act_def pg_report_def pg_end_def Let_def
  by (auto intro: election.intros pg_kill_keeps)

lemmas pg_defs = pg_act_def pg_report_def pg_end_def pgDatabase_def elector_step_def elector_acquire_def revokeLeader_def
  trySend_def consume_update_def NewPostgresLeaderElector_def pg_empty_def pg_kill_def

theorem leaders_exclusive_witness:
  "let s = pg_act 1 (pg_end (0, 0) (pg_act 0 (\<lambda>_. NewPostgresLeaderElector, pg_empty)))
   in el_isLeader (fst s 0) \<and> el_isLeader (fst s 1) \<and> db_Ping pgDatabase (1, 1) (snd s) = (None, snd s) \<and>
     db_Ping pgDatabase (0, 0) (snd s) \<noteq> (None, snd s) \<and> \<not> el_isLeader (fst (elector_step pgDatabase 0 (fst s 0, snd s)))"
proof -
  let ?s = "pg_act 1 (pg_end (0, 0) (pg_act 0 (\<lambda>_. NewPostgresLeaderElector, pg_empty)))"
  have "reached ?s" by (intro reached_rules)
  then have e: "election pgDatabase pg_lock pg_alive pg_empty (fst ?s) (snd ?s)" by (simp add: reached_def)
  have l: "el_isLeader (fst ?s 0)" "el_conn (fst ?s 0) = Some (0, 0)" "el_isLeader (fst ?s 1)" "el_conn (fst ?s 1) = Some (1, 1)"
    by (simp_all add: pg_defs Let_def)
  have p: "db_Ping pgDatabase (1, 1) (snd ?s) = (None, snd ?s)" "fst (db_Ping pgDatabase (0, 0) (snd ?s)) \<noteq> None"
    by (simp_all add: pg_defs Let_def)
  from leaders_exclusive [OF pg.advisory_lock_axioms e l] p have
    "db_Ping pgDatabase (0, 0) (snd ?s) \<noteq> (None, snd ?s)" "\<not> el_isLeader (fst (elector_step pgDatabase 0 (fst ?s 0, snd ?s)))"
    by auto
  with l p(1) show ?thesis unfolding Let_def by blast
qed

text \<open>
  C31: A demotion can get lost, and then two evaluators run for good. The report of a lost
  leadership is dropped when the report of the election has not been read yet. There is a
  run of two replicas after which every report has been read, only the second replica is
  leader, and the evaluators of both are running.
\<close>

theorem demotion_can_get_lost:
  "\<exists>R d. election pgDatabase pg_lock pg_alive pg_empty R d \<and> el_updates (R 0) = [] \<and> el_updates (R 1) = [] \<and>
     \<not> el_isLeader (R 0) \<and> ev_running (R 0) \<and> el_isLeader (R 1) \<and> ev_running (R 1)"
proof -
  let ?s = "pg_report 1 (pg_report 0 (pg_act 1 (pg_act 0 (pg_end (0, 0) (pg_act 0 (\<lambda>_. NewPostgresLeaderElector, pg_empty))))))"
  have "reached ?s" by (intro reached_rules)
  moreover have "el_updates (fst ?s 0) = []" "el_updates (fst ?s 1) = []" "\<not> el_isLeader (fst ?s 0)"
    "ev_running (fst ?s 0)" "el_isLeader (fst ?s 1)" "ev_running (fst ?s 1)"
    by (simp_all add: pg_defs Let_def)
  ultimately show ?thesis unfolding reached_def by blast
qed

end
