(* ===== verification/GatewayConfig.thy ===== *)
theory GatewayConfig
  imports Config
begin

text \<open>
  The configuration of the gateway, \<open>persys-gateway/config/config.go\<close>: the structures that the
  YAML file fills, the defaults, the cluster overlay, the environment overrides and the
  validation, in the order in which \<open>LoadConfig\<close> applies them. The YAML decoder, the environment
  and the file system are parameters.
\<close>

section \<open>The structures\<close>

record app_config =
  gapp_HTTPAddr :: string
  gapp_HTTPAddrPublic :: string
  gapp_GRPCAddr :: string
  gapp_Storage :: string
  gapp_Metadata :: "string gomap"
  gapp_OAuthRedirectURL :: string

record database_config =
  gdb_MongoURI :: string
  gdb_Collections :: "string list"
  gdb_Name :: string

record tls_config =
  gtls_Enabled :: bool
  gtls_CertPath :: string
  gtls_KeyPath :: string
  gtls_CAPath :: string
  gtls_RequireClientCert :: bool

record vault_config =
  gvault_Enabled :: bool
  gvault_Addr :: string
  gvault_AuthMethod :: string
  gvault_Token :: string
  gvault_AppRoleID :: string
  gvault_AppSecretID :: string
  gvault_PKIMount :: string
  gvault_PKIRole :: string
  gvault_CertTTL :: string
  gvault_RetryInterval :: string
  gvault_ServiceName :: string
  gvault_ServiceDomain :: string
  gvault_BindHost :: string

record prow_config =
  gprow_SchedulerAddr :: string
  gprow_EnableProxy :: bool
  gprow_DiscoveryDomain :: string
  gprow_DiscoverySvc :: string

record scheduler_instance_config =
  sic_ID :: string
  sic_Address :: string
  sic_IsLeader :: bool

record cluster_config =
  clc_ID :: string
  clc_Name :: string
  clc_RoutingStrategy :: string
  clc_Schedulers :: "scheduler_instance_config list"

record scheduler_config =
  gsch_DefaultClusterID :: string
  gsch_HealthPath :: string
  gsch_HealthCheckInterval :: string
  gsch_DiscoveryInterval :: string
  gsch_RequestTimeout :: string
  gsch_Clusters :: "cluster_config list"
  gsch_RepositoryClusterMap :: "string gomap"

record github_config =
  ggh_WebHookURL :: string
  ggh_DefaultSecret :: string
  ggh_ClientID :: string
  ggh_ClientSecret :: string

record webhook_config =
  ghook_PublicPath :: string
  ghook_ReplayTTL :: string
  ghook_RepositorySecrets :: "string gomap"
  ghook_ForwardRetries :: int
  ghook_ForwardBaseBackoff :: string

record forgery_config =
  gfor_GRPCAddr :: string
  gfor_GRPCServerName :: string
  gfor_WebhookForwardURL :: string

record gateway_config =
  gc_ServiceName :: string
  gc_App :: app_config
  gc_Database :: database_config
  gc_TLS :: tls_config
  gc_Vault :: vault_config
  gc_CoreDNSAddr :: string
  gc_Prow :: prow_config
  gc_Scheduler :: scheduler_config
  gc_GitHub :: github_config
  gc_Webhook :: webhook_config
  gc_Forgery :: forgery_config
  gc_LokiEndpoint :: string
  gc_LogLevel :: string
  gc_OTLPEndpoint :: string

text \<open>The zero value that decoding an empty file leaves.\<close>

definition zeroConfig :: gateway_config where
  "zeroConfig =
     \<lparr> gc_ServiceName = [],
       gc_App = \<lparr> gapp_HTTPAddr = [], gapp_HTTPAddrPublic = [], gapp_GRPCAddr = [], gapp_Storage = [],
         gapp_Metadata = [], gapp_OAuthRedirectURL = [] \<rparr>,
       gc_Database = \<lparr> gdb_MongoURI = [], gdb_Collections = [], gdb_Name = [] \<rparr>,
       gc_TLS = \<lparr> gtls_Enabled = False, gtls_CertPath = [], gtls_KeyPath = [], gtls_CAPath = [],
         gtls_RequireClientCert = False \<rparr>,
       gc_Vault = \<lparr> gvault_Enabled = False, gvault_Addr = [], gvault_AuthMethod = [], gvault_Token = [],
         gvault_AppRoleID = [], gvault_AppSecretID = [], gvault_PKIMount = [], gvault_PKIRole = [],
         gvault_CertTTL = [], gvault_RetryInterval = [], gvault_ServiceName = [], gvault_ServiceDomain = [],
         gvault_BindHost = [] \<rparr>,
       gc_CoreDNSAddr = [],
       gc_Prow = \<lparr> gprow_SchedulerAddr = [], gprow_EnableProxy = False, gprow_DiscoveryDomain = [],
         gprow_DiscoverySvc = [] \<rparr>,
       gc_Scheduler = \<lparr> gsch_DefaultClusterID = [], gsch_HealthPath = [], gsch_HealthCheckInterval = [],
         gsch_DiscoveryInterval = [], gsch_RequestTimeout = [], gsch_Clusters = [], gsch_RepositoryClusterMap = [] \<rparr>,
       gc_GitHub = \<lparr> ggh_WebHookURL = [], ggh_DefaultSecret = [], ggh_ClientID = [], ggh_ClientSecret = [] \<rparr>,
       gc_Webhook = \<lparr> ghook_PublicPath = [], ghook_ReplayTTL = [], ghook_RepositorySecrets = [],
         ghook_ForwardRetries = 0, ghook_ForwardBaseBackoff = [] \<rparr>,
       gc_Forgery = \<lparr> gfor_GRPCAddr = [], gfor_GRPCServerName = [], gfor_WebhookForwardURL = [] \<rparr>,
       gc_LokiEndpoint = [], gc_LogLevel = [], gc_OTLPEndpoint = [] \<rparr>"

section \<open>Defaults\<close>

definition blank :: "string \<Rightarrow> bool" where
  "blank v = (TrimSpace v = [])"

definition orDefault :: "string \<Rightarrow> string \<Rightarrow> string" where
  "orDefault d v = (if blank v then d else v)"

definition gatewayDefaults :: "gateway_config \<Rightarrow> gateway_config" where
  "gatewayDefaults c0 =
     (let c = gc_ServiceName_update (orDefault ''persys-gateway'') c0
      in c
        \<lparr> gc_App := (gc_App c)
            \<lparr> gapp_HTTPAddr := orDefault '':8551'' (gapp_HTTPAddr (gc_App c)),
              gapp_HTTPAddrPublic := orDefault '':8585'' (gapp_HTTPAddrPublic (gc_App c)),
              gapp_OAuthRedirectURL := orDefault ''http://localhost:8585/auth'' (gapp_OAuthRedirectURL (gc_App c)) \<rparr>,
          gc_Vault := (gc_Vault c)
            \<lparr> gvault_AuthMethod := orDefault ''approle'' (gvault_AuthMethod (gc_Vault c)),
              gvault_CertTTL := orDefault ''24h'' (gvault_CertTTL (gc_Vault c)),
              gvault_RetryInterval := orDefault ''30s'' (gvault_RetryInterval (gc_Vault c)),
              gvault_ServiceName := orDefault (gc_ServiceName c) (gvault_ServiceName (gc_Vault c)) \<rparr>,
          gc_Scheduler := (gc_Scheduler c)
            \<lparr> gsch_HealthPath := orDefault ''/health'' (gsch_HealthPath (gc_Scheduler c)),
              gsch_HealthCheckInterval := orDefault ''15s'' (gsch_HealthCheckInterval (gc_Scheduler c)),
              gsch_DiscoveryInterval := orDefault ''30s'' (gsch_DiscoveryInterval (gc_Scheduler c)),
              gsch_RequestTimeout := orDefault ''10s'' (gsch_RequestTimeout (gc_Scheduler c)) \<rparr>,
          gc_Webhook := (gc_Webhook c)
            \<lparr> ghook_PublicPath := orDefault ''/webhooks/github'' (ghook_PublicPath (gc_Webhook c)),
              ghook_ReplayTTL := orDefault ''5m'' (ghook_ReplayTTL (gc_Webhook c)),
              ghook_ForwardRetries :=
                (if ghook_ForwardRetries (gc_Webhook c) \<le> 0 then 5 else ghook_ForwardRetries (gc_Webhook c)),
              ghook_ForwardBaseBackoff := orDefault ''1s'' (ghook_ForwardBaseBackoff (gc_Webhook c)) \<rparr>,
          gc_Forgery := (gc_Forgery c)
            \<lparr> gfor_GRPCAddr := orDefault ''persys-forgery:8087'' (gfor_GRPCAddr (gc_Forgery c)),
              gfor_GRPCServerName := orDefault ''persys-forgery.persys.local'' (gfor_GRPCServerName (gc_Forgery c)),
              gfor_WebhookForwardURL :=
                orDefault ''https://persys-forgery:8080/internal/webhooks/github'' (gfor_WebhookForwardURL (gc_Forgery c)) \<rparr> \<rparr>)"

section \<open>The host the gateway runs on\<close>

datatype file_read = FileText string | FileMissing goerr | FileError goerr

record host =
  getenv :: "string \<Rightarrow> string"
  readFile :: "string \<Rightarrow> file_read"
  parseConfig :: "string \<Rightarrow> gateway_config result"
  parseOverlay :: "string \<Rightarrow> scheduler_config result"

definition envOrFile :: "host \<Rightarrow> string \<Rightarrow> string \<Rightarrow> string" where
  "envOrFile H key fallback =
     (let v = TrimSpace (getenv H key); file = TrimSpace (getenv H (key @ ''_FILE''))
      in if v \<noteq> [] then v
         else if file \<noteq> [] then
           (case readFile H file of
              FileText b \<Rightarrow> (if TrimSpace b \<noteq> [] then TrimSpace b else fallback)
            | _ \<Rightarrow> fallback)
         else fallback)"

definition gatewayEnvOverrides :: "host \<Rightarrow> gateway_config \<Rightarrow> gateway_config" where
  "gatewayEnvOverrides H c =
     (let db = gc_Database c; tls = gc_TLS c; va = gc_Vault c; gh = gc_GitHub c; fo = gc_Forgery c;
          name = envOrFile H ''PERSYS_GATEWAY_DB_NAME'' [];
          otlp1 = envOrFile H ''PERSYS_GATEWAY_OTLP_ENDPOINT'' (gc_OTLPEndpoint c);
          otlp2 = (if otlp1 = [] then envOrFile H ''OTEL_EXPORTER_OTLP_ENDPOINT'' otlp1 else otlp1);
          otlp3 = (if otlp2 = [] then envOrFile H ''OTEL_EXPORTER_JAEGER_ENDPOINT'' otlp2 else otlp2)
      in c
        \<lparr> gc_Database := db
            \<lparr> gdb_MongoURI := envOrFile H ''PERSYS_GATEWAY_MONGO_URI'' (gdb_MongoURI db),
              gdb_Name := (if name \<noteq> [] then name else gdb_Name db) \<rparr>,
          gc_TLS := tls
            \<lparr> gtls_CertPath := envOrFile H ''PERSYS_GATEWAY_TLS_CERT_PATH'' (gtls_CertPath tls),
              gtls_KeyPath := envOrFile H ''PERSYS_GATEWAY_TLS_KEY_PATH'' (gtls_KeyPath tls),
              gtls_CAPath := envOrFile H ''PERSYS_GATEWAY_TLS_CA_PATH'' (gtls_CAPath tls) \<rparr>,
          gc_Vault := va
            \<lparr> gvault_Addr := envOrFile H ''PERSYS_GATEWAY_VAULT_ADDR'' (gvault_Addr va),
              gvault_AuthMethod := envOrFile H ''PERSYS_GATEWAY_VAULT_AUTH_METHOD'' (gvault_AuthMethod va),
              gvault_Token := envOrFile H ''PERSYS_GATEWAY_VAULT_TOKEN'' (gvault_Token va),
              gvault_AppRoleID := envOrFile H ''PERSYS_GATEWAY_VAULT_ROLE_ID'' (gvault_AppRoleID va),
              gvault_AppSecretID := envOrFile H ''PERSYS_GATEWAY_VAULT_SECRET_ID'' (gvault_AppSecretID va) \<rparr>,
          gc_GitHub := gh
            \<lparr> ggh_DefaultSecret := envOrFile H ''PERSYS_GATEWAY_GITHUB_WEBHOOK_SECRET'' (ggh_DefaultSecret gh),
              ggh_ClientID := envOrFile H ''PERSYS_GATEWAY_GITHUB_CLIENT_ID'' (ggh_ClientID gh),
              ggh_ClientSecret := envOrFile H ''PERSYS_GATEWAY_GITHUB_CLIENT_SECRET'' (ggh_ClientSecret gh) \<rparr>,
          gc_Forgery := fo
            \<lparr> gfor_GRPCAddr := envOrFile H ''PERSYS_GATEWAY_FORGERY_GRPC_ADDR'' (gfor_GRPCAddr fo),
              gfor_GRPCServerName := envOrFile H ''PERSYS_GATEWAY_FORGERY_GRPC_SERVER_NAME'' (gfor_GRPCServerName fo) \<rparr>,
          gc_OTLPEndpoint := otlp3 \<rparr>)"

section \<open>The cluster overlay and the validation\<close>

definition overlayClusters :: "scheduler_config \<Rightarrow> gateway_config \<Rightarrow> gateway_config" where
  "overlayClusters ov c =
     (let sc = gc_Scheduler c
      in c\<lparr>gc_Scheduler := sc
            \<lparr> gsch_DefaultClusterID := orDefault (gsch_DefaultClusterID sc) (gsch_DefaultClusterID ov),
              gsch_Clusters := (if gsch_Clusters ov \<noteq> [] then gsch_Clusters ov else gsch_Clusters sc),
              gsch_RepositoryClusterMap :=
                (if gsch_RepositoryClusterMap ov \<noteq> [] then gsch_RepositoryClusterMap ov
                 else gsch_RepositoryClusterMap sc) \<rparr>\<rparr>)"

definition loadClusterConfig :: "host \<Rightarrow> gateway_config \<Rightarrow> gateway_config result" where
  "loadClusterConfig H c =
     (let p = TrimSpace (getenv H ''PERSYS_GATEWAY_CLUSTER_CONFIG''); path = (if p = [] then ''cluster.yaml'' else p)
      in case readFile H path of
           FileMissing e \<Rightarrow> Inr c
         | FileError e \<Rightarrow> Inl (wrapw (''read cluster config '' @ fmt_q path @ '': '') e)
         | FileText d \<Rightarrow>
             (case parseOverlay H d of
                Inl e \<Rightarrow> Inl (wrapw (''parse cluster config '' @ fmt_q path @ '': '') e)
              | Inr ov \<Rightarrow> Inr (overlayClusters ov c)))"

definition gatewayValidate :: "gateway_config \<Rightarrow> goerr option" where
  "gatewayValidate c =
     (if blank (gdb_MongoURI (gc_Database c)) then Some (errorf ''database.mongo_uri is required'')
      else if blank (gdb_Name (gc_Database c)) then Some (errorf ''database.name is required'')
      else if blank (gtls_CertPath (gc_TLS c)) \<or> blank (gtls_KeyPath (gc_TLS c)) \<or> blank (gtls_CAPath (gc_TLS c))
      then Some (errorf ''tls.cert_path, tls.key_path and tls.ca_path are required'')
      else None)"

definition LoadGatewayConfig :: "host \<Rightarrow> gateway_config result" where
  "LoadGatewayConfig H =
     (let p = TrimSpace (getenv H ''PERSYS_GATEWAY_CONFIG''); path = (if p = [] then ''config.yaml'' else p)
      in case readFile H path of
           FileMissing e \<Rightarrow> Inl (wrapw (''read config '' @ fmt_q path @ '': '') e)
         | FileError e \<Rightarrow> Inl (wrapw (''read config '' @ fmt_q path @ '': '') e)
         | FileText d \<Rightarrow>
             (case parseConfig H d of
                Inl e \<Rightarrow> Inl (wrapw (''parse config '' @ fmt_q path @ '': '') e)
              | Inr c0 \<Rightarrow>
                  (case loadClusterConfig H c0 of
                     Inl e \<Rightarrow> Inl e
                   | Inr c1 \<Rightarrow>
                       (let c = gatewayEnvOverrides H (gatewayDefaults c1)
                        in case gatewayValidate c of Some e \<Rightarrow> Inl e | None \<Rightarrow> Inr c))))"

section \<open>What a loaded configuration has\<close>

lemma orDefault_not_blank: "\<not> blank d \<Longrightarrow> \<not> blank (orDefault d v)"
  by (simp add: orDefault_def)

lemma TrimSpace_not_blank: "TrimSpace v \<noteq> [] \<Longrightarrow> \<not> blank (TrimSpace v)"
  by (simp add: blank_def)

lemma envOrFile_not_blank: "\<not> blank fallback \<Longrightarrow> \<not> blank (envOrFile H key fallback)"
  by (auto simp: envOrFile_def Let_def TrimSpace_not_blank split: file_read.splits)

lemma LoadGatewayConfig_ok:
  assumes "LoadGatewayConfig H = Inr c"
  shows "\<not> blank (gdb_MongoURI (gc_Database c))" "\<not> blank (gdb_Name (gc_Database c))"
    "\<not> blank (gtls_CertPath (gc_TLS c))" "\<not> blank (gtls_KeyPath (gc_TLS c))" "\<not> blank (gtls_CAPath (gc_TLS c))"
    "0 < ghook_ForwardRetries (gc_Webhook c)" "\<not> blank (gfor_GRPCAddr (gc_Forgery c))"
proof -
  from assms obtain c1 where c: "c = gatewayEnvOverrides H (gatewayDefaults c1)" "gatewayValidate c = None"
    by (auto simp: LoadGatewayConfig_def Let_def split: file_read.splits sum.splits option.splits)
  from c(2) show "\<not> blank (gdb_MongoURI (gc_Database c))" "\<not> blank (gdb_Name (gc_Database c))"
    "\<not> blank (gtls_CertPath (gc_TLS c))" "\<not> blank (gtls_KeyPath (gc_TLS c))" "\<not> blank (gtls_CAPath (gc_TLS c))"
    by (simp_all add: gatewayValidate_def split: if_splits)
  from c(1) show "0 < ghook_ForwardRetries (gc_Webhook c)"
    by (simp add: gatewayEnvOverrides_def gatewayDefaults_def Let_def)
  have "\<not> blank ''persys-forgery:8087''" by code_simp
  with c(1) show "\<not> blank (gfor_GRPCAddr (gc_Forgery c))"
    by (simp add: gatewayEnvOverrides_def gatewayDefaults_def Let_def envOrFile_not_blank orDefault_not_blank)
qed

end
