(* ===== verification/Digest.thy ===== *)
theory Digest
  imports Json "HOL-Library.Word"
begin

text \<open>
  The hash functions of the standard library that the gateway uses: \<open>hash/fnv\<close> for routing
  keys, \<open>crypto/sha256\<close> and \<open>crypto/hmac\<close> for webhook signatures, and \<open>encoding/hex\<close> in which
  signatures are written. Text is a list of bytes.
\<close>

unbundle bit_operations_syntax

type_synonym u32 = "32 word"

definition byte32 :: "char \<Rightarrow> u32" where
  "byte32 c = word_of_nat (of_char c)"

section \<open>FNV-1a\<close>

definition fnv32a :: "string \<Rightarrow> u32" where
  "fnv32a key = fold (\<lambda>c h. (h XOR byte32 c) * 16777619) key 2166136261"

section \<open>SHA-256\<close>

text \<open>
  The constants of the algorithm are the first 32 bits of the fractional parts of roots: the cube
  roots of the primes below 312 for the rounds, the square roots of the primes below 20 for the
  initial state. \<open>root_bits\<close> finds an integer root bit by bit; reading it as a 32-bit word drops
  the integral part.
\<close>

fun root_bits :: "nat \<Rightarrow> nat \<Rightarrow> nat \<Rightarrow> nat \<Rightarrow> nat" where
  "root_bits k n 0 r = r"
| "root_bits k n (Suc b) r = root_bits k n b (if (r + 2 ^ b) ^ k \<le> n then r + 2 ^ b else r)"

definition root_fraction :: "nat \<Rightarrow> nat \<Rightarrow> u32" where
  "root_fraction k p = word_of_nat (root_bits k (p * 2 ^ (32 * k)) 36 0)"

definition primes_below :: "nat \<Rightarrow> nat list" where
  "primes_below n = filter (\<lambda>p. list_all (\<lambda>d. p mod d \<noteq> 0) [2..<p]) [2..<n]"

definition sha_K :: "u32 list" where
  "sha_K = map (root_fraction 3) (primes_below 312)"

definition sha_H :: "u32 list" where
  "sha_H = map (root_fraction 2) (primes_below 20)"

definition rotr :: "nat \<Rightarrow> u32 \<Rightarrow> u32" where
  "rotr n x = drop_bit n x OR push_bit (32 - n) x"

definition be_word :: "string \<Rightarrow> u32" where
  "be_word cs = fold (\<lambda>c w. push_bit 8 w OR byte32 c) cs 0"

definition be_bytes :: "nat \<Rightarrow> nat \<Rightarrow> string" where
  "be_bytes n v = map (\<lambda>i. char_of (v div 256 ^ (n - Suc i) mod 256)) [0..<n]"

fun chunks :: "nat \<Rightarrow> nat \<Rightarrow> 'a list \<Rightarrow> 'a list list" where
  "chunks 0 n xs = []"
| "chunks (Suc k) n xs = take n xs # chunks k n (drop n xs)"

text \<open>The message with a one bit, zeros up to a multiple of 64 bytes, and its length in bits.\<close>

definition sha_pad :: "string \<Rightarrow> string" where
  "sha_pad m = m @ [CHR 0x80] @ replicate ((119 - length m mod 64) mod 64) CHR 0x00 @ be_bytes 8 (8 * length m)"

text \<open>The message schedule, newest word first.\<close>

definition sha_extend :: "u32 list \<Rightarrow> u32 list" where
  "sha_extend ws =
     (let w15 = ws ! 14; w2 = ws ! 1;
          s0 = rotr 7 w15 XOR rotr 18 w15 XOR drop_bit 3 w15;
          s1 = rotr 17 w2 XOR rotr 19 w2 XOR drop_bit 10 w2
      in (ws ! 15 + s0 + ws ! 6 + s1) # ws)"

definition sha_schedule :: "string \<Rightarrow> u32 list" where
  "sha_schedule block = rev ((sha_extend ^^ 48) (rev (map be_word (chunks 16 4 block))))"

fun sha_round :: "u32 \<times> u32 \<Rightarrow> u32 list \<Rightarrow> u32 list" where
  "sha_round (k, w) [a, b, c, d, e, f, g, h] =
     (let s1 = rotr 6 e XOR rotr 11 e XOR rotr 25 e;
          ch = (e AND f) XOR (NOT e AND g);
          t1 = h + s1 + ch + k + w;
          s0 = rotr 2 a XOR rotr 13 a XOR rotr 22 a;
          maj = (a AND b) XOR (a AND c) XOR (b AND c)
      in [t1 + s0 + maj, a, b, c, d + t1, e, f, g])"
| "sha_round _ hs = hs"

definition sha_block :: "string \<Rightarrow> u32 list \<Rightarrow> u32 list" where
  "sha_block block hs = map2 (+) hs (fold sha_round (zip sha_K (sha_schedule block)) hs)"

definition sha256 :: "string \<Rightarrow> string" where
  "sha256 m =
     (let p = sha_pad m; hs = fold sha_block (chunks (length p div 64) 64 p) sha_H
      in concat (map (\<lambda>h. be_bytes 4 (unat h)) hs))"

section \<open>HMAC\<close>

definition xor_pad :: "nat \<Rightarrow> string \<Rightarrow> string" where
  "xor_pad b key = map (\<lambda>c. char_of (of_char c XOR b)) key"

definition hmac_sha256 :: "string \<Rightarrow> string \<Rightarrow> string" where
  "hmac_sha256 secret m =
     (let k0 = (if length secret > 64 then sha256 secret else secret);
          k = k0 @ replicate (64 - length k0) CHR 0x00
      in sha256 (xor_pad 92 k @ sha256 (xor_pad 54 k @ m)))"

section \<open>Hexadecimal\<close>

definition hex_digit :: "nat \<Rightarrow> char" where
  "hex_digit n = ''0123456789abcdef'' ! (n mod 16)"

definition EncodeToString :: "string \<Rightarrow> string" where
  "EncodeToString s = concat (map (\<lambda>c. [hex_digit (of_char c div 16), hex_digit (of_char c)]) s)"

fun DecodeString :: "string \<Rightarrow> string option" where
  "DecodeString [] = Some []"
| "DecodeString [c] = None"
| "DecodeString (c # d # s) =
     (case (hex_val c, hex_val d, DecodeString s) of
        (Some x, Some y, Some r) \<Rightarrow> Some (char_of (16 * x + y) # r)
      | _ \<Rightarrow> None)"

lemma sha_round_length [simp]: "length (sha_round kw hs) = length hs"
  by (cases "(kw, hs)" rule: sha_round.cases) (simp_all add: Let_def)

lemma sha_rounds_length [simp]: "length (fold sha_round kws hs) = length hs"
  by (induction kws arbitrary: hs) simp_all

lemma sha_blocks_length: "length (fold sha_block bs hs) = length hs"
  by (induction bs arbitrary: hs) (simp_all add: sha_block_def)

lemma sha_H_length: "length sha_H = 8"
proof -
  have "primes_below 20 = [2, 3, 5, 7, 11, 13, 17, 19]" by code_simp
  then show ?thesis by (simp add: sha_H_def)
qed

lemma sha256_length [simp]: "length (sha256 m) = 32"
proof -
  have "length (concat (map (\<lambda>h. be_bytes 4 (unat h)) hs)) = 4 * length hs" for hs :: "u32 list"
    by (induction hs) (simp_all add: be_bytes_def)
  then show ?thesis by (simp add: sha256_def Let_def sha_blocks_length sha_H_length)
qed

lemma hmac_length [simp]: "length (hmac_sha256 k m) = 32"
  by (simp add: hmac_sha256_def Let_def)

lemma hex_val_digit: "hex_val (hex_digit n) = Some (n mod 16)"
proof -
  have "\<forall>k \<in> set [0..<16]. hex_val (''0123456789abcdef'' ! k) = Some k" by code_simp
  moreover have "n mod 16 \<in> set [0..<16]" by simp
  ultimately show ?thesis unfolding hex_digit_def by blast
qed

lemma nibbles: "char_of (16 * (of_char c div 16 mod 16) + of_char c mod 16 :: nat) = c"
proof -
  have "(of_char c :: nat) div 16 < 16" by (rule less_mult_imp_div_less) simp
  then have "of_char c div 16 mod 16 = (of_char c :: nat) div 16" by (rule mod_less)
  then show ?thesis by (simp only: mult_div_mod_eq char_of_char)
qed

lemma decode_encode [simp]: "DecodeString (EncodeToString s) = Some s"
proof (induction s)
  case Nil
  then show ?case by (simp add: EncodeToString_def)
next
  case (Cons c s)
  have "EncodeToString (c # s) = hex_digit (of_char c div 16) # hex_digit (of_char c) # EncodeToString s"
    by (simp add: EncodeToString_def)
  then show ?case using Cons
    by (simp only: DecodeString.simps hex_val_digit nibbles prod.case option.case)
qed

lemma hex_digit_not_space [simp]: "\<not> isSpace (hex_digit n)"
proof -
  have "\<forall>k \<in> set [0..<16]. \<not> isSpace (''0123456789abcdef'' ! k)" by code_simp
  moreover have "n mod 16 \<in> set [0..<16]" by simp
  ultimately show ?thesis unfolding hex_digit_def by blast
qed

lemma encoded_not_space: "c \<in> set (EncodeToString s) \<Longrightarrow> \<not> isSpace c"
  by (auto simp: EncodeToString_def)

end
