(* ===== verification/GatewayPool.thy ===== *)
theory GatewayPool
  imports GatewayConfig Digest "HOL-Library.Char_ord" "HOL-Library.List_Lexorder"
begin

text \<open>
  The gateway's pool of schedulers, \<open>persys-gateway/services/scheduler_pool.go\<close>, and the calls
  that go through it, \<open>scheduler_grpc.service.go\<close>. The state is the map of clusters together with
  the world outside the gateway: the DNS resolver, the schedulers behind gRPC and the clock.
  Strings are compared bytewise, as Go compares them. Every operation holds the pool's mutex, so
  an operation is one step; the gateway's concurrency is the order of the steps.
\<close>

section \<open>Data\<close>

record scheduler_instance =
  inst_ID :: string
  inst_Address :: string
  inst_IsLeader :: bool
  inst_Healthy :: bool
  inst_LastSeen :: time

record cluster =
  clu_ID :: string
  clu_Name :: string
  clu_Schedulers :: "scheduler_instance list"
  clu_RoutingStrategy :: string

definition newInstance :: "string \<Rightarrow> string \<Rightarrow> bool \<Rightarrow> scheduler_instance" where
  "newInstance i a l =
     \<lparr> inst_ID = i, inst_Address = a, inst_IsLeader = l, inst_Healthy = False, inst_LastSeen = 0 \<rparr>"

datatype pool_error = UnknownCluster string | NoHealthySchedulers | UnsupportedStrategy string

fun pool_error_msg :: "pool_error \<Rightarrow> string" where
  "pool_error_msg (UnknownCluster c) = ''unknown cluster: '' @ c"
| "pool_error_msg NoHealthySchedulers = ''no healthy schedulers''"
| "pool_error_msg (UnsupportedStrategy s) = ''unsupported routing strategy '' @ fmt_q s"

text \<open>
  The outside: \<open>net.Resolver\<close>, the dial of a scheduler with TLS, the clock, and the reading of
  a numeric IP address, which gives its canonical text.
\<close>

record 'w gateway_env =
  lookupSRV :: "string \<Rightarrow> string \<Rightarrow> string \<Rightarrow> 'w \<Rightarrow> (string \<times> nat) list result \<times> 'w"
  lookupHost :: "string \<Rightarrow> 'w \<Rightarrow> string list result \<times> 'w"
  schedulerDial :: "string \<Rightarrow> 'w \<Rightarrow> goerr option \<times> 'w"
  gatewayNow :: "'w \<Rightarrow> time \<times> 'w"
  parseIP :: "string \<Rightarrow> string option"

record 'w gateway =
  gw_clusters :: "cluster gomap"
  gw_world :: 'w

type_synonym ('w, 'a) gop = "('w gateway, 'a) state"

definition ask :: "('w \<Rightarrow> 'a \<times> 'w) \<Rightarrow> ('w, 'a) gop" where
  "ask f = State (\<lambda>s. case f (gw_world s) of (x, w) \<Rightarrow> (x, s\<lparr>gw_world := w\<rparr>))"

lemma run_ask [simp, run_simps]:
  "run_state (ask f) s = (fst (f (gw_world s)), s\<lparr>gw_world := snd (f (gw_world s))\<rparr>)"
  by (simp add: ask_def case_prod_beta)

section \<open>Addresses\<close>

text \<open>\<open>net.JoinHostPort\<close> and \<open>net.SplitHostPort\<close>; the latter's errors are all alike to its callers.\<close>

definition JoinHostPort :: "string \<Rightarrow> string \<Rightarrow> string" where
  "JoinHostPort host port =
     (if CHR '':'' \<in> set host then ''['' @ host @ '']:'' @ port else host @ '':'' @ port)"

definition lastColon :: "string \<Rightarrow> (string \<times> string) option" where
  "lastColon s =
     (if CHR '':'' \<in> set s
      then Some (rev (drop 1 (dropWhile (\<lambda>c. c \<noteq> CHR '':'') (rev s))), rev (takeWhile (\<lambda>c. c \<noteq> CHR '':'') (rev s)))
      else None)"

definition SplitHostPort :: "string \<Rightarrow> (string \<times> string) option" where
  "SplitHostPort s =
     (case lastColon s of
        None \<Rightarrow> None
      | Some (pre, port) \<Rightarrow>
          if CHR ''['' \<in> set port \<or> CHR '']'' \<in> set port then None
          else if take 1 s = ''['' then
            (let host = takeWhile (\<lambda>c. c \<noteq> CHR '']'') (drop 1 s)
             in if pre = ''['' @ host @ '']'' \<and> CHR ''['' \<notin> set host then Some (host, port) else None)
          else if CHR '':'' \<in> set pre \<or> CHR ''['' \<in> set pre \<or> CHR '']'' \<in> set pre then None
          else Some (pre, port))"

fun dedupe_loop :: "string list \<Rightarrow> string list \<Rightarrow> string list" where
  "dedupe_loop seen [] = []"
| "dedupe_loop seen (v # vs) =
     (let t = TrimSpace v
      in if t = [] \<or> t \<in> set seen then dedupe_loop seen vs else t # dedupe_loop (t # seen) vs)"

definition dedupe :: "string list \<Rightarrow> string list" where
  "dedupe vs = sort (dedupe_loop [] vs)"

definition discoveredID :: "string \<Rightarrow> string" where
  "discoveredID address = ''discovered-'' @ ReplaceChar CHR ''.'' CHR ''-'' (ReplaceChar CHR '':'' CHR ''-'' address)"

definition TrimSuffix :: "string \<Rightarrow> string \<Rightarrow> string" where
  "TrimSuffix s suf = (if HasSuffix s suf then take (length s - length suf) s else s)"

definition resolveSRVTarget :: "'w gateway_env \<Rightarrow> string \<Rightarrow> ('w, string list result) gop" where
  "resolveSRVTarget E target =
     (let host = TrimSuffix (TrimSpace target) ''.''
      in if host = [] then ret (Inl (errorf ''empty SRV target''))
         else do {
           r \<leftarrow> ask (lookupHost E host);
           (case r of
              Inr (ip # ips) \<Rightarrow> ret (Inr (ip # ips))
            | _ \<Rightarrow>
                if HasPrefix host ''_'' then ask (lookupHost E (TrimPrefix host ''_''))
                else ret (case r of Inl e \<Rightarrow> Inl e | Inr _ \<Rightarrow> Inr [])) })"

definition canonicalIPs :: "'w gateway_env \<Rightarrow> string \<Rightarrow> string list \<Rightarrow> string list" where
  "canonicalIPs E port ips = map (\<lambda>ip. JoinHostPort ip port) (List.map_filter (\<lambda>ip. parseIP E (TrimSpace ip)) ips)"

definition canonicalAddressKeys :: "'w gateway_env \<Rightarrow> string \<Rightarrow> ('w, string list) gop" where
  "canonicalAddressKeys E address =
     (case SplitHostPort (TrimSpace address) of
        None \<Rightarrow> ret []
      | Some (h, p) \<Rightarrow>
          let host = TrimSpace h; port = TrimSpace p; key = ToLower (JoinHostPort host port)
          in if host = [] \<or> port = [] then ret []
             else (case parseIP E host of
                     Some ip \<Rightarrow> ret (dedupe [key, JoinHostPort ip port])
                   | None \<Rightarrow> do {
                       r \<leftarrow> ask (lookupHost E host);
                       (case r of
                          Inl e \<Rightarrow> ret (dedupe [key])
                        | Inr ips \<Rightarrow> ret (dedupe (key # canonicalIPs E port ips))) }))"

section \<open>Building the pool\<close>

definition clusterOf :: "cluster_config \<Rightarrow> cluster" where
  "clusterOf cc =
     \<lparr> clu_ID = clc_ID cc, clu_Name = clc_Name cc,
       clu_Schedulers = map (\<lambda>sc. newInstance (sic_ID sc) (sic_Address sc) (sic_IsLeader sc)) (clc_Schedulers cc),
       clu_RoutingStrategy =
         (let strategy = TrimSpace (clc_RoutingStrategy cc) in if strategy = [] then ''leader-only'' else strategy) \<rparr>"

definition NewSchedulerPoolManager :: "gateway_config \<Rightarrow> cluster gomap result" where
  "NewSchedulerPoolManager cfg =
     (case ParseDuration (gsch_HealthCheckInterval (gc_Scheduler cfg)) of
        None \<Rightarrow> Inl (errorf ''invalid scheduler.health_check_interval'')
      | Some _ \<Rightarrow>
          (case ParseDuration (gsch_DiscoveryInterval (gc_Scheduler cfg)) of
             None \<Rightarrow> Inl (errorf ''invalid scheduler.discovery_interval'')
           | Some _ \<Rightarrow> Inr (fold (\<lambda>cc m. mput (clc_ID cc) (clusterOf cc) m) (gsch_Clusters (gc_Scheduler cfg)) [])))"

definition defaultClusterIDLocked :: "gateway_config \<Rightarrow> cluster gomap \<Rightarrow> string" where
  "defaultClusterIDLocked cfg cs =
     (let cfgDefault = TrimSpace (gsch_DefaultClusterID (gc_Scheduler cfg))
      in if cfgDefault \<noteq> [] \<and> mget cs cfgDefault \<noteq> None then cfgDefault
         else case sort (map fst cs) of [] \<Rightarrow> [] | i # _ \<Rightarrow> i)"

definition ResolveClusterForRepository :: "gateway_config \<Rightarrow> cluster gomap \<Rightarrow> string \<Rightarrow> string" where
  "ResolveClusterForRepository cfg cs repo =
     (let clusterID = TrimSpace (case mget (gsch_RepositoryClusterMap (gc_Scheduler cfg)) repo of Some c \<Rightarrow> c | None \<Rightarrow> [])
      in if clusterID \<noteq> [] then clusterID else defaultClusterIDLocked cfg cs)"

section \<open>Discovery\<close>

definition srvLookups :: "'w gateway_env \<Rightarrow> string \<Rightarrow> string \<Rightarrow> string \<Rightarrow> ('w, (string \<times> nat) list) gop" where
  "srvLookups E service serviceLabel domain = do {
     r1 \<leftarrow> ask (lookupSRV E serviceLabel ''tcp'' domain);
     (case r1 of
        Inr rs \<Rightarrow> ret rs
      | Inl _ \<Rightarrow> do {
          r2 \<leftarrow> ask (lookupSRV E [] []
                  (if Contains service ''._tcp.'' then service else ''_'' @ serviceLabel @ ''._tcp.'' @ domain));
          (case r2 of
             Inr rs \<Rightarrow> ret rs
           | Inl _ \<Rightarrow> do {
               r3 \<leftarrow> ask (lookupSRV E [] [] domain);
               ret (case r3 of Inr rs \<Rightarrow> rs | Inl _ \<Rightarrow> []) }) }) }"

definition srvAddress :: "'w gateway_env \<Rightarrow> string \<times> nat \<Rightarrow> string list \<Rightarrow> ('w, string list) gop" where
  "srvAddress E srv addrs =
     (if snd srv = 0 then ret addrs
      else do {
        r \<leftarrow> resolveSRVTarget E (fst srv);
        ret (case r of Inr (ip # _) \<Rightarrow> addrs @ [JoinHostPort ip (itoa (int (snd srv)))] | _ \<Rightarrow> addrs) })"

fun hostFallback :: "'w gateway_env \<Rightarrow> string list \<Rightarrow> ('w, string list) gop" where
  "hostFallback E [] = ret []"
| "hostFallback E (host # hosts) = do {
     r \<leftarrow> ask (lookupHost E host);
     (case r of
        Inr (ip # ips) \<Rightarrow> ret (map (\<lambda>i. JoinHostPort i ''8085'') (ip # ips))
      | _ \<Rightarrow> hostFallback E hosts) }"

definition discoverSchedulers :: "'w gateway_env \<Rightarrow> gateway_config \<Rightarrow> ('w, string list result) gop" where
  "discoverSchedulers E cfg =
     (let service = TrimSpace (gprow_DiscoverySvc (gc_Prow cfg));
          domain = TrimSpace (gprow_DiscoveryDomain (gc_Prow cfg));
          serviceLabel = TrimPrefix service ''_''
      in if service = [] \<or> domain = [] then ret (Inl (errorf ''discovery service/domain not configured''))
         else if serviceLabel = [] then ret (Inl (errorf (''invalid discovery service '' @ fmt_q service)))
         else do {
           srvRecords \<leftarrow> srvLookups E service serviceLabel domain;
           addrs \<leftarrow> fold_st (srvAddress E) srvRecords [];
           (if addrs \<noteq> [] then ret (Inr (dedupe addrs))
            else do {
              addrs' \<leftarrow> hostFallback E [serviceLabel @ ''.'' @ domain, ''persys-scheduler.'' @ domain, serviceLabel,
                                         ''persys-scheduler'', ''persys-scheduler.local''];
              ret (Inr (dedupe addrs')) }) })"

text \<open>
  The merge keeps the list of instances, the index of each address (the last one wins) and the
  index of each canonical key (the first one wins).
\<close>

type_synonym merge = "scheduler_instance list \<times> nat gomap \<times> nat gomap"

definition addKeys :: "string list \<Rightarrow> nat \<Rightarrow> nat gomap \<Rightarrow> nat gomap" where
  "addKeys keys i m = fold (\<lambda>k m. if mget m k = None then mput k i m else m) keys m"

fun indexExisting :: "'w gateway_env \<Rightarrow> nat \<Rightarrow> scheduler_instance list \<Rightarrow> nat gomap \<times> nat gomap \<Rightarrow>
    ('w, nat gomap \<times> nat gomap) gop" where
  "indexExisting E i [] maps = ret maps"
| "indexExisting E i (s # ss) (byAddr, byCanonical) = do {
     keys \<leftarrow> canonicalAddressKeys E (inst_Address s);
     indexExisting E (Suc i) ss (mput (inst_Address s) i byAddr, addKeys keys i byCanonical) }"

definition mergeAddress :: "'w gateway_env \<Rightarrow> string \<Rightarrow> merge \<Rightarrow> ('w, merge) gop" where
  "mergeAddress E addr = (\<lambda>(ss, byAddr, byCanonical).
     (case mget byAddr addr of
        Some idx \<Rightarrow>
          ret (if inst_ID (ss ! idx) = [] then ss[idx := (ss ! idx)\<lparr>inst_ID := discoveredID addr\<rparr>] else ss,
               byAddr, byCanonical)
      | None \<Rightarrow> do {
          keys \<leftarrow> canonicalAddressKeys E addr;
          (if \<exists>k \<in> set keys. mget byCanonical k \<noteq> None then ret (ss, byAddr, byCanonical)
           else do {
             keys' \<leftarrow> canonicalAddressKeys E addr;
             ret (ss @ [newInstance (discoveredID addr) addr False],
                  mput addr (length ss) byAddr, addKeys keys' (length ss) byCanonical) }) }))"

definition staticSet :: "gateway_config \<Rightarrow> string \<Rightarrow> string list" where
  "staticSet cfg clusterID =
     concat (map (\<lambda>c. map sic_Address (clc_Schedulers c))
       (filter (\<lambda>c. clc_ID c = clusterID) (gsch_Clusters (gc_Scheduler cfg))))"

definition keepInstance :: "string list \<Rightarrow> string list \<Rightarrow> scheduler_instance \<Rightarrow> bool" where
  "keepInstance static discovered s =
     (inst_Address s \<in> set static \<or>
      (HasPrefix (inst_ID s) ''discovered-'' \<longrightarrow> inst_Address s \<in> set discovered))"

definition mergeCluster :: "'w gateway_env \<Rightarrow> string list \<Rightarrow> string list \<Rightarrow> cluster \<Rightarrow> ('w, cluster) gop" where
  "mergeCluster E static discovered c = do {
     maps \<leftarrow> indexExisting E 0 (clu_Schedulers c) ([], []);
     m \<leftarrow> fold_st (mergeAddress E) discovered (clu_Schedulers c, maps);
     ret (c\<lparr>clu_Schedulers := filter (keepInstance static discovered) (fst m)\<rparr>) }"

definition mergeTarget :: "gateway_config \<Rightarrow> cluster gomap \<Rightarrow> string" where
  "mergeTarget cfg cs =
     (let c = defaultClusterIDLocked cfg cs in if c = [] then ''cluster-discovered'' else c)"

definition discoverAndMerge :: "'w gateway_env \<Rightarrow> gateway_config \<Rightarrow> ('w, unit) gop" where
  "discoverAndMerge E cfg = do {
     r \<leftarrow> discoverSchedulers E cfg;
     (case r of
        Inl _ \<Rightarrow> ret ()
      | Inr [] \<Rightarrow> ret ()
      | Inr discovered \<Rightarrow> do {
          cs \<leftarrow> gets gw_clusters;
          let i = mergeTarget cfg cs;
          c \<leftarrow> mergeCluster E (staticSet cfg i) discovered
                 (case mget cs i of
                    Some c \<Rightarrow> c
                  | None \<Rightarrow> \<lparr> clu_ID = i, clu_Name = ''Discovered Cluster'', clu_Schedulers = [],
                              clu_RoutingStrategy = ''leader-only'' \<rparr>);
          modify (\<lambda>s. s\<lparr>gw_clusters := mput i c (gw_clusters s)\<rparr>) }) }"

section \<open>Health\<close>

definition checkInstanceHealth :: "'w gateway_env \<Rightarrow> string \<Rightarrow> ('w, bool) gop" where
  "checkInstanceHealth E address = do { r \<leftarrow> ask (schedulerDial E address); ret (r = None) }"

fun refreshInstances :: "'w gateway_env \<Rightarrow> scheduler_instance list \<Rightarrow> ('w, scheduler_instance list) gop" where
  "refreshInstances E [] = ret []"
| "refreshInstances E (inst # insts) = do {
     up \<leftarrow> checkInstanceHealth E (inst_Address inst);
     inst' \<leftarrow> (if up then do { now \<leftarrow> ask (gatewayNow E); ret (inst\<lparr>inst_Healthy := True, inst_LastSeen := now\<rparr>) }
              else ret (inst\<lparr>inst_Healthy := False\<rparr>));
     insts' \<leftarrow> refreshInstances E insts;
     ret (inst' # insts') }"

fun refreshClusters :: "'w gateway_env \<Rightarrow> cluster gomap \<Rightarrow> ('w, cluster gomap) gop" where
  "refreshClusters E [] = ret []"
| "refreshClusters E ((i, c) # cs) = do {
     ss \<leftarrow> refreshInstances E (clu_Schedulers c);
     cs' \<leftarrow> refreshClusters E cs;
     ret ((i, c\<lparr>clu_Schedulers := ss\<rparr>) # cs') }"

definition refreshHealth :: "'w gateway_env \<Rightarrow> ('w, unit) gop" where
  "refreshHealth E = do {
     cs \<leftarrow> gets gw_clusters;
     cs' \<leftarrow> refreshClusters E cs;
     modify (\<lambda>s. s\<lparr>gw_clusters := cs'\<rparr>) }"

definition markInstance :: "string \<Rightarrow> scheduler_instance \<Rightarrow> scheduler_instance" where
  "markInstance address s = (if inst_Address s = address then s\<lparr>inst_Healthy := False\<rparr> else s)"

definition markUnhealthy :: "string \<Rightarrow> string \<Rightarrow> cluster gomap \<Rightarrow> cluster gomap" where
  "markUnhealthy clusterID address cs =
     (case mget cs clusterID of
        None \<Rightarrow> cs
      | Some c \<Rightarrow> mput clusterID (c\<lparr>clu_Schedulers := map (markInstance address) (clu_Schedulers c)\<rparr>) cs)"

definition MarkUnhealthy :: "string \<Rightarrow> string \<Rightarrow> ('w, unit) gop" where
  "MarkUnhealthy clusterID address = modify (\<lambda>s. s\<lparr>gw_clusters := markUnhealthy clusterID address (gw_clusters s)\<rparr>)"

text \<open>One turn of the manager's loop: \<open>Start\<close> runs discovery and the health check, then either ticker.\<close>

datatype tick = HealthTick | DiscoveryTick

fun poolTick :: "'w gateway_env \<Rightarrow> gateway_config \<Rightarrow> tick \<Rightarrow> ('w, unit) gop" where
  "poolTick E cfg HealthTick = refreshHealth E"
| "poolTick E cfg DiscoveryTick = discoverAndMerge E cfg"

definition startPool :: "'w gateway_env \<Rightarrow> gateway_config \<Rightarrow> ('w, unit) gop" where
  "startPool E cfg = do { _ \<leftarrow> discoverAndMerge E cfg; refreshHealth E }"

section \<open>Routing\<close>

definition indexByKey :: "string \<Rightarrow> nat \<Rightarrow> nat" where
  "indexByKey key n = (if n \<le> 1 then 0 else if TrimSpace key = [] then 0 else unat (fnv32a key) mod n)"

definition rotateByIndex :: "'a list \<Rightarrow> nat \<Rightarrow> 'a list" where
  "rotateByIndex xs idx = (if length xs \<le> 1 \<or> idx \<le> 0 then xs else drop idx xs @ take idx xs)"

definition leaderFirst :: "scheduler_instance list \<Rightarrow> scheduler_instance list" where
  "leaderFirst healthy =
     (case List.extract inst_IsLeader healthy of
        None \<Rightarrow> healthy
      | Some (pre, s, post) \<Rightarrow> s # pre @ post)"

definition healthyOf :: "cluster \<Rightarrow> scheduler_instance list" where
  "healthyOf c = sort_key inst_ID (filter inst_Healthy (clu_Schedulers c))"

definition OrderedSchedulers :: "gateway_config \<Rightarrow> cluster gomap \<Rightarrow> string \<Rightarrow> string \<Rightarrow> string \<Rightarrow>
    pool_error + scheduler_instance list" where
  "OrderedSchedulers cfg cs clusterID0 sessionKey workloadKey =
     (let clusterID = (if TrimSpace clusterID0 = [] then defaultClusterIDLocked cfg cs else clusterID0)
      in case mget cs clusterID of
           None \<Rightarrow> Inl (UnknownCluster clusterID)
         | Some c \<Rightarrow>
             (let healthy = healthyOf c
              in if healthy = [] then Inl NoHealthySchedulers
                 else if clu_RoutingStrategy c = ''leader-only'' then Inr (leaderFirst healthy)
                 else if clu_RoutingStrategy c = ''sticky'' then
                   Inr (rotateByIndex healthy (indexByKey sessionKey (length healthy)))
                 else if clu_RoutingStrategy c = ''shard'' then
                   Inr (rotateByIndex healthy (indexByKey workloadKey (length healthy)))
                 else Inl (UnsupportedStrategy (clu_RoutingStrategy c))))"

definition Snapshot :: "cluster gomap \<Rightarrow> cluster list" where
  "Snapshot cs = sort_key clu_ID (map snd cs)"

section \<open>Calls through the pool\<close>

datatype rpc_error = SelectFailed string pool_error | CallFailed goerr

fun rpc_error_msg :: "rpc_error \<Rightarrow> string" where
  "rpc_error_msg (SelectFailed c e) =
     ''select scheduler candidates for cluster '' @ fmt_q c @ '': '' @ pool_error_msg e"
| "rpc_error_msg (CallFailed e) = err_msg e"

fun IsSchedulerUnavailable :: "rpc_error option \<Rightarrow> bool" where
  "IsSchedulerUnavailable (Some (SelectFailed _ NoHealthySchedulers)) = True"
| "IsSchedulerUnavailable _ = False"

fun IsUnknownCluster :: "rpc_error option \<Rightarrow> bool" where
  "IsUnknownCluster (Some (SelectFailed _ (UnknownCluster _))) = True"
| "IsUnknownCluster _ = False"

text \<open>
  The candidates are dialled in order. A failed dial or a failed call marks the candidate
  unhealthy and the next one is tried.
\<close>

fun tryCandidates :: "'w gateway_env \<Rightarrow> string \<Rightarrow> (string \<Rightarrow> 'w \<Rightarrow> 'r result \<times> 'w) \<Rightarrow> goerr \<Rightarrow>
    scheduler_instance list \<Rightarrow> ('w, goerr + 'r) gop" where
  "tryCandidates E clusterID rpc lastErr [] = ret (Inl lastErr)"
| "tryCandidates E clusterID rpc lastErr (target # targets) = do {
     d \<leftarrow> ask (schedulerDial E (inst_Address target));
     (case d of
        Some dialErr \<Rightarrow> do {
          _ \<leftarrow> MarkUnhealthy clusterID (inst_Address target);
          tryCandidates E clusterID rpc dialErr targets }
      | None \<Rightarrow> do {
          r \<leftarrow> ask (rpc (inst_Address target));
          (case r of
             Inl rpcErr \<Rightarrow> do {
               _ \<leftarrow> MarkUnhealthy clusterID (inst_Address target);
               tryCandidates E clusterID rpc rpcErr targets }
           | Inr resp \<Rightarrow> ret (Inr resp)) }) }"

text \<open>
  A call is one step: the pool does not change between the choice of the candidates and the marking
  of those that fail, except by the call itself.
\<close>

definition invokeControlRPC :: "'w gateway_env \<Rightarrow> gateway_config \<Rightarrow> string \<Rightarrow> string \<Rightarrow> string \<Rightarrow>
    (string \<Rightarrow> 'w \<Rightarrow> 'r result \<times> 'w) \<Rightarrow> ('w, rpc_error + 'r) gop" where
  "invokeControlRPC E cfg clusterID0 sessionKey workloadKey rpc = do {
     cs \<leftarrow> gets gw_clusters;
     let clusterID = (if clusterID0 = [] then defaultClusterIDLocked cfg cs else clusterID0);
     (case OrderedSchedulers cfg cs clusterID sessionKey workloadKey of
        Inl e \<Rightarrow> ret (Inl (SelectFailed clusterID e))
      | Inr candidates \<Rightarrow> do {
          r \<leftarrow> tryCandidates E clusterID rpc (errorf ''no healthy schedulers'') candidates;
          ret (case r of Inl e \<Rightarrow> Inl (CallFailed e) | Inr resp \<Rightarrow> Inr resp) }) }"

definition GetSchedulerAddress :: "gateway_config \<Rightarrow> cluster gomap \<Rightarrow> string" where
  "GetSchedulerAddress cfg cs =
     (case OrderedSchedulers cfg cs (defaultClusterIDLocked cfg cs) [] [] of
        Inr (s # _) \<Rightarrow> inst_Address s
      | _ \<Rightarrow> gprow_SchedulerAddr (gc_Prow cfg))"

definition GetSchedulerAddresses :: "gateway_config \<Rightarrow> cluster gomap \<Rightarrow> string list" where
  "GetSchedulerAddresses cfg cs =
     concat (map (\<lambda>c. map inst_Address (clu_Schedulers c))
       (filter (\<lambda>c. clu_ID c = defaultClusterIDLocked cfg cs) (Snapshot cs)))"

end
