(* ===== verification/GatewaySpec.thy ===== *)
theory GatewaySpec
  imports GatewayPool ControlApi Demo "HOL-Library.Multiset"
begin

text \<open>
  What the gateway's scheduler pool promises: the order in which schedulers are tried, failover,
  the invariant of the pool under discovery and health checks, and what a rejected request does
  to the pool. The last one composes the pool with the scheduler's own API.
\<close>

section \<open>A small site\<close>

text \<open>Two schedulers behind a resolver that knows their host; \<open>up\<close> lists the addresses that accept connections.\<close>

definition siteGateway :: "string list \<Rightarrow> 'w gateway_env" where
  "siteGateway up =
     \<lparr> lookupSRV = (\<lambda>_ _ _ w. (Inl (errorf ''no such host''), w)),
       lookupHost = (\<lambda>h w. (if h = ''persys-scheduler.site'' then Inr [''10.0.0.1'', ''10.0.0.3''] else Inl (errorf ''no such host''), w)),
       schedulerDial = (\<lambda>a w. (if a \<in> set up then None else Some (errorf ''connection refused''), w)),
       gatewayNow = (\<lambda>w. (0, w)),
       parseIP = (\<lambda>h. if list_all (\<lambda>c. c = CHR ''.'' \<or> digit_val c \<noteq> None) h then Some h else None) \<rparr>"

definition demoClusterConfig :: cluster_config where
  "demoClusterConfig =
     \<lparr> clc_ID = ''c1'', clc_Name = ''site'', clc_RoutingStrategy = ''leader-only'',
       clc_Schedulers = [\<lparr> sic_ID = ''s1'', sic_Address = ''10.0.0.1:8085'', sic_IsLeader = False \<rparr>,
                         \<lparr> sic_ID = ''s2'', sic_Address = ''10.0.0.2:8085'', sic_IsLeader = True \<rparr>] \<rparr>"

definition demoGatewayConfig :: gateway_config where
  "demoGatewayConfig = gatewayDefaults (zeroConfig
     \<lparr> gc_Prow := (gc_Prow zeroConfig)\<lparr>gprow_DiscoveryDomain := ''site'', gprow_DiscoverySvc := ''persys-scheduler''\<rparr>,
       gc_Scheduler := (gc_Scheduler zeroConfig)\<lparr>gsch_Clusters := [demoClusterConfig]\<rparr> \<rparr>)"

definition demoScheduler1 :: scheduler_instance where
  "demoScheduler1 = (newInstance ''s1'' ''10.0.0.1:8085'' False)\<lparr>inst_Healthy := True\<rparr>"

definition demoScheduler2 :: scheduler_instance where
  "demoScheduler2 = (newInstance ''s2'' ''10.0.0.2:8085'' True)\<lparr>inst_Healthy := True\<rparr>"

definition demoCluster :: cluster where
  "demoCluster = (clusterOf demoClusterConfig)\<lparr>clu_Schedulers := [demoScheduler1, demoScheduler2]\<rparr>"

definition demoGateway :: "'w \<Rightarrow> 'w gateway" where
  "demoGateway w = \<lparr> gw_clusters = [(''c1'', demoCluster)], gw_world = w \<rparr>"

lemma demo_ordered:
  "OrderedSchedulers demoGatewayConfig [(''c1'', demoCluster)] ''c1'' [] [] = Inr [demoScheduler2, demoScheduler1]"
  by code_simp

section \<open>Routing order\<close>

lemma leaderFirst_mset: "mset (leaderFirst xs) = mset xs"
proof (cases "List.extract inst_IsLeader xs")
  case (Some t)
  then obtain pre s post where "t = (pre, s, post)" by (cases t) auto
  moreover from this Some have "xs = pre @ s # post" by (simp add: extract_Some_iff)
  ultimately show ?thesis using Some by (simp add: leaderFirst_def)
qed (simp add: leaderFirst_def)

lemma leaderFirst_hd: "\<exists>s \<in> set xs. inst_IsLeader s \<Longrightarrow> inst_IsLeader (hd (leaderFirst xs))"
proof (cases "List.extract inst_IsLeader xs")
  case (Some t)
  then obtain pre s post where "t = (pre, s, post)" by (cases t) auto
  moreover from this Some have "inst_IsLeader s" by (simp add: extract_Some_iff)
  ultimately show ?thesis using Some by (simp add: leaderFirst_def)
qed (auto simp: extract_None_iff)

lemma rotateByIndex_rotate: "i < length xs \<Longrightarrow> rotateByIndex xs i = rotate i xs"
  by (cases "i = 0") (auto simp: rotateByIndex_def rotate_drop_take)

lemma indexByKey_less: "0 < n \<Longrightarrow> indexByKey k n < n"
  by (simp add: indexByKey_def)

lemma healthyOf_mset: "mset (healthyOf c) = mset (filter inst_Healthy (clu_Schedulers c))"
  by (simp add: healthyOf_def)

lemma healthyOf_Nil: "healthyOf c = [] \<longleftrightarrow> filter inst_Healthy (clu_Schedulers c) = []"
  by (metis healthyOf_mset mset_zero_iff)

lemma ordered_mset:
  assumes "OrderedSchedulers cfg cs c sk wk = Inr xs" "mget cs c = Some cl" "TrimSpace c \<noteq> []"
  shows "mset xs = mset (filter inst_Healthy (clu_Schedulers cl))"
proof -
  have "rotateByIndex (healthyOf cl) i = drop i (healthyOf cl) @ take i (healthyOf cl) \<or>
      rotateByIndex (healthyOf cl) i = healthyOf cl" for i
    by (simp add: rotateByIndex_def)
  then have "mset (rotateByIndex (healthyOf cl) i) = mset (healthyOf cl)" for i
    by (metis append_take_drop_id mset_append union_commute)
  with assms show ?thesis
    by (auto simp: OrderedSchedulers_def Let_def leaderFirst_mset healthyOf_mset split: if_splits)
qed

section \<open>Failover\<close>

definition unavailable :: "'w gateway_env \<Rightarrow> (string \<Rightarrow> 'w \<Rightarrow> 'r result \<times> 'w) \<Rightarrow> string \<Rightarrow> bool" where
  "unavailable E rpc a =
     (\<forall>w. fst (schedulerDial E a w) \<noteq> None \<or> (\<exists>e. fst (rpc a (snd (schedulerDial E a w))) = Inl e))"

definition answers :: "'w gateway_env \<Rightarrow> (string \<Rightarrow> 'w \<Rightarrow> 'r result \<times> 'w) \<Rightarrow> string \<Rightarrow> 'r \<Rightarrow> bool" where
  "answers E rpc a r = (\<forall>w. fst (schedulerDial E a w) = None \<and> fst (rpc a w) = Inr r)"

lemma mark_all:
  "mget cs c = Some cl \<Longrightarrow> mget (fold (markUnhealthy c) as cs) c =
     Some (cl\<lparr>clu_Schedulers :=
       map (\<lambda>s. if inst_Address s \<in> set as then s\<lparr>inst_Healthy := False\<rparr> else s) (clu_Schedulers cl)\<rparr>)"
proof (induction as arbitrary: cs cl)
  case (Cons a as)
  have *: "mget (markUnhealthy c a cs) c = Some (cl\<lparr>clu_Schedulers := map (markInstance a) (clu_Schedulers cl)\<rparr>)"
    using Cons.prems by (simp add: markUnhealthy_def)
  show ?case using Cons.IH [OF *] by (auto simp: markInstance_def)
qed simp

lemma mark_other: "d \<noteq> c \<Longrightarrow> mget (fold (markUnhealthy c) as cs) d = mget cs d"
  by (induction as arbitrary: cs) (auto simp: markUnhealthy_def split: option.splits)

lemma drained:
  assumes "mget cs c = Some cl" "TrimSpace c \<noteq> []" "OrderedSchedulers cfg cs c sk wk = Inr xs"
  shows "healthyOf (cl\<lparr>clu_Schedulers :=
    map (\<lambda>s. if inst_Address s \<in> set (map inst_Address xs) then s\<lparr>inst_Healthy := False\<rparr> else s) (clu_Schedulers cl)\<rparr>) = []"
proof -
  have "set xs = set (filter inst_Healthy (clu_Schedulers cl))"
    using ordered_mset [OF assms(3,1,2)] by (metis set_mset_mset)
  then show ?thesis by (auto simp: healthyOf_Nil filter_empty_conv)
qed

lemma try_unavailable:
  "\<forall>t \<in> set pre. unavailable E rpc (inst_Address t) \<Longrightarrow>
   \<exists>e' w'. (pre \<noteq> [] \<or> e' = e) \<and> run_state (tryCandidates E c rpc e (pre @ rest)) s =
     run_state (tryCandidates E c rpc e' rest)
       (s\<lparr>gw_clusters := fold (markUnhealthy c) (map inst_Address pre) (gw_clusters s), gw_world := w'\<rparr>)"
proof (induction pre arbitrary: e s)
  case Nil
  show ?case by (rule exI [of _ e], rule exI [of _ "gw_world s"]) simp
next
  case (Cons t pre)
  define w1 where "w1 = snd (schedulerDial E (inst_Address t) (gw_world s))"
  have "unavailable E rpc (inst_Address t)" using Cons.prems by simp
  then obtain e1 w2 where step: "run_state (tryCandidates E c rpc e ((t # pre) @ rest)) s =
      run_state (tryCandidates E c rpc e1 (pre @ rest))
        (s\<lparr>gw_clusters := markUnhealthy c (inst_Address t) (gw_clusters s), gw_world := w2\<rparr>)"
  proof (cases "fst (schedulerDial E (inst_Address t) (gw_world s))")
    case None
    with \<open>unavailable E rpc (inst_Address t)\<close> obtain x where "fst (rpc (inst_Address t) w1) = Inl x"
      unfolding unavailable_def w1_def by metis
    with None show ?thesis
      by (intro that [of x "snd (rpc (inst_Address t) w1)"]) (cases s, simp add: w1_def MarkUnhealthy_def)
  next
    case (Some x)
    then show ?thesis by (intro that [of x w1]) (cases s, simp add: w1_def MarkUnhealthy_def)
  qed
  show ?case using Cons.IH [of e1 "s\<lparr>gw_clusters := markUnhealthy c (inst_Address t) (gw_clusters s), gw_world := w2\<rparr>"]
      Cons.prems step by (auto simp del: tryCandidates.simps)
qed

definition schedulerRPC :: "('v, 'r result) op \<Rightarrow> string \<Rightarrow> (string \<Rightarrow> 'v sched) \<Rightarrow> 'r result \<times> (string \<Rightarrow> 'v sched)" where
  "schedulerRPC m a w = (case run_state m (w a) of (r, s) \<Rightarrow> (r, w(a := s)))"

text \<open>
  C16: Routing is complete and ordered. When the cluster has a healthy scheduler and a known
  strategy, the candidates are exactly its healthy schedulers, each once; under \<open>leader-only\<close> a
  healthy leader comes first, and under \<open>sticky\<close> and \<open>shard\<close> the healthy schedulers, sorted by
  id, are rotated by the FNV-1a hash of the session key or the workload key.
\<close>

theorem ordered_schedulers:
  assumes c: "mget cs c = Some cl" "TrimSpace c \<noteq> []"
    and h: "filter inst_Healthy (clu_Schedulers cl) \<noteq> []"
    and st: "clu_RoutingStrategy cl \<in> {''leader-only'', ''sticky'', ''shard''}"
  shows "\<exists>xs. OrderedSchedulers cfg cs c sk wk = Inr xs \<and>
    mset xs = mset (filter inst_Healthy (clu_Schedulers cl)) \<and>
    (clu_RoutingStrategy cl = ''leader-only'' \<longrightarrow> (\<exists>s \<in> set xs. inst_IsLeader s) \<longrightarrow> inst_IsLeader (hd xs)) \<and>
    (clu_RoutingStrategy cl = ''sticky'' \<longrightarrow> xs = rotate (indexByKey sk (length xs)) (healthyOf cl)) \<and>
    (clu_RoutingStrategy cl = ''shard'' \<longrightarrow> xs = rotate (indexByKey wk (length xs)) (healthyOf cl))"
proof -
  let ?h = "healthyOf cl"
  have h': "?h \<noteq> []" using h by (simp add: healthyOf_Nil)
  have rot: "rotateByIndex ?h (indexByKey k (length ?h)) = rotate (indexByKey k (length ?h)) ?h" for k
    using h' by (intro rotateByIndex_rotate indexByKey_less) simp
  have leader: "(\<exists>s \<in> set (leaderFirst ?h). inst_IsLeader s) \<longrightarrow> inst_IsLeader (hd (leaderFirst ?h))"
    using leaderFirst_hd [of ?h] leaderFirst_mset [of ?h] by (metis set_mset_mset)
  from st consider (l) "clu_RoutingStrategy cl = ''leader-only''" | (k) "clu_RoutingStrategy cl = ''sticky''"
    | (w) "clu_RoutingStrategy cl = ''shard''" by blast
  then show ?thesis
  proof cases
    case l
    have xs: "OrderedSchedulers cfg cs c sk wk = Inr (leaderFirst ?h)"
      using c h' l by (simp add: OrderedSchedulers_def)
    show ?thesis using l leader ordered_mset [OF xs c] by (intro exI [of _ "leaderFirst ?h"]) (simp add: xs)
  next
    case k
    have xs: "OrderedSchedulers cfg cs c sk wk = Inr (rotate (indexByKey sk (length ?h)) ?h)"
      using c h' k rot by (simp add: OrderedSchedulers_def Let_def)
    show ?thesis using k ordered_mset [OF xs c] by (intro exI [of _ "rotate (indexByKey sk (length ?h)) ?h"]) (simp add: xs)
  next
    case w
    have xs: "OrderedSchedulers cfg cs c sk wk = Inr (rotate (indexByKey wk (length ?h)) ?h)"
      using c h' w rot by (simp add: OrderedSchedulers_def Let_def)
    show ?thesis using w ordered_mset [OF xs c] by (intro exI [of _ "rotate (indexByKey wk (length ?h)) ?h"]) (simp add: xs)
  qed
qed

theorem ordered_schedulers_witness:
  "\<exists>xs. OrderedSchedulers demoGatewayConfig [(''c1'', demoCluster)] ''c1'' [] [] = Inr xs \<and> inst_IsLeader (hd xs) \<and>
     mset xs = {# demoScheduler1, demoScheduler2 #}"
proof -
  have "mget [(''c1'', demoCluster)] ''c1'' = Some demoCluster" "TrimSpace ''c1'' \<noteq> []" by code_simp+
  moreover have h: "filter inst_Healthy (clu_Schedulers demoCluster) = [demoScheduler1, demoScheduler2]"
    "clu_RoutingStrategy demoCluster = ''leader-only''" by code_simp+
  moreover have "inst_IsLeader demoScheduler2" by code_simp
  ultimately show ?thesis
    using ordered_schedulers [of "[(''c1'', demoCluster)]" "''c1''" demoCluster demoGatewayConfig "[]" "[]"]
    by (simp add: demo_ordered)
qed

text \<open>
  C12: Failover. When the candidates before \<open>t\<close> fail to connect or to answer and \<open>t\<close> answers, the
  caller gets the answer of \<open>t\<close>, the candidates that failed are marked unhealthy, and every other
  instance and every other cluster is left as it was.
\<close>

theorem failover:
  assumes c: "mget (gw_clusters s) c = Some cl" "TrimSpace c \<noteq> []"
    and xs: "OrderedSchedulers cfg (gw_clusters s) c sk wk = Inr (pre @ t # post)"
    and bad: "\<forall>x \<in> set pre. unavailable E rpc (inst_Address x)" and good: "answers E rpc (inst_Address t) r"
    and run: "run_state (invokeControlRPC E cfg c sk wk rpc) s = (res, s')"
  shows "res = Inr r \<and> mget (gw_clusters s') c = Some (cl\<lparr>clu_Schedulers :=
      map (\<lambda>x. if inst_Address x \<in> inst_Address ` set pre then x\<lparr>inst_Healthy := False\<rparr> else x) (clu_Schedulers cl)\<rparr>) \<and>
    (\<forall>d. d \<noteq> c \<longrightarrow> mget (gw_clusters s') d = mget (gw_clusters s) d)"
proof -
  obtain e w where tries: "run_state (tryCandidates E c rpc (errorf ''no healthy schedulers'') (pre @ t # post)) s =
      run_state (tryCandidates E c rpc e (t # post))
        (s\<lparr>gw_clusters := fold (markUnhealthy c) (map inst_Address pre) (gw_clusters s), gw_world := w\<rparr>)"
    using try_unavailable [OF bad] by blast
  have "c \<noteq> []" using c(2) by auto
  with run xs tries good have "res = Inr r" "gw_clusters s' = fold (markUnhealthy c) (map inst_Address pre) (gw_clusters s)"
    by (auto simp: invokeControlRPC_def answers_def)
  then show ?thesis using mark_all [OF c(1)] mark_other by simp
qed

theorem failover_witness:
  "fst (run_state (invokeControlRPC (siteGateway [''10.0.0.1:8085'']) demoGatewayConfig ''c1'' [] [] (\<lambda>a w. (Inr a, w)))
     (demoGateway ())) = Inr ''10.0.0.1:8085''"
proof -
  let ?E = "siteGateway [''10.0.0.1:8085''] :: unit gateway_env" and ?rpc = "\<lambda>a w. (Inr a :: string result, w :: unit)"
  have "mget (gw_clusters (demoGateway ())) ''c1'' = Some demoCluster" "TrimSpace ''c1'' \<noteq> []" by code_simp+
  moreover have "OrderedSchedulers demoGatewayConfig (gw_clusters (demoGateway ())) ''c1'' [] [] =
      Inr ([demoScheduler2] @ demoScheduler1 # [])" by (simp add: demoGateway_def demo_ordered)
  moreover have "\<forall>x \<in> set [demoScheduler2]. unavailable ?E ?rpc (inst_Address x)"
    by (simp add: unavailable_def siteGateway_def demoScheduler2_def newInstance_def)
  moreover have "answers ?E ?rpc (inst_Address demoScheduler1) ''10.0.0.1:8085''"
    by (simp add: answers_def siteGateway_def demoScheduler1_def newInstance_def)
  moreover have "run_state (invokeControlRPC ?E demoGatewayConfig ''c1'' [] [] ?rpc) (demoGateway ()) =
      (fst (run_state (invokeControlRPC ?E demoGatewayConfig ''c1'' [] [] ?rpc) (demoGateway ())),
       snd (run_state (invokeControlRPC ?E demoGatewayConfig ''c1'' [] [] ?rpc) (demoGateway ())))" by simp
  ultimately show ?thesis by (rule failover [THEN conjunct1])
qed

text \<open>
  C36: A rejected request empties the pool. A request that every scheduler refuses as malformed, here
  \<open>GetNode\<close> without a node id, is a failure of the scheduler to the gateway: it is repeated on every
  healthy scheduler of the cluster, each is marked unhealthy, and afterwards no request to this
  cluster finds a scheduler until a health check has run.
\<close>

theorem bad_request_drains_pool:
  assumes c: "mget (gw_clusters s) c = Some cl" "TrimSpace c \<noteq> []"
    and xs: "OrderedSchedulers cfg (gw_clusters s) c sk wk = Inr xs"
    and id: "TrimSpace nodeID = []"
    and run: "run_state (invokeControlRPC E cfg c sk wk (schedulerRPC (GetNode X nodeID))) s = (res, s')"
  shows "(\<exists>e. res = Inl (CallFailed e)) \<and>
    OrderedSchedulers cfg (gw_clusters s') c sk' wk' = Inl NoHealthySchedulers"
proof -
  let ?rpc = "schedulerRPC (GetNode X nodeID)"
  have bad: "\<forall>x \<in> set xs. unavailable E ?rpc (inst_Address x)"
    using id by (simp add: unavailable_def schedulerRPC_def GetNode_def)
  obtain e w where tries: "run_state (tryCandidates E c ?rpc (errorf ''no healthy schedulers'') xs) s =
      (Inl e, s\<lparr>gw_clusters := fold (markUnhealthy c) (map inst_Address xs) (gw_clusters s), gw_world := w\<rparr>)"
    using try_unavailable [OF bad, where rest = "[]" and c = c and s = s and e = "errorf ''no healthy schedulers''"] by auto
  have "c \<noteq> []" using c(2) by auto
  with run xs tries have "res = Inl (CallFailed e)"
      and s': "gw_clusters s' = fold (markUnhealthy c) (map inst_Address xs) (gw_clusters s)"
    by (auto simp: invokeControlRPC_def)
  moreover have "OrderedSchedulers cfg (gw_clusters s') c sk' wk' = Inl NoHealthySchedulers"
    using drained [OF c xs] c(2) unfolding s' by (simp add: OrderedSchedulers_def mark_all [OF c(1)])
  ultimately show ?thesis by blast
qed

theorem bad_request_drains_pool_witness:
  "OrderedSchedulers demoGatewayConfig (gw_clusters (snd (run_state (invokeControlRPC
     (siteGateway [''10.0.0.1:8085'', ''10.0.0.2:8085'']) demoGatewayConfig ''c1'' [] [] (schedulerRPC (GetNode memEnv [])))
     (demoGateway (\<lambda>a. demo_sched demo_cluster))))) ''c1'' [] [] = Inl NoHealthySchedulers"
proof -
  let ?s = "demoGateway (\<lambda>a. demo_sched demo_cluster)"
  let ?r = "run_state (invokeControlRPC (siteGateway [''10.0.0.1:8085'', ''10.0.0.2:8085'']) demoGatewayConfig ''c1'' [] []
      (schedulerRPC (GetNode memEnv []))) ?s"
  have "mget (gw_clusters ?s) ''c1'' = Some demoCluster" "TrimSpace ''c1'' \<noteq> []"
    by (simp_all add: demoGateway_def mget_def TrimSpace_def isSpace_def)
  moreover have "OrderedSchedulers demoGatewayConfig (gw_clusters ?s) ''c1'' [] [] = Inr [demoScheduler2, demoScheduler1]"
    by (simp add: demoGateway_def demo_ordered)
  moreover have "TrimSpace [] = []" by simp
  moreover have "?r = (fst ?r, snd ?r)" by simp
  ultimately show ?thesis by (rule bad_request_drains_pool [THEN conjunct2])
qed

section \<open>Discovery\<close>

definition cluster_ok :: "string \<times> cluster \<Rightarrow> bool" where
  "cluster_ok p = (clu_ID (snd p) = fst p \<and> distinct (map inst_Address (clu_Schedulers (snd p))))"

definition pool_ok :: "cluster gomap \<Rightarrow> bool" where
  "pool_ok cs = (wf_map cs \<and> list_all cluster_ok cs)"

lemma pool_okD: "pool_ok cs \<Longrightarrow> mget cs i = Some c \<Longrightarrow> cluster_ok (i, c)"
  by (auto simp: pool_ok_def mget_Some_in list_all_iff)

lemma list_all_mput: "list_all P m \<Longrightarrow> P (k, v) \<Longrightarrow> list_all P (mput k v m)"
  by (induction m) (auto simp: mput_def)

lemma pool_ok_mput: "pool_ok cs \<Longrightarrow> cluster_ok (i, c) \<Longrightarrow> pool_ok (mput i c cs)"
  by (simp add: pool_ok_def list_all_mput)

definition merge_ok :: "scheduler_instance list \<Rightarrow> nat gomap \<Rightarrow> bool" where
  "merge_ok ss byAddr = (distinct (map inst_Address ss) \<and>
     (\<forall>a. mget byAddr a = None \<longleftrightarrow> a \<notin> inst_Address ` set ss) \<and>
     (\<forall>a i. mget byAddr a = Some i \<longrightarrow> i < length ss \<and> inst_Address (ss ! i) = a))"

text \<open>What a merge may do to the instances that were there: nothing, or give one without an id its id.\<close>

definition named :: "scheduler_instance \<Rightarrow> scheduler_instance" where
  "named s = s\<lparr>inst_ID := discoveredID (inst_Address s)\<rparr>"

definition kept :: "scheduler_instance \<Rightarrow> scheduler_instance \<Rightarrow> bool" where
  "kept s s' = (s' = s \<or> inst_ID s = [] \<and> s' = named s)"

definition fresh :: "string \<Rightarrow> scheduler_instance" where
  "fresh a = newInstance (discoveredID a) a False"

definition merged_from :: "scheduler_instance list \<Rightarrow> string list \<Rightarrow> scheduler_instance list \<Rightarrow> bool" where
  "merged_from old ds ss = (\<exists>new. list_all2 kept old (take (length old) ss) \<and>
     drop (length old) ss = map fresh new \<and> set new \<subseteq> set ds)"

lemma merged_fromI:
  "list_all2 kept old (take (length old) ss) \<Longrightarrow> drop (length old) ss = map fresh new \<Longrightarrow> set new \<subseteq> set ds \<Longrightarrow>
   merged_from old ds ss"
  unfolding merged_from_def by blast

lemma merge_ok_append:
  assumes "merge_ok ss m" "inst_Address s \<notin> inst_Address ` set ss"
  shows "merge_ok (ss @ [s]) (mput (inst_Address s) (length ss) m)"
  using assms unfolding merge_ok_def by (auto simp: mget_mput nth_append less_Suc_eq split: if_splits)

lemma index_ok:
  assumes "merge_ok pre m" "distinct (map inst_Address (pre @ ss))"
  shows "merge_ok (pre @ ss) (fst (fst (run_state (indexExisting E (length pre) ss (m, k)) s)))"
  using assms
proof (induction ss arbitrary: pre m k s)
  case (Cons x ss)
  have "merge_ok (pre @ [x]) (mput (inst_Address x) (length pre) m)"
    using Cons.prems by (intro merge_ok_append) (auto simp: image_def)
  from Cons.IH [OF this] Cons.prems show ?case by (simp add: run_bind_proj del: run_state_bind)
qed simp

lemma list_all2_update_left:
  "list_all2 P xs ys \<Longrightarrow> i < length xs \<Longrightarrow> P (xs ! i) y \<Longrightarrow> list_all2 P xs (ys[i := y])"
  by (metis list_update_id list_all2_update_cong)

lemma discoveredID_prefix [simp]: "HasPrefix (discoveredID a) ''discovered-''"
  by (simp add: discoveredID_def)

lemma discoveredID_not_Nil [simp]: "discoveredID a \<noteq> []"
  by (simp add: discoveredID_def)

lemma merged_from_name:
  assumes m: "merged_from old ds ss" and i: "i < length ss" "inst_ID (ss ! i) = []"
  shows "merged_from old ds (ss[i := named (ss ! i)])"
proof -
  from m obtain new where n: "list_all2 kept old (take (length old) ss)" "drop (length old) ss = map fresh new" "set new \<subseteq> set ds"
    by (auto simp: merged_from_def)
  have l: "i < length old"
  proof (rule ccontr)
    assume a: "\<not> i < length old"
    then have "ss ! i = drop (length old) ss ! (i - length old)" using i(1) by simp
    moreover have "i - length old < length new"
      using a i(1) arg_cong [OF n(2), of length] by simp
    ultimately have "ss ! i = fresh (new ! (i - length old))" by (simp add: n(2))
    then show False using i(2) by (simp add: fresh_def newInstance_def)
  qed
  then have "kept (old ! i) (ss ! i)" using list_all2_nthD [OF n(1) l] by simp
  then have "kept (old ! i) (named (ss ! i))" using i(2) by (auto simp: kept_def named_def)
  then have "list_all2 kept old ((take (length old) ss)[i := named (ss ! i)])"
    by (rule list_all2_update_left [OF n(1) l])
  then have "list_all2 kept old (take (length old) (ss[i := named (ss ! i)]))" by (simp only: take_update_swap)
  moreover have "drop (length old) (ss[i := named (ss ! i)]) = map fresh new" using l n(2) by simp
  ultimately show ?thesis using n(3) by (rule merged_fromI)
qed

lemma merged_from_append:
  assumes "merged_from old ds ss" "a \<in> set ds"
  shows "merged_from old ds (ss @ [fresh a])"
proof -
  from assms(1) obtain new where n: "list_all2 kept old (take (length old) ss)" "drop (length old) ss = map fresh new"
      "set new \<subseteq> set ds" by (auto simp: merged_from_def)
  have "length old \<le> length ss" using list_all2_lengthD [OF n(1)] by simp
  then have "take (length old) (ss @ [fresh a]) = take (length old) ss"
      "drop (length old) (ss @ [fresh a]) = map fresh (new @ [a])"
    using n(2) by simp_all
  moreover have "set (new @ [a]) \<subseteq> set ds" using n(3) assms(2) by simp
  ultimately show ?thesis using n(1) by (intro merged_fromI [where new = "new @ [a]"]) simp_all
qed

lemma merge_ok_cong:
  assumes m: "map inst_Address ss = map inst_Address ss'" and ok: "merge_ok ss k"
  shows "merge_ok ss' k"
proof -
  have l: "length ss = length ss'" using m by (rule map_eq_imp_length_eq)
  have "inst_Address ` set ss = inst_Address ` set ss'" using m by (metis list.set_map)
  moreover have "inst_Address (ss ! i) = inst_Address (ss' ! i)" if "i < length ss'" for i
    using m l that by (metis nth_map)
  ultimately show ?thesis using ok m l unfolding merge_ok_def by metis
qed

lemma mergeAddress_ok:
  assumes ok: "merge_ok ss m" and fr: "merged_from old ds ss" and a: "a \<in> set ds"
    and run: "run_state (mergeAddress E a (ss, m, k)) s = ((ss', m', k'), s')"
  shows "merge_ok ss' m' \<and> merged_from old ds ss'"
proof (cases "mget m a")
  case (Some i)
  with ok have i: "i < length ss" "inst_Address (ss ! i) = a" by (auto simp: merge_ok_def)
  have same: "map inst_Address (ss[i := named (ss ! i)]) = map inst_Address ss"
    using i by (simp add: map_update named_def list_update_same_conv)
  then have ok': "merge_ok (ss[i := named (ss ! i)]) m"
    using merge_ok_cong [OF same [symmetric] ok] by simp
  have "ss' = (if inst_ID (ss ! i) = [] then ss[i := named (ss ! i)] else ss)" "m' = m"
    using Some run i by (auto simp: mergeAddress_def named_def)
  then show ?thesis using ok ok' fr merged_from_name [OF fr i(1)] by simp
next
  case None
  then have "a \<notin> inst_Address ` set ss" using ok by (simp add: merge_ok_def)
  then have "merge_ok (ss @ [fresh a]) (mput a (length ss) m)"
    using merge_ok_append [OF ok, of "fresh a"] by (simp add: fresh_def newInstance_def)
  moreover have "ss' = ss \<and> m' = m \<or> ss' = ss @ [fresh a] \<and> m' = mput a (length ss) m"
    using None run by (auto simp: mergeAddress_def fresh_def split: if_splits prod.splits)
  ultimately show ?thesis using ok fr merged_from_append [OF fr a] by auto
qed

lemma merge_fold_ok:
  assumes "merge_ok ss m" "merged_from old ds ss" "set as \<subseteq> set ds"
    "run_state (fold_st (mergeAddress E) as (ss, m, k)) s = ((ss', m', k'), s')"
  shows "merge_ok ss' m' \<and> merged_from old ds ss'"
  using assms
proof (induction as arbitrary: ss m k s)
  case (Cons a as)
  obtain ss1 m1 k1 s1 where r: "run_state (mergeAddress E a (ss, m, k)) s = ((ss1, m1, k1), s1)"
    by (metis prod.exhaust)
  with mergeAddress_ok [OF Cons.prems(1,2) _ r] Cons.prems have "merge_ok ss1 m1" "merged_from old ds ss1" by auto
  from Cons.IH [OF this] Cons.prems r show ?case by simp
qed auto

text \<open>Resolving names leaves the pool alone.\<close>

interpretation dns: guarantee "\<lambda>_. True" "\<lambda>s t. gw_clusters s = (gw_clusters t :: cluster gomap)"
  by unfold_locales auto

abbreviation quiet :: "('w, 'a) gop \<Rightarrow> bool" where
  "quiet m \<equiv> ensures (\<lambda>_. True) (\<lambda>s t. gw_clusters s = gw_clusters t) m (\<lambda>_. True)"

lemma quietD: "quiet m \<Longrightarrow> run_state m s = (x, s') \<Longrightarrow> gw_clusters s' = gw_clusters s"
  by (auto simp: ensures_def) (metis snd_conv)

lemma quiet_ask: "quiet (ask f)"
  by (simp add: ensures_def)

lemma quiet_keys: "quiet (canonicalAddressKeys E a)"
  unfolding canonicalAddressKeys_def Let_def by (intro dns.g_rules quiet_ask) auto

lemma quiet_index: "quiet (indexExisting E i ss maps)"
  by (induction E i ss maps rule: indexExisting.induct) (auto intro!: dns.g_return dns.g_seq quiet_keys)

lemma quiet_merge: "quiet (mergeAddress E a m)"
  unfolding mergeAddress_def by (cases m) (auto intro!: dns.g_rules quiet_keys)

lemma quiet_fold: "(\<And>x y. quiet (f x y)) \<Longrightarrow> quiet (fold_st f xs acc)"
  by (induction xs arbitrary: acc) (auto intro!: dns.g_return dns.g_seq)

lemma quiet_resolve: "quiet (resolveSRVTarget E h)"
  unfolding resolveSRVTarget_def Let_def
  by (auto intro!: dns.g_return dns.g_seq quiet_ask dns.g_if split: sum.split list.split)

lemma quiet_discover: "quiet (discoverSchedulers E cfg)"
proof -
  have "quiet (hostFallback E hs)" for hs
    by (induction hs) (auto intro!: dns.g_return dns.g_seq quiet_ask split: sum.split list.split)
  moreover have "quiet (srvAddress E x y)" for x y
    unfolding srvAddress_def by (auto intro!: dns.g_return dns.g_seq quiet_resolve)
  moreover have "quiet (srvLookups E x y z)" for x y z
    unfolding srvLookups_def by (auto intro!: dns.g_return dns.g_seq quiet_ask split: sum.split)
  ultimately show ?thesis
    unfolding discoverSchedulers_def Let_def by (auto intro!: dns.g_return dns.g_seq quiet_fold simp del: hostFallback.simps)
qed

lemma mergeCluster_ok:
  assumes d: "distinct (map inst_Address (clu_Schedulers c))"
    and run: "run_state (mergeCluster E static ds c) s = (c', s')"
  shows "\<exists>ss. merged_from (clu_Schedulers c) ds ss \<and> distinct (map inst_Address ss) \<and>
    c' = c\<lparr>clu_Schedulers := filter (keepInstance static ds) ss\<rparr> \<and> gw_clusters s' = gw_clusters s"
proof -
  let ?old = "clu_Schedulers c"
  obtain m k s1 where r1: "run_state (indexExisting E 0 ?old ([], [])) s = ((m, k), s1)" by (metis prod.exhaust)
  obtain ss m' k' s2 where r2: "run_state (fold_st (mergeAddress E) ds (?old, m, k)) s1 = ((ss, m', k'), s2)"
    by (metis prod.exhaust)
  have "merge_ok [] []" by (simp add: merge_ok_def)
  from index_ok [OF this, of ?old E "[]" s] d r1 have "merge_ok ?old m" by simp
  moreover have "merged_from ?old ds ?old"
    unfolding merged_from_def by (intro exI [of _ "[]"]) (simp add: list_all2_same kept_def)
  ultimately have "merge_ok ss m'" "merged_from ?old ds ss"
    using merge_fold_ok [of ?old m ?old ds ds E k s1] r2 by auto
  moreover have "gw_clusters s2 = gw_clusters s"
    using quietD [OF quiet_index r1] quietD [OF quiet_fold [OF quiet_merge] r2] by simp
  ultimately show ?thesis using run r1 r2 by (auto simp: mergeCluster_def merge_ok_def)
qed

lemma discoverAndMerge_cases:
  assumes ok: "pool_ok (gw_clusters s)" and run: "run_state (discoverAndMerge E cfg) s = ((), s')"
  obtains (quiet) "gw_clusters s' = gw_clusters s"
  | (merged) ds old ss where "fst (run_state (discoverSchedulers E cfg) s) = Inr ds"
      "old = (case mget (gw_clusters s) (mergeTarget cfg (gw_clusters s)) of Some c \<Rightarrow> clu_Schedulers c | None \<Rightarrow> [])"
      "merged_from old ds ss" "distinct (map inst_Address ss)"
      "\<exists>c. clu_ID c = mergeTarget cfg (gw_clusters s) \<and>
         clu_Schedulers c = filter (keepInstance (staticSet cfg (mergeTarget cfg (gw_clusters s))) ds) ss \<and>
         gw_clusters s' = mput (mergeTarget cfg (gw_clusters s)) c (gw_clusters s)"
proof -
  let ?i = "mergeTarget cfg (gw_clusters s)"
  obtain r s1 where r1: "run_state (discoverSchedulers E cfg) s = (r, s1)" by (metis prod.exhaust)
  have q1: "gw_clusters s1 = gw_clusters s" by (rule quietD [OF quiet_discover r1])
  show ?thesis
  proof (cases "\<exists>ds. r = Inr ds \<and> ds \<noteq> []")
    case True
    then obtain ds where ds: "r = Inr ds" "ds \<noteq> []" by blast
    define c0 where "c0 = (case mget (gw_clusters s) ?i of Some c \<Rightarrow> c | None \<Rightarrow>
      \<lparr> clu_ID = ?i, clu_Name = ''Discovered Cluster'', clu_Schedulers = [], clu_RoutingStrategy = ''leader-only'' \<rparr>)"
    have c0: "clu_ID c0 = ?i" "distinct (map inst_Address (clu_Schedulers c0))"
      using pool_okD [OF ok, of ?i] by (auto simp: c0_def cluster_ok_def split: option.split)
    obtain c s2 where r2: "run_state (mergeCluster E (staticSet cfg ?i) ds c0) s1 = (c, s2)" by (metis prod.exhaust)
    from mergeCluster_ok [OF c0(2) r2] obtain ss where ss: "merged_from (clu_Schedulers c0) ds ss"
        "distinct (map inst_Address ss)" "c = c0\<lparr>clu_Schedulers := filter (keepInstance (staticSet cfg ?i) ds) ss\<rparr>"
        "gw_clusters s2 = gw_clusters s1" by blast
    have upd: "gw_clusters s' = mput ?i c (gw_clusters s)"
      using run r1 q1 ds r2 ss(4) by (cases ds) (auto simp: discoverAndMerge_def c0_def Let_def)
    have old: "clu_Schedulers c0 = (case mget (gw_clusters s) ?i of Some c \<Rightarrow> clu_Schedulers c | None \<Rightarrow> [])"
      by (simp add: c0_def split: option.split)
    show ?thesis
    proof (rule merged [OF _ old ss(1,2)])
      show "fst (run_state (discoverSchedulers E cfg) s) = Inr ds" using r1 ds by simp
      show "\<exists>c. clu_ID c = ?i \<and> clu_Schedulers c = filter (keepInstance (staticSet cfg ?i) ds) ss \<and>
          gw_clusters s' = mput ?i c (gw_clusters s)"
        using ss(3) c0(1) upd by (intro exI [of _ c]) simp
    qed
  next
    case False
    with run r1 q1 show ?thesis by (intro quiet) (auto simp: discoverAndMerge_def split: sum.splits list.splits)
  qed
qed

lemma discover_ok:
  assumes ok: "pool_ok (gw_clusters s)"
  shows "pool_ok (gw_clusters (snd (run_state (discoverAndMerge E cfg) s)))"
proof -
  obtain s' where r: "run_state (discoverAndMerge E cfg) s = ((), s')" by (metis old.unit.exhaust prod.exhaust)
  from ok r show ?thesis
  proof (cases rule: discoverAndMerge_cases)
    case (merged ds old ss)
    then obtain c where c: "clu_ID c = mergeTarget cfg (gw_clusters s)"
        "clu_Schedulers c = filter (keepInstance (staticSet cfg (mergeTarget cfg (gw_clusters s))) ds) ss"
        "gw_clusters s' = mput (mergeTarget cfg (gw_clusters s)) c (gw_clusters s)" by blast
    with merged(4) have "cluster_ok (mergeTarget cfg (gw_clusters s), c)"
      by (simp add: cluster_ok_def distinct_map_filter)
    with c ok r show ?thesis by (simp add: pool_ok_mput)
  qed (use ok r in simp)
qed

lemma refreshInstances_addresses:
  "map inst_Address (fst (run_state (refreshInstances E ss) s)) = map inst_Address ss"
  by (induction ss arbitrary: s) (simp_all add: run_bind_proj del: run_state_bind)

lemma refreshClusters_keys: "map fst (fst (run_state (refreshClusters E cs) s)) = map fst cs"
  by (induction E cs arbitrary: s rule: refreshClusters.induct) (simp_all add: run_bind_proj del: run_state_bind)

lemma refreshClusters_ok: "list_all cluster_ok cs \<Longrightarrow> list_all cluster_ok (fst (run_state (refreshClusters E cs) s))"
  by (induction E cs arbitrary: s rule: refreshClusters.induct)
     (simp_all add: run_bind_proj cluster_ok_def refreshInstances_addresses del: run_state_bind)

lemma refresh_ok: "pool_ok (gw_clusters s) \<Longrightarrow> pool_ok (gw_clusters (snd (run_state (refreshHealth E) s)))"
  using refreshClusters_ok [of "gw_clusters s" E s] refreshClusters_keys [of E "gw_clusters s" s]
  by (simp add: refreshHealth_def pool_ok_def wf_map_def run_bind_proj del: run_state_bind)

lemma markInstance_address [simp]: "inst_Address (markInstance a s) = inst_Address s"
  by (simp add: markInstance_def)

lemma mark_ok: "pool_ok cs \<Longrightarrow> pool_ok (markUnhealthy c a cs)"
  using pool_okD [of cs c]
  by (auto simp: markUnhealthy_def cluster_ok_def comp_def intro!: pool_ok_mput split: option.split)

section \<open>The pool over time\<close>

inductive pool_step :: "'w gateway_env \<Rightarrow> gateway_config \<Rightarrow> 'w gateway \<Rightarrow> 'w gateway \<Rightarrow> bool" for E cfg where
  ticks: "pool_step E cfg s (snd (run_state (poolTick E cfg t) s))"
| marks: "pool_step E cfg s (s\<lparr>gw_clusters := markUnhealthy c a (gw_clusters s)\<rparr>)"
| outside: "pool_step E cfg s (s\<lparr>gw_world := w\<rparr>)"

lemma pool_step_ok: "pool_step E cfg s s' \<Longrightarrow> pool_ok (gw_clusters s) \<Longrightarrow> pool_ok (gw_clusters s')"
proof (induction rule: pool_step.induct)
  case (ticks s t)
  then show ?case by (cases t) (simp_all add: refresh_ok discover_ok)
qed (simp_all add: mark_ok)

lemma new_pool_ok:
  assumes "\<forall>cc \<in> set ccs. distinct (map sic_Address (clc_Schedulers cc))" "pool_ok m"
  shows "pool_ok (fold (\<lambda>cc m. mput (clc_ID cc) (clusterOf cc) m) ccs m)"
  using assms
proof (induction ccs arbitrary: m)
  case (Cons cc ccs)
  have "cluster_ok (clc_ID cc, clusterOf cc)"
    using Cons.prems(1) by (simp add: cluster_ok_def clusterOf_def newInstance_def comp_def)
  then show ?case using Cons by (simp add: pool_ok_mput)
qed simp

text \<open>
  C14: The pool's invariant. Starting from a configuration that lists no address twice in a cluster,
  after any sequence of discovery ticks, health ticks and failed calls, and whatever the network
  answered, every cluster is filed under its own id and lists no address twice; so no scheduler is
  a candidate twice for one call.
\<close>

theorem pool_invariant:
  assumes new: "NewSchedulerPoolManager cfg = Inr cs"
    and cfg: "\<forall>cc \<in> set (gsch_Clusters (gc_Scheduler cfg)). distinct (map sic_Address (clc_Schedulers cc))"
    and steps: "(pool_step E cfg)\<^sup>*\<^sup>* \<lparr>gw_clusters = cs, gw_world = w\<rparr> s"
  shows "pool_ok (gw_clusters s) \<and>
    (\<forall>c xs. mget (gw_clusters s) c \<noteq> None \<longrightarrow> TrimSpace c \<noteq> [] \<longrightarrow>
      OrderedSchedulers cfg (gw_clusters s) c sk wk = Inr xs \<longrightarrow> distinct (map inst_Address xs))"
proof -
  from new cfg have "pool_ok cs"
    by (auto simp: NewSchedulerPoolManager_def pool_ok_def [of "[]"] intro!: new_pool_ok split: option.splits)
  from steps have ok: "pool_ok (gw_clusters s)"
    by (induction rule: rtranclp_induct) (use \<open>pool_ok cs\<close> pool_step_ok in auto)
  have "distinct (map inst_Address xs)"
    if c: "mget (gw_clusters s) c = Some cl" "TrimSpace c \<noteq> []" and o: "OrderedSchedulers cfg (gw_clusters s) c sk wk = Inr xs"
    for c cl xs
  proof -
    have "mset (map inst_Address xs) = mset (map inst_Address (filter inst_Healthy (clu_Schedulers cl)))"
      using ordered_mset [OF o c] by (simp add: mset_map)
    moreover have "distinct (map inst_Address (filter inst_Healthy (clu_Schedulers cl)))"
      using pool_okD [OF ok c(1)] by (simp add: cluster_ok_def distinct_map_filter)
    ultimately show ?thesis by (metis mset_eq_imp_distinct_iff)
  qed
  with ok show ?thesis by blast
qed

theorem pool_invariant_witness:
  "\<exists>cs. NewSchedulerPoolManager demoGatewayConfig = Inr cs \<and>
     pool_ok (gw_clusters (snd (run_state (poolTick (siteGateway []) demoGatewayConfig DiscoveryTick)
       \<lparr>gw_clusters = cs, gw_world = ()\<rparr>)))"
proof -
  obtain cs where cs: "NewSchedulerPoolManager demoGatewayConfig = Inr cs"
  proof -
    have "\<not> isl (NewSchedulerPoolManager demoGatewayConfig)" by code_simp
    then show ?thesis by (cases "NewSchedulerPoolManager demoGatewayConfig") (auto intro: that)
  qed
  have d: "\<forall>cc \<in> set (gsch_Clusters (gc_Scheduler demoGatewayConfig)). distinct (map sic_Address (clc_Schedulers cc))"
    by code_simp
  have "(pool_step (siteGateway []) demoGatewayConfig)\<^sup>*\<^sup>* \<lparr>gw_clusters = cs, gw_world = ()\<rparr>
      (snd (run_state (poolTick (siteGateway []) demoGatewayConfig DiscoveryTick) \<lparr>gw_clusters = cs, gw_world = ()\<rparr>))"
    by (rule r_into_rtranclp, rule ticks)
  from pool_invariant [OF cs d this] cs show ?thesis by blast
qed

lemma refreshInstances_up:
  assumes "x \<in> set ss" "\<And>w. fst (schedulerDial E (inst_Address x) w) = None"
  shows "\<exists>x' \<in> set (fst (run_state (refreshInstances E ss) s)). inst_Address x' = inst_Address x \<and> inst_Healthy x'"
  using assms(1)
proof (induction ss arbitrary: s)
  case (Cons y ss)
  show ?case
  proof (cases "x = y")
    case True
    then show ?thesis using assms(2) by (simp add: run_bind_proj checkInstanceHealth_def del: run_state_bind)
  next
    case False
    with Cons show ?thesis by (simp add: run_bind_proj del: run_state_bind)
  qed
qed simp

lemma refreshClusters_get:
  "mget cs c = Some cl \<Longrightarrow> \<exists>s1. mget (fst (run_state (refreshClusters E cs) s)) c =
     Some (cl\<lparr>clu_Schedulers := fst (run_state (refreshInstances E (clu_Schedulers cl)) s1)\<rparr>)"
proof (induction E cs arbitrary: s rule: refreshClusters.induct)
  case (2 E i c' cs)
  then show ?case by (auto simp: mget_def run_bind_proj simp del: run_state_bind split: if_splits)
qed simp

text \<open>
  A scheduler that accepts connections is a candidate again after the next health check, whatever
  it was marked before.
\<close>

theorem health_check_restores:
  assumes "mget (gw_clusters s) c = Some cl" "x \<in> set (clu_Schedulers cl)"
    and "\<And>w. fst (schedulerDial E (inst_Address x) w) = None"
  shows "\<exists>cl'. mget (gw_clusters (snd (run_state (refreshHealth E) s))) c = Some cl' \<and>
    inst_Address x \<in> inst_Address ` set (healthyOf cl')"
proof -
  from refreshClusters_get [OF assms(1), of E s] obtain s1 where
    g: "mget (gw_clusters (snd (run_state (refreshHealth E) s))) c =
      Some (cl\<lparr>clu_Schedulers := fst (run_state (refreshInstances E (clu_Schedulers cl)) s1)\<rparr>)"
    by (auto simp: refreshHealth_def run_bind_proj simp del: run_state_bind)
  from refreshInstances_up [OF assms(2,3)] obtain x' where
    "x' \<in> set (fst (run_state (refreshInstances E (clu_Schedulers cl)) s1))" "inst_Address x' = inst_Address x" "inst_Healthy x'"
    by blast
  then have "inst_Address x \<in> inst_Address ` set (healthyOf (cl\<lparr>clu_Schedulers := fst (run_state (refreshInstances E (clu_Schedulers cl)) s1)\<rparr>))"
    by (auto simp: healthyOf_def image_def)
  with g show ?thesis by blast
qed

theorem health_check_restores_witness:
  "\<exists>cl'. mget (gw_clusters (snd (run_state (refreshHealth (siteGateway [''10.0.0.2:8085'']))
     (demoGateway ())))) ''c1'' = Some cl' \<and> ''10.0.0.2:8085'' \<in> inst_Address ` set (healthyOf cl')"
proof -
  have "mget (gw_clusters (demoGateway ())) ''c1'' = Some demoCluster" by code_simp
  moreover have "demoScheduler2 \<in> set (clu_Schedulers demoCluster)" by (simp add: demoCluster_def)
  moreover have "fst (schedulerDial (siteGateway [''10.0.0.2:8085'']) (inst_Address demoScheduler2) w) = None" for w :: unit
    by (simp add: siteGateway_def demoScheduler2_def newInstance_def)
  ultimately show ?thesis
    using health_check_restores [of "demoGateway ()" "''c1''" demoCluster demoScheduler2 "siteGateway [''10.0.0.2:8085'']"]
    by (simp add: demoScheduler2_def newInstance_def)
qed

end
