(* ===== verification/Webhook.thy ===== *)
theory Webhook
  imports GatewayPool
begin

text \<open>
  The gateway's intake of GitHub webhooks, \<open>persys-gateway/services/webhook.service.go\<close>: the
  handler with its replay cache and signature check, the buffered channel of forward jobs, the
  workers that forward a job to forgery and the timers that put a failed job back.
  The state is the replay cache, the channel, the waiting timers and the world: the clock, the
  MongoDB collection and the forgery service. The steps of the handler, the workers and the timers
  interleave in any order.
\<close>

section \<open>Data\<close>

record forward_job =
  fj_deliveryID :: string
  fj_eventName :: string
  fj_repo :: string
  fj_clusterID :: string
  fj_body :: string
  fj_attempt :: int

record push_envelope =
  pe_Ref :: string
  pe_Before :: string
  pe_After :: string
  pe_Sender :: string
  pe_RepoName :: string
  pe_RepoFullName :: string
  pe_RepoOwner :: string

record webhook_event =
  we_DeliveryID :: string
  we_EventName :: string
  we_Repository :: string
  we_ClusterID :: string
  we_Verified :: bool
  we_Status :: string
  we_Attempts :: int
  we_LastError :: string
  we_ReceivedAt :: "time option"
  we_NextRetryAt :: "time option"
  we_LastUpdatedAt :: "time option"

record forward_request =
  fw_DeliveryId :: string
  fw_EventType :: string
  fw_Repository :: string
  fw_ClusterId :: string
  fw_Sender :: string
  fw_Ref :: string
  fw_Before :: string
  fw_After :: string
  fw_PayloadJson :: string
  fw_Verified :: bool

record forward_response =
  fr_Accepted :: bool
  fr_Message :: string

text \<open>An update document of MongoDB: the fields under \<open>$set\<close> and under \<open>$setOnInsert\<close>.\<close>

datatype bson = BStr string | BBool bool | BInt int | BTime time

record mongo_update =
  mu_set :: "(string \<times> bson) list"
  mu_setOnInsert :: "(string \<times> bson) list"

record 'w hook_env =
  hookNow :: "'w \<Rightarrow> time \<times> 'w"
  mongoUpsert :: "string \<Rightarrow> mongo_update \<Rightarrow> 'w \<Rightarrow> goerr option \<times> 'w"
  forgeryDial :: "string \<Rightarrow> 'w \<Rightarrow> goerr option \<times> 'w"
  forgeryForward :: "forward_request \<Rightarrow> 'w \<Rightarrow> forward_response result \<times> 'w"

record 'w hooks =
  hk_seen :: "time gomap"
  hk_jobs :: "forward_job list"
  hk_waiting :: "forward_job list"
  hk_world :: 'w

type_synonym ('w, 'a) hop = "('w hooks, 'a) state"

definition consult :: "('w \<Rightarrow> 'a \<times> 'w) \<Rightarrow> ('w, 'a) hop" where
  "consult f = State (\<lambda>s. case f (hk_world s) of (x, w) \<Rightarrow> (x, s\<lparr>hk_world := w\<rparr>))"

lemma run_consult [simp, run_simps]:
  "run_state (consult f) s = (fst (f (hk_world s)), s\<lparr>hk_world := snd (f (hk_world s))\<rparr>)"
  by (simp add: consult_def case_prod_beta)

section \<open>The settings\<close>

record hook_settings =
  hs_cfg :: gateway_config
  hs_replayTTL :: duration
  hs_baseBackoff :: duration
  hs_retries :: int
  hs_collection :: bool

definition NewWebhookService :: "gateway_config \<Rightarrow> bool \<Rightarrow> hook_settings result" where
  "NewWebhookService cfg collection =
     (case ParseDuration (ghook_ReplayTTL (gc_Webhook cfg)) of
        None \<Rightarrow> Inl (errorf ''invalid webhook.replay_ttl'')
      | Some ttl \<Rightarrow>
          (case ParseDuration (ghook_ForwardBaseBackoff (gc_Webhook cfg)) of
             None \<Rightarrow> Inl (errorf ''invalid webhook.forward_base_backoff'')
           | Some backoff \<Rightarrow>
               if blank (gfor_GRPCAddr (gc_Forgery cfg)) then Inl (errorf ''forgery.grpc_addr is required'')
               else Inr \<lparr> hs_cfg = cfg, hs_replayTTL = ttl, hs_baseBackoff = backoff,
                          hs_retries = ghook_ForwardRetries (gc_Webhook cfg), hs_collection = collection \<rparr>))"

section \<open>Reading the body\<close>

text \<open>A nested struct is decoded by the same rule as a field: every member of that name is merged into it.\<close>

definition stringMember :: "string \<Rightarrow> (string \<times> json) list \<Rightarrow> string \<Rightarrow> string option" where
  "stringMember name ms x = decode_field string_decoder name ms x"

definition ownerDecoder :: "json \<Rightarrow> string \<Rightarrow> string option" where
  "ownerDecoder v x = (case json_struct v of None \<Rightarrow> None | Some ms \<Rightarrow> stringMember ''login'' ms x)"

definition repositoryDecoder :: "json \<Rightarrow> string \<times> string \<times> string \<Rightarrow> (string \<times> string \<times> string) option" where
  "repositoryDecoder v = (\<lambda>(name, full, owner).
     (case json_struct v of
        None \<Rightarrow> None
      | Some ms \<Rightarrow>
          (case (stringMember ''name'' ms name, stringMember ''full_name'' ms full, decode_field ownerDecoder ''owner'' ms owner) of
             (Some n, Some f, Some ow) \<Rightarrow> Some (n, f, ow)
           | _ \<Rightarrow> None)))"

definition parseEnvelope :: "string \<Rightarrow> push_envelope option" where
  "parseEnvelope body =
     (case Option.bind (json_parse body) json_struct of
        None \<Rightarrow> None
      | Some ms \<Rightarrow>
          (case (stringMember ''ref'' ms [], stringMember ''before'' ms [], stringMember ''after'' ms [],
                 decode_field ownerDecoder ''sender'' ms [], decode_field repositoryDecoder ''repository'' ms ([], [], [])) of
             (Some r, Some b, Some a, Some sn, Some (n, f, ow)) \<Rightarrow>
               Some \<lparr> pe_Ref = r, pe_Before = b, pe_After = a, pe_Sender = sn, pe_RepoName = n,
                      pe_RepoFullName = f, pe_RepoOwner = ow \<rparr>
           | _ \<Rightarrow> None))"

definition extractRepository :: "string \<Rightarrow> string option" where
  "extractRepository body =
     (case parseEnvelope body of
        None \<Rightarrow> None
      | Some p \<Rightarrow>
          if TrimSpace (pe_RepoFullName p) \<noteq> [] then Some (pe_RepoFullName p)
          else if pe_RepoOwner p \<noteq> [] \<and> pe_RepoName p \<noteq> [] then Some (pe_RepoOwner p @ ''/'' @ pe_RepoName p)
          else None)"

section \<open>The signature\<close>

definition secretForRepository :: "gateway_config \<Rightarrow> string \<Rightarrow> string" where
  "secretForRepository cfg repo =
     (let secret = TrimSpace (case mget (ghook_RepositorySecrets (gc_Webhook cfg)) repo of Some s \<Rightarrow> s | None \<Rightarrow> [])
      in if secret \<noteq> [] then secret else ggh_DefaultSecret (gc_GitHub cfg))"

definition validateSignature :: "string \<Rightarrow> string \<Rightarrow> string \<Rightarrow> bool" where
  "validateSignature secret receivedSignature body =
     (HasPrefix receivedSignature ''sha256='' \<and>
      (case DecodeString (TrimPrefix receivedSignature ''sha256='') of
         None \<Rightarrow> False
       | Some received \<Rightarrow> hmac_sha256 secret body = received))"

definition resolveClusterForRepository :: "gateway_config \<Rightarrow> string \<Rightarrow> string" where
  "resolveClusterForRepository cfg repo =
     (let clusterID = TrimSpace (case mget (gsch_RepositoryClusterMap (gc_Scheduler cfg)) repo of Some c \<Rightarrow> c | None \<Rightarrow> [])
      in if clusterID \<noteq> [] then clusterID else gsch_DefaultClusterID (gc_Scheduler cfg))"

section \<open>Records of events\<close>

definition eventFields :: "webhook_event \<Rightarrow> (string \<times> bson) list" where
  "eventFields ev =
     [(''delivery_id'', BStr (we_DeliveryID ev)), (''event_name'', BStr (we_EventName ev)),
      (''repository'', BStr (we_Repository ev)), (''cluster_id'', BStr (we_ClusterID ev)),
      (''verified'', BBool (we_Verified ev)), (''status'', BStr (we_Status ev)), (''attempts'', BInt (we_Attempts ev))]
     @ (if we_LastError ev = [] then [] else [(''last_error'', BStr (we_LastError ev))])
     @ (case we_ReceivedAt ev of None \<Rightarrow> [] | Some t \<Rightarrow> [(''received_at'', BTime t)])
     @ (case we_NextRetryAt ev of None \<Rightarrow> [] | Some t \<Rightarrow> [(''next_retry_at'', BTime t)])
     @ (case we_LastUpdatedAt ev of None \<Rightarrow> [] | Some t \<Rightarrow> [(''last_updated_at'', BTime t)])"

definition stamped :: "time \<Rightarrow> webhook_event \<Rightarrow> webhook_event" where
  "stamped now ev = ev
     \<lparr> we_ReceivedAt := Some (case we_ReceivedAt ev of None \<Rightarrow> now | Some t \<Rightarrow> t),
       we_LastUpdatedAt := Some (case we_LastUpdatedAt ev of None \<Rightarrow> now | Some t \<Rightarrow> t) \<rparr>"

definition persistUpdate :: "webhook_event \<Rightarrow> mongo_update" where
  "persistUpdate ev =
     \<lparr> mu_set = eventFields ev,
       mu_setOnInsert = [(''delivery_id'', BStr (we_DeliveryID ev)),
                         (''received_at'', BTime (case we_ReceivedAt ev of None \<Rightarrow> 0 | Some t \<Rightarrow> t))] \<rparr>"

definition persist :: "'w hook_env \<Rightarrow> hook_settings \<Rightarrow> webhook_event \<Rightarrow> ('w, unit) hop" where
  "persist H S ev =
     (if \<not> hs_collection S then ret ()
      else do {
        now \<leftarrow> consult (hookNow H);
        _ \<leftarrow> consult (mongoUpsert H (we_DeliveryID ev) (persistUpdate (stamped now ev)));
        ret () })"

definition jobEvent :: "forward_job \<Rightarrow> string \<Rightarrow> int \<Rightarrow> string \<Rightarrow> time option \<Rightarrow> time option \<Rightarrow> time \<Rightarrow> webhook_event" where
  "jobEvent j status attempts err received retryAt now =
     \<lparr> we_DeliveryID = fj_deliveryID j, we_EventName = fj_eventName j, we_Repository = fj_repo j,
       we_ClusterID = fj_clusterID j, we_Verified = True, we_Status = status, we_Attempts = attempts,
       we_LastError = err, we_ReceivedAt = received, we_NextRetryAt = retryAt, we_LastUpdatedAt = Some now \<rparr>"

section \<open>The handler\<close>

record hook_request =
  hq_event :: string
  hq_signature :: string
  hq_delivery :: string
  hq_contentType :: string
  hq_body :: string

definition reserveDelivery :: "'w hook_env \<Rightarrow> hook_settings \<Rightarrow> string \<Rightarrow> ('w, bool) hop" where
  "reserveDelivery H S deliveryID = do {
     now \<leftarrow> consult (hookNow H);
     _ \<leftarrow> modify (\<lambda>s. s\<lparr>hk_seen := filter (\<lambda>(k, seenAt). \<not> now - seenAt > hs_replayTTL S) (hk_seen s)\<rparr>);
     seen \<leftarrow> gets hk_seen;
     (if mget seen deliveryID \<noteq> None then ret False
      else do {
        _ \<leftarrow> modify (\<lambda>s. s\<lparr>hk_seen := mput deliveryID now (hk_seen s)\<rparr>);
        ret True }) }"

definition jobsCapacity :: nat where "jobsCapacity = 1024"

definition acceptDelivery :: "'w hook_env \<Rightarrow> hook_settings \<Rightarrow> forward_job \<Rightarrow> ('w, int \<times> string) hop" where
  "acceptDelivery H S job = do {
     received \<leftarrow> consult (hookNow H);
     updated \<leftarrow> consult (hookNow H);
     _ \<leftarrow> persist H S (jobEvent job ''accepted'' 0 [] (Some received) None updated);
     jobs \<leftarrow> gets hk_jobs;
     _ \<leftarrow> (if length jobs < jobsCapacity then modify (\<lambda>s. s\<lparr>hk_jobs := hk_jobs s @ [job]\<rparr>)
          else do {
            t \<leftarrow> consult (hookNow H);
            persist H S (jobEvent job ''buffer_full'' 0 ''retry buffer full'' None None t) });
     ret (200, ''ok'') }"

definition headersOk :: "hook_request \<Rightarrow> bool" where
  "headersOk q = (TrimSpace (hq_event q) \<noteq> [] \<and> TrimSpace (hq_signature q) \<noteq> [] \<and> TrimSpace (hq_delivery q) \<noteq> [])"

definition HandleGitHubWebhook :: "'w hook_env \<Rightarrow> hook_settings \<Rightarrow> hook_request \<Rightarrow> ('w, int \<times> string) hop" where
  "HandleGitHubWebhook H S q =
     (if \<not> headersOk q then ret (400, ''missing required GitHub webhook headers'')
      else if \<not> Contains (ToLower (TrimSpace (hq_contentType q))) ''application/json'' then
        ret (400, ''content-type must be application/json'')
      else do {
        ok \<leftarrow> reserveDelivery H S (TrimSpace (hq_delivery q));
        (if \<not> ok then ret (409, ''duplicate delivery id'')
         else (case extractRepository (hq_body q) of
                 None \<Rightarrow> ret (400, ''invalid webhook payload'')
               | Some repo \<Rightarrow>
                   if \<not> validateSignature (secretForRepository (hs_cfg S) repo) (TrimSpace (hq_signature q)) (hq_body q)
                   then ret (401, ''invalid webhook signature'')
                   else acceptDelivery H S
                     \<lparr> fj_deliveryID = TrimSpace (hq_delivery q), fj_eventName = TrimSpace (hq_event q), fj_repo = repo,
                       fj_clusterID = resolveClusterForRepository (hs_cfg S) repo, fj_body = hq_body q, fj_attempt = 0 \<rparr>)) })"

section \<open>The workers\<close>

definition forwardRequest :: "forward_job \<Rightarrow> push_envelope \<Rightarrow> forward_request" where
  "forwardRequest j p =
     \<lparr> fw_DeliveryId = fj_deliveryID j, fw_EventType = fj_eventName j, fw_Repository = fj_repo j,
       fw_ClusterId = fj_clusterID j, fw_Sender = pe_Sender p, fw_Ref = pe_Ref p, fw_Before = pe_Before p,
       fw_After = pe_After p, fw_PayloadJson = fj_body j, fw_Verified = True \<rparr>"

definition forwardGRPC :: "'w hook_env \<Rightarrow> hook_settings \<Rightarrow> forward_job \<Rightarrow> ('w, goerr option) hop" where
  "forwardGRPC H S j =
     (case parseEnvelope (fj_body j) of
        None \<Rightarrow> ret (Some (errorf ''parse webhook body''))
      | Some p \<Rightarrow> do {
          d \<leftarrow> consult (forgeryDial H (gfor_GRPCAddr (gc_Forgery (hs_cfg S))));
          (case d of
             Some e \<Rightarrow> ret (Some e)
           | None \<Rightarrow> do {
               r \<leftarrow> consult (forgeryForward H (forwardRequest j p));
               ret (case r of
                      Inl e \<Rightarrow> Some e
                    | Inr resp \<Rightarrow>
                        if fr_Accepted resp then None
                        else Some (errorf (''forgery rejected webhook: '' @ fr_Message resp))) }) })"

text \<open>A \<open>time.Duration\<close> is an \<open>int64\<close>; doubling it wraps around.\<close>

definition backoffForAttempt :: "hook_settings \<Rightarrow> int \<Rightarrow> duration" where
  "backoffForAttempt S attempt = wrap64 (hs_baseBackoff S * 2 ^ nat (attempt - 1))"

definition processJob :: "'w hook_env \<Rightarrow> hook_settings \<Rightarrow> forward_job \<Rightarrow> ('w, unit) hop" where
  "processJob H S j = do {
     let attempt = fj_attempt j + 1;
     err \<leftarrow> forwardGRPC H S j;
     now \<leftarrow> consult (hookNow H);
     (case err of
        None \<Rightarrow> persist H S (jobEvent j ''forwarded'' attempt [] None None now)
      | Some e \<Rightarrow>
          if attempt \<ge> hs_retries S then persist H S (jobEvent j ''failed'' attempt (err_msg e) None None now)
          else do {
            updated \<leftarrow> consult (hookNow H);
            _ \<leftarrow> persist H S (jobEvent j ''retrying'' attempt (err_msg e) None
                   (Some (now + backoffForAttempt S attempt)) updated);
            modify (\<lambda>s. s\<lparr>hk_waiting := hk_waiting s @ [j\<lparr>fj_attempt := attempt\<rparr>]\<rparr>) }) }"

section \<open>Interleaving\<close>

text \<open>
  A request arrives, a worker takes the oldest job of the channel, or one of the timers fires and
  puts its job back, which waits for room. Timers fire in any order.
\<close>

datatype hook_event = Receive hook_request | Work | Fire nat

fun hookEnabled :: "'w hooks \<Rightarrow> hook_event \<Rightarrow> bool" where
  "hookEnabled s (Receive q) = True"
| "hookEnabled s Work = (hk_jobs s \<noteq> [])"
| "hookEnabled s (Fire i) = (i < length (hk_waiting s) \<and> length (hk_jobs s) < jobsCapacity)"

fun hookStep :: "'w hook_env \<Rightarrow> hook_settings \<Rightarrow> hook_event \<Rightarrow> 'w hooks \<Rightarrow> 'w hooks" where
  "hookStep H S (Receive q) s = snd (run_state (HandleGitHubWebhook H S q) s)"
| "hookStep H S Work s =
     (case hk_jobs s of [] \<Rightarrow> s | j # js \<Rightarrow> snd (run_state (processJob H S j) (s\<lparr>hk_jobs := js\<rparr>)))"
| "hookStep H S (Fire i) s =
     (if hookEnabled s (Fire i)
      then s\<lparr>hk_jobs := hk_jobs s @ [hk_waiting s ! i], hk_waiting := take i (hk_waiting s) @ drop (Suc i) (hk_waiting s)\<rparr>
      else s)"

definition hookRun :: "'w hook_env \<Rightarrow> hook_settings \<Rightarrow> hook_event list \<Rightarrow> 'w hooks \<Rightarrow> 'w hooks" where
  "hookRun H S evs s = fold (hookStep H S) evs s"

fun hookSchedule :: "'w hook_env \<Rightarrow> hook_settings \<Rightarrow> hook_event list \<Rightarrow> 'w hooks \<Rightarrow> bool" where
  "hookSchedule H S [] s = True"
| "hookSchedule H S (ev # evs) s = (hookEnabled s ev \<and> hookSchedule H S evs (hookStep H S ev s))"

definition freshHooks :: "'w \<Rightarrow> 'w hooks" where
  "freshHooks w = \<lparr> hk_seen = [], hk_jobs = [], hk_waiting = [], hk_world = w \<rparr>"

end
