(* ===== verification/Forgery.thy ===== *)
theory Forgery
  imports Webhook
begin

text \<open>
  The build service: the gRPC service that queues webhooks and builds
  (\<open>persys-forgery/internal/grpcapi/service.go\<close>), the two workers that serve the queues
  (\<open>internal/queue\<close>) and the orchestrator (\<open>internal/build/orchestrator.go\<close>). The queues are Redis
  lists, the projects are rows of a database, the build itself is Docker or the operator: calls to
  the outside. A queue holds what \<open>json.Marshal\<close> wrote; an entry is the value that decoding it
  gives, or text that does not decode; encoding these values does not fail. The time of a status
  entry is kept as a time and not as text, and the metrics are left out.
\<close>

section \<open>Data\<close>

record build_request =
  br_ID :: string
  br_ProjectName :: string
  br_Type :: string
  br_Source :: string
  br_CommitHash :: string
  br_Branch :: string
  br_Pipeline :: string
  br_Strategy :: string
  br_PushArtifact :: bool
  br_NexusRepo :: string
  br_WebhookData :: "json gomap"
  br_Metadata :: "json gomap"
  br_CreatedAt :: time

record verified_event =
  ve_DeliveryID :: string
  ve_EventType :: string
  ve_Repository :: string
  ve_ClusterID :: string
  ve_Sender :: string
  ve_Ref :: string
  ve_Before :: string
  ve_After :: string
  ve_Payload :: "(string \<times> json) list"
  ve_ReceivedAt :: time

record pipeline_status =
  ps_DeliveryID :: string
  ps_Repository :: string
  ps_Status :: string
  ps_Message :: string
  ps_Timestamp :: time

record project =
  pj_Name :: string
  pj_RepoURL :: string
  pj_DefaultBranch :: string
  pj_ClusterID :: string
  pj_BuildType :: string
  pj_BuildMode :: string
  pj_Strategy :: string
  pj_NexusRepo :: string
  pj_PipelineYAML :: string
  pj_AutoDeploy :: bool
  pj_ImageName :: string

datatype queue_item = QWebhook verified_event | QBuild build_request | QStatus pipeline_status | QText string

text \<open>
  The outside of forgery. \<open>redisBLPop\<close> answers \<open>Inr None\<close> while it blocks on an empty list.
\<close>

record 'w forgery_env =
  forgeryNow :: "'w \<Rightarrow> time \<times> 'w"
  redisLPush :: "string \<Rightarrow> queue_item \<Rightarrow> 'w \<Rightarrow> goerr option \<times> 'w"
  redisBLPop :: "string \<Rightarrow> 'w \<Rightarrow> queue_item option result \<times> 'w"
  redisLRange :: "string \<Rightarrow> int \<Rightarrow> int \<Rightarrow> 'w \<Rightarrow> queue_item list result \<times> 'w"
  dbFirstProject :: "string \<Rightarrow> 'w \<Rightarrow> project result \<times> 'w"
  dbUpsertProject :: "project \<Rightarrow> 'w \<Rightarrow> project result \<times> 'w"
  dbListProjects :: "'w \<Rightarrow> project list result \<times> 'w"
  dbDeleteProject :: "string \<Rightarrow> 'w \<Rightarrow> goerr option \<times> 'w"
  joinPath :: "string \<Rightarrow> string \<Rightarrow> string"
  makeWorkspace :: "string \<Rightarrow> 'w \<Rightarrow> 'w"
  removeWorkspace :: "string \<Rightarrow> 'w \<Rightarrow> 'w"
  dockerBuild :: "(build_request \<Rightarrow> 'w \<Rightarrow> goerr option \<times> 'w) option"
  runPipeline :: "build_request \<Rightarrow> 'w \<Rightarrow> goerr option \<times> 'w"
  createBuildCRD :: "(string list \<Rightarrow> 'w \<Rightarrow> goerr option \<times> 'w) option"

record forgery_settings =
  fc_webhookQueue :: string
  fc_buildQueue :: string
  fc_statusQueue :: string
  fc_workspaceDir :: string

type_synonym ('w, 'a) fop = "('w, 'a) state"

section \<open>Queueing a webhook\<close>

text \<open>
  The payload must be a JSON object. \<open>Unmarshal\<close> also refuses a number that no \<open>float64\<close> can hold, such as
  \<open>1e999\<close>; here numbers stay the text they are, of any magnitude.
\<close>

definition payloadOf :: "string \<Rightarrow> (string \<times> json) list option" where
  "payloadOf s = (if s = [] then Some [] else Option.bind (json_parse s) json_struct)"

definition refuse :: "string \<Rightarrow> ('w, forward_response) fop" where
  "refuse m = ret \<lparr> fr_Accepted = False, fr_Message = m \<rparr>"

definition ForwardWebhook :: "'w forgery_env \<Rightarrow> forgery_settings \<Rightarrow> forward_request option \<Rightarrow> ('w, forward_response) fop" where
  "ForwardWebhook F C req =
     (case req of
        None \<Rightarrow> refuse ''request is required''
      | Some q \<Rightarrow>
          if \<not> fw_Verified q then refuse ''webhook must be pre-verified by gateway''
          else if fw_Repository q = [] then refuse ''repository is required''
          else (case payloadOf (fw_PayloadJson q) of
                  None \<Rightarrow> refuse ''invalid payload_json''
                | Some payload \<Rightarrow> do {
                    now \<leftarrow> State (forgeryNow F);
                    r \<leftarrow> State (redisLPush F (fc_webhookQueue C) (QWebhook
                           \<lparr> ve_DeliveryID = fw_DeliveryId q, ve_EventType = fw_EventType q, ve_Repository = fw_Repository q,
                             ve_ClusterID = fw_ClusterId q, ve_Sender = fw_Sender q, ve_Ref = fw_Ref q,
                             ve_Before = fw_Before q, ve_After = fw_After q, ve_Payload = payload, ve_ReceivedAt = now \<rparr>));
                    (case r of
                       Some e \<Rightarrow> refuse (''failed to enqueue webhook: '' @ err_msg e)
                     | None \<Rightarrow> ret \<lparr> fr_Accepted = True, fr_Message = ''queued'' \<rparr>) }))"

section \<open>From a webhook to a build request\<close>

text \<open>The entry of a decoded object: of several members of one name the last one stays.\<close>

definition member :: "(string \<times> json) list \<Rightarrow> string \<Rightarrow> json option" where
  "member ms k = map_of (rev ms) k"

definition extractString :: "(string \<times> json) list \<Rightarrow> string \<Rightarrow> string" where
  "extractString payload key = (case member payload key of Some (JString s) \<Rightarrow> TrimSpace s | _ \<Rightarrow> [])"

definition textMember :: "(string \<times> json) list \<Rightarrow> string \<Rightarrow> string" where
  "textMember ms k = (case member ms k of Some (JString s) \<Rightarrow> s | _ \<Rightarrow> [])"

text \<open>\<open>int(v)\<close> of a \<open>float64\<close> drops the fraction; the rounding of the literal to a \<open>float64\<close> is not modelled.\<close>

definition truncated :: "rat \<Rightarrow> int" where
  "truncated q = (if q < 0 then - \<lfloor>- q\<rfloor> else \<lfloor>q\<rfloor>)"

definition extractPullRequest :: "(string \<times> json) list \<Rightarrow> (int \<times> string \<times> string) option" where
  "extractPullRequest payload =
     (case member payload ''pull_request'' of
        Some (JObject pr) \<Rightarrow>
          (let number = (case member pr ''number'' of Some (JNumber t) \<Rightarrow> truncated (number_value t) | _ \<Rightarrow> 0);
               title = textMember pr ''title''; state = textMember pr ''state''
           in if number = 0 \<and> TrimSpace title = [] \<and> TrimSpace state = [] then None
              else Some (number, TrimSpace title, TrimSpace state))
      | _ \<Rightarrow> None)"

definition pullRequestJson :: "int \<times> string \<times> string \<Rightarrow> json" where
  "pullRequestJson = (\<lambda>(number, title, state).
     JObject [(''number'', JNumber (itoa number)), (''title'', JString title), (''state'', JString state)])"

definition buildRequestFromWebhook :: "time \<Rightarrow> verified_event \<Rightarrow> build_request" where
  "buildRequestFromWebhook now ev =
     (let b0 = TrimPrefix (ve_Ref ev) ''refs/heads/'';
          branch = (if b0 = [] then TrimPrefix (extractString (ve_Payload ev) ''ref'') ''refs/heads/'' else b0);
          source = (if \<not> Contains (ve_Repository ev) ''://'' \<and> Contains (ve_Repository ev) ''/''
                    then ''https://github.com/'' @ ve_Repository ev @ ''.git'' else ve_Repository ev);
          c0 = TrimSpace (ve_After ev);
          commitSHA = (if c0 = [] then extractString (ve_Payload ev) ''after'' else c0);
          data = [(''event_type'', JString (ve_EventType ev)), (''repository'', JString (ve_Repository ev)),
                  (''sender'', JString (ve_Sender ev)), (''ref'', JString (ve_Ref ev)),
                  (''before'', JString (ve_Before ev)), (''after'', JString (ve_After ev))]
      in \<lparr> br_ID = ve_DeliveryID ev, br_ProjectName = ve_Repository ev, br_Type = ''dockerfile'', br_Source = source,
           br_CommitHash = commitSHA, br_Branch = branch, br_Pipeline = [], br_Strategy = ''local'',
           br_PushArtifact = False, br_NexusRepo = [],
           br_WebhookData = data @ (case extractPullRequest (ve_Payload ev) of None \<Rightarrow> []
                                    | Some pr \<Rightarrow> [(''pull_request'', pullRequestJson pr)]),
           br_Metadata = [(''cluster_id'', JString (ve_ClusterID ev)), (''delivery_id'', JString (ve_DeliveryID ev))],
           br_CreatedAt = now \<rparr>)"

section \<open>The webhook worker\<close>

definition publishPipelineStatus :: "'w forgery_env \<Rightarrow> forgery_settings \<Rightarrow> string \<Rightarrow> string \<Rightarrow> string \<Rightarrow> string \<Rightarrow> ('w, unit) fop" where
  "publishPipelineStatus F C delivery repo status msg = do {
     now \<leftarrow> State (forgeryNow F);
     _ \<leftarrow> State (redisLPush F (fc_statusQueue C) (QStatus
            \<lparr> ps_DeliveryID = delivery, ps_Repository = repo, ps_Status = status, ps_Message = msg, ps_Timestamp = now \<rparr>));
     ret () }"

text \<open>One turn of the loop of \<open>StartWebhookWorker\<close>.\<close>

definition webhookWorkerTurn :: "'w forgery_env \<Rightarrow> forgery_settings \<Rightarrow> ('w, unit) fop" where
  "webhookWorkerTurn F C = do {
     res \<leftarrow> State (redisBLPop F (fc_webhookQueue C));
     (case res of
        Inr (Some (QWebhook ev)) \<Rightarrow> do {
          _ \<leftarrow> publishPipelineStatus F C (ve_DeliveryID ev) (ve_Repository ev) ''webhook_received''
                 ''Webhook event accepted by forgery'';
          now \<leftarrow> State (forgeryNow F);
          r \<leftarrow> State (redisLPush F (fc_buildQueue C) (QBuild (buildRequestFromWebhook now ev)));
          (case r of
             Some e \<Rightarrow> publishPipelineStatus F C (ve_DeliveryID ev) (ve_Repository ev) ''webhook_failed''
                        (''Failed to enqueue build: '' @ err_msg e)
           | None \<Rightarrow> publishPipelineStatus F C (ve_DeliveryID ev) (ve_Repository ev) ''build_enqueued''
                        ''Build request enqueued from webhook'') }
      | _ \<Rightarrow> ret ()) }"

section \<open>The orchestrator\<close>

definition validateBuildRequest :: "build_request \<Rightarrow> goerr option" where
  "validateBuildRequest req =
     (if br_ProjectName req = [] then Some (errorf ''project name is required'')
      else if br_Type req = [] then Some (errorf ''build type is required'')
      else if br_Source req = [] then Some (errorf ''source repository is required'')
      else if br_CommitHash req = [] then Some (errorf ''commit hash is required'')
      else if br_Strategy req = [] then Some (errorf ''build strategy is required'')
      else if br_Type req \<notin> {''dockerfile'', ''compose'', ''pipeline''} then
        Some (errorf (''invalid build type: '' @ br_Type req))
      else None)"

definition UnixNano :: "time \<Rightarrow> int" where
  "UnixNano t = t - 62135596800 * 1000000000"

definition generateImageName :: "build_request \<Rightarrow> string" where
  "generateImageName req =
     (if br_NexusRepo req \<noteq> [] then br_NexusRepo req @ ''/'' @ br_ProjectName req @ '':latest''
      else br_ProjectName req @ '':latest'')"

definition executeLocalBuild :: "'w forgery_env \<Rightarrow> build_request \<Rightarrow> string \<Rightarrow> ('w, goerr option) fop" where
  "executeLocalBuild F req workspace =
     (case dockerBuild F of
        None \<Rightarrow> ret (Some (errorf ''Docker client not initialized''))
      | Some build \<Rightarrow>
          (let req' = req\<lparr>br_Metadata := mput ''workspace'' (JString workspace) (br_Metadata req)\<rparr>
           in if br_Type req = ''pipeline'' then State (runPipeline F req') else State (build req')))"

definition executeOperatorBuild :: "'w forgery_env \<Rightarrow> build_request \<Rightarrow> ('w, goerr option) fop" where
  "executeOperatorBuild F req =
     (case createBuildCRD F of
        None \<Rightarrow> ret (Some (errorf ''operator client not initialized''))
      | Some create \<Rightarrow>
          State (create [br_ProjectName req, generateImageName req, br_Source req, br_CommitHash req, br_Pipeline req]))"

definition BuildWithStrategy :: "'w forgery_env \<Rightarrow> forgery_settings \<Rightarrow> build_request \<Rightarrow> string \<Rightarrow> ('w, goerr option) fop" where
  "BuildWithStrategy F C req strategy0 =
     (let strategy = (if strategy0 = [] then br_Strategy req else strategy0)
      in case validateBuildRequest req of
           Some e \<Rightarrow> ret (Some (wrapw ''invalid build request: '' e))
         | None \<Rightarrow> do {
             now \<leftarrow> State (forgeryNow F);
             let workspace = joinPath F (fc_workspaceDir C) (br_ProjectName req @ ''-'' @ itoa (UnixNano now));
             _ \<leftarrow> modify (makeWorkspace F workspace);
             r \<leftarrow> (if strategy = ''local'' then executeLocalBuild F req workspace
                  else if strategy = ''operator'' then executeOperatorBuild F req
                  else if strategy = ''prow'' then ret (Some (errorf ''prow build strategy not yet implemented''))
                  else ret (Some (errorf (''unknown build strategy: '' @ strategy))));
             _ \<leftarrow> modify (removeWorkspace F workspace);
             ret r })"

section \<open>The build worker\<close>

definition autoDeployEnabled :: "build_request \<Rightarrow> bool" where
  "autoDeployEnabled req = (case mget (br_Metadata req) ''auto_deploy'' of Some (JBool b) \<Rightarrow> b | _ \<Rightarrow> False)"

definition imageTagFor :: "build_request \<Rightarrow> string" where
  "imageTagFor req =
     (let tag = (if br_CommitHash req \<noteq> [] then br_CommitHash req else ''latest'')
      in if br_NexusRepo req \<noteq> [] then br_NexusRepo req @ ''/'' @ br_ProjectName req @ '':'' @ tag
         else br_ProjectName req @ '':'' @ tag)"

text \<open>The goroutine that a dequeued build starts, and one turn of the loop of \<open>StartRedisWorker\<close>.\<close>

definition runBuild :: "'w forgery_env \<Rightarrow> forgery_settings \<Rightarrow> build_request \<Rightarrow> ('w, unit) fop" where
  "runBuild F C r = do {
     err \<leftarrow> BuildWithStrategy F C r (br_Strategy r);
     _ \<leftarrow> (case err of
            Some e \<Rightarrow> publishPipelineStatus F C (br_ID r) (br_ProjectName r) ''build_failed'' (err_msg e)
          | None \<Rightarrow> publishPipelineStatus F C (br_ID r) (br_ProjectName r) ''build_succeeded'' ''Build completed successfully'');
     doif (err = None \<and> autoDeployEnabled r)
       (publishPipelineStatus F C (br_ID r) (br_ProjectName r) ''redeploy_required''
          (''image ready for secure scheduler apply: '' @ imageTagFor r)) }"

definition buildWorkerTurn :: "'w forgery_env \<Rightarrow> forgery_settings \<Rightarrow> ('w, build_request option) fop" where
  "buildWorkerTurn F C = do {
     res \<leftarrow> State (redisBLPop F (fc_buildQueue C));
     (case res of
        Inr (Some (QBuild req)) \<Rightarrow> do {
          _ \<leftarrow> publishPipelineStatus F C (br_ID req) (br_ProjectName req) ''build_started'' ''Build dequeued and started'';
          ret (Some req) }
      | _ \<Rightarrow> ret None) }"

section \<open>Projects and builds on demand\<close>

definition defaultString :: "string \<Rightarrow> string \<Rightarrow> string" where
  "defaultString v fallback = (let t = TrimSpace v in if t = [] then fallback else t)"

record project_response =
  pr_Ok :: bool
  pr_Message :: string
  pr_Project :: "project option"

text \<open>The request carries the fields of a project; \<open>projectToProto\<close> copies them back.\<close>

definition normalizeProject :: "project \<Rightarrow> project" where
  "normalizeProject q =
     (let mode = defaultString (pj_BuildMode q) ''standalone''; st = TrimSpace (pj_Strategy q)
      in \<lparr> pj_Name = TrimSpace (pj_Name q), pj_RepoURL = TrimSpace (pj_RepoURL q),
           pj_DefaultBranch = defaultString (pj_DefaultBranch q) ''main'', pj_ClusterID = TrimSpace (pj_ClusterID q),
           pj_BuildType = defaultString (pj_BuildType q) ''dockerfile'', pj_BuildMode = mode,
           pj_Strategy = (if st = [] then (if mode = ''runner'' then ''operator'' else ''local'') else st),
           pj_NexusRepo = TrimSpace (pj_NexusRepo q), pj_PipelineYAML = pj_PipelineYAML q,
           pj_AutoDeploy = pj_AutoDeploy q, pj_ImageName = TrimSpace (pj_ImageName q) \<rparr>)"

definition UpsertProject :: "'w forgery_env \<Rightarrow> project option \<Rightarrow> ('w, project_response) fop" where
  "UpsertProject F req =
     (case req of
        None \<Rightarrow> ret \<lparr> pr_Ok = False, pr_Message = ''name and repo_url are required'', pr_Project = None \<rparr>
      | Some q \<Rightarrow>
          if TrimSpace (pj_Name q) = [] \<or> TrimSpace (pj_RepoURL q) = [] then
            ret \<lparr> pr_Ok = False, pr_Message = ''name and repo_url are required'', pr_Project = None \<rparr>
          else do {
            r \<leftarrow> State (dbUpsertProject F (normalizeProject q));
            ret (case r of
                   Inl e \<Rightarrow> \<lparr> pr_Ok = False, pr_Message = err_msg e, pr_Project = None \<rparr>
                 | Inr p \<Rightarrow> \<lparr> pr_Ok = True, pr_Message = ''project upserted'', pr_Project = Some p \<rparr>) })"

definition GetProject :: "'w forgery_env \<Rightarrow> string \<Rightarrow> ('w, project_response) fop" where
  "GetProject F name = do {
     r \<leftarrow> State (dbFirstProject F (TrimSpace name));
     ret (case r of
            Inl e \<Rightarrow> \<lparr> pr_Ok = False, pr_Message = err_msg e, pr_Project = None \<rparr>
          | Inr p \<Rightarrow> \<lparr> pr_Ok = True, pr_Message = [], pr_Project = Some p \<rparr>) }"

definition ListProjects :: "'w forgery_env \<Rightarrow> ('w, project list result) fop" where
  "ListProjects F = State (dbListProjects F)"

definition DeleteProject :: "'w forgery_env \<Rightarrow> string \<Rightarrow> ('w, bool \<times> string) fop" where
  "DeleteProject F name = do {
     r \<leftarrow> State (dbDeleteProject F (TrimSpace name));
     ret (case r of Some e \<Rightarrow> (False, err_msg e) | None \<Rightarrow> (True, ''project deleted'')) }"

record trigger_request =
  tr_ProjectName :: string
  tr_Mode :: string
  tr_Ref :: string
  tr_CommitSha :: string
  tr_EventType :: string
  tr_Repository :: string
  tr_Sender :: string
  tr_ClusterId :: string

definition triggeredBuild :: "time \<Rightarrow> time \<Rightarrow> trigger_request \<Rightarrow> project \<Rightarrow> build_request" where
  "triggeredBuild t1 t2 q p =
     (let mode = defaultString (tr_Mode q) (pj_BuildMode p);
          strategy = (if mode = ''runner'' then ''operator'' else if pj_Strategy p = [] then ''local'' else pj_Strategy p)
      in \<lparr> br_ID = pj_Name p @ ''-'' @ itoa (UnixNano t1), br_ProjectName = pj_Name p,
           br_Type = defaultString (pj_BuildType p) ''dockerfile'', br_Source = pj_RepoURL p,
           br_CommitHash = tr_CommitSha q, br_Branch = TrimPrefix (tr_Ref q) ''refs/heads/'',
           br_Pipeline = pj_PipelineYAML p, br_Strategy = strategy, br_PushArtifact = True, br_NexusRepo = pj_NexusRepo p,
           br_WebhookData = [(''event_type'', JString (tr_EventType q)), (''repository'', JString (tr_Repository q)),
                             (''sender'', JString (tr_Sender q)), (''ref'', JString (tr_Ref q))],
           br_Metadata = [(''cluster_id'', JString (defaultString (tr_ClusterId q) (pj_ClusterID p))),
                          (''build_mode'', JString mode), (''auto_deploy'', JBool (pj_AutoDeploy p)),
                          (''image_name'', JString (defaultString (pj_ImageName p) (pj_Name p)))],
           br_CreatedAt = t2 \<rparr>)"

definition TriggerBuild :: "'w forgery_env \<Rightarrow> forgery_settings \<Rightarrow> trigger_request \<Rightarrow> ('w, bool \<times> string) fop" where
  "TriggerBuild F C q =
     (let projectName = TrimSpace (tr_ProjectName q)
      in if projectName = [] then ret (False, ''project_name is required'')
         else do {
           r \<leftarrow> State (dbFirstProject F projectName);
           (case r of
              Inl e \<Rightarrow> ret (False, ''project lookup failed: '' @ err_msg e)
            | Inr p \<Rightarrow> do {
                t1 \<leftarrow> State (forgeryNow F);
                t2 \<leftarrow> State (forgeryNow F);
                pushed \<leftarrow> State (redisLPush F (fc_buildQueue C) (QBuild (triggeredBuild t1 t2 q p)));
                ret (case pushed of Some e \<Rightarrow> (False, err_msg e) | None \<Rightarrow> (True, ''build queued'')) }) })"

section \<open>Pipeline status\<close>

definition statusMatches :: "string \<Rightarrow> string \<Rightarrow> pipeline_status \<Rightarrow> bool" where
  "statusMatches delivery repo e =
     ((TrimSpace delivery = [] \<or> ps_DeliveryID e = TrimSpace delivery) \<and>
      (TrimSpace repo = [] \<or> ps_Repository e = TrimSpace repo))"

definition decodeStatus :: "queue_item \<Rightarrow> pipeline_status option" where
  "decodeStatus i = (case i of QStatus e \<Rightarrow> Some e | _ \<Rightarrow> None)"

definition statusLimit :: "int \<Rightarrow> int" where
  "statusLimit l = (let a = (if l \<le> 0 then 50 else l) in if a > 500 then 500 else a)"

definition ListPipelineStatus :: "'w forgery_env \<Rightarrow> forgery_settings \<Rightarrow> int \<Rightarrow> string \<Rightarrow> string \<Rightarrow>
    ('w, pipeline_status list result) fop" where
  "ListPipelineStatus F C limit delivery repo = do {
     r \<leftarrow> State (redisLRange F (fc_statusQueue C) 0 (statusLimit limit - 1));
     ret (case r of
            Inl e \<Rightarrow> Inl e
          | Inr items \<Rightarrow> Inr (filter (statusMatches delivery repo) (List.map_filter decodeStatus items))) }"

definition parseRepo :: "string \<Rightarrow> string \<Rightarrow> (string \<times> string) result" where
  "parseRepo repo fallbackOwner =
     (case Split CHR ''/'' (TrimSpace repo) of
        [a, b] \<Rightarrow> Inr (a, b)
      | [a] \<Rightarrow> if TrimSpace fallbackOwner \<noteq> [] then Inr (fallbackOwner, a)
               else Inl (errorf ''repository must be <owner>/<name>'')
      | _ \<Rightarrow> Inl (errorf ''repository must be <owner>/<name>''))"

end
