(* ===== verification/WebhookSpec.thy ===== *)
theory WebhookSpec
  imports Webhook
begin

text \<open>
  What the webhook intake promises: only signed deliveries are queued, a delivery is accepted once
  within the replay window, and forwarding ends. Two theorems record what it does not do: an
  unsigned request uses up the delivery id of a genuine one, and no event is ever recorded.
\<close>

section \<open>Effects of the parts\<close>

lemma persist_fields [simp]:
  "hk_seen (snd (run_state (persist H S ev) s)) = hk_seen s"
  "hk_jobs (snd (run_state (persist H S ev) s)) = hk_jobs s"
  "hk_waiting (snd (run_state (persist H S ev) s)) = hk_waiting s"
  by (simp_all add: persist_def)

lemma forward_fields [simp]:
  "hk_seen (snd (run_state (forwardGRPC H S j) s)) = hk_seen s"
  "hk_jobs (snd (run_state (forwardGRPC H S j) s)) = hk_jobs s"
  "hk_waiting (snd (run_state (forwardGRPC H S j) s)) = hk_waiting s"
  by (simp_all add: forwardGRPC_def split: option.split)

lemmas by_steps = run_bind_proj Let_def

lemma accept_fields [simp]:
  "fst (run_state (acceptDelivery H S j) s) = (200, ''ok'')"
  "hk_seen (snd (run_state (acceptDelivery H S j) s)) = hk_seen s"
  "hk_jobs (snd (run_state (acceptDelivery H S j) s)) =
     (if length (hk_jobs s) < jobsCapacity then hk_jobs s @ [j] else hk_jobs s)"
  "hk_waiting (snd (run_state (acceptDelivery H S j) s)) = hk_waiting s"
  by (simp_all add: acceptDelivery_def by_steps del: run_state_bind)

lemma process_fields [simp]:
  "hk_seen (snd (run_state (processJob H S j) s)) = hk_seen s"
  "hk_jobs (snd (run_state (processJob H S j) s)) = hk_jobs s"
  by (simp_all add: processJob_def by_steps split: option.split del: run_state_bind)

lemma process_waiting:
  "hk_waiting (snd (run_state (processJob H S j) s)) = hk_waiting s \<or>
   hk_waiting (snd (run_state (processJob H S j) s)) = hk_waiting s @ [j\<lparr>fj_attempt := fj_attempt j + 1\<rparr>] \<and>
     fj_attempt j + 1 < hs_retries S"
  by (auto simp: processJob_def by_steps split: option.split simp del: run_state_bind)

lemma reserve_fields [simp]:
  "hk_jobs (snd (run_state (reserveDelivery H S d) s)) = hk_jobs s"
  "hk_waiting (snd (run_state (reserveDelivery H S d) s)) = hk_waiting s"
  by (simp_all add: reserveDelivery_def)

section \<open>Only signed deliveries are queued\<close>

definition authentic :: "hook_settings \<Rightarrow> hook_request \<Rightarrow> forward_job \<Rightarrow> bool" where
  "authentic S q j = (\<exists>h. TrimSpace (hq_signature q) = ''sha256='' @ h \<and>
     DecodeString h = Some (hmac_sha256 (secretForRepository (hs_cfg S) (fj_repo j)) (fj_body j)) \<and>
     extractRepository (fj_body j) = Some (fj_repo j) \<and> fj_body j = hq_body q \<and>
     fj_deliveryID j = TrimSpace (hq_delivery q) \<and> fj_eventName j = TrimSpace (hq_event q))"

lemma HasPrefix_split: "HasPrefix s p \<Longrightarrow> s = p @ TrimPrefix s p"
  by (induction s p rule: HasPrefix.induct) (auto simp: TrimPrefix_def)

lemma validate_hmac:
  "validateSignature secret sig body \<Longrightarrow> \<exists>h. sig = ''sha256='' @ h \<and> DecodeString h = Some (hmac_sha256 secret body)"
  using HasPrefix_split [of sig "''sha256=''"] by (auto simp: validateSignature_def split: option.splits)

lemma handle_jobs:
  "hk_waiting (snd (run_state (HandleGitHubWebhook H S q) s)) = hk_waiting s \<and>
   (hk_jobs (snd (run_state (HandleGitHubWebhook H S q) s)) = hk_jobs s \<or>
    (\<exists>j. authentic S q j \<and> fj_attempt j = 0 \<and>
       hk_jobs (snd (run_state (HandleGitHubWebhook H S q) s)) = hk_jobs s @ [j]))"
  using validate_hmac
  by (auto simp: HandleGitHubWebhook_def by_steps authentic_def split: option.split simp del: run_state_bind)

text \<open>A retried job differs from the accepted one only in its count of attempts.\<close>

definition traced :: "hook_settings \<Rightarrow> hook_event list \<Rightarrow> forward_job \<Rightarrow> bool" where
  "traced S evs j = (\<exists>q. Receive q \<in> set evs \<and> authentic S q j)"

lemma authentic_attempt [simp]: "authentic S q (j\<lparr>fj_attempt := n\<rparr>) = authentic S q j"
  by (simp add: authentic_def)

lemma step_traced:
  assumes "list_all (traced S evs) (hk_jobs s @ hk_waiting s)"
  shows "list_all (traced S (evs @ [ev])) (hk_jobs (hookStep H S ev s) @ hk_waiting (hookStep H S ev s))"
proof -
  have old: "traced S evs j \<Longrightarrow> traced S (evs @ [ev]) j" for j by (auto simp: traced_def)
  with assms have all: "list_all (traced S (evs @ [ev])) (hk_jobs s @ hk_waiting s)" by (auto simp: list_all_iff)
  show ?thesis
  proof (cases ev)
    case (Receive q)
    then have "authentic S q j \<Longrightarrow> traced S (evs @ [ev]) j" for j by (auto simp: traced_def)
    with handle_jobs [of H S q s] all Receive show ?thesis by (auto simp: list_all_iff)
  next
    case Work
    have "traced S E (j\<lparr>fj_attempt := n\<rparr>) = traced S E j" for E j n by (simp add: traced_def)
    with all Work show ?thesis
      using process_waiting [of H S "hd (hk_jobs s)" "s\<lparr>hk_jobs := tl (hk_jobs s)\<rparr>"]
      by (cases "hk_jobs s") (auto simp: list_all_iff)
  next
    case (Fire i)
    with all show ?thesis by (auto simp: list_all_iff dest: in_set_takeD in_set_dropD)
  qed
qed

text \<open>
  C11: Only signed deliveries are forwarded. Whatever requests arrive and however the workers and
  timers interleave, every job in the channel and every job waiting for a retry comes from a
  received request whose signature header is the hexadecimal HMAC-SHA256 of its body under the
  secret of the repository that the body names.
\<close>

theorem queued_is_authentic:
  "\<forall>j \<in> set (hk_jobs (hookRun H S evs (freshHooks w))) \<union> set (hk_waiting (hookRun H S evs (freshHooks w))).
     \<exists>q. Receive q \<in> set evs \<and> authentic S q j"
proof -
  have "list_all (traced S evs) (hk_jobs (hookRun H S evs (freshHooks w)) @ hk_waiting (hookRun H S evs (freshHooks w)))"
  proof (induction evs rule: rev_induct)
    case (snoc ev evs)
    from step_traced [OF snoc, of ev H] show ?case by (simp add: hookRun_def)
  qed (simp add: hookRun_def freshHooks_def)
  then show ?thesis by (auto simp: list_all_iff traced_def)
qed

section \<open>Forwarding ends\<close>

definition budget :: "hook_settings \<Rightarrow> forward_job \<Rightarrow> nat" where
  "budget S j = nat (max 1 (hs_retries S - fj_attempt j))"

definition hookWork :: "hook_settings \<Rightarrow> 'w hooks \<Rightarrow> nat" where
  "hookWork S s = (\<Sum>j \<leftarrow> hk_jobs s. 2 * budget S j) + (\<Sum>j \<leftarrow> hk_waiting s. 2 * budget S j + 1)"

lemma budget_retry: "fj_attempt j + 1 < hs_retries S \<Longrightarrow> budget S (j\<lparr>fj_attempt := fj_attempt j + 1\<rparr>) < budget S j"
  by (simp add: budget_def)

lemma attempts_left: "0 < budget S j"
  by (simp add: budget_def)

lemma sum_list_pick:
  "i < length xs \<Longrightarrow> (\<Sum>x \<leftarrow> xs. f x) = f (xs ! i) + (\<Sum>x \<leftarrow> take i xs @ drop (Suc i) xs. (f x :: nat))"
  by (subst id_take_nth_drop [of i xs]) simp_all

lemma step_less:
  assumes en: "hookEnabled s ev" and ev: "\<not> (\<exists>q. ev = Receive q)"
  shows "hookWork S (hookStep H S ev s) < hookWork S s"
proof (cases ev)
  case Work
  then obtain j js where j: "hk_jobs s = j # js" using en by (cases "hk_jobs s") auto
  with Work process_waiting [of H S j "s\<lparr>hk_jobs := js\<rparr>"] budget_retry [of j S] attempts_left [of S j]
  show ?thesis by (auto simp: hookWork_def)
next
  case (Fire i)
  with en sum_list_pick [of i "hk_waiting s" "\<lambda>j. 2 * budget S j + 1"] show ?thesis
    by (simp add: hookWork_def)
qed (use ev in simp)

text \<open>
  C17: Forwarding ends. While no request arrives, the workers and the timers can take at most
  \<open>hookWork\<close> steps, twice the attempts that remain plus the timers that wait, however they are
  scheduled and whatever forgery answers; a job is attempted at most \<open>forward_retries\<close> times.
\<close>

theorem forwarding_terminates:
  assumes "hookSchedule H S evs s" and "\<not> (\<exists>q. Receive q \<in> set evs)"
  shows "length evs \<le> hookWork S s"
  using assms
proof (induction evs arbitrary: s)
  case (Cons ev evs)
  then have "hookWork S (hookStep H S ev s) < hookWork S s" by (intro step_less) auto
  moreover have "length evs \<le> hookWork S (hookStep H S ev s)" using Cons by simp
  ultimately show ?case by simp
qed simp

section \<open>Calls to the outside\<close>

text \<open>A relation between worlds that every call to the outside respects is respected by every run.\<close>

locale hook_calls =
  fixes H :: "'w hook_env"
    and before :: "'w \<Rightarrow> 'w \<Rightarrow> bool"
  assumes before_refl: "before w w"
    and before_trans: "before u v \<Longrightarrow> before v w \<Longrightarrow> before u w"
    and now_before: "before w (snd (hookNow H w))"
    and upsert_before: "before w (snd (mongoUpsert H k (persistUpdate (stamped t ev)) w))"
    and dial_before: "before w (snd (forgeryDial H a w))"
    and forward_before: "before w (snd (forgeryForward H q w))"
begin

abbreviation moves :: "'w hooks \<Rightarrow> 'w hooks \<Rightarrow> bool" where
  "moves s t \<equiv> before (hk_world s) (hk_world t)"

lemma moves_rel: "guarantee moves"
  by unfold_locales (auto intro: before_refl before_trans)

lemmas rules = guarantee.g_rules [OF moves_rel]

abbreviation forward_only :: "('w, 'a) hop \<Rightarrow> bool" where
  "forward_only m \<equiv> ensures (\<lambda>_. True) moves m (\<lambda>_. True)"

lemma consult_now: "forward_only (consult (hookNow H))"
  by (simp add: ensures_def now_before)

lemma modify_quiet: "(\<And>s. hk_world (f s) = hk_world s) \<Longrightarrow> forward_only (modify f)"
  by (simp add: ensures_def before_refl)

lemma persist_forward: "forward_only (persist H S ev)"
  by (auto simp: persist_def ensures_def before_refl intro: before_trans now_before upsert_before)

lemma forward_forward: "forward_only (forwardGRPC H S j)"
  by (auto simp: forwardGRPC_def ensures_def before_refl split: option.split
      intro: before_trans dial_before forward_before)

lemma reserve_forward: "forward_only (reserveDelivery H S d)"
  by (simp add: reserveDelivery_def ensures_def now_before)

lemma accept_forward: "forward_only (acceptDelivery H S j)"
  unfolding acceptDelivery_def by (intro rules consult_now persist_forward modify_quiet) auto

lemma process_forward: "forward_only (processJob H S j)"
  unfolding processJob_def by (intro rules consult_now persist_forward forward_forward modify_quiet) auto

lemma handle_forward: "forward_only (HandleGitHubWebhook H S q)"
  unfolding HandleGitHubWebhook_def by (intro rules reserve_forward accept_forward) auto

lemma step_before: "moves s (hookStep H S ev s)"
proof (cases ev)
  case (Receive q)
  then show ?thesis using handle_forward [of S q] by (simp add: ensures_def)
next
  case Work
  then show ?thesis
    using ensuresD(2) [OF process_forward [of S "hd (hk_jobs s)"], of "s\<lparr>hk_jobs := tl (hk_jobs s)\<rparr>"]
    by (cases "hk_jobs s") (simp_all add: before_refl)
qed (simp add: before_refl)

lemma run_before: "moves s (hookRun H S evs s)"
  unfolding hookRun_def
  by (induction evs arbitrary: s) (auto simp: before_refl intro: before_trans step_before)

end

section \<open>The replay window\<close>

text \<open>The clock does not go back, and a reading lies between the call and its return.\<close>

locale hook_clock =
  fixes H :: "'w hook_env"
    and clk :: "'w \<Rightarrow> time"
  assumes now_clk: "clk w \<le> fst (hookNow H w)" "fst (hookNow H w) \<le> clk (snd (hookNow H w))"
    and upsert_clk: "clk w \<le> clk (snd (mongoUpsert H k u w))"
    and dial_clk: "clk w \<le> clk (snd (forgeryDial H a w))"
    and forward_clk: "clk w \<le> clk (snd (forgeryForward H q w))"

sublocale hook_clock \<subseteq> calls: hook_calls H "\<lambda>w w'. clk w \<le> clk w'"
  by unfold_locales (auto intro: upsert_clk dial_clk forward_clk order_trans [OF now_clk(1) now_clk(2)])

lemma mget_filter: "mget m k = Some v \<Longrightarrow> P (k, v) \<Longrightarrow> mget (filter P m) k = Some v"
  by (induction m) (auto simp: mget_def)

definition reserved :: "time \<Rightarrow> string \<Rightarrow> 'w hooks \<Rightarrow> bool" where
  "reserved t d s = (\<exists>t' \<ge> t. mget (hk_seen s) d = Some t')"

context hook_clock
begin

lemma reserve_keeps:
  assumes "reserved t d s" "fst (hookNow H (hk_world s)) \<le> t + hs_replayTTL S"
  shows "reserved t d (snd (run_state (reserveDelivery H S d') s))"
    and "d' = d \<Longrightarrow> fst (run_state (reserveDelivery H S d') s) = False"
proof -
  from assms(1) obtain t' where t': "t \<le> t'" "mget (hk_seen s) d = Some t'" by (auto simp: reserved_def)
  let ?now = "fst (hookNow H (hk_world s))"
  have f: "mget (filter (\<lambda>(k, seenAt). \<not> ?now - seenAt > hs_replayTTL S) (hk_seen s)) d = Some t'"
    using assms(2) t' by (intro mget_filter) auto
  show "reserved t d (snd (run_state (reserveDelivery H S d') s))"
    using f t' by (cases "d' = d") (auto simp: reserveDelivery_def reserved_def)
  show "d' = d \<Longrightarrow> fst (run_state (reserveDelivery H S d') s) = False"
    using f by (simp add: reserveDelivery_def)
qed

lemma reserve_makes:
  assumes "fst (run_state (reserveDelivery H S d) s)"
  shows "reserved (clk (hk_world s)) d (snd (run_state (reserveDelivery H S d) s))"
  using assms now_clk(1) [of "hk_world s"] by (auto simp: reserveDelivery_def reserved_def split: if_splits)

lemma reserve_clock: "fst (hookNow H (hk_world s)) \<le> clk (hk_world (snd (run_state (reserveDelivery H S d) s)))"
  using now_clk(2) by (simp add: reserveDelivery_def)

lemma handle_seen:
  "hk_seen (snd (run_state (HandleGitHubWebhook H S q) s)) = hk_seen s \<or>
   hk_seen (snd (run_state (HandleGitHubWebhook H S q) s)) =
     hk_seen (snd (run_state (reserveDelivery H S (TrimSpace (hq_delivery q))) s)) \<and>
   clk (hk_world (snd (run_state (reserveDelivery H S (TrimSpace (hq_delivery q))) s))) \<le>
     clk (hk_world (snd (run_state (HandleGitHubWebhook H S q) s)))"
  using ensuresD(2) [OF calls.accept_forward]
  by (auto simp: HandleGitHubWebhook_def by_steps split: option.split simp del: run_state_bind)

lemma step_reserved:
  assumes "reserved t d s" "clk (hk_world (hookStep H S ev s)) \<le> t + hs_replayTTL S"
  shows "reserved t d (hookStep H S ev s)"
proof (cases ev)
  case (Receive q)
  with assms handle_seen [of S q s] reserve_clock [of s S "TrimSpace (hq_delivery q)"]
    reserve_keeps(1) [OF assms(1), of S "TrimSpace (hq_delivery q)"]
  show ?thesis by (auto simp: reserved_def)
qed (use assms(1) in \<open>auto simp: reserved_def split: list.split\<close>)

lemma run_reserved:
  "reserved t d s \<Longrightarrow> clk (hk_world (hookRun H S evs s)) \<le> t + hs_replayTTL S \<Longrightarrow> reserved t d (hookRun H S evs s)"
proof (induction evs arbitrary: s)
  case (Cons ev evs)
  have "clk (hk_world (hookStep H S ev s)) \<le> clk (hk_world (hookRun H S (ev # evs) s))"
    using calls.run_before [of "hookStep H S ev s" S evs] by (simp add: hookRun_def)
  with Cons.prems have "reserved t d (hookStep H S ev s)" by (intro step_reserved) auto
  with Cons show ?case by (simp add: hookRun_def)
qed (simp add: hookRun_def)

lemma reserved_blocks:
  assumes "reserved t d s" "fst (hookNow H (hk_world s)) \<le> t + hs_replayTTL S"
    "headersOk q" "Contains (ToLower (TrimSpace (hq_contentType q))) ''application/json''" "TrimSpace (hq_delivery q) = d"
  shows "fst (run_state (HandleGitHubWebhook H S q) s) = (409, ''duplicate delivery id'') \<and>
    hk_jobs (snd (run_state (HandleGitHubWebhook H S q) s)) = hk_jobs s"
  using reserve_keeps(2) [OF assms(1,2), of d] assms(3-5)
  by (simp add: HandleGitHubWebhook_def by_steps del: run_state_bind)

lemma handle_reserves:
  assumes "fst (fst (run_state (HandleGitHubWebhook H S q) s)) \<in> {200, 401}"
  shows "reserved (clk (hk_world s)) (TrimSpace (hq_delivery q)) (snd (run_state (HandleGitHubWebhook H S q) s))"
proof -
  let ?r = "run_state (reserveDelivery H S (TrimSpace (hq_delivery q))) s"
  have "fst ?r" "hk_seen (snd (run_state (HandleGitHubWebhook H S q) s)) = hk_seen (snd ?r)"
    using assms by (auto simp: HandleGitHubWebhook_def by_steps simp del: run_state_bind split: if_splits option.splits)
  then show ?thesis using reserve_makes by (simp add: reserved_def)
qed

lemma window:
  assumes "fst (fst (run_state (HandleGitHubWebhook H S q) s)) \<in> {200, 401}"
    and "s2 = hookRun H S evs (snd (run_state (HandleGitHubWebhook H S q) s))"
    and "fst (hookNow H (hk_world s2)) \<le> clk (hk_world s) + hs_replayTTL S"
    and "headersOk q2" "Contains (ToLower (TrimSpace (hq_contentType q2))) ''application/json''"
    and "TrimSpace (hq_delivery q2) = TrimSpace (hq_delivery q)"
  shows "fst (run_state (HandleGitHubWebhook H S q2) s2) = (409, ''duplicate delivery id'') \<and>
    hk_jobs (snd (run_state (HandleGitHubWebhook H S q2) s2)) = hk_jobs s2"
proof -
  have "clk (hk_world s2) \<le> clk (hk_world s) + hs_replayTTL S" using now_clk(1) [of "hk_world s2"] assms(3) by simp
  with run_reserved [OF handle_reserves [OF assms(1)], of S evs] assms(2)
  have "reserved (clk (hk_world s)) (TrimSpace (hq_delivery q)) s2" by simp
  from reserved_blocks [OF this assms(3-6)] show ?thesis .
qed

end

section \<open>The record of events\<close>

text \<open>
  MongoDB refuses an update that names a path under two operators, and refusing leaves the
  collection as it was. Nothing else touches the collection.
\<close>

definition clashing :: "mongo_update \<Rightarrow> bool" where
  "clashing u = (\<exists>p \<in> fst ` set (mu_set u). p \<in> fst ` set (mu_setOnInsert u))"

locale mongo_store =
  fixes H :: "'w hook_env"
    and docs :: "'w \<Rightarrow> 'd"
  assumes refuses: "clashing u \<Longrightarrow> docs (snd (mongoUpsert H k u w)) = docs w"
    and now_docs: "docs (snd (hookNow H w)) = docs w"
    and dial_docs: "docs (snd (forgeryDial H a w)) = docs w"
    and forward_docs: "docs (snd (forgeryForward H q w)) = docs w"

lemma persist_clashes: "clashing (persistUpdate ev)"
  by (simp add: clashing_def persistUpdate_def eventFields_def)

sublocale mongo_store \<subseteq> store: hook_calls H "\<lambda>w w'. docs w' = docs w"
  by unfold_locales (auto simp: refuses persist_clashes now_docs dial_docs forward_docs)

section \<open>A small site\<close>

record hook_site =
  hm_now :: time
  hm_docs :: "(string \<times> mongo_update) list"
  hm_forwarded :: "forward_request list"

definition siteHooks :: "hook_site hook_env" where
  "siteHooks =
     \<lparr> hookNow = (\<lambda>w. (hm_now w, w\<lparr>hm_now := hm_now w + 1\<rparr>)),
       mongoUpsert = (\<lambda>k u w. if clashing u then (Some (errorf ''ConflictingUpdateOperators''), w)
                              else (None, w\<lparr>hm_docs := hm_docs w @ [(k, u)]\<rparr>)),
       forgeryDial = (\<lambda>a w. (None, w)),
       forgeryForward = (\<lambda>q w. (Inr \<lparr> fr_Accepted = True, fr_Message = ''queued'' \<rparr>,
                               w\<lparr>hm_forwarded := hm_forwarded w @ [q]\<rparr>)) \<rparr>"

interpretation siteclock: hook_clock siteHooks hm_now
  by unfold_locales (auto simp: siteHooks_def)

interpretation sitestore: mongo_store siteHooks hm_docs
  by unfold_locales (auto simp: siteHooks_def)

definition demoHookSettings :: hook_settings where
  "demoHookSettings =
     \<lparr> hs_cfg = gatewayDefaults (zeroConfig\<lparr>gc_GitHub := (gc_GitHub zeroConfig)\<lparr>ggh_DefaultSecret := ''k''\<rparr>\<rparr>),
       hs_replayTTL = 300, hs_baseBackoff = 1, hs_retries = 2, hs_collection = True \<rparr>"

definition demoBody :: string where
  "demoBody = ''{'' @ [CHR 0x22] @ ''repository'' @ [CHR 0x22] @ '':{'' @ [CHR 0x22] @ ''full_name'' @ [CHR 0x22] @ '':'' @
     [CHR 0x22] @ ''o/r'' @ [CHR 0x22] @ ''}}''"

definition signedRequest :: "string \<Rightarrow> hook_request" where
  "signedRequest d =
     \<lparr> hq_event = ''push'', hq_signature = ''sha256='' @ EncodeToString (hmac_sha256 ''k'' demoBody), hq_delivery = d,
       hq_contentType = ''application/json'', hq_body = demoBody \<rparr>"

definition forgedRequest :: "string \<Rightarrow> hook_request" where
  "forgedRequest d = (signedRequest d)\<lparr>hq_signature := ''sha256=00''\<rparr>"

definition demoHooks :: "hook_site hooks" where
  "demoHooks = freshHooks \<lparr> hm_now = 0, hm_docs = [], hm_forwarded = [] \<rparr>"

lemma demo_repo: "extractRepository demoBody = Some ''o/r''"
  by code_simp

lemma demo_secret: "secretForRepository (hs_cfg demoHookSettings) ''o/r'' = ''k''"
  by code_simp

lemma sig_trim: "TrimSpace (''sha256='' @ EncodeToString s) = ''sha256='' @ EncodeToString s"
  using encoded_not_space [of _ s] by (intro TrimSpace_fixed) (auto simp: isSpace_def)

lemma sig_valid: "validateSignature k (''sha256='' @ EncodeToString (hmac_sha256 k b)) b"
  by (simp add: validateSignature_def TrimPrefix_def)

lemma sig_forged: "\<not> validateSignature k ''sha256=00'' b"
proof -
  have "DecodeString (TrimPrefix ''sha256=00'' ''sha256='') = Some [CHR 0x00]" by code_simp
  moreover have "length (hmac_sha256 k b) \<noteq> length [CHR 0x00]" by simp
  then have "hmac_sha256 k b \<noteq> [CHR 0x00]" by metis
  ultimately show ?thesis by (simp add: validateSignature_def)
qed

lemma demo_headers: "headersOk (signedRequest ''d1'')" "headersOk (forgedRequest ''d1'')"
  by (simp_all add: headersOk_def signedRequest_def forgedRequest_def sig_trim TrimSpace_eq_Nil isSpace_def)

lemma demo_content:
  "Contains (ToLower (TrimSpace (hq_contentType (signedRequest ''d1'')))) ''application/json''"
  "Contains (ToLower (TrimSpace (hq_contentType (forgedRequest ''d1'')))) ''application/json''"
proof -
  have "Contains (ToLower (TrimSpace ''application/json'')) ''application/json''" by code_simp
  then show "Contains (ToLower (TrimSpace (hq_contentType (signedRequest ''d1'')))) ''application/json''"
    "Contains (ToLower (TrimSpace (hq_contentType (forgedRequest ''d1'')))) ''application/json''"
    by (simp_all add: signedRequest_def forgedRequest_def)
qed

lemma demo_signed:
  "run_state (HandleGitHubWebhook siteHooks demoHookSettings (signedRequest ''d1'')) demoHooks =
   run_state (do { _ \<leftarrow> reserveDelivery siteHooks demoHookSettings ''d1'';
                   acceptDelivery siteHooks demoHookSettings
                     \<lparr> fj_deliveryID = ''d1'', fj_eventName = ''push'', fj_repo = ''o/r'',
                       fj_clusterID = [], fj_body = demoBody, fj_attempt = 0 \<rparr> }) demoHooks"
proof -
  have "TrimSpace ''d1'' = ''d1''" "TrimSpace ''push'' = ''push''"
      "resolveClusterForRepository (hs_cfg demoHookSettings) ''o/r'' = []" by code_simp+
  moreover have "fst (run_state (reserveDelivery siteHooks demoHookSettings ''d1'') demoHooks)"
    by (simp add: reserveDelivery_def demoHooks_def freshHooks_def)
  ultimately show ?thesis
    using demo_headers(1) demo_content(1) demo_repo demo_secret sig_valid [of "''k''" demoBody]
    by (simp add: HandleGitHubWebhook_def by_steps signedRequest_def sig_trim [simplified] del: run_state_bind)
qed

lemma demo_forged:
  "run_state (HandleGitHubWebhook siteHooks demoHookSettings (forgedRequest ''d1'')) demoHooks =
   ((401, ''invalid webhook signature''), snd (run_state (reserveDelivery siteHooks demoHookSettings ''d1'') demoHooks))"
proof -
  have "TrimSpace ''d1'' = ''d1''" "TrimSpace ''sha256=00'' = ''sha256=00''" by code_simp+
  moreover have "fst (run_state (reserveDelivery siteHooks demoHookSettings ''d1'') demoHooks)"
    by (simp add: reserveDelivery_def demoHooks_def freshHooks_def)
  ultimately show ?thesis
    using demo_headers(2) demo_content(2) demo_repo sig_forged
    by (simp add: HandleGitHubWebhook_def by_steps forgedRequest_def signedRequest_def del: run_state_bind)
qed

lemma demo_clocks:
  "hm_now (hk_world (snd (run_state (HandleGitHubWebhook siteHooks demoHookSettings (signedRequest ''d1'')) demoHooks))) = 4"
  "hm_now (hk_world (snd (run_state (HandleGitHubWebhook siteHooks demoHookSettings (forgedRequest ''d1'')) demoHooks))) = 1"
  unfolding demo_signed demo_forged
  by (simp_all add: reserveDelivery_def acceptDelivery_def persist_def persist_clashes siteHooks_def demoHooks_def
      freshHooks_def demoHookSettings_def jobsCapacity_def)

lemma site_now: "hookNow siteHooks w = (hm_now w, w\<lparr>hm_now := hm_now w + 1\<rparr>)"
  by (simp add: siteHooks_def)

lemma demo_ttl: "hs_replayTTL demoHookSettings = 300" "hm_now (hk_world demoHooks) = 0"
  by (simp_all add: demoHookSettings_def demoHooks_def freshHooks_def)

lemma demo_codes:
  "fst (fst (run_state (HandleGitHubWebhook siteHooks demoHookSettings (signedRequest ''d1'')) demoHooks)) = 200"
  "fst (fst (run_state (HandleGitHubWebhook siteHooks demoHookSettings (forgedRequest ''d1'')) demoHooks)) = 401"
  unfolding demo_signed demo_forged by (simp_all add: by_steps del: run_state_bind)

section \<open>The promises\<close>

text \<open>
  C15: No replay. After a delivery has been accepted, whatever happens in between, a request with the
  same delivery id is answered with a conflict and queues nothing, as long as the replay window has
  not passed by the gateway's clock.
\<close>

theorem no_replay:
  assumes "hook_clock H clk"
    and "fst (fst (run_state (HandleGitHubWebhook H S q) s)) = 200"
    and "s2 = hookRun H S evs (snd (run_state (HandleGitHubWebhook H S q) s))"
    and "fst (hookNow H (hk_world s2)) \<le> clk (hk_world s) + hs_replayTTL S"
    and "headersOk q2" "Contains (ToLower (TrimSpace (hq_contentType q2))) ''application/json''"
    and "TrimSpace (hq_delivery q2) = TrimSpace (hq_delivery q)"
  shows "fst (run_state (HandleGitHubWebhook H S q2) s2) = (409, ''duplicate delivery id'') \<and>
    hk_jobs (snd (run_state (HandleGitHubWebhook H S q2) s2)) = hk_jobs s2"
  using hook_clock.window [OF assms(1) _ assms(3-7)] assms(2) by simp

theorem no_replay_witness:
  "fst (run_state (HandleGitHubWebhook siteHooks demoHookSettings (signedRequest ''d1''))
     (snd (run_state (HandleGitHubWebhook siteHooks demoHookSettings (signedRequest ''d1'')) demoHooks))) =
   (409, ''duplicate delivery id'')"
  using no_replay [OF siteclock.hook_clock_axioms demo_codes(1) refl _ demo_headers(1) demo_content(1) refl, of "[]"]
  by (simp add: hookRun_def demo_clocks site_now demo_ttl)

definition genuine :: "hook_settings \<Rightarrow> hook_request \<Rightarrow> bool" where
  "genuine S q = (headersOk q \<and> Contains (ToLower (TrimSpace (hq_contentType q))) ''application/json'' \<and>
     (\<exists>repo. extractRepository (hq_body q) = Some repo \<and>
        validateSignature (secretForRepository (hs_cfg S) repo) (TrimSpace (hq_signature q)) (hq_body q)))"

text \<open>
  C38: A forged request uses up a delivery id. The id is reserved before the signature is checked, so
  after a request that is refused as badly signed, the genuine delivery with the same id is answered
  with a conflict and not queued for the whole replay window.
\<close>

theorem forged_delivery_blocks_genuine:
  assumes "hook_clock H clk"
    and "fst (fst (run_state (HandleGitHubWebhook H S q) s)) = 401"
    and "s2 = hookRun H S evs (snd (run_state (HandleGitHubWebhook H S q) s))"
    and "fst (hookNow H (hk_world s2)) \<le> clk (hk_world s) + hs_replayTTL S"
    and "genuine S q2" "TrimSpace (hq_delivery q2) = TrimSpace (hq_delivery q)"
  shows "fst (run_state (HandleGitHubWebhook H S q2) s2) = (409, ''duplicate delivery id'') \<and>
    hk_jobs (snd (run_state (HandleGitHubWebhook H S q2) s2)) = hk_jobs s2"
  using hook_clock.window [OF assms(1) _ assms(3,4) _ _ assms(6)] assms(2,5) by (simp add: genuine_def)

theorem forged_delivery_blocks_genuine_witness:
  "fst (run_state (HandleGitHubWebhook siteHooks demoHookSettings (signedRequest ''d1''))
     (snd (run_state (HandleGitHubWebhook siteHooks demoHookSettings (forgedRequest ''d1'')) demoHooks))) =
   (409, ''duplicate delivery id'')"
proof -
  have "genuine demoHookSettings (signedRequest ''d1'')"
    using demo_headers(1) demo_content(1) demo_repo demo_secret sig_valid [of "''k''" demoBody]
    by (simp add: genuine_def signedRequest_def sig_trim [simplified])
  moreover have "TrimSpace (hq_delivery (signedRequest ''d1'')) = TrimSpace (hq_delivery (forgedRequest ''d1''))"
    by (simp add: signedRequest_def forgedRequest_def)
  ultimately show ?thesis
    using forged_delivery_blocks_genuine [OF siteclock.hook_clock_axioms demo_codes(2) refl, of "[]" "signedRequest ''d1''"]
    by (simp add: hookRun_def demo_clocks site_now demo_ttl)
qed

text \<open>
  C37: No webhook event is ever recorded. Every update that \<open>persist\<close> sends names \<open>delivery_id\<close> and
  \<open>received_at\<close> both under \<open>$set\<close> and under \<open>$setOnInsert\<close>, which MongoDB refuses; so no run of the
  handler, the workers and the timers changes the collection.
\<close>

theorem events_never_recorded:
  assumes "mongo_store H docs"
  shows "docs (hk_world (hookRun H S evs s)) = docs (hk_world s)"
proof -
  have "hook_calls H (\<lambda>w w'. docs w' = docs w)"
    using assms by (simp add: mongo_store_def hook_calls_def persist_clashes)
  then show ?thesis by (rule hook_calls.run_before)
qed

theorem events_never_recorded_witness:
  "hm_docs (hk_world (hookRun siteHooks demoHookSettings [Receive (signedRequest ''d1''), Work] demoHooks)) = []"
  using events_never_recorded [OF sitestore.mongo_store_axioms, of demoHookSettings "[Receive (signedRequest ''d1''), Work]" demoHooks]
  by (simp add: demoHooks_def freshHooks_def)

theorem queued_is_authentic_witness:
  "\<exists>j. hk_jobs (hookRun siteHooks demoHookSettings [Receive (signedRequest ''d1'')] demoHooks) = [j] \<and>
     authentic demoHookSettings (signedRequest ''d1'') j"
proof -
  let ?s = "hookRun siteHooks demoHookSettings [Receive (signedRequest ''d1'')] demoHooks"
  have "\<exists>j. hk_jobs ?s = [j]"
    unfolding hookRun_def by (simp add: demo_signed del: run_state_bind)
      (simp add: by_steps demoHooks_def freshHooks_def jobsCapacity_def del: run_state_bind)
  then obtain j where j: "hk_jobs ?s = [j]" by blast
  then have "j \<in> set (hk_jobs ?s)" by simp
  with queued_is_authentic [of siteHooks demoHookSettings "[Receive (signedRequest ''d1'')]" "hk_world demoHooks"]
  have "authentic demoHookSettings (signedRequest ''d1'') j" by (simp add: demoHooks_def freshHooks_def)
  with j show ?thesis by blast
qed

theorem forwarding_terminates_witness:
  "1 \<le> hookWork demoHookSettings (demoHooks\<lparr>hk_jobs := [\<lparr> fj_deliveryID = ''d1'', fj_eventName = ''push'', fj_repo = ''o/r'',
     fj_clusterID = [], fj_body = demoBody, fj_attempt = 0 \<rparr>]\<rparr>)"
  using forwarding_terminates [of siteHooks demoHookSettings "[Work]" "demoHooks\<lparr>hk_jobs := [\<lparr> fj_deliveryID = ''d1'',
     fj_eventName = ''push'', fj_repo = ''o/r'', fj_clusterID = [], fj_body = demoBody, fj_attempt = 0 \<rparr>]\<rparr>"]
  by simp

end
