(* ===== verification/PipelineSpec.thy ===== *)
theory PipelineSpec
  imports Forgery WebhookSpec
begin

text \<open>
  The way of a webhook from the gateway through forgery's queues to a build. The gateway's forwarding
  is composed with forgery's service over one world; Redis is known by what it documents of lists.
\<close>

section \<open>Redis lists\<close>

locale redis_lists =
  fixes F :: "'w forgery_env"
    and lst :: "'w \<Rightarrow> string \<Rightarrow> queue_item list"
  assumes push_ok: "redisLPush F k i w = (None, w') \<Longrightarrow> lst w' = (lst w)(k := i # lst w k)"
    and push_err: "redisLPush F k i w = (Some e, w') \<Longrightarrow> lst w' = lst w"
    and pop_ok: "lst w k = i # is \<Longrightarrow> \<exists>w'. redisBLPop F k w = (Inr (Some i), w') \<and> lst w' = (lst w)(k := is)"
    and now_lst: "lst (snd (forgeryNow F w)) = lst w"
    and make_lst: "lst (makeWorkspace F a w) = lst w"
    and remove_lst: "lst (removeWorkspace F a w) = lst w"
    and docker_lst: "dockerBuild F = Some build \<Longrightarrow> lst (snd (build req w)) = lst w"
    and pipeline_lst: "lst (snd (runPipeline F req w)) = lst w"
    and crd_lst: "createBuildCRD F = Some create \<Longrightarrow> lst (snd (create xs w)) = lst w"
begin

lemma push_cases:
  "lst (snd (redisLPush F k i w)) = (if fst (redisLPush F k i w) = None then (lst w)(k := i # lst w k) else lst w)"
  using push_ok [of k i w] push_err [of k i w] by (cases "redisLPush F k i w") auto

lemma build_lst: "lst (snd (run_state (BuildWithStrategy F C req st) w)) = lst w"
  by (simp add: BuildWithStrategy_def executeLocalBuild_def executeOperatorBuild_def by_steps make_lst remove_lst docker_lst
      pipeline_lst crd_lst now_lst split: option.split del: run_state_bind)

lemma publish_lst:
  "\<exists>new. lst (snd (run_state (publishPipelineStatus F C d r st m) w)) =
     (lst w)(fc_statusQueue C := new @ lst w (fc_statusQueue C)) \<and>
   (\<forall>i \<in> set new. \<exists>e. i = QStatus e \<and> ps_Status e = st)"
proof -
  let ?e = "QStatus \<lparr> ps_DeliveryID = d, ps_Repository = r, ps_Status = st, ps_Message = m, ps_Timestamp = fst (forgeryNow F w) \<rparr>"
  show ?thesis
  proof (cases "fst (redisLPush F (fc_statusQueue C) ?e (snd (forgeryNow F w)))")
    case None
    then show ?thesis by (intro exI [of _ "[?e]"]) (simp add: publishPipelineStatus_def by_steps push_cases now_lst del: run_state_bind)
  next
    case (Some x)
    then show ?thesis by (intro exI [of _ "[]"]) (simp add: publishPipelineStatus_def by_steps push_cases now_lst del: run_state_bind)
  qed
qed

lemma runBuild_statuses:
  assumes "\<not> autoDeployEnabled b"
  shows "\<exists>new. lst (snd (run_state (runBuild F C b) w)) = (lst w)(fc_statusQueue C := new @ lst w (fc_statusQueue C)) \<and>
    (\<forall>i \<in> set new. \<exists>e. i = QStatus e \<and> ps_Status e \<in> {''build_failed'', ''build_succeeded''})"
proof -
  define w1 where "w1 = snd (run_state (BuildWithStrategy F C b (br_Strategy b)) w)"
  have w1: "lst w1 = lst w" by (simp add: w1_def build_lst)
  show ?thesis
  proof (cases "fst (run_state (BuildWithStrategy F C b (br_Strategy b)) w)")
    case None
    with publish_lst [of C "br_ID b" "br_ProjectName b" "''build_succeeded''" "''Build completed successfully''" w1] assms w1
    show ?thesis by (simp add: runBuild_def by_steps w1_def [symmetric] del: run_state_bind) blast
  next
    case (Some e)
    with publish_lst [of C "br_ID b" "br_ProjectName b" "''build_failed''" "err_msg e" w1] assms w1
    show ?thesis by (simp add: runBuild_def by_steps w1_def [symmetric] del: run_state_bind) blast
  qed
qed

end

section \<open>From a webhook to a build\<close>

lemma webhook_not_auto: "\<not> autoDeployEnabled (buildRequestFromWebhook t ev)"
  by (simp add: autoDeployEnabled_def buildRequestFromWebhook_def Let_def mget_def)

text \<open>
  C40: A build that a webhook started is never deployed. The build request made from a webhook carries
  no \<open>auto_deploy\<close> entry, whatever the project says, so running it publishes at most whether it
  failed or succeeded and never \<open>redeploy_required\<close>.
\<close>

theorem webhook_builds_never_deploy:
  assumes "redis_lists F lst"
  shows "\<exists>new. lst (snd (run_state (runBuild F C (buildRequestFromWebhook t ev)) w)) =
      (lst w)(fc_statusQueue C := new @ lst w (fc_statusQueue C)) \<and>
    (\<forall>i \<in> set new. \<exists>e. i = QStatus e \<and> ps_Status e \<in> {''build_failed'', ''build_succeeded''})"
  by (rule redis_lists.runBuild_statuses [OF assms webhook_not_auto])

lemma envelope_payload: "parseEnvelope body = Some p \<Longrightarrow> \<exists>ms. payloadOf body = Some ms"
proof -
  assume p: "parseEnvelope body = Some p"
  then have "json_parse body \<noteq> None" by (cases "json_parse body") (simp_all add: parseEnvelope_def)
  moreover have "json_parse [] = None" by code_simp
  ultimately have "body \<noteq> []" by auto
  moreover have "Option.bind (json_parse body) json_struct \<noteq> None"
    using p by (cases "Option.bind (json_parse body) json_struct") (simp_all add: parseEnvelope_def)
  ultimately show ?thesis by (simp add: payloadOf_def)
qed

definition pipelineHooks :: "'w hook_env \<Rightarrow> 'w forgery_env \<Rightarrow> forgery_settings \<Rightarrow> 'w hook_env" where
  "pipelineHooks H F C = H
     \<lparr> forgeryDial := (\<lambda>a w. (None, w)),
       forgeryForward := (\<lambda>q w. case run_state (ForwardWebhook F C (Some q)) w of (r, w') \<Rightarrow> (Inr r, w')) \<rparr>"

definition eventOf :: "forward_job \<Rightarrow> push_envelope \<Rightarrow> (string \<times> json) list \<Rightarrow> time \<Rightarrow> verified_event" where
  "eventOf j p ms t =
     \<lparr> ve_DeliveryID = fj_deliveryID j, ve_EventType = fj_eventName j, ve_Repository = fj_repo j,
       ve_ClusterID = fj_clusterID j, ve_Sender = pe_Sender p, ve_Ref = pe_Ref p, ve_Before = pe_Before p,
       ve_After = pe_After p, ve_Payload = ms, ve_ReceivedAt = t \<rparr>"

context redis_lists
begin

lemma forward_queues:
  assumes up: "\<And>k i w. fst (redisLPush F k i w) = None"
    and p: "parseEnvelope (fj_body j) = Some p" and repo: "fj_repo j \<noteq> []"
  shows "\<exists>ms t. fst (run_state (forwardGRPC (pipelineHooks H F C) S j) s) = None \<and>
    lst (hk_world (snd (run_state (forwardGRPC (pipelineHooks H F C) S j) s))) =
      (lst (hk_world s))(fc_webhookQueue C := QWebhook (eventOf j p ms t) # lst (hk_world s) (fc_webhookQueue C))"
proof -
  obtain ms where ms: "payloadOf (fj_body j) = Some ms" using envelope_payload [OF p] by blast
  show ?thesis
    by (rule exI [of _ ms], rule exI [of _ "fst (forgeryNow F (hk_world s))"])
       (simp add: forwardGRPC_def p pipelineHooks_def ForwardWebhook_def forwardRequest_def repo ms by_steps up push_cases
          now_lst eventOf_def case_prod_beta del: run_state_bind)
qed

lemma worker_builds:
  assumes up: "\<And>k i w. fst (redisLPush F k i w) = None"
    and q: "lst w (fc_webhookQueue C) = QWebhook ev # rest"
    and d: "distinct [fc_webhookQueue C, fc_buildQueue C, fc_statusQueue C]"
  shows "\<exists>t. lst (snd (run_state (webhookWorkerTurn F C) w)) (fc_buildQueue C) =
      QBuild (buildRequestFromWebhook t ev) # lst w (fc_buildQueue C) \<and>
    lst (snd (run_state (webhookWorkerTurn F C) w)) (fc_webhookQueue C) = rest"
proof -
  obtain w1 where w1: "redisBLPop F (fc_webhookQueue C) w = (Inr (Some (QWebhook ev)), w1)"
      "lst w1 = (lst w)(fc_webhookQueue C := rest)" using pop_ok [OF q] by blast
  have d': "fc_buildQueue C \<noteq> fc_webhookQueue C" "fc_webhookQueue C \<noteq> fc_buildQueue C" "fc_buildQueue C \<noteq> fc_statusQueue C"
      "fc_webhookQueue C \<noteq> fc_statusQueue C" using d by auto
  show ?thesis
    by (simp add: webhookWorkerTurn_def publishPipelineStatus_def by_steps w1 up push_cases now_lst d' del: run_state_bind)
       (rule exI, rule refl)
qed

end

section \<open>A small site\<close>

definition siteForgery :: "(string \<Rightarrow> queue_item list) forgery_env" where
  "siteForgery =
     \<lparr> forgeryNow = (\<lambda>w. (0, w)),
       redisLPush = (\<lambda>k i w. (None, w(k := i # w k))),
       redisBLPop = (\<lambda>k w. case w k of [] \<Rightarrow> (Inr None, w) | i # is \<Rightarrow> (Inr (Some i), w(k := is))),
       redisLRange = (\<lambda>k a b w. (Inr (take (nat (b + 1)) (w k)), w)),
       dbFirstProject = (\<lambda>n w. (Inl (errorf ''record not found''), w)),
       dbUpsertProject = (\<lambda>p w. (Inr p, w)),
       dbListProjects = (\<lambda>w. (Inr [], w)),
       dbDeleteProject = (\<lambda>n w. (None, w)),
       joinPath = (\<lambda>a b. a @ ''/'' @ b),
       makeWorkspace = (\<lambda>a w. w), removeWorkspace = (\<lambda>a w. w),
       dockerBuild = Some (\<lambda>r w. (None, w)), runPipeline = (\<lambda>r w. (None, w)), createBuildCRD = None \<rparr>"

interpretation siteredis: redis_lists siteForgery "\<lambda>w. w"
  by unfold_locales (auto simp: siteForgery_def)

definition demoForgery :: forgery_settings where
  "demoForgery = \<lparr> fc_webhookQueue = ''webhooks'', fc_buildQueue = ''builds'', fc_statusQueue = ''status'',
     fc_workspaceDir = ''/tmp/forge-builds'' \<rparr>"

definition quietHooks :: "'w hook_env" where
  "quietHooks = \<lparr> hookNow = (\<lambda>w. (0, w)), mongoUpsert = (\<lambda>k u w. (None, w)), forgeryDial = (\<lambda>a w. (None, w)),
     forgeryForward = (\<lambda>q w. (Inl (errorf ''unavailable''), w)) \<rparr>"

definition demoPush :: string where
  "demoPush = ''{\"ref\":\"refs/heads/main\",\"after\":\"abc\",\"repository\":{\"full_name\":\"o/r\"}}''"

definition demoJob :: "string \<Rightarrow> forward_job" where
  "demoJob d = \<lparr> fj_deliveryID = d, fj_eventName = ''push'', fj_repo = ''o/r'', fj_clusterID = [], fj_body = demoPush,
     fj_attempt = 0 \<rparr>"

definition demoEnvelope :: push_envelope where
  "demoEnvelope = \<lparr> pe_Ref = ''refs/heads/main'', pe_Before = [], pe_After = ''abc'', pe_Sender = [], pe_RepoName = [],
     pe_RepoFullName = ''o/r'', pe_RepoOwner = [] \<rparr>"

lemma demo_envelope: "parseEnvelope demoPush = Some demoEnvelope"
  by code_simp

definition emptyHooks :: "(string \<Rightarrow> queue_item list) hooks" where
  "emptyHooks = freshHooks (\<lambda>k. [])"

lemma demo_queues: "distinct [fc_webhookQueue demoForgery, fc_buildQueue demoForgery, fc_statusQueue demoForgery]"
  by (simp add: demoForgery_def)

lemma site_up: "fst (redisLPush siteForgery k i w) = None"
  by (simp add: siteForgery_def)

theorem webhook_builds_never_deploy_witness:
  "\<exists>new. snd (run_state (runBuild siteForgery demoForgery (buildRequestFromWebhook 0 (eventOf (demoJob ''d1'') demoEnvelope [] 0)))
      (\<lambda>k. [])) ''status'' = new \<and> QStatus \<lparr> ps_DeliveryID = ''d1'', ps_Repository = ''o/r'', ps_Status = ''redeploy_required'',
        ps_Message = [], ps_Timestamp = 0 \<rparr> \<notin> set new"
proof -
  from webhook_builds_never_deploy [OF siteredis.redis_lists_axioms, of demoForgery 0 "eventOf (demoJob ''d1'') demoEnvelope [] 0" "\<lambda>k. []"]
  obtain new where new: "snd (run_state (runBuild siteForgery demoForgery
        (buildRequestFromWebhook 0 (eventOf (demoJob ''d1'') demoEnvelope [] 0))) (\<lambda>k. [])) =
      (\<lambda>k. []) (fc_statusQueue demoForgery := new @ [])"
    "\<forall>i \<in> set new. \<exists>e. i = QStatus e \<and> ps_Status e \<in> {''build_failed'', ''build_succeeded''}" by blast
  then show ?thesis by (auto simp: demoForgery_def)
qed

section \<open>The promises\<close>

text \<open>
  C13: A forwarded push becomes its build. When Redis takes every push, forwarding a job to forgery
  succeeds, and the next turn of the webhook worker puts at the head of the build queue a request
  with the delivery's id, repository, commit and branch. If the push names a commit, the
  orchestrator accepts this request.
\<close>

theorem delivery_reaches_build:
  assumes F: "redis_lists F lst" and up: "\<And>k i w. fst (redisLPush F k i w) = None"
    and d: "distinct [fc_webhookQueue C, fc_buildQueue C, fc_statusQueue C]"
    and p: "parseEnvelope (fj_body j) = Some p" and repo: "fj_repo j \<noteq> []"
    and after: "TrimSpace (pe_After p) \<noteq> []" and ref: "TrimPrefix (pe_Ref p) ''refs/heads/'' \<noteq> []"
    and s': "s' = snd (run_state (forwardGRPC (pipelineHooks H F C) S j) s)"
    and w: "w = snd (run_state (webhookWorkerTurn F C) (hk_world s'))"
  shows "fst (run_state (forwardGRPC (pipelineHooks H F C) S j) s) = None \<and>
    (\<exists>b. lst w (fc_buildQueue C) = QBuild b # lst (hk_world s) (fc_buildQueue C) \<and>
       br_ID b = fj_deliveryID j \<and> br_ProjectName b = fj_repo j \<and> br_CommitHash b = TrimSpace (pe_After p) \<and>
       br_Branch b = TrimPrefix (pe_Ref p) ''refs/heads/'' \<and> validateBuildRequest b = None)"
proof -
  obtain ms t where f: "fst (run_state (forwardGRPC (pipelineHooks H F C) S j) s) = None"
      "lst (hk_world s') = (lst (hk_world s))(fc_webhookQueue C := QWebhook (eventOf j p ms t) # lst (hk_world s) (fc_webhookQueue C))"
    using redis_lists.forward_queues [OF F up p repo, of H C S s] unfolding s' by blast
  then have "lst (hk_world s') (fc_webhookQueue C) = QWebhook (eventOf j p ms t) # lst (hk_world s) (fc_webhookQueue C)" by simp
  from redis_lists.worker_builds [OF F up this d] obtain u where
    "lst w (fc_buildQueue C) = QBuild (buildRequestFromWebhook u (eventOf j p ms t)) # lst (hk_world s') (fc_buildQueue C)"
    unfolding w by blast
  moreover have "lst (hk_world s') (fc_buildQueue C) = lst (hk_world s) (fc_buildQueue C)" using f(2) d by auto
  moreover have "validateBuildRequest (buildRequestFromWebhook u (eventOf j p ms t)) = None"
    using repo after by (auto simp: validateBuildRequest_def buildRequestFromWebhook_def eventOf_def Let_def)
  ultimately show ?thesis using f(1) after ref
    by (intro conjI exI [of _ "buildRequestFromWebhook u (eventOf j p ms t)"])
       (simp_all add: buildRequestFromWebhook_def eventOf_def Let_def)
qed

theorem delivery_reaches_build_witness:
  "\<exists>b. snd (run_state (webhookWorkerTurn siteForgery demoForgery)
       (hk_world (snd (run_state (forwardGRPC (pipelineHooks quietHooks siteForgery demoForgery) demoHookSettings (demoJob ''d1''))
          emptyHooks)))) ''builds'' = [QBuild b] \<and> br_ID b = ''d1'' \<and> br_CommitHash b = ''abc''"
proof -
  have "parseEnvelope (fj_body (demoJob ''d1'')) = Some demoEnvelope" "fj_repo (demoJob ''d1'') \<noteq> []"
    by (simp_all add: demoJob_def demo_envelope)
  moreover have a: "TrimSpace (pe_After demoEnvelope) = ''abc''" "TrimPrefix (pe_Ref demoEnvelope) ''refs/heads/'' = ''main''"
    by code_simp+
  ultimately show ?thesis
    using delivery_reaches_build [OF siteredis.redis_lists_axioms site_up demo_queues _ _ _ _ refl refl,
        of "demoJob ''d1''" demoEnvelope quietHooks demoHookSettings emptyHooks]
    by (auto simp: demoForgery_def demoJob_def emptyHooks_def freshHooks_def)
qed

text \<open>
  C39: The queues serve the newest entry first. \<open>LPush\<close> puts an entry at the head of the list and
  \<open>BLPop\<close> takes it from the head: of two deliveries forwarded one after the other, the worker builds
  the later one, and the earlier one stays in the queue behind whatever arrives next.
\<close>

theorem newest_delivery_first:
  assumes F: "redis_lists F lst" and up: "\<And>k i w. fst (redisLPush F k i w) = None"
    and d: "distinct [fc_webhookQueue C, fc_buildQueue C, fc_statusQueue C]"
    and p1: "parseEnvelope (fj_body j1) = Some p1" "fj_repo j1 \<noteq> []"
    and p2: "parseEnvelope (fj_body j2) = Some p2" "fj_repo j2 \<noteq> []"
    and s1: "s1 = snd (run_state (forwardGRPC (pipelineHooks H F C) S j1) s)"
    and s2: "s2 = snd (run_state (forwardGRPC (pipelineHooks H F C) S j2) s1)"
    and w: "w = snd (run_state (webhookWorkerTurn F C) (hk_world s2))"
  shows "\<exists>b ev. lst w (fc_buildQueue C) = QBuild b # lst (hk_world s) (fc_buildQueue C) \<and> br_ID b = fj_deliveryID j2 \<and>
    lst w (fc_webhookQueue C) = QWebhook ev # lst (hk_world s) (fc_webhookQueue C) \<and> ve_DeliveryID ev = fj_deliveryID j1"
proof -
  obtain m1 t1 where f1: "lst (hk_world s1) =
      (lst (hk_world s))(fc_webhookQueue C := QWebhook (eventOf j1 p1 m1 t1) # lst (hk_world s) (fc_webhookQueue C))"
    using redis_lists.forward_queues [OF F up p1, of H C S s] unfolding s1 by blast
  obtain m2 t2 where f2: "lst (hk_world s2) =
      (lst (hk_world s1))(fc_webhookQueue C := QWebhook (eventOf j2 p2 m2 t2) # lst (hk_world s1) (fc_webhookQueue C))"
    using redis_lists.forward_queues [OF F up p2, of H C S s1] unfolding s2 by blast
  then have "lst (hk_world s2) (fc_webhookQueue C) = QWebhook (eventOf j2 p2 m2 t2) # lst (hk_world s1) (fc_webhookQueue C)" by simp
  from redis_lists.worker_builds [OF F up this d] obtain u where
    u: "lst w (fc_buildQueue C) = QBuild (buildRequestFromWebhook u (eventOf j2 p2 m2 t2)) # lst (hk_world s2) (fc_buildQueue C)"
      "lst w (fc_webhookQueue C) = lst (hk_world s1) (fc_webhookQueue C)"
    unfolding w by blast
  moreover have "lst (hk_world s2) (fc_buildQueue C) = lst (hk_world s) (fc_buildQueue C)" using f1 f2 d by auto
  ultimately show ?thesis
    by (intro exI [of _ "buildRequestFromWebhook u (eventOf j2 p2 m2 t2)"] exI [of _ "eventOf j1 p1 m1 t1"])
       (simp add: f1 buildRequestFromWebhook_def eventOf_def Let_def)
qed

theorem newest_delivery_first_witness:
  "\<exists>b ev w. w = snd (run_state (webhookWorkerTurn siteForgery demoForgery) (hk_world (snd (run_state
       (forwardGRPC (pipelineHooks quietHooks siteForgery demoForgery) demoHookSettings (demoJob ''d2''))
       (snd (run_state (forwardGRPC (pipelineHooks quietHooks siteForgery demoForgery) demoHookSettings (demoJob ''d1''))
          emptyHooks)))))) \<and>
     w ''builds'' = [QBuild b] \<and> br_ID b = ''d2'' \<and> w ''webhooks'' = [QWebhook ev] \<and> ve_DeliveryID ev = ''d1''"
proof -
  have p: "parseEnvelope (fj_body (demoJob d)) = Some demoEnvelope" "fj_repo (demoJob d) \<noteq> []" for d
    by (simp_all add: demoJob_def demo_envelope)
  have q: "fc_buildQueue demoForgery = ''builds''" "fc_webhookQueue demoForgery = ''webhooks''" "hk_world emptyHooks = (\<lambda>k. [])" "fj_deliveryID (demoJob d) = d" for d
    by (simp_all add: demoForgery_def emptyHooks_def freshHooks_def demoJob_def)
  show ?thesis
    using newest_delivery_first [OF siteredis.redis_lists_axioms site_up demo_queues p [of "''d1''"] p [of "''d2''"] refl refl refl,
        of quietHooks demoHookSettings emptyHooks]
    unfolding q by blast
qed

end
