(* ===== verification/Intelligence.thy ===== *)
theory Intelligence
  imports Json GoTime
begin

text \<open>
  The intelligence service: the inference engine with its rate limit and circuit breaker
  (\<open>persys-intelligence/internal/inference/engine.go\<close>), the evaluation of snapshots with the policy
  gate and the decisions on recommendations (\<open>internal/service/service.go\<close>), and the store of
  recommendations in memory (\<open>internal/store/store.go\<close>). The provider of the language model, the
  feature extractor, the clock and random identifiers are calls to the outside. Latencies are
  measured for the metrics only and are left out. A call of the store holds its lock and is one
  step; a decision is two of them.
\<close>

section \<open>Data\<close>

record feature_snapshot =
  sn_Workload :: string
  sn_CPU5mAvg :: int
  sn_CPU1hTrend :: string
  sn_ErrorRateDelta :: string
  sn_RecentDeploy :: bool
  sn_RetryCount :: int
  sn_NodePressure :: string
  sn_GeneratedSource :: string

record llm_output =
  lo_RecommendationType :: string
  lo_TargetWorkload :: string
  lo_Confidence :: rat
  lo_RiskScore :: rat
  lo_ReasonCode :: string
  lo_Explanation :: string
  lo_SuggestedParams :: "(string \<times> json) list"

datatype infer_error = CircuitOpen | RateLimited | ProviderUnavailable | InferFailed goerr

record recommendation =
  rc_ID :: string
  rc_Workload :: string
  rc_Type :: string
  rc_Confidence :: rat
  rc_RiskScore :: rat
  rc_ReasonCode :: string
  rc_Explanation :: string
  rc_Parameters :: "(string \<times> json) list"
  rc_Status :: string
  rc_InputSnapshot :: feature_snapshot
  rc_PromptHash :: string
  rc_ModelVersion :: string
  rc_DecisionOutcome :: string
  rc_CreatedAt :: time
  rc_UpdatedAt :: time

record provider_result =
  pv_OutputJSON :: string
  pv_PromptHash :: string
  pv_ModelVersion :: string

record 'w infer_env =
  inferNow :: "'w \<Rightarrow> time \<times> 'w"
  providerInfer :: "feature_snapshot \<Rightarrow> 'w \<Rightarrow> (infer_error + provider_result) \<times> 'w"
  extractFeatures :: "'w \<Rightarrow> feature_snapshot list result \<times> 'w"
  randomID :: "'w \<Rightarrow> string \<times> 'w"

record infer_config =
  ic_MinInterval :: duration
  ic_FailureThreshold :: int
  ic_Cooldown :: duration
  ic_mode :: string
  ic_minConfidence :: rat
  ic_maxRisk :: rat

record 'w intelligence =
  ie_lastRequest :: "time option"
  ie_failures :: int
  ie_openUntil :: "time option"
  rs_records :: "recommendation gomap"
  rs_order :: "string list"
  ie_world :: 'w

type_synonym ('w, 'a) iop = "('w intelligence, 'a) state"

definition reach :: "('w \<Rightarrow> 'a \<times> 'w) \<Rightarrow> ('w, 'a) iop" where
  "reach f = State (\<lambda>s. case f (ie_world s) of (x, w) \<Rightarrow> (x, s\<lparr>ie_world := w\<rparr>))"

lemma run_reach [simp, run_simps]:
  "run_state (reach f) s = (fst (f (ie_world s)), s\<lparr>ie_world := snd (f (ie_world s))\<rparr>)"
  by (simp add: reach_def case_prod_beta)

section \<open>The output of the model\<close>

definition knownField :: "string \<Rightarrow> bool" where
  "knownField k = list_ex (EqualFold k)
     [''recommendation_type'', ''target_workload'', ''confidence'', ''risk_score'', ''reason_code'', ''explanation'',
      ''suggested_parameters'']"

fun paramsDecoder :: "json \<Rightarrow> (string \<times> json) list \<Rightarrow> (string \<times> json) list option" where
  "paramsDecoder (JObject ms) x = Some (x @ ms)"
| "paramsDecoder JNull x = Some []"
| "paramsDecoder _ x = None"

definition decodeOutput :: "(string \<times> json) list \<Rightarrow> llm_output option" where
  "decodeOutput ms =
     (if \<not> list_all (\<lambda>(k, _). knownField k) ms then None
      else (case (decode_field string_decoder ''recommendation_type'' ms [], decode_field string_decoder ''target_workload'' ms [],
                  decode_field float_decoder ''confidence'' ms 0, decode_field float_decoder ''risk_score'' ms 0,
                  decode_field string_decoder ''reason_code'' ms [], decode_field string_decoder ''explanation'' ms [],
                  decode_field paramsDecoder ''suggested_parameters'' ms []) of
              (Some t, Some w, Some c, Some r, Some rc, Some ex, Some ps) \<Rightarrow>
                Some \<lparr> lo_RecommendationType = t, lo_TargetWorkload = w, lo_Confidence = c, lo_RiskScore = r,
                       lo_ReasonCode = rc, lo_Explanation = ex, lo_SuggestedParams = ps \<rparr>
            | _ \<Rightarrow> None))"

text \<open>\<open>Decode\<close> reads one value and leaves what follows it.\<close>

definition parseStrictOutput :: "string \<Rightarrow> llm_output result" where
  "parseStrictOutput raw =
     (case Option.bind (Option.bind (map_option fst (json_value (2 * length raw + 2) raw)) json_struct) decodeOutput of
        None \<Rightarrow> Inl (errorf ''decode llm output'')
      | Some out \<Rightarrow>
          if lo_TargetWorkload out = [] then Inl (errorf ''target_workload is required'')
          else if lo_RecommendationType out \<notin> {''scale'', ''rollback'', ''migrate'', ''noop''} then
            Inl (errorf (''unsupported recommendation_type: '' @ lo_RecommendationType out))
          else if lo_Confidence out < 0 \<or> lo_Confidence out > 1 then Inl (errorf ''confidence must be in [0,1]'')
          else if lo_RiskScore out < 0 \<or> lo_RiskScore out > 1 then Inl (errorf ''risk_score must be in [0,1]'')
          else Inr out)"

section \<open>The engine\<close>

definition recordFailure :: "'w infer_env \<Rightarrow> infer_config \<Rightarrow> ('w, unit) iop" where
  "recordFailure F C = do {
     _ \<leftarrow> modify (\<lambda>s. s\<lparr>ie_failures := ie_failures s + 1\<rparr>);
     n \<leftarrow> gets ie_failures;
     (if n \<ge> ic_FailureThreshold C then do {
        now \<leftarrow> reach (inferNow F);
        modify (\<lambda>s. s\<lparr>ie_openUntil := Some (now + ic_Cooldown C)\<rparr>) }
      else ret ()) }"

definition recordSuccess :: "('w, unit) iop" where
  "recordSuccess = modify (\<lambda>s. s\<lparr>ie_failures := 0, ie_openUntil := None\<rparr>)"

definition beforeOpt :: "time \<Rightarrow> time option \<Rightarrow> bool" where
  "beforeOpt now t = (case t of None \<Rightarrow> False | Some u \<Rightarrow> now < u)"

definition tooSoon :: "infer_config \<Rightarrow> time \<Rightarrow> time option \<Rightarrow> bool" where
  "tooSoon C now t = (case t of None \<Rightarrow> False | Some u \<Rightarrow> now - u < ic_MinInterval C)"

definition askProvider :: "'w infer_env \<Rightarrow> infer_config \<Rightarrow> feature_snapshot \<Rightarrow>
    ('w, infer_error + llm_output \<times> string \<times> string) iop" where
  "askProvider F C snap = do {
     r \<leftarrow> reach (providerInfer F snap);
     (case r of
        Inl e \<Rightarrow> do { _ \<leftarrow> recordFailure F C; ret (Inl e) }
      | Inr p \<Rightarrow>
          (case parseStrictOutput (pv_OutputJSON p) of
             Inl e \<Rightarrow> do { _ \<leftarrow> recordFailure F C; ret (Inl (InferFailed e)) }
           | Inr out \<Rightarrow> do { _ \<leftarrow> recordSuccess; ret (Inr (out, pv_PromptHash p, pv_ModelVersion p)) })) }"

definition Infer :: "'w infer_env \<Rightarrow> infer_config \<Rightarrow> feature_snapshot \<Rightarrow>
    ('w, infer_error + llm_output \<times> string \<times> string) iop" where
  "Infer F C snap = do {
     now \<leftarrow> reach (inferNow F);
     s \<leftarrow> gets (\<lambda>s. s);
     (if beforeOpt now (ie_openUntil s) then ret (Inl CircuitOpen)
      else if tooSoon C now (ie_lastRequest s) then ret (Inl RateLimited)
      else do {
        _ \<leftarrow> modify (\<lambda>s. s\<lparr>ie_lastRequest := Some now\<rparr>);
        askProvider F C snap }) }"

section \<open>The store\<close>

definition storeCreate :: "'w infer_env \<Rightarrow> recommendation \<Rightarrow> ('w, recommendation result) iop" where
  "storeCreate F rec0 = do {
     now \<leftarrow> reach (inferNow F);
     i \<leftarrow> reach (randomID F);
     let rec = rec0\<lparr>rc_ID := i, rc_CreatedAt := now, rc_UpdatedAt := now\<rparr>;
     _ \<leftarrow> modify (\<lambda>s. s\<lparr>rs_records := mput i rec (rs_records s), rs_order := rs_order s @ [i]\<rparr>);
     ret (Inr rec) }"

definition isAllowedTransition :: "string \<Rightarrow> string \<Rightarrow> bool" where
  "isAllowedTransition from to =
     (if from = ''pending'' then to = ''approved'' \<or> to = ''rejected''
      else if from = ''approved'' then to = ''applied'' \<or> to = ''rejected''
      else False)"

definition storeUpdateStatus :: "'w infer_env \<Rightarrow> string \<Rightarrow> string \<Rightarrow> ('w, recommendation result) iop" where
  "storeUpdateStatus F i status = do {
     m \<leftarrow> gets rs_records;
     (case mget m i of
        None \<Rightarrow> ret (Inl (errorf ''recommendation not found''))
      | Some rec \<Rightarrow>
          if \<not> isAllowedTransition (rc_Status rec) status then ret (Inl (errorf ''invalid status transition''))
          else do {
            now \<leftarrow> reach (inferNow F);
            let rec' = rec\<lparr>rc_Status := status, rc_UpdatedAt := now\<rparr>;
            _ \<leftarrow> modify (\<lambda>s. s\<lparr>rs_records := mput i rec' (rs_records s)\<rparr>);
            ret (Inr rec') }) }"

definition storeReplace :: "'w infer_env \<Rightarrow> recommendation \<Rightarrow> ('w, recommendation result) iop" where
  "storeReplace F rec = do {
     m \<leftarrow> gets rs_records;
     (if mget m (rc_ID rec) = None then ret (Inl (errorf ''recommendation not found''))
      else do {
        now \<leftarrow> reach (inferNow F);
        let rec' = rec\<lparr>rc_UpdatedAt := now\<rparr>;
        _ \<leftarrow> modify (\<lambda>s. s\<lparr>rs_records := mput (rc_ID rec) rec' (rs_records s)\<rparr>);
        ret (Inr rec') }) }"

definition storeList :: "'w intelligence \<Rightarrow> string \<Rightarrow> string \<Rightarrow> recommendation list" where
  "storeList s status workload =
     filter (\<lambda>rec. (status = [] \<or> rc_Status rec = status) \<and> (workload = [] \<or> rc_Workload rec = workload))
       (List.map_filter (mget (rs_records s)) (rev (rs_order s)))"

section \<open>Decisions\<close>

datatype decision = Approve | Reject | Apply

fun decidedStatus :: "decision \<Rightarrow> string" where
  "decidedStatus Approve = ''approved''"
| "decidedStatus Reject = ''rejected''"
| "decidedStatus Apply = ''applied''"

fun decidedOutcome :: "decision \<Rightarrow> string" where
  "decidedOutcome Approve = ''approved_manually''"
| "decidedOutcome Reject = ''rejected_manually''"
| "decidedOutcome Apply = ''applied''"

definition decideRecommendation :: "'w infer_env \<Rightarrow> decision \<Rightarrow> string \<Rightarrow> ('w, recommendation result) iop" where
  "decideRecommendation F d i = do {
     r \<leftarrow> storeUpdateStatus F i (decidedStatus d);
     (case r of
        Inl e \<Rightarrow> ret (Inl e)
      | Inr rec \<Rightarrow> storeReplace F (rec\<lparr>rc_DecisionOutcome := decidedOutcome d\<rparr>)) }"

section \<open>Evaluation\<close>

definition sanitizeSnapshot :: "feature_snapshot \<Rightarrow> feature_snapshot" where
  "sanitizeSnapshot s = s
     \<lparr> sn_Workload := (let w = TrimSpace (sn_Workload s) in if w = [] then ''unknown-workload'' else w),
       sn_CPU1hTrend := ToLower (TrimSpace (sn_CPU1hTrend s)),
       sn_ErrorRateDelta := TrimSpace (sn_ErrorRateDelta s),
       sn_NodePressure := ToLower (TrimSpace (sn_NodePressure s)) \<rparr>"

definition policyAllow :: "infer_config \<Rightarrow> llm_output \<Rightarrow> bool \<times> string" where
  "policyAllow C out =
     (if lo_Confidence out < ic_minConfidence C then
        (False, ''confidence '' @ fmt_fixed 2 (lo_Confidence out) @ '' < threshold '' @ fmt_fixed 2 (ic_minConfidence C))
      else if lo_RiskScore out > ic_maxRisk C then
        (False, ''risk '' @ fmt_fixed 2 (lo_RiskScore out) @ '' > threshold '' @ fmt_fixed 2 (ic_maxRisk C))
      else if lo_RecommendationType out = ''noop'' then (False, ''noop recommendation'')
      else (True, []))"

definition gated :: "infer_config \<Rightarrow> feature_snapshot \<Rightarrow> llm_output \<times> string \<times> string \<Rightarrow> recommendation" where
  "gated C snap = (\<lambda>(out, hash, version).
     (let auto = ic_mode C = ''policy-gated-auto''; allowed = policyAllow C out;
          status = (if \<not> auto then ''pending'' else if fst allowed then ''approved'' else ''rejected'');
          expl = (if \<not> auto then lo_Explanation out
                  else if fst allowed then TrimSpace (lo_Explanation out @ '' Policy gate: approved.'')
                  else TrimSpace (lo_Explanation out @ '' Policy gate: rejected - '' @ snd allowed @ ''.''));
          outcome = (if \<not> auto then ''pending_review'' else if fst allowed then ''approved_by_policy''
                     else ''rejected_by_policy: '' @ snd allowed)
      in \<lparr> rc_ID = [], rc_Workload = lo_TargetWorkload out, rc_Type = lo_RecommendationType out, rc_Confidence = lo_Confidence out,
           rc_RiskScore = lo_RiskScore out, rc_ReasonCode = lo_ReasonCode out, rc_Explanation = expl,
           rc_Parameters = lo_SuggestedParams out, rc_Status = status, rc_InputSnapshot = snap, rc_PromptHash = hash,
           rc_ModelVersion = version, rc_DecisionOutcome = outcome, rc_CreatedAt = 0, rc_UpdatedAt = 0 \<rparr>))"

record evaluate_result =
  er_Recommendations :: "recommendation list"
  er_Generated :: int
  er_InferenceStatus :: string

text \<open>The loop over the snapshots: the recommendations, the unavailable and the failed ones so far.\<close>

fun evaluateLoop :: "'w infer_env \<Rightarrow> infer_config \<Rightarrow> feature_snapshot list \<Rightarrow> recommendation list \<Rightarrow> nat \<Rightarrow> nat \<Rightarrow>
    ('w, (recommendation list \<times> nat \<times> nat) result) iop" where
  "evaluateLoop F C [] recs un fa = ret (Inr (recs, un, fa))"
| "evaluateLoop F C (snap # snaps) recs un fa = do {
     r \<leftarrow> Infer F C (sanitizeSnapshot snap);
     (case r of
        Inl e \<Rightarrow>
          if e = ProviderUnavailable then evaluateLoop F C snaps recs (Suc un) fa
          else evaluateLoop F C snaps recs un (Suc fa)
      | Inr out \<Rightarrow> do {
          c \<leftarrow> storeCreate F (gated C (sanitizeSnapshot snap) out);
          (case c of
             Inl e \<Rightarrow> ret (Inl e)
           | Inr rec \<Rightarrow> evaluateLoop F C snaps (recs @ [rec]) un fa) }) }"

definition inferenceStatus :: "recommendation list \<Rightarrow> nat \<Rightarrow> nat \<Rightarrow> string" where
  "inferenceStatus recs un fa =
     (if recs = [] \<and> un > 0 \<and> fa = 0 then ''unavailable''
      else if recs \<noteq> [] \<and> (un > 0 \<or> fa > 0) then ''partial''
      else if recs = [] \<and> fa > 0 then ''degraded'' else ''ok'')"

definition Evaluate :: "'w infer_env \<Rightarrow> infer_config \<Rightarrow> feature_snapshot list \<Rightarrow> ('w, evaluate_result result) iop" where
  "Evaluate F C snaps0 = do {
     snaps \<leftarrow> (if snaps0 = [] then reach (extractFeatures F) else ret (Inr snaps0));
     (case snaps of
        Inl e \<Rightarrow> ret (Inl e)
      | Inr ss \<Rightarrow> do {
          r \<leftarrow> evaluateLoop F C ss [] 0 0;
          ret (case r of
                 Inl e \<Rightarrow> Inl e
               | Inr (recs, un, fa) \<Rightarrow>
                   Inr \<lparr> er_Recommendations = recs, er_Generated = int (length recs),
                         er_InferenceStatus = inferenceStatus recs un fa \<rparr>) }) }"

section \<open>The life of a recommendation\<close>

definition store_ok_ids :: "'w intelligence \<Rightarrow> bool" where
  "store_ok_ids s = (\<forall>i rec. mget (rs_records s) i = Some rec \<longrightarrow> rc_ID rec = i)"

definition statusOf :: "'w intelligence \<Rightarrow> string \<Rightarrow> string option" where
  "statusOf s i = map_option rc_Status (mget (rs_records s) i)"

lemma decide_status:
  assumes ok: "store_ok_ids s"
  shows "store_ok_ids (snd (run_state (decideRecommendation F d i) s))"
    and "statusOf (snd (run_state (decideRecommendation F d i) s)) k = statusOf s k \<or>
      k = i \<and> (\<exists>st. statusOf s i = Some st \<and> isAllowedTransition st (decidedStatus d) \<and>
        statusOf (snd (run_state (decideRecommendation F d i) s)) i = Some (decidedStatus d))"
    and "fst (run_state (decideRecommendation F d i) s) = Inr rec \<Longrightarrow>
      \<exists>st. statusOf s i = Some st \<and> isAllowedTransition st (decidedStatus d)"
  using ok
  by (auto simp: decideRecommendation_def storeUpdateStatus_def storeReplace_def store_ok_ids_def statusOf_def Let_def
      mget_mput split: option.splits if_splits)

lemma terminal_stuck: "\<not> isAllowedTransition ''rejected'' st" "\<not> isAllowedTransition ''applied'' st"
  by (simp_all add: isAllowedTransition_def)

lemma applied_from: "isAllowedTransition st ''applied'' \<Longrightarrow> st = ''approved''"
  by (simp add: isAllowedTransition_def split: if_splits)

definition runDecisions :: "'w infer_env \<Rightarrow> (decision \<times> string) list \<Rightarrow> 'w intelligence \<Rightarrow> 'w intelligence" where
  "runDecisions F ds s = fold (\<lambda>(d, i) s. snd (run_state (decideRecommendation F d i) s)) ds s"

lemma decisions_keep_terminal:
  assumes "store_ok_ids s" "statusOf s k = Some st" "st = ''rejected'' \<or> st = ''applied''"
  shows "statusOf (runDecisions F ds s) k = Some st"
  using assms(1,2)
proof (induction ds arbitrary: s)
  case (Cons p ds)
  obtain d i where p: "p = (d, i)" by (cases p)
  let ?s = "snd (run_state (decideRecommendation F d i) s)"
  have "statusOf ?s k = Some st"
    using decide_status(2) [OF Cons.prems(1), of F d i k] Cons.prems(2) assms(3) terminal_stuck by auto
  with Cons.IH [OF decide_status(1) [OF Cons.prems(1)]] p show ?case by (simp add: runDecisions_def)
qed (simp add: runDecisions_def)

section \<open>The rate limit\<close>

lemma ask_keeps [simp]: "ie_lastRequest (snd (run_state (askProvider F C snap) s)) = ie_lastRequest s"
  by (simp add: askProvider_def recordFailure_def recordSuccess_def run_bind_proj split: sum.split del: run_state_bind)

lemma create_keeps [simp]: "ie_lastRequest (snd (run_state (storeCreate F rec) s)) = ie_lastRequest s"
  by (simp add: storeCreate_def Let_def)

text \<open>
  What is relied on of the clock: \<open>clk\<close> is the time of a world, a reading lies between the times
  before and after it, and no call takes the time back.
\<close>

locale infer_clock =
  fixes F :: "'w infer_env" and clk :: "'w \<Rightarrow> time"
  assumes now_clk: "clk w \<le> fst (inferNow F w)" "fst (inferNow F w) \<le> clk (snd (inferNow F w))"
    and provider_clk: "clk w \<le> clk (snd (providerInfer F snap w))"
    and extract_clk: "clk w \<le> clk (snd (extractFeatures F w))"
    and random_clk: "clk w \<le> clk (snd (randomID F w))"
begin

lemma now_mono: "clk w \<le> clk (snd (inferNow F w))"
  using now_clk [of w] by linarith

lemma record_mono: "clk (ie_world s) \<le> clk (ie_world (snd (run_state (recordFailure F C) s)))"
  by (simp add: recordFailure_def now_mono)

lemma ask_mono: "clk (ie_world s) \<le> clk (ie_world (snd (run_state (askProvider F C snap) s)))"
proof -
  have "clk (ie_world s) \<le> clk (ie_world (snd (run_state (reach (providerInfer F snap)) s)))"
    by (simp add: provider_clk)
  then show ?thesis
    by (auto simp: askProvider_def recordSuccess_def run_bind_proj intro: order_trans [OF _ record_mono]
        split: sum.split simp del: run_state_bind)
qed

lemma create_mono: "clk (ie_world s) \<le> clk (ie_world (snd (run_state (storeCreate F rec) s)))"
  by (simp add: storeCreate_def Let_def order_trans [OF now_mono random_clk])

text \<open>
  One request, at the time \<open>now\<close>: it is refused and leaves the time of the last request, or that
  time becomes \<open>now\<close>, an interval after the request before.
\<close>

lemma infer_cases:
  fixes C :: infer_config and snap :: feature_snapshot and s :: "'w intelligence"
  defines "o' \<equiv> fst (run_state (Infer F C snap) s)" and "s' \<equiv> snd (run_state (Infer F C snap) s)"
    and "now \<equiv> fst (inferNow F (ie_world s))"
  shows "clk (ie_world s) \<le> clk (ie_world s')"
    and "(\<exists>e. o' = Inl e) \<and> ie_lastRequest s' = ie_lastRequest s \<or>
      ie_lastRequest s' = Some now \<and> clk (ie_world s) \<le> now \<and> now \<le> clk (ie_world s') \<and>
      (\<forall>u. ie_lastRequest s = Some u \<longrightarrow> u + ic_MinInterval C \<le> now)"
proof -
  let ?s1 = "s\<lparr>ie_world := snd (inferNow F (ie_world s)), ie_lastRequest := Some now\<rparr>"
  have ask: "clk (snd (inferNow F (ie_world s))) \<le> clk (ie_world (snd (run_state (askProvider F C snap) ?s1)))"
    using ask_mono [of ?s1] by simp
  note world = now_clk [of "ie_world s"]
  consider (refused) e where "run_state (Infer F C snap) s = (Inl e, s\<lparr>ie_world := snd (inferNow F (ie_world s))\<rparr>)"
    | (asked) "run_state (Infer F C snap) s = run_state (askProvider F C snap) ?s1"
        "\<not> tooSoon C now (ie_lastRequest s)"
    by (cases "beforeOpt now (ie_openUntil s)"; cases "tooSoon C now (ie_lastRequest s)")
      (simp_all add: Infer_def now_def)
  note cs = this
  show "clk (ie_world s) \<le> clk (ie_world s')" using cs by cases (use ask world in \<open>simp_all add: s'_def now_def\<close>)
  show "(\<exists>e. o' = Inl e) \<and> ie_lastRequest s' = ie_lastRequest s \<or>
      ie_lastRequest s' = Some now \<and> clk (ie_world s) \<le> now \<and> now \<le> clk (ie_world s') \<and>
      (\<forall>u. ie_lastRequest s = Some u \<longrightarrow> u + ic_MinInterval C \<le> now)"
    using cs by cases (use ask world in \<open>auto simp: s'_def o'_def now_def tooSoon_def\<close>)
qed

text \<open>The next request is served at \<open>b\<close> plus the interval at the earliest.\<close>

definition paced :: "duration \<Rightarrow> time \<Rightarrow> 'w intelligence \<Rightarrow> bool" where
  "paced d b s = (b + d \<le> clk (ie_world s) \<or> (\<exists>u. ie_lastRequest s = Some u \<and> b \<le> u))"

lemma paced_later:
  "paced d b s \<Longrightarrow> ie_lastRequest s' = ie_lastRequest s \<Longrightarrow> clk (ie_world s) \<le> clk (ie_world s') \<Longrightarrow> paced d b s'"
  by (auto simp: paced_def)

lemma paced_infer:
  assumes p: "paced (ic_MinInterval C) b s" and d: "0 \<le> ic_MinInterval C"
    and run: "run_state (Infer F C snap) s = (x, s')"
  obtains (refused) e where "x = Inl e" "paced (ic_MinInterval C) b s'"
    | (asked) now where "b + ic_MinInterval C \<le> now" "now \<le> clk (ie_world s')" "paced (ic_MinInterval C) now s'"
proof -
  from run have x: "fst (run_state (Infer F C snap) s) = x" "snd (run_state (Infer F C snap) s) = s'" by simp_all
  note cs = infer_cases [where s = s and C = C and snap = snap, unfolded x]
  from cs(2) show ?thesis
  proof (elim disjE conjE exE)
    fix e assume "x = Inl e" "ie_lastRequest s' = ie_lastRequest s"
    with refused paced_later [OF p this(2) cs(1)] show ?thesis by blast
  next
    assume l: "ie_lastRequest s' = Some (fst (inferNow F (ie_world s)))" "clk (ie_world s) \<le> fst (inferNow F (ie_world s))"
      "fst (inferNow F (ie_world s)) \<le> clk (ie_world s')"
      "\<forall>u. ie_lastRequest s = Some u \<longrightarrow> u + ic_MinInterval C \<le> fst (inferNow F (ie_world s))"
    show ?thesis
    proof (rule asked [OF _ l(3)])
      show "b + ic_MinInterval C \<le> fst (inferNow F (ie_world s))" using p l(2,4) by (fastforce simp: paced_def)
      show "paced (ic_MinInterval C) (fst (inferNow F (ie_world s))) s'" using l(1) by (simp add: paced_def)
    qed
  qed
qed

lemma loop_paced:
  assumes "paced (ic_MinInterval C) b s" "0 \<le> ic_MinInterval C"
    and "run_state (evaluateLoop F C snaps recs un fa) s = (Inr (recs', un', fa'), t)"
  shows "clk (ie_world s) \<le> clk (ie_world t) \<and>
    (recs' = recs \<or> (int (length recs') - int (length recs)) * ic_MinInterval C \<le> clk (ie_world t) - b)"
  using assms(1,3)
proof (induction snaps arbitrary: recs un fa s b)
  case (Cons snap snaps)
  obtain x s1 where inf: "run_state (Infer F C (sanitizeSnapshot snap)) s = (x, s1)" by fastforce
  have le: "clk (ie_world s) \<le> clk (ie_world s1)" using infer_cases(1) [where s = s and C = C and snap = "sanitizeSnapshot snap"] inf by simp
  obtain b' where b': "paced (ic_MinInterval C) b' s1" "b \<le> b'"
      "\<And>out. x = Inr out \<Longrightarrow> b + ic_MinInterval C \<le> b' \<and> b' \<le> clk (ie_world s1)"
    using paced_infer [OF Cons.prems(1) assms(2) inf] assms(2) by (metis Inl_Inr_False add_increasing2 order.trans order_refl)
  show ?case
  proof (cases x)
    case (Inl e)
    obtain un2 fa2 where "run_state (evaluateLoop F C snaps recs un2 fa2) s1 = (Inr (recs', un', fa'), t)"
      using Cons.prems(2) inf Inl by (auto split: if_splits)
    from Cons.IH [OF b'(1) this] le b'(2) show ?thesis by auto
  next
    case (Inr out)
    obtain y s2 where cr: "run_state (storeCreate F (gated C (sanitizeSnapshot snap) out)) s1 = (y, s2)" by fastforce
    then have "\<exists>rec. y = Inr rec" by (auto simp: storeCreate_def Let_def)
    then obtain rec where y: "y = Inr rec" by blast
    have le2: "clk (ie_world s1) \<le> clk (ie_world s2)" and l2: "ie_lastRequest s2 = ie_lastRequest s1"
      using create_mono [of s1 "gated C (sanitizeSnapshot snap) out"] create_keeps [of F "gated C (sanitizeSnapshot snap) out" s1] cr
      by simp_all
    have "run_state (evaluateLoop F C snaps (recs @ [rec]) un fa) s2 = (Inr (recs', un', fa'), t)"
      using Cons.prems(2) inf Inr cr y by simp
    note ih = Cons.IH [OF paced_later [OF b'(1) l2 le2] this]
    from ih consider "recs' = recs @ [rec]"
      | "(int (length recs') - int (length recs) - 1) * ic_MinInterval C \<le> clk (ie_world t) - b'"
      by (auto simp: diff_diff_eq add.commute)
    then have "(int (length recs') - int (length recs)) * ic_MinInterval C \<le> clk (ie_world t) - b"
      using b'(3) [OF Inr] le2 ih by cases (auto simp: algebra_simps)
    with ih le le2 show ?thesis by auto
  qed
qed simp

lemma evaluate_paced:
  assumes d: "0 \<le> ic_MinInterval C" and run: "run_state (Evaluate F C snaps) s = (Inr res, t)"
  shows "(er_Generated res - 1) * ic_MinInterval C \<le> clk (ie_world t) - clk (ie_world s)"
proof -
  obtain ss s' recs un fa where s': "clk (ie_world s) \<le> clk (ie_world s')"
      and loop: "run_state (evaluateLoop F C ss [] 0 0) s' = (Inr (recs, un, fa), t)"
      and g: "er_Generated res = int (length recs)"
  proof (cases "snaps = []")
    case True
    obtain x w where ex: "extractFeatures F (ie_world s) = (x, w)" by fastforce
    from extract_clk [of "ie_world s"] ex have "clk (ie_world s) \<le> clk (ie_world (s\<lparr>ie_world := w\<rparr>))" by simp
    with True run ex that [of "s\<lparr>ie_world := w\<rparr>"] show ?thesis by (auto simp: Evaluate_def split: sum.splits prod.splits)
  next
    case False
    with run that [of s] show ?thesis by (auto simp: Evaluate_def split: sum.splits prod.splits)
  qed
  have "paced (ic_MinInterval C) (clk (ie_world s') - ic_MinInterval C) s'" by (simp add: paced_def)
  from loop_paced [OF this d loop] g s' show ?thesis
    using d by (auto simp: algebra_simps intro: order_trans)
qed

end

lemma loop_total: "\<exists>r. fst (run_state (evaluateLoop F C snaps recs un fa) s) = Inr r"
proof (induction snaps arbitrary: recs un fa s)
  case (Cons snap snaps)
  then show ?case
    by (simp add: run_bind_proj storeCreate_def Let_def split: sum.split del: run_state_bind)
qed simp

lemma evaluate_total: "snaps \<noteq> [] \<Longrightarrow> \<exists>res. fst (run_state (Evaluate F C snaps) s) = Inr res"
  using loop_total [of F C snaps "[]" 0 0 s]
  by (auto simp: Evaluate_def run_bind_proj simp del: run_state_bind)

section \<open>A small site\<close>

definition demoAnswer :: string where
  "demoAnswer = ''{\"recommendation_type\":\"scale\",\"target_workload\":\"w1\"}''"

text \<open>The world is its clock, which advances with every reading and every request to the provider.\<close>

definition siteInfer :: "int infer_env" where
  "siteInfer =
     \<lparr> inferNow = (\<lambda>w. (w, w + 1)),
       providerInfer = (\<lambda>_ w. (Inr \<lparr> pv_OutputJSON = demoAnswer, pv_PromptHash = [], pv_ModelVersion = [] \<rparr>, w + 1)),
       extractFeatures = (\<lambda>w. (Inr [], w)), randomID = (\<lambda>w. (''r1'', w)) \<rparr>"

interpretation site_clock: infer_clock siteInfer "\<lambda>w. w"
  by unfold_locales (simp_all add: siteInfer_def)

definition demoInferConfig :: infer_config where
  "demoInferConfig = \<lparr> ic_MinInterval = 5, ic_FailureThreshold = 3, ic_Cooldown = 60, ic_mode = ''policy-gated-auto'',
     ic_minConfidence = 1 / 2, ic_maxRisk = 1 / 2 \<rparr>"

definition demoSnapshot :: feature_snapshot where
  "demoSnapshot = \<lparr> sn_Workload = ''w1'', sn_CPU5mAvg = 95, sn_CPU1hTrend = ''increasing'', sn_ErrorRateDelta = [],
     sn_RecentDeploy = False, sn_RetryCount = 0, sn_NodePressure = [], sn_GeneratedSource = [] \<rparr>"

definition demoRecommendation :: "string \<Rightarrow> recommendation" where
  "demoRecommendation st = \<lparr> rc_ID = ''r1'', rc_Workload = ''w1'', rc_Type = ''scale'', rc_Confidence = 1, rc_RiskScore = 0,
     rc_ReasonCode = [], rc_Explanation = [], rc_Parameters = [], rc_Status = st, rc_InputSnapshot = demoSnapshot,
     rc_PromptHash = [], rc_ModelVersion = [], rc_DecisionOutcome = [], rc_CreatedAt = 0, rc_UpdatedAt = 0 \<rparr>"

definition demoIntelligence :: "string \<Rightarrow> int intelligence" where
  "demoIntelligence st = \<lparr> ie_lastRequest = None, ie_failures = 0, ie_openUntil = None,
     rs_records = [(''r1'', demoRecommendation st)], rs_order = [''r1''], ie_world = 1 \<rparr>"

lemma demo_ids: "store_ok_ids (demoIntelligence st)"
  by (simp add: store_ok_ids_def demoIntelligence_def demoRecommendation_def mget_def)

lemma demo_answer: "\<exists>out. parseStrictOutput demoAnswer = Inr out"
  by (rule exI, code_simp)

text \<open>Two snapshots in four units of time, with an interval of five: one recommendation.\<close>

lemma demo_evaluation:
  "\<exists>res t. run_state (Evaluate siteInfer demoInferConfig [demoSnapshot, demoSnapshot]) (demoIntelligence ''pending'') = (Inr res, t) \<and>
     er_Generated res = 1 \<and> ie_world t = 5"
proof -
  obtain out where "parseStrictOutput demoAnswer = Inr out" using demo_answer by blast
  then show ?thesis
    by (simp add: Evaluate_def Infer_def askProvider_def recordSuccess_def storeCreate_def siteInfer_def demoIntelligence_def
        demoInferConfig_def beforeOpt_def tooSoon_def Let_def)
qed

section \<open>The promises\<close>

text \<open>
  C33: Decisions follow the life of a recommendation. A decision succeeds only from a status that
  allows it, so only an approved recommendation is applied; and once a recommendation is rejected or
  applied, no sequence of decisions changes its status.
\<close>

theorem recommendation_lifecycle:
  assumes "store_ok_ids s"
  shows "(\<forall>rec. fst (run_state (decideRecommendation F Apply i) s) = Inr rec \<longrightarrow> statusOf s i = Some ''approved'') \<and>
    (\<forall>st. statusOf s k = Some st \<and> st \<in> {''rejected'', ''applied''} \<longrightarrow> statusOf (runDecisions F ds s) k = Some st)"
  using decide_status(3) [OF assms, of F Apply i] applied_from decisions_keep_terminal [OF assms, of k _ F ds] by auto

theorem recommendation_lifecycle_witness:
  "statusOf (runDecisions siteInfer [(Approve, ''r1''), (Apply, ''r1'')] (demoIntelligence ''rejected'')) ''r1'' = Some ''rejected''"
  using recommendation_lifecycle [OF demo_ids, of siteInfer "''r1''" "''rejected''" "''r1''" "[(Approve, ''r1''), (Apply, ''r1'')]"]
  by (simp add: statusOf_def demoIntelligence_def demoRecommendation_def mget_def)

text \<open>
  C34: A rejection can be overwritten. A decision changes the status under the lock and then, under the
  lock again, writes back the copy it got. When a rejection runs between the two halves of an
  approval, it reports success, and the second half of the approval makes the recommendation approved
  again, although a rejected recommendation allows no transition.
\<close>

theorem rejection_overwritten:
  assumes "store_ok_ids s"
    and "run_state (storeUpdateStatus F i ''approved'') s = (Inr a, s1)"
    and "run_state (decideRecommendation F Reject i) s1 = (Inr b, s2)"
  shows "statusOf s2 i = Some ''rejected'' \<and>
    statusOf (snd (run_state (storeReplace F (a\<lparr>rc_DecisionOutcome := ''approved_manually''\<rparr>)) s2)) i = Some ''approved''"
proof -
  obtain rec where rec: "mget (rs_records s) i = Some rec" "isAllowedTransition (rc_Status rec) ''approved''"
    using assms(2) by (cases "mget (rs_records s) i") (auto simp: storeUpdateStatus_def split: if_splits)
  with assms(1) have "rc_ID rec = i" by (simp add: store_ok_ids_def)
  with assms(2) rec have a: "rc_ID a = i" "rc_Status a = ''approved''" and s1: "mget (rs_records s1) i = Some a"
    by (auto simp: storeUpdateStatus_def Let_def)
  from assms(3) a s1 have "\<exists>r. mget (rs_records s2) i = Some r \<and> rc_Status r = ''rejected''"
    by (auto simp: decideRecommendation_def storeUpdateStatus_def storeReplace_def isAllowedTransition_def Let_def)
  with a show ?thesis by (auto simp: storeReplace_def statusOf_def Let_def)
qed

theorem rejection_overwritten_witness:
  "\<exists>a s1 b s2. run_state (storeUpdateStatus siteInfer ''r1'' ''approved'') (demoIntelligence ''pending'') = (Inr a, s1) \<and>
     run_state (decideRecommendation siteInfer Reject ''r1'') s1 = (Inr b, s2) \<and> statusOf s2 ''r1'' = Some ''rejected'' \<and>
     statusOf (snd (run_state (storeReplace siteInfer (a\<lparr>rc_DecisionOutcome := ''approved_manually''\<rparr>)) s2)) ''r1'' = Some ''approved''"
proof -
  let ?a = "(demoRecommendation ''approved'')\<lparr>rc_UpdatedAt := 1\<rparr>"
  let ?s1 = "(demoIntelligence ''pending'')\<lparr>rs_records := [(''r1'', ?a)], ie_world := 2\<rparr>"
  have 1: "run_state (storeUpdateStatus siteInfer ''r1'' ''approved'') (demoIntelligence ''pending'') = (Inr ?a, ?s1)"
    by (simp add: storeUpdateStatus_def demoIntelligence_def demoRecommendation_def mget_def isAllowedTransition_def Let_def
        siteInfer_def mput_def)
  let ?b = "?a\<lparr>rc_Status := ''rejected'', rc_DecisionOutcome := ''rejected_manually'', rc_UpdatedAt := 3\<rparr>"
  have 2: "run_state (decideRecommendation siteInfer Reject ''r1'') ?s1 = (Inr ?b, ?s1\<lparr>rs_records := [(''r1'', ?b)], ie_world := 4\<rparr>)"
    by (simp add: storeUpdateStatus_def demoIntelligence_def demoRecommendation_def mget_def isAllowedTransition_def Let_def
        decideRecommendation_def storeReplace_def siteInfer_def mput_def)
  from rejection_overwritten [OF demo_ids 1 2] 1 2 show ?thesis by blast
qed

text \<open>
  C35: An evaluation is paced by the rate limit. The engine refuses a request that comes sooner than
  \<open>MinInterval\<close> after the one before, and \<open>Evaluate\<close> asks it for one snapshot after the other
  without waiting: however many snapshots there are, all recommendations after the first need an
  interval each on the clock between the start and the end of the evaluation. An evaluation that
  takes less than one interval makes at most one.
\<close>

theorem evaluation_rate_limited:
  assumes "infer_clock F clk" and "0 < ic_MinInterval C" and "run_state (Evaluate F C snaps) s = (Inr res, t)"
  shows "(er_Generated res - 1) * ic_MinInterval C \<le> clk (ie_world t) - clk (ie_world s) \<and>
    (clk (ie_world t) < clk (ie_world s) + ic_MinInterval C \<longrightarrow> er_Generated res \<le> 1)"
proof -
  have le: "(er_Generated res - 1) * ic_MinInterval C \<le> clk (ie_world t) - clk (ie_world s)"
    using infer_clock.evaluate_paced [OF assms(1) _ assms(3)] assms(2) by simp
  moreover have "er_Generated res \<le> 1" if "clk (ie_world t) < clk (ie_world s) + ic_MinInterval C"
  proof (rule ccontr)
    assume "\<not> er_Generated res \<le> 1"
    then have "1 * ic_MinInterval C \<le> (er_Generated res - 1) * ic_MinInterval C"
      using assms(2) by (intro mult_right_mono) simp_all
    with le that show False by simp
  qed
  ultimately show ?thesis by blast
qed

theorem evaluation_rate_limited_witness:
  "\<exists>res t. run_state (Evaluate siteInfer demoInferConfig [demoSnapshot, demoSnapshot])
       (demoIntelligence ''pending'') = (Inr res, t) \<and>
     ie_world (demoIntelligence ''pending'') = 1 \<and> ie_world t = 5 \<and> er_Generated res = 1 \<and>
     (er_Generated res - 1) * ic_MinInterval demoInferConfig \<le> 5 - 1"
proof -
  let ?r = "run_state (Evaluate siteInfer demoInferConfig [demoSnapshot, demoSnapshot]) (demoIntelligence ''pending'')"
  have "\<exists>res t. ?r = (Inr res, t) \<and> er_Generated res = 1 \<and> ie_world t = 5" by (rule demo_evaluation)
  then obtain res t where r: "?r = (Inr res, t)" "er_Generated res = 1" "ie_world t = 5" by blast
  have "0 < ic_MinInterval demoInferConfig" "ie_world (demoIntelligence ''pending'') = 1"
    by (simp_all add: demoInferConfig_def demoIntelligence_def)
  with evaluation_rate_limited [OF site_clock.infer_clock_axioms this(1) r(1)] r show ?thesis by auto
qed

end
