(* ===== verification/Spec2Isabelle.thy ===== *)
theory Spec2Isabelle
  imports PlacementSpec WorkloadSpec Isolation ListingSpec RetrySpec NodeSpec ApiSpec PollSpec AutomationSpec LeaderElection
    GatewaySpec PipelineSpec Intelligence
begin

text \<open>
  Verification of the persys-cloud scheduler (\<open>persys-scheduler/\<close> of the repository), the
  control plane that places workloads on nodes, drives the node agents to the desired
  state, and survives the loss of its etcd; and of the services around it: automation, the
  gateway in front of it, the build service behind the gateway, and the intelligence service.

  \<^bold>\<open>The program.\<close> A scheduler process keeps all its state in etcd and small caches in
  memory. Clients register nodes and create, update and delete workloads. A placement step
  picks a node, an agent client sends the workload to the agent on that node, a reconciler
  compares desired and actual state in a loop, a drift detector compares the documents with
  what the agents report, and a mode supervisor freezes all writes while etcd is unusable.
  The automation service (\<open>persys-automation/\<close>) evaluates policies and sends
  suggestions to the scheduler; its replicas elect a leader. The gateway (\<open>persys-gateway/\<close>)
  keeps a pool of schedulers, routes calls to a healthy one and takes in GitHub webhooks, which
  it checks, queues and forwards to the build service (\<open>persys-forgery/\<close>); there two workers
  turn webhooks into build requests and build requests into builds. The intelligence service
  (\<open>persys-intelligence/\<close>) asks a language model for recommendations and keeps the decisions on them.

  \<^bold>\<open>The model.\<close> Operations are programs of a state monad over the record \<open>sched\<close> (fields of
  the Go struct, and the outside world as its last field). Go errors are \<open>goerr option\<close> or
  the left side of a sum. Everything outside the source (etcd, the agents, Redis, the clock,
  random identifiers, TLS files, host addresses) is a field of the parameter \<open>env\<close>; what
  the code relies on is stated by the locales \<open>etcd_client\<close> and \<open>wall_clock\<close> of \<open>Env\<close>, and
  an in-memory instance shows that they can be met.

  \<^item> \<open>Prelude\<close>: errors, Go maps as association lists, loops, and a generic program logic.
  \<^item> \<open>GoStrings\<close>, \<open>GoTime\<close>: the parts of \<open>strings\<close>, \<open>strconv\<close>, \<open>fmt\<close> and \<open>time\<close> in use.
  \<^item> \<open>Models\<close>, \<open>Wire\<close>, \<open>Config\<close>: \<open>models.go\<close>, \<open>workload_projection.go\<close> with the stored
    documents, \<open>config.go\<close>.
  \<^item> \<open>Env\<close>, \<open>Core\<close>, \<open>Kv\<close>: the outside world; \<open>mode.go\<close> and \<open>etcd.go\<close>; the key-value contract
    (locale \<open>kv_store\<close>) that the retrying operations honour.
  \<^item> \<open>StateStore\<close>, \<open>Guard\<close>, \<open>Storage\<close>: \<open>state_store.go\<close> and \<open>redis_store.go\<close>; the invariant
    \<open>sched_inv\<close> and the footprint logic; managed volumes.
  \<^item> \<open>Placement\<close>, \<open>Nodes\<close>, \<open>Agent\<close>, \<open>Workloads\<close>, \<open>Retry\<close>, \<open>Lifecycle\<close>, \<open>Reconciler\<close>, \<open>Drift\<close>:
    \<open>scheduler.go\<close>, \<open>node_control.go\<close>, \<open>dns.go\<close>, \<open>agent_grpc.go\<close>, \<open>workload_control.go\<close>,
    \<open>reconciler.go\<close>, \<open>drift.go\<close> and \<open>monitor.go\<close>, in the order in which they call each other.
  \<^item> \<open>ControlApi\<close>: the gRPC service of \<open>grpcapi/service.go\<close>, its messages and handlers.
  \<^item> \<open>Json\<close>, \<open>AutomationStore\<close>, \<open>Automation\<close>: the JSON decoding that policies need; the records,
    the interface and the in-memory store of \<open>store/store.go\<close>; \<open>engine.go\<close>, \<open>runner.go\<close>,
    \<open>grpc_service.go\<close> and the client of the scheduler, which calls the model of \<open>ControlApi\<close>.
  \<^item> \<open>LeaderElection\<close>: \<open>leader_elector.go\<close> and the start and stop of the evaluator, for any
    number of replicas over one database, with their properties.
  \<^item> \<open>Digest\<close>: FNV-1a, SHA-256, HMAC and hexadecimal text, on 32-bit words.
  \<^item> \<open>GatewayConfig\<close>, \<open>GatewayPool\<close>: the gateway's \<open>config.go\<close>; \<open>scheduler_pool.go\<close> and the calls of
    \<open>scheduler_grpc.service.go\<close>, over a record of the clusters and the world.
  \<^item> \<open>Webhook\<close>: \<open>webhook.service.go\<close>; the replay cache, the channel and the waiting timers are the
    state, and \<open>hookStep\<close> interleaves requests, workers and timers.
  \<^item> \<open>Forgery\<close>: \<open>grpcapi/service.go\<close>, \<open>queue/\<close> and \<open>build/orchestrator.go\<close> of the build service.
  \<^item> \<open>Intelligence\<close>: \<open>inference/engine.go\<close>, \<open>service/service.go\<close> and \<open>store/store.go\<close> of the
    intelligence service.
  \<^item> \<open>Demo\<close>: a small cluster on which the witnesses are evaluated.

  \<^bold>\<open>The theorems.\<close> Three program logics carry them. \<open>Guard\<close> shows of every operation that it
  preserves \<open>sched_inv\<close>, writes only the keys it names, and writes nothing when frozen.
  \<open>Availability\<close> shows of every operation that it never thaws the scheduler and freezes it
  only when etcd fails. \<open>Effects\<close> computes what an operation achieves on the store when the
  scheduler is still live at its end.

  \<^item> \<open>System\<close> and this theory: all entry points as one transition system; its invariant, the
    freeze, the mode automaton and the recovery from an outage.
  \<^item> \<open>PlacementSpec\<close>: a selection is sound, optimal and complete.
  \<^item> \<open>WorkloadSpec\<close>: saving, updating, creating and deleting as operations on a map of
    workloads; what a request to create a workload becomes.
  \<^item> \<open>Isolation\<close>: no request changes a workload it does not name.
  \<^item> \<open>ListingSpec\<close>: listing workloads agrees with looking them up.
  \<^item> \<open>RetrySpec\<close>: backoff, retry budget, exhaustion, manual retry.
  \<^item> \<open>NodeSpec\<close>: registration, removal and service discovery of nodes.
  \<^item> \<open>ApiSpec\<close>: requests on their way to the agent, registrations and heartbeats as the API
    records them, the answers of a frozen scheduler.
  \<^item> \<open>PollSpec\<close>: the polling loops end within their fuel.
  \<^item> \<open>AutomationSpec\<close>: the contract of the policy store (locale \<open>policy_store\<close>), the audit trail,
    the queue of undelivered suggestions, cron policies, and the engine beside the scheduler.
  \<^item> \<open>GatewaySpec\<close>: routing order, failover, the invariant of the pool, and what a refused request
    of the model of \<open>ControlApi\<close> does to it.
  \<^item> \<open>WebhookSpec\<close>: authenticity of queued deliveries, the replay window (locale \<open>hook_clock\<close>), the
    end of forwarding, and the record of events (locale \<open>mongo_store\<close>).
  \<^item> \<open>PipelineSpec\<close>: the gateway's forwarding composed with forgery's queues (locale \<open>redis_lists\<close>).
  \<^item> \<open>Intelligence\<close>: the life of a recommendation, its race, and the pace of an evaluation on an
    advancing clock (locale \<open>infer_clock\<close>).

  \<^bold>\<open>Bounds.\<close> The polling loops (\<open>poll_until\<close>) carry fuel computed from the timeout and the
  poll interval of the configuration; \<open>PollSpec\<close> proves that it is enough. The retry loops of
  \<open>etcd.go\<close> count down from \<open>maxRetries\<close>. The JSON parser carries fuel of twice the length of
  its text, and \<open>Json\<close> proves that more fuel changes nothing. Durations that the code
  multiplies are 64-bit words; other integers are unbounded, and \<open>float64\<close> is rational arithmetic.
  Go slices and maps are lists, in which nil and empty coincide; text is compared by bytes.

  \<^bold>\<open>Not modelled.\<close> Start-up and listeners (\<open>cmd/\<close>), Vault certificates, logging, tracing and
  the metrics registry have no effect on the state. Goroutines are interleaved at the
  granularity of whole operations. Generated protocol code appears only as the records of
  its messages. The PostgreSQL store of the automation service is SQL text; its advisory
  lock, Prometheus and the cron library are parameters. Of the gateway, the HTTP controllers, OAuth
  and the trace context are left out, and the text of a duration error; of forgery, the calls to Vault
  and GitHub, the Docker commands and the HTTP handlers. Their resolver, transports, MongoDB, Redis
  and the project database are parameters. Of the intelligence service, the analyzer's queries, the
  HTTP clients of the providers and the PostgreSQL store are left out; its engine serves one call at
  a time. The cloud providers of the federation are stubs and not modelled.
\<close>

section \<open>All runs of the scheduler\<close>

text \<open>
  C1: In every state the scheduler can reach, by any sequence of requests, background ticks
  and mode evaluations, with etcd, the agents and other writers of well-formed documents
  moving in between, the state is consistent: every document of the store lies under a key
  of its own identifier, the caches are keyed by identifier, and a frozen snapshot exists
  exactly outside the normal mode.
\<close>

theorem reachable_invariant:
  assumes "etcd_client E view" and "reachable E view s"
  shows "store_ok (view (sc_world s)) \<and> cache_ok s \<and> mode_ok s"
  using etcd_client.reachable_sched_inv [OF assms] by (simp add: sched_inv_def)

lemma demo_reachable:
  "reachable memEnv mem_view (snd (run_state (perform memEnv (DeleteCmd ''w1''))
     (projr (fst (NewScheduler memEnv demo_cfg False demo_cluster)))))"
proof (rule reachable.move [OF _ step.act], rule reachable.start)
  show "NewScheduler memEnv demo_cfg False demo_cluster =
    (Inr (projr (fst (NewScheduler memEnv demo_cfg False demo_cluster))), demo_cluster)"
    by (simp add: NewScheduler_def mem_defs demo_cluster_def demo_nodes_def mem_init_def)
  show "store_ok (mem_view demo_cluster)" using demo_inv by (simp add: sched_inv_def)
qed

theorem reachable_invariant_witness:
  "cache_ok (snd (run_state (perform memEnv (DeleteCmd ''w1''))
     (projr (fst (NewScheduler memEnv demo_cfg False demo_cluster)))))"
  using reachable_invariant [OF memetcd.etcd_client_axioms demo_reachable] by simp

text \<open>
  C2: A frozen control plane changes nothing. From a reachable state in degraded or recovery
  mode, no request and no background tick changes any document of etcd, and none of them
  makes the scheduler writable again.
\<close>

theorem frozen_changes_nothing:
  assumes "etcd_client E view" and "reachable E view s" and "\<not> writable s"
    and "step E view s (Some c) t" and "c \<noteq> Supervise"
  shows "view (sc_world t) = view (sc_world s) \<and> \<not> writable t"
proof -
  have "footprint view UNIV {} s (snd (run_state (perform E c) s))"
    by (rule ensuresD(2) [OF etcd_client.safe_perform [OF assms(1,5)] etcd_client.reachable_sched_inv [OF assms(1,2)]])
  with assms(3,4) show ?thesis by (auto simp: footprint_def fun_eq_iff elim: step_SomeE)
qed

text \<open>A scheduler whose etcd has stopped answering: the first mode evaluation freezes it.\<close>

definition demo_outage :: mem where
  "demo_outage = demo_cluster\<lparr>m_etcd_down := 1\<rparr>"

definition demo_frozen :: "mem sched" where
  "demo_frozen = snd (run_state (perform memEnv Supervise)
     ((projr (fst (NewScheduler memEnv demo_cfg False demo_cluster)))\<lparr>sc_world := demo_outage\<rparr>))"

lemma demo_frozen_facts: "reachable memEnv mem_view demo_frozen \<and> \<not> writable demo_frozen"
proof
  have ok: "store_ok (mem_view demo_cluster)" using demo_inv by (simp add: sched_inv_def)
  have "reachable memEnv mem_view (projr (fst (NewScheduler memEnv demo_cfg False demo_cluster)))"
    by (rule reachable.start [where view = mem_view and cfg = demo_cfg and redisUp = False
        and w = demo_cluster and w' = demo_cluster, OF _ ok])
      (simp add: NewScheduler_def mem_defs demo_cluster_def demo_nodes_def mem_init_def)
  moreover have "store_ok (mem_view demo_outage)" using ok by (simp add: demo_outage_def mem_view_def)
  ultimately show "reachable memEnv mem_view demo_frozen"
    unfolding demo_frozen_def by (intro reachable.move [OF _ step.act] reachable.move [OF _ step.world])
  show "\<not> writable demo_frozen" by code_simp
qed

theorem frozen_changes_nothing_witness:
  "mem_view (sc_world (snd (run_state (perform memEnv (DeleteCmd ''w1'')) demo_frozen))) = mem_view (sc_world demo_frozen)"
  using frozen_changes_nothing [OF memetcd.etcd_client_axioms _ _ step.act, of demo_frozen "DeleteCmd ''w1''"]
    demo_frozen_facts by simp

section \<open>The operating mode\<close>

text \<open>
  C5: The mode supervisor refines a four-letter automaton. Whatever the state, one
  evaluation moves the operating mode as \<open>supervise\<close> does on what etcd shows: an etcd that
  cannot be reached leads to the degraded mode from everywhere; the normal mode is left for
  nothing else; from the other modes a failed probe leads to degraded, an empty store to
  recovery, and a store with state back to normal.
\<close>

theorem mode_refines_automaton:
  "sc_mode (snd (run_state (evaluateMode E) s)) = supervise (sc_mode s) (observe E (sc_world s))"
  by (rule evaluateMode_mode)

text \<open>
  C9: With an etcd that answers every request the scheduler never leaves the normal mode: no
  sequence of requests, ticks, mode evaluations, agent failures and outside changes freezes it.
\<close>

theorem reliable_stays_normal:
  assumes "reliable E" and "reachable E view s"
  shows "sc_mode s = ModeNormal"
  using assms(2)
proof (induction rule: reachable.induct)
  case (start cfg redisUp w s w')
  then show ?case by (auto simp: NewScheduler_def split: prod.splits sum.splits)
next
  case (move s c t)
  from move(2) show ?case
  proof (cases rule: step.cases)
    case (act d)
    show ?thesis
    proof (cases "d = Supervise")
      case True
      obtain x w where "etcdGet E ''/health'' (sc_world s) = (Inr x, w)"
        using assms(1) by (metis reliable_def prod.collapse)
      then have "observe E (sc_world s) \<noteq> Unreachable"
        by (simp add: observe_def split: prod.splits sum.splits list.splits)
      then have "supervise ModeNormal (observe E (sc_world s)) = ModeNormal" by (cases "observe E (sc_world s)") simp_all
      with act True move(3) show ?thesis by (simp add: evaluateMode_mode)
    next
      case False
      have "mode_kept E s t" using keepsD [OF keeps_perform [OF False] prod.collapse [symmetric], where s = s] act by simp
      with assms(1) move(3) show ?thesis by (simp add: mode_kept_def writable_def)
    qed
  next
    case (world w)
    with move(3) show ?thesis by simp
  qed
qed

theorem reliable_stays_normal_witness:
  "sc_mode (snd (run_state (perform calmEnv (DeleteCmd ''w1''))
     (projr (fst (NewScheduler calmEnv demo_cfg False demo_cluster))))) = ModeNormal"
proof -
  have ok: "store_ok (mem_view demo_cluster)" using demo_inv by (simp add: sched_inv_def)
  have "reachable calmEnv mem_view (projr (fst (NewScheduler calmEnv demo_cfg False demo_cluster)))"
    by (rule reachable.start [where view = mem_view and cfg = demo_cfg and redisUp = False
        and w = demo_cluster and w' = "heal demo_cluster", OF _ ok])
      (simp add: NewScheduler_def calmEnv_def heal_def mem_defs)
  from reliable_stays_normal [OF reliable_calm reachable.move [OF this step.act]] show ?thesis .
qed

text \<open>The documents that count as state when the scheduler recovers.\<close>

definition has_state :: "content \<Rightarrow> bool" where
  "has_state c = (\<exists>k. c k \<noteq> None \<and>
     (HasPrefix k nodesPrefix \<or> HasPrefix k workloadsPrefix \<or> HasPrefix k assignmentsPrefix))"

lemma reliable_range:
  assumes "etcd_client E view" "reliable E"
  obtains kvs w' where "etcdGetPrefix E p w = (Inr kvs, w')" "view w' = view w"
    "kvs = [] \<longleftrightarrow> (\<forall>k. HasPrefix k p \<longrightarrow> view w k = None)"
proof -
  obtain kvs w' where r: "etcdGetPrefix E p w = (Inr kvs, w')" using assms(2) by (metis reliable_def prod.collapse)
  have "view w' = view w" using etcd_client.view_prefix [OF assms(1), of p w] r by simp
  moreover have "kvs = [] \<longleftrightarrow> (\<forall>k. HasPrefix k p \<longrightarrow> view w k = None)"
    using etcd_client.prefix_ok [OF assms(1) r] by (cases kvs) fastforce+
  ultimately show thesis using r that by blast
qed

lemma observe_reliable:
  assumes "etcd_client E view" "reliable E"
  shows "observe E w = (if has_state (view w) then StateIntact else StateEmpty)"
proof -
  obtain x w0 where g: "etcdGet E ''/health'' w = (Inr x, w0)" using assms(2) by (metis reliable_def prod.collapse)
  then have v: "view w0 = view w" using etcd_client.view_get [OF assms(1), of "''/health''" w] by simp
  obtain n w1 where n: "etcdGetPrefix E nodesPrefix w0 = (Inr n, w1)" "view w1 = view w0"
    "n = [] \<longleftrightarrow> (\<forall>k. HasPrefix k nodesPrefix \<longrightarrow> view w0 k = None)" by (rule reliable_range [OF assms])
  obtain l w2 where l: "etcdGetPrefix E workloadsPrefix w1 = (Inr l, w2)" "view w2 = view w1"
    "l = [] \<longleftrightarrow> (\<forall>k. HasPrefix k workloadsPrefix \<longrightarrow> view w1 k = None)" by (rule reliable_range [OF assms])
  obtain a w3 where a: "etcdGetPrefix E assignmentsPrefix w2 = (Inr a, w3)" "view w3 = view w2"
    "a = [] \<longleftrightarrow> (\<forall>k. HasPrefix k assignmentsPrefix \<longrightarrow> view w2 k = None)" by (rule reliable_range [OF assms])
  have "has_state (view w) = (n \<noteq> [] \<or> l \<noteq> [] \<or> a \<noteq> [])"
    using n(2,3) l(2,3) a(3) v by (auto simp: has_state_def)
  then show ?thesis by (simp add: observe_def g n(1) l(1) a(1) split: list.splits)
qed

text \<open>
  C10: The scheduler comes out of an outage. When a frozen scheduler evaluates its mode and
  etcd answers again, it is in normal mode afterwards if etcd holds a node, a workload under
  the legacy prefix or an assignment, and in recovery mode, still frozen, otherwise: an etcd
  that lost its data does not get overwritten.
\<close>

theorem recovery_completes:
  assumes "etcd_client E view" and "reliable E" and "\<not> writable s"
  shows "sc_mode (snd (run_state (evaluateMode E) s)) =
    (if has_state (view (sc_world s)) then ModeNormal else ModeRecovery)"
  using assms(3) by (cases "sc_mode s") (simp_all add: evaluateMode_mode observe_reliable [OF assms(1,2)] writable_def)

theorem recovery_completes_witness:
  "sc_mode (snd (run_state (evaluateMode calmEnv) ((demo_sched demo_cluster)\<lparr>sc_mode := ModeDegraded\<rparr>))) = ModeNormal \<and>
   sc_mode (snd (run_state (evaluateMode calmEnv) ((demo_sched mem_init)\<lparr>sc_mode := ModeDegraded\<rparr>))) = ModeRecovery"
proof -
  have "has_state (mem_view demo_cluster)"
    unfolding has_state_def by (rule exI [of _ "nodeKey ''a''"]) code_simp
  moreover have "\<not> has_state (mem_view mem_init)" by (simp add: has_state_def mem_view_def mem_init_def)
  ultimately show ?thesis
    using recovery_completes [OF calmetcd.etcd_client_axioms reliable_calm, of "(demo_sched demo_cluster)\<lparr>sc_mode := ModeDegraded\<rparr>"]
      recovery_completes [OF calmetcd.etcd_client_axioms reliable_calm, of "(demo_sched mem_init)\<lparr>sc_mode := ModeDegraded\<rparr>"]
    by (simp add: writable_def demo_sched_def)
qed

text \<open>
  The probe looks at the legacy prefix, and the documents of workloads are written under
  another one, so an etcd that holds workload documents and nothing else counts as empty.
\<close>

lemma recovery_ignores_specs:
  assumes "\<And>k. c k \<noteq> None \<Longrightarrow> k \<in> workload_keys"
  shows "\<not> has_state c"
  using assms by (fastforce simp: has_state_def workload_keys_def HasPrefix_iff prefix_defs nodesPrefix_def workloadsPrefix_def
      assignmentsPrefix_def)

text \<open>
  No failed access goes unnoticed. When a live scheduler's put, delete, get or range
  request to etcd fails in all its attempts, the call returns an error and the scheduler is in
  degraded mode, with a frozen snapshot of exactly the nodes, workloads and assignments it
  had cached.
\<close>

theorem failed_access_freezes:
  assumes "writable s"
    and "run_state (RetryableEtcdPut E k v) s = (Some e, t) \<or> run_state (RetryableEtcdDelete E k) s = (Some e, t) \<or>
      run_state (RetryableEtcdGet E k) s = (Inl e, t) \<or> run_state (RetryableEtcdGetPrefix E k) s = (Inl e, t)"
  shows "sc_mode t = ModeDegraded \<and> (\<exists>reason \<tau>. sc_frozen t = Some (snapshot reason \<tau> s))"
proof -
  have d: "sc_mode (snd (run_state (enterDegraded E r) u)) = ModeDegraded \<and>
      (\<exists>reason \<tau>. sc_frozen (snd (run_state (enterDegraded E r) u)) = Some (snapshot reason \<tau> s))"
    if "same_control s u" for r u
    using that assms(1) same_control_sel [OF that]
    by (auto simp: enterDegraded_def writable_def snapshot_def)
  note c = d [OF write_attempts_control [of s E maxRetries "etcdPut E k v"]]
    d [OF write_attempts_control [of s E maxRetries "etcdDelete E k"]]
    d [OF read_attempts_control [of s E maxRetries "etcdGet E k"]]
    d [OF read_attempts_control [of s E maxRetries "etcdGetPrefix E k"]]
  from assms(2) show ?thesis
    by (elim disjE; insert c assms(1))
      (auto simp: RetryableEtcdPut_def RetryableEtcdDelete_def RetryableEtcdGet_def RetryableEtcdGetPrefix_def
        run_bind_proj simp del: run_state_bind split: option.splits sum.splits)
qed

theorem failed_access_freezes_witness:
  "\<exists>e t. run_state (RetryableEtcdDelete memEnv ''/k'') (demo_sched (demo_cluster\<lparr>m_etcd_down := 6\<rparr>)) = (Some e, t) \<and>
     sc_mode t = ModeDegraded"
proof -
  let ?run = "run_state (RetryableEtcdDelete memEnv ''/k'') (demo_sched (demo_cluster\<lparr>m_etcd_down := 6\<rparr>))"
  have "fst ?run \<noteq> None" by code_simp
  then obtain e t where "?run = (Some e, t)" by (metis not_Some_eq prod.collapse)
  with failed_access_freezes [of "demo_sched (demo_cluster\<lparr>m_etcd_down := 6\<rparr>)" memEnv "''/k''" _ e t] show ?thesis by simp
qed

end
